(* ===== verification/Prelude.thy ===== *)
theory Prelude
  imports Main "HOL-Library.State_Monad"
begin

text \<open>
  Shared vocabulary of the development.

  Every Go function that touches the machine is a state-monad value
  \<open>('w, 'a) state\<close>, where \<open>'w\<close> is the world it acts on: it takes the world and gives
  a result and the next world, so a sequence of statements is a \<open>do\<close> block. A Go
  function with an \<open>error\<close> result is a value of a sum type (\<open>Inl\<close> the error) or, when
  the error is its only result, of \<open>'e option\<close> (\<open>None\<close> is Go's \<open>nil\<close>).

  The theory gives the few combinators the models share (reading and updating the world,
  loops that stop at the first error) and the two proof notions used throughout:
  \<open>hoare P m Q\<close> (from a world with \<open>P\<close> the run of \<open>m\<close> ends with \<open>Q\<close> of its result and
  world) and \<open>keeps I m\<close> (\<open>I\<close> is not lost by \<open>m\<close>). The rules of \<open>keeps\<close> go from a block to
  its statements and are collected in \<open>keeps_rules\<close>.
\<close>

named_theorems keeps_rules \<open>rules that reduce a frame goal to the frame goals of its statements\<close>
named_theorems fs_simps \<open>what one system call does to the files\<close>

subsection \<open>Combinators\<close>

definition gets :: "('w \<Rightarrow> 'a) \<Rightarrow> ('w, 'a) state" where
  "gets f = State (\<lambda>w. (f w, w))"

definition modify :: "('w \<Rightarrow> 'w) \<Rightarrow> ('w, unit) state" where
  "modify f = State (\<lambda>w. ((), f w))"

abbreviation ret :: "'a \<Rightarrow> ('w, 'a) state" where
  "ret \<equiv> State_Monad.return"

abbreviation run :: "('w, 'a) state \<Rightarrow> 'w \<Rightarrow> 'a \<times> 'w" where
  "run \<equiv> run_state"

lemma run_gets [simp]: "run (gets f) w = (f w, w)"
  by (simp add: gets_def)

lemma run_modify [simp]: "run (modify f) w = ((), f w)"
  by (simp add: modify_def)

text \<open>A block under \<open>if err := f(); err != nil { return err }\<close>: stop at an error.\<close>

definition and_then :: "('w, 'e option) state \<Rightarrow> ('w, 'e option) state \<Rightarrow> ('w, 'e option) state" where
  "and_then m n = do {
     e \<leftarrow> m;
     (case e of Some x \<Rightarrow> ret (Some x) | None \<Rightarrow> n)
   }"

text \<open>A Go \<open>for\<close> loop over a slice whose body may return an error.\<close>

fun for_each :: "('a \<Rightarrow> ('w, 'e option) state) \<Rightarrow> 'a list \<Rightarrow> ('w, 'e option) state" where
  "for_each f [] = ret None"
| "for_each f (x # xs) = and_then (f x) (for_each f xs)"

text \<open>A Go \<open>for\<close> loop over a slice whose body is a statement.\<close>

fun for_do :: "('a \<Rightarrow> ('w, unit) state) \<Rightarrow> 'a list \<Rightarrow> ('w, unit) state" where
  "for_do f [] = ret ()"
| "for_do f (x # xs) = do { _ \<leftarrow> f x; for_do f xs }"

subsection \<open>Hoare triples and frames\<close>

definition hoare :: "('w \<Rightarrow> bool) \<Rightarrow> ('w, 'a) state \<Rightarrow> ('a \<Rightarrow> 'w \<Rightarrow> bool) \<Rightarrow> bool" where
  "hoare P m Q \<longleftrightarrow> (\<forall>w. P w \<longrightarrow> (case run m w of (a, w') \<Rightarrow> Q a w'))"

definition keeps :: "('w \<Rightarrow> bool) \<Rightarrow> ('w, 'a) state \<Rightarrow> bool" where
  "keeps I m \<longleftrightarrow> hoare I m (\<lambda>_. I)"

lemma hoareI: "(\<And>w a w'. P w \<Longrightarrow> run m w = (a, w') \<Longrightarrow> Q a w') \<Longrightarrow> hoare P m Q"
  by (auto simp: hoare_def split: prod.splits)

lemma hoareD: "hoare P m Q \<Longrightarrow> P w \<Longrightarrow> run m w = (a, w') \<Longrightarrow> Q a w'"
  by (auto simp: hoare_def split: prod.splits)

lemma hoare_bind:
  "hoare P m R \<Longrightarrow> (\<And>a. hoare (R a) (f a) Q) \<Longrightarrow> hoare P (m \<bind> f) Q"
  by (simp add: hoare_def case_prod_beta)

lemma hoare_return: "(\<And>w. P w \<Longrightarrow> Q a w) \<Longrightarrow> hoare P (ret a) Q"
  by (simp add: hoare_def)

lemma hoare_weaken: "hoare P m Q \<Longrightarrow> (\<And>w. P' w \<Longrightarrow> P w) \<Longrightarrow> (\<And>a w. Q a w \<Longrightarrow> Q' a w) \<Longrightarrow> hoare P' m Q'"
  by (simp add: hoare_def case_prod_beta)

lemma hoare_drop: "hoare P m (\<lambda>r w. A r w \<and> Q w) \<Longrightarrow> hoare P m (\<lambda>_. Q)"
  by (auto simp: hoare_def split: prod.splits)

lemma hoare_when: "(A \<Longrightarrow> hoare P m Q) \<Longrightarrow> hoare (\<lambda>w. A \<and> P w) m Q"
  by (auto simp: hoare_def)

text \<open>A call whose result is known: go on with it.\<close>

lemma hoare_known:
  assumes "hoare P m (\<lambda>e w. e = x \<and> R w)" and "hoare R (f x) Q"
  shows "hoare P (m \<bind> f) Q"
  by (rule hoare_bind [OF assms(1)]) (rule hoare_when, use assms(2) in simp)

lemma hoare_conj: "hoare P m Q \<Longrightarrow> hoare P' m Q' \<Longrightarrow>
    hoare (\<lambda>w. P w \<and> P' w) m (\<lambda>a w. Q a w \<and> Q' a w)"
  by (auto simp: hoare_def split: prod.splits)

lemma keepsI: "(\<And>w a w'. I w \<Longrightarrow> run m w = (a, w') \<Longrightarrow> I w') \<Longrightarrow> keeps I m"
  by (auto simp: keeps_def intro: hoareI)

lemma keepsD: "keeps I m \<Longrightarrow> I w \<Longrightarrow> run m w = (a, w') \<Longrightarrow> I w'"
  by (auto simp: keeps_def dest: hoareD)

lemma hoare_keeps: "hoare P m (\<lambda>r _. A r) \<Longrightarrow> keeps P m \<Longrightarrow> hoare P m (\<lambda>r w. A r \<and> P w)"
  unfolding keeps_def by (drule hoare_conj, assumption) (erule hoare_weaken; simp)

lemma keeps_snd: "keeps I m \<Longrightarrow> I w \<Longrightarrow> I (snd (run m w))"
  by (cases "run m w") (auto dest: keepsD)

lemma keeps_bind [keeps_rules]:
  "keeps I m \<Longrightarrow> (\<And>a. keeps I (f a)) \<Longrightarrow> keeps I (m \<bind> f)"
  unfolding keeps_def by (rule hoare_bind)

lemma keeps_return [keeps_rules]: "keeps I (ret a)"
  by (simp add: keeps_def hoare_def)

lemma keeps_gets [keeps_rules]: "keeps I (gets f)"
  by (simp add: keeps_def hoare_def)

lemma keeps_modify: "(\<And>w. I w \<Longrightarrow> I (f w)) \<Longrightarrow> keeps I (modify f)"
  by (simp add: keeps_def hoare_def)

lemma keeps_if [keeps_rules]: "keeps I m \<Longrightarrow> keeps I n \<Longrightarrow> keeps I (if b then m else n)"
  by simp

lemma keeps_option [keeps_rules]:
  "keeps I m \<Longrightarrow> (\<And>x. keeps I (f x)) \<Longrightarrow> keeps I (case v of None \<Rightarrow> m | Some x \<Rightarrow> f x)"
  by (cases v) simp_all

lemma keeps_sum [keeps_rules]:
  "(\<And>x. keeps I (f x)) \<Longrightarrow> (\<And>y. keeps I (g y)) \<Longrightarrow> keeps I (case v of Inl x \<Rightarrow> f x | Inr y \<Rightarrow> g y)"
  by (cases v) simp_all

lemma keeps_prod [keeps_rules]:
  "(\<And>x y. keeps I (f x y)) \<Longrightarrow> keeps I (case v of (x, y) \<Rightarrow> f x y)"
  by (cases v) simp

lemma keeps_let [keeps_rules]: "(\<And>x. keeps I (f x)) \<Longrightarrow> keeps I (Let v f)"
  by (simp add: Let_def)

lemma keeps_and_then [keeps_rules]: "keeps I m \<Longrightarrow> keeps I n \<Longrightarrow> keeps I (and_then m n)"
  unfolding and_then_def by (intro keeps_rules)

lemma keeps_for_each [keeps_rules]: "(\<And>x. keeps I (f x)) \<Longrightarrow> keeps I (for_each f xs)"
  by (induction xs) (auto intro: keeps_rules)

lemma keeps_for_each_in: "(\<And>x. x \<in> set xs \<Longrightarrow> keeps I (f x)) \<Longrightarrow> keeps I (for_each f xs)"
  by (induction xs) (auto intro: keeps_rules)

lemma keeps_for_do [keeps_rules]: "(\<And>x. keeps I (f x)) \<Longrightarrow> keeps I (for_do f xs)"
  by (induction xs) (auto intro: keeps_rules)

lemma keeps_conj: "keeps I m \<Longrightarrow> keeps J m \<Longrightarrow> keeps (\<lambda>w. I w \<and> J w) m"
  by (auto simp: keeps_def hoare_def split: prod.splits)

text \<open>A frame in terms of a projection: \<open>m\<close> leaves \<open>f\<close> of the world as it is.\<close>

definition frame :: "('w \<Rightarrow> 'b) \<Rightarrow> ('w, 'a) state \<Rightarrow> bool" where
  "frame f m \<longleftrightarrow> (\<forall>w. f (snd (run m w)) = f w)"

lemma frame_iff_keeps: "frame f m \<longleftrightarrow> (\<forall>c. keeps (\<lambda>w. f w = c) m)"
  by (auto simp: frame_def keeps_def hoare_def case_prod_beta)

lemma frameI: "(\<And>c. keeps (\<lambda>w. f w = c) m) \<Longrightarrow> frame f m"
  by (simp add: frame_iff_keeps)

lemma frame_keeps: "frame f m \<Longrightarrow> keeps (\<lambda>w. f w = c) m"
  by (simp add: frame_iff_keeps)

lemma frameD: "frame f m \<Longrightarrow> f (snd (run m w)) = f w"
  by (simp add: frame_def)

lemma frame_run: "frame f m \<Longrightarrow> run m w = (a, w') \<Longrightarrow> f w' = f w"
  using frameD [of f m w] by simp

lemma frame_pred: "frame f m \<Longrightarrow> keeps (\<lambda>w. P (f w)) m"
  by (simp add: frame_def keeps_def hoare_def case_prod_beta)

subsection \<open>Lists\<close>

text \<open>The first element with a property: Go's \<open>for ... if p { return x }; return nil\<close>.\<close>

lemma find_None_iff_filter: "List.find p xs = None \<longleftrightarrow> filter p xs = []"
  by (induction xs) auto

lemma find_SomeD: "List.find p xs = Some x \<Longrightarrow> x \<in> set xs \<and> p x"
  by (induction xs) (auto split: if_splits)

lemma find_distinct_map:
  assumes "distinct (map f xs)" and "x \<in> set xs"
  shows "List.find (\<lambda>y. f y = f x) xs = Some x"
  using assms by (induction xs) (auto simp: rev_image_eqI)

lemma length_filter_partition:
  "length (filter p xs) + length (filter (\<lambda>x. \<not> p x) xs) = length xs"
  by (induction xs) auto

end
