(* ===== verification/GoBase.thy ===== *)
theory GoBase
  imports Prelude
begin

text \<open>
  The part of Go's standard library that the program computes with: \<open>strings\<close>,
  \<open>strconv\<close> and \<open>errors\<close>. A Go string is a sequence of bytes, here a \<open>string\<close> (a list
  of 8-bit characters); a text with characters beyond ASCII is the list of its UTF-8
  bytes. Each definition is named after the library function whose behaviour it gives.
\<close>

subsection \<open>strings\<close>

fun has_prefix :: "string \<Rightarrow> string \<Rightarrow> bool" where
  "has_prefix s [] = True"
| "has_prefix [] (p # ps) = False"
| "has_prefix (c # s) (p # ps) = (c = p \<and> has_prefix s ps)"

lemma has_prefix_iff: "has_prefix s p \<longleftrightarrow> (\<exists>r. s = p @ r)"
  by (induction s p rule: has_prefix.induct) auto

lemma has_prefix_append [simp]: "has_prefix (p @ r) p"
  by (auto simp: has_prefix_iff)

text \<open>\<open>strings.Index\<close>, with \<open>None\<close> for -1.\<close>

fun str_index :: "string \<Rightarrow> string \<Rightarrow> nat option" where
  "str_index [] sub = (if sub = [] then Some 0 else None)"
| "str_index (c # s) sub =
     (if has_prefix (c # s) sub then Some 0 else map_option Suc (str_index s sub))"

definition str_contains :: "string \<Rightarrow> string \<Rightarrow> bool" where
  "str_contains s sub \<longleftrightarrow> str_index s sub \<noteq> None"

text \<open>\<open>strings.Replace(s, old, new, 1)\<close>: only the first occurrence is replaced.\<close>

fun replace_first :: "string \<Rightarrow> string \<Rightarrow> string \<Rightarrow> string" where
  "replace_first [] old new = (if old = [] then new else [])"
| "replace_first (c # s) old new =
     (if has_prefix (c # s) old then new @ drop (length old) (c # s)
      else c # replace_first s old new)"

lemma str_index_append: "str_index (a @ sub @ b) sub \<noteq> None"
proof (induction a)
  case Nil
  have "has_prefix (sub @ b) sub" by simp
  then show ?case by (cases "sub @ b") simp_all
next
  case (Cons c a)
  then show ?case by auto
qed

lemma str_contains_iff: "str_contains s sub \<longleftrightarrow> (\<exists>a b. s = a @ sub @ b)"
proof
  assume "str_contains s sub"
  then show "\<exists>a b. s = a @ sub @ b"
    unfolding str_contains_def
  proof (induction s)
    case Nil
    then show ?case by (auto split: if_splits)
  next
    case (Cons c s)
    show ?case
    proof (cases "has_prefix (c # s) sub")
      case True
      then show ?thesis by (metis append_Nil has_prefix_iff)
    next
      case False
      with Cons obtain a b where "s = a @ sub @ b" by auto
      then have "c # s = (c # a) @ sub @ b" by simp
      then show ?thesis by blast
    qed
  qed
next
  assume "\<exists>a b. s = a @ sub @ b"
  then show "str_contains s sub"
    using str_index_append by (auto simp: str_contains_def)
qed

lemma replace_first_absent: "\<not> str_contains s old \<Longrightarrow> replace_first s old new = s"
  by (induction s) (auto simp: str_contains_def split: if_splits)

lemma replace_first_present:
  "str_contains s old \<Longrightarrow> \<exists>a b. s = a @ old @ b \<and> replace_first s old new = a @ new @ b"
proof (induction s)
  case Nil
  then show ?case by (auto simp: str_contains_def split: if_splits)
next
  case (Cons c s)
  show ?case
  proof (cases "has_prefix (c # s) old")
    case True
    then obtain r where r: "c # s = old @ r" by (auto simp: has_prefix_iff)
    then have "drop (length old) (c # s) = r" by simp
    moreover from True have "replace_first (c # s) old new = new @ drop (length old) (c # s)"
      by simp
    ultimately have "replace_first (c # s) old new = [] @ new @ r" by (simp only: append_Nil)
    with r show ?thesis by (metis append_Nil)
  next
    case False
    with Cons.prems have "str_contains s old" by (auto simp: str_contains_def)
    then obtain a b where "s = a @ old @ b" "replace_first s old new = a @ new @ b"
      using Cons.IH by blast
    with False have "c # s = (c # a) @ old @ b" "replace_first (c # s) old new = (c # a) @ new @ b"
      by simp_all
    then show ?thesis by blast
  qed
qed

text \<open>\<open>strings.TrimSpace\<close> on ASCII, \<open>strings.TrimRight(s, "\<newline>")\<close>, \<open>Split\<close>, \<open>Join\<close>.\<close>

definition is_space :: "char \<Rightarrow> bool" where
  "is_space c \<longleftrightarrow> of_char c \<in> {9, 10, 11, 12, 13, 32 :: nat}"

definition trim_right_by :: "(char \<Rightarrow> bool) \<Rightarrow> string \<Rightarrow> string" where
  "trim_right_by p s = rev (dropWhile p (rev s))"

definition trim_space :: "string \<Rightarrow> string" where
  "trim_space s = trim_right_by is_space (dropWhile is_space s)"

definition nl :: char where
  "nl = CHR 0x0A"

definition trim_right_nl :: "string \<Rightarrow> string" where
  "trim_right_nl s = trim_right_by (\<lambda>c. c = nl) s"

fun split_on :: "char \<Rightarrow> string \<Rightarrow> string list" where
  "split_on d [] = [[]]"
| "split_on d (c # s) =
     (if c = d then [] # split_on d s
      else (case split_on d s of [] \<Rightarrow> [[c]] | x # xs \<Rightarrow> (c # x) # xs))"

fun str_join :: "string \<Rightarrow> string list \<Rightarrow> string" where
  "str_join sep [] = []"
| "str_join sep [x] = x"
| "str_join sep (x # y # xs) = x @ sep @ str_join sep (y # xs)"

lemma split_on_nonempty [simp]: "split_on d s \<noteq> []"
  by (induction s) (auto split: list.splits)

lemma str_join_Cons: "xs \<noteq> [] \<Longrightarrow> str_join sep (x # xs) = x @ sep @ str_join sep xs"
  by (cases xs) simp_all

lemma join_split: "str_join [d] (split_on d s) = s"
proof (induction s)
  case Nil
  then show ?case by simp
next
  case (Cons c s)
  obtain x xs where x: "split_on d s = x # xs" by (cases "split_on d s") auto
  with Cons have "str_join [d] (x # xs) = s" by simp
  then show ?case
    by (cases xs) (auto simp: x)
qed

text \<open>
  Texts line by line: splitting undoes joining, and a replacement of a text without line
  breaks happens within the first line that has it.
\<close>

lemma split_on_append:
  "d \<notin> set a \<Longrightarrow> split_on d (a @ d # r) = a # split_on d r"
  by (induction a) auto

lemma split_on_single: "d \<notin> set a \<Longrightarrow> split_on d a = [a]"
  by (induction a) auto

lemma split_on_join:
  "ls \<noteq> [] \<Longrightarrow> list_all (\<lambda>l. d \<notin> set l) ls \<Longrightarrow> split_on d (str_join [d] ls) = ls"
proof (induction ls rule: induct_list012)
  case (3 x y ys)
  then show ?case by (simp add: split_on_append)
qed (simp_all add: split_on_single)

fun replace_in_lines :: "string \<Rightarrow> string \<Rightarrow> string list \<Rightarrow> string list" where
  "replace_in_lines old new [] = []"
| "replace_in_lines old new (l # ls) =
     (if str_contains l old then replace_first l old new # ls else l # replace_in_lines old new ls)"

lemma replace_in_lines_Nil_iff [simp]: "replace_in_lines old new ls = [] \<longleftrightarrow> ls = []"
  by (cases ls) auto

lemma has_prefix_within: "d \<notin> set p \<Longrightarrow> has_prefix (a @ d # r) p \<longleftrightarrow> has_prefix a p"
  by (induction a p rule: has_prefix.induct) auto

lemma drop_within: "has_prefix a p \<Longrightarrow> drop (length p) (a @ t) = drop (length p) a @ t"
  by (auto simp: has_prefix_iff)

lemma replace_first_line:
  assumes "d \<notin> set old" and "old \<noteq> []"
  shows "replace_first (a @ d # r) old new =
     (if str_contains a old then replace_first a old new @ d # r else a @ d # replace_first r old new)"
proof (induction a)
  case Nil
  have "\<not> has_prefix (d # r) old" using assms by (cases old) auto
  then show ?case using assms by (simp add: str_contains_def)
next
  case (Cons c a)
  have p: "has_prefix (c # a @ d # r) old \<longleftrightarrow> has_prefix (c # a) old"
    using has_prefix_within [OF assms(1), of "c # a" r] by simp
  show ?case
  proof (cases "has_prefix (c # a) old")
    case True
    then show ?thesis using p drop_within [OF True, of "d # r"] by (simp add: str_contains_def)
  next
    case False
    then show ?thesis using p Cons.IH by (simp add: str_contains_def)
  qed
qed

lemma replace_first_join:
  "nl \<notin> set old \<Longrightarrow> old \<noteq> [] \<Longrightarrow>
     replace_first (str_join [nl] ls) old new = str_join [nl] (replace_in_lines old new ls)"
proof (induction ls rule: induct_list012)
  case 1
  then show ?case by simp
next
  case (2 x)
  then show ?case using replace_first_absent [of x old new] by simp
next
  case (3 x y ys)
  have ne: "\<exists>z zs. replace_in_lines old new (y # ys) = z # zs"
    by (cases "replace_in_lines old new (y # ys)") (simp_all only: replace_in_lines_Nil_iff list.distinct list.inject, blast)
  show ?case
  proof (cases "str_contains x old")
    case True
    then show ?thesis using 3 by (simp add: replace_first_line)
  next
    case False
    from ne obtain z zs where "replace_in_lines old new (y # ys) = z # zs" by blast
    with False 3 replace_in_lines.simps(2) [of old new x "y # ys"] show ?thesis
      by (simp add: replace_first_line del: replace_in_lines.simps(2))
  qed
qed

subsection \<open>strconv\<close>

definition digit_char :: "nat \<Rightarrow> char" where
  "digit_char d = char_of (48 + d)"

definition is_digit :: "char \<Rightarrow> bool" where
  "is_digit c \<longleftrightarrow> 48 \<le> (of_char c :: nat) \<and> of_char c \<le> (57 :: nat)"

definition digit_val :: "char \<Rightarrow> nat" where
  "digit_val c = of_char c - 48"

fun nat_str :: "nat \<Rightarrow> string" where
  "nat_str n = (if n < 10 then [digit_char n] else nat_str (n div 10) @ [digit_char (n mod 10)])"

declare nat_str.simps [simp del]

definition nat_of_digits :: "string \<Rightarrow> nat" where
  "nat_of_digits s = foldl (\<lambda>a c. 10 * a + digit_val c) 0 s"

text \<open>\<open>strconv.Itoa\<close>, also what \<open>%d\<close> prints.\<close>

definition itoa :: "int \<Rightarrow> string" where
  "itoa i = (if i < 0 then CHR ''-'' # nat_str (nat (- i)) else nat_str (nat i))"

definition int64_ok :: "int \<Rightarrow> bool" where
  "int64_ok i \<longleftrightarrow> - (2 ^ 63) \<le> i \<and> i < 2 ^ 63"

text \<open>\<open>strconv.Atoi\<close>: an optional sign, then decimal digits, within 64 bits.\<close>

definition atoi :: "string \<Rightarrow> int option" where
  "atoi s =
     (let (neg, ds) =
        (case s of c # r \<Rightarrow> if c = CHR ''-'' then (True, r) else if c = CHR ''+'' then (False, r) else (False, s)
         | [] \<Rightarrow> (False, []))
      in if ds \<noteq> [] \<and> list_all is_digit ds
         then (let i = (if neg then - int (nat_of_digits ds) else int (nat_of_digits ds))
               in if int64_ok i then Some i else None)
         else None)"

lemma of_char_digit: "d < 10 \<Longrightarrow> of_char (digit_char d) = (48 + d :: nat)"
  by (simp add: digit_char_def)

lemma is_digit_char [simp]: "d < 10 \<Longrightarrow> is_digit (digit_char d)"
  by (simp add: is_digit_def of_char_digit)

lemma digit_val_char [simp]: "d < 10 \<Longrightarrow> digit_val (digit_char d) = d"
  by (simp add: digit_val_def of_char_digit)

lemma nat_str_nonempty [simp]: "nat_str n \<noteq> []"
  by (subst nat_str.simps) simp

lemma nat_str_digits: "list_all is_digit (nat_str n)"
proof (induction n rule: nat_str.induct)
  case (1 n)
  then show ?case by (subst nat_str.simps) auto
qed

lemma nat_of_digits_snoc [simp]: "nat_of_digits (s @ [c]) = 10 * nat_of_digits s + digit_val c"
  by (simp add: nat_of_digits_def)

lemma nat_of_digits_str [simp]: "nat_of_digits (nat_str n) = n"
proof (induction n rule: nat_str.induct)
  case (1 n)
  show ?case
  proof (cases "n < 10")
    case True
    then show ?thesis by (subst nat_str.simps) (simp add: nat_of_digits_def)
  next
    case False
    with 1 have "nat_of_digits (nat_str (n div 10)) = n div 10" by simp
    with False show ?thesis by (subst nat_str.simps) simp
  qed
qed

lemma not_digit_sign: "\<not> is_digit (CHR ''-'')" "\<not> is_digit (CHR ''+'')"
  by (simp_all add: is_digit_def)

lemma atoi_nat_str: "int64_ok (int n) \<Longrightarrow> atoi (nat_str n) = Some (int n)"
proof -
  assume ok: "int64_ok (int n)"
  obtain c r where cr: "nat_str n = c # r" by (cases "nat_str n") auto
  with nat_str_digits [of n] have "is_digit c" by simp
  then have "c \<noteq> CHR ''-''" "c \<noteq> CHR ''+''" using not_digit_sign by auto
  with cr ok nat_str_digits [of n] nat_of_digits_str [of n] show ?thesis
    by (simp add: atoi_def del: nat_of_digits_str)
qed

lemma atoi_itoa: "int64_ok i \<Longrightarrow> atoi (itoa i) = Some i"
proof (cases "i < 0")
  case True
  assume "int64_ok i"
  with True show ?thesis
    using nat_str_digits [of "nat (- i)"] by (simp add: itoa_def atoi_def Let_def)
next
  case False
  assume "int64_ok i"
  with False show ?thesis using atoi_nat_str [of "nat i"] by (simp add: itoa_def)
qed

subsection \<open>errors\<close>

text \<open>The error numbers the program tells apart, and the rest.\<close>

datatype errno = ENOENT | EEXIST | EACCES | EPERM | ESRCH | ENOSPC | EIO

fun errno_text :: "errno \<Rightarrow> string" where
  "errno_text ENOENT = ''no such file or directory''"
| "errno_text EEXIST = ''file exists''"
| "errno_text EACCES = ''permission denied''"
| "errno_text EPERM = ''operation not permitted''"
| "errno_text ESRCH = ''no such process''"
| "errno_text ENOSPC = ''no space left on device''"
| "errno_text EIO = ''input/output error''"

text \<open>
  A Go error value: the typed errors of the program (\<open>internal/state/store.go\<close>,
  \<open>internal/state/state.go\<close>, \<open>internal/executor/lock.go\<close>), the errors of system calls
  (\<open>*fs.PathError\<close>), a message (\<open>fmt.Errorf\<close> without \<open>%w\<close>) and a message around a wrapped
  error (\<open>fmt.Errorf\<close> with \<open>%w\<close>: the text before it, the error, the text after it).
\<close>

datatype go_error =
    Errorf string
  | Wrapf string go_error string
  | PathError string string errno
  | ErrLockHeld int
  | ErrStateFileNotFound string
  | ErrStateFileCorrupt string go_error
  | ErrInvalidState string

fun error_text :: "go_error \<Rightarrow> string" where
  "error_text (Errorf s) = s"
| "error_text (Wrapf a e b) = a @ error_text e @ b"
| "error_text (PathError opn path n) = opn @ '' '' @ path @ '': '' @ errno_text n"
| "error_text (ErrLockHeld pid) = ''another lab operation is in progress (PID '' @ itoa pid @ '')''"
| "error_text (ErrStateFileNotFound p) = ''state file not found: '' @ p"
| "error_text (ErrStateFileCorrupt p c) = ''state file corrupt ('' @ p @ ''): '' @ error_text c"
| "error_text (ErrInvalidState v) = ''invalid state '' @ [CHR 0x22] @ v @ [CHR 0x22] @
     '': must be one of UNPROVISIONED, PROVISIONED, CONFORMANT, DEGRADED, BROKEN, RECOVERING''"

type_synonym 'a result = "go_error + 'a"

text \<open>\<open>os.IsNotExist\<close>, \<open>os.IsExist\<close>: they look at the error itself, not at what it wraps.\<close>

fun is_not_exist :: "go_error \<Rightarrow> bool" where
  "is_not_exist (PathError _ _ ENOENT) = True"
| "is_not_exist _ = False"

fun is_exist :: "go_error \<Rightarrow> bool" where
  "is_exist (PathError _ _ EEXIST) = True"
| "is_exist _ = False"

text \<open>
  The chain \<open>errors.As\<close> searches: an error, then what it wraps. \<open>ErrStateFileCorrupt\<close>
  unwraps to its cause.
\<close>

fun error_chain :: "go_error \<Rightarrow> go_error list" where
  "error_chain (Wrapf a e b) = Wrapf a e b # error_chain e"
| "error_chain (ErrStateFileCorrupt p c) = ErrStateFileCorrupt p c # error_chain c"
| "error_chain e = [e]"

fun is_ErrLockHeld :: "go_error \<Rightarrow> bool" where
  "is_ErrLockHeld (ErrLockHeld _) = True"
| "is_ErrLockHeld _ = False"

fun is_state_file_error :: "go_error \<Rightarrow> bool" where
  "is_state_file_error (ErrStateFileNotFound _) = True"
| "is_state_file_error (ErrStateFileCorrupt _ _) = True"
| "is_state_file_error _ = False"

definition errors_as :: "(go_error \<Rightarrow> bool) \<Rightarrow> go_error \<Rightarrow> bool" where
  "errors_as p e \<longleftrightarrow> list_ex p (error_chain e)"

lemma errors_as_self: "p e \<Longrightarrow> errors_as p e"
  by (cases e) (simp_all add: errors_as_def)

lemma errors_as_wrap: "errors_as p e \<Longrightarrow> errors_as p (Wrapf a e b)"
  by (simp add: errors_as_def)

end
