(* ===== verification/GoOS.thy ===== *)
theory GoOS
  imports GoBase
begin

text \<open>
  The machine under the program: the file system, the clock, the process table and the
  system calls of Go's \<open>os\<close> package that the program makes.

  The world is a record. Its \<open>files\<close> map absolute paths to nodes. Every system call has a
  number, and \<open>fault_at\<close> says which calls fail and with which error: a theorem over every
  world is then a theorem over every pattern of failures. \<open>short_at\<close> is how many bytes a
  failing write leaves behind, \<open>rand_at\<close> the random part of the names of temporary files,
  \<open>clock_at\<close> and \<open>mono_at\<close> the readings of the clock, \<open>kill0\<close> what sending signal 0 to a process reports.
  A reading of the clock is kept as its RFC 3339 text in UTC, the form in which every time
  leaves the program. \<open>ext\<close>, of any type, is the rest of the machine: services, sockets,
  processes, the network.
\<close>

type_synonym time = string

record fnode =
  fcontent :: string
  fmode :: nat
  fowner :: string
  fgroup :: string
  fisdir :: bool

record 'x world =
  files :: "string \<Rightarrow> fnode option"
  ext :: 'x
  sysno :: nat
  fault_at :: "nat \<Rightarrow> errno option"
  short_at :: "nat \<Rightarrow> nat"
  randno :: nat
  rand_at :: "nat \<Rightarrow> string"
  clockno :: nat
  clock_at :: "nat \<Rightarrow> time"
  mono_at :: "nat \<Rightarrow> int"
  self_pid :: int
  self_user :: string
  kill0 :: "int \<Rightarrow> errno option"
  stderr :: "string list"
  stdout :: "string list"

text \<open>Permission bits are written in octal, as in the source.\<close>

fun octal :: "nat list \<Rightarrow> nat" where
  "octal ds = foldl (\<lambda>a d. 8 * a + d) 0 ds"

declare octal.simps [simp del]

subsection \<open>Clock, standard output and error\<close>

definition time_now :: "('x world, time) state" where
  "time_now = State (\<lambda>w. (clock_at w (clockno w), w\<lparr>clockno := Suc (clockno w)\<rparr>))"

text \<open>\<open>time.Now()\<close> for a duration: the monotonic clock, in milliseconds.\<close>

definition mono_now :: "('x world, int) state" where
  "mono_now = State (\<lambda>w. (mono_at w (clockno w), w\<lparr>clockno := Suc (clockno w)\<rparr>))"

text \<open>
  \<open>t.UTC().Format(time.RFC3339)\<close> of a time in its full text: the fraction of the second goes.
\<close>

definition rfc3339 :: "time \<Rightarrow> string" where
  "rfc3339 t = (if CHR ''.'' \<in> set t then takeWhile (\<lambda>c. c \<noteq> CHR ''.'') t @ ''Z'' else t)"

definition eprint :: "string \<Rightarrow> ('x world, unit) state" where
  "eprint s = modify (\<lambda>w. w\<lparr>stderr := stderr w @ [s]\<rparr>)"

definition oprint :: "string \<Rightarrow> ('x world, unit) state" where
  "oprint s = modify (\<lambda>w. w\<lparr>stdout := stdout w @ [s]\<rparr>)"

definition os_Getpid :: "('x world, int) state" where
  "os_Getpid = gets self_pid"

subsection \<open>System calls on files\<close>

text \<open>The next system call: whether it fails.\<close>

definition syscall :: "('x world, errno option) state" where
  "syscall = State (\<lambda>w. (fault_at w (sysno w), w\<lparr>sysno := Suc (sysno w)\<rparr>))"

definition set_file :: "string \<Rightarrow> fnode option \<Rightarrow> ('x world, unit) state" where
  "set_file p n = modify (\<lambda>w. w\<lparr>files := (files w)(p := n)\<rparr>)"

definition new_node :: "nat \<Rightarrow> string \<Rightarrow> ('x world, fnode) state" where
  "new_node m c = gets (\<lambda>w. \<lparr>fcontent = c, fmode = m, fowner = self_user w, fgroup = self_user w, fisdir = False\<rparr>)"

definition os_ReadFile :: "string \<Rightarrow> ('x world, string result) state" where
  "os_ReadFile p = do {
     f \<leftarrow> syscall;
     fs \<leftarrow> gets files;
     ret (case f of Some e \<Rightarrow> Inl (PathError ''open'' p e)
          | None \<Rightarrow> (case fs p of
              None \<Rightarrow> Inl (PathError ''open'' p ENOENT)
            | Some n \<Rightarrow> if fisdir n then Inl (PathError ''read'' p EIO) else Inr (fcontent n)))
   }"

definition os_Stat :: "string \<Rightarrow> ('x world, fnode result) state" where
  "os_Stat p = do {
     f \<leftarrow> syscall;
     fs \<leftarrow> gets files;
     ret (case f of Some e \<Rightarrow> Inl (PathError ''stat'' p e)
          | None \<Rightarrow> (case fs p of
              None \<Rightarrow> Inl (PathError ''stat'' p ENOENT)
            | Some n \<Rightarrow> Inr n))
   }"

definition os_Remove :: "string \<Rightarrow> ('x world, go_error option) state" where
  "os_Remove p = do {
     f \<leftarrow> syscall;
     fs \<leftarrow> gets files;
     (case f of Some e \<Rightarrow> ret (Some (PathError ''remove'' p e))
      | None \<Rightarrow> (case fs p of
          None \<Rightarrow> ret (Some (PathError ''remove'' p ENOENT))
        | Some n \<Rightarrow> do { _ \<leftarrow> set_file p None; ret None }))
   }"

definition os_Rename :: "string \<Rightarrow> string \<Rightarrow> ('x world, go_error option) state" where
  "os_Rename a b = do {
     f \<leftarrow> syscall;
     fs \<leftarrow> gets files;
     (case f of Some e \<Rightarrow> ret (Some (PathError ''rename'' (a @ '' '' @ b) e))
      | None \<Rightarrow> (case fs a of
          None \<Rightarrow> ret (Some (PathError ''rename'' (a @ '' '' @ b) ENOENT))
        | Some n \<Rightarrow>
            if a = b then ret None
            else do { _ \<leftarrow> set_file a None; _ \<leftarrow> set_file b (Some n); ret None }))
   }"

definition os_Chmod :: "string \<Rightarrow> nat \<Rightarrow> ('x world, go_error option) state" where
  "os_Chmod p m = do {
     f \<leftarrow> syscall;
     fs \<leftarrow> gets files;
     (case f of Some e \<Rightarrow> ret (Some (PathError ''chmod'' p e))
      | None \<Rightarrow> (case fs p of
          None \<Rightarrow> ret (Some (PathError ''chmod'' p ENOENT))
        | Some n \<Rightarrow> do { _ \<leftarrow> set_file p (Some (n\<lparr>fmode := m\<rparr>)); ret None }))
   }"

text \<open>
  \<open>filepath.Dir\<close> of a clean path, and the directories \<open>os.MkdirAll\<close> makes: the path
  itself and its ancestors, each where it is missing.
\<close>

definition dir_of :: "string \<Rightarrow> string" where
  "dir_of p =
     (let d = dropWhile (\<lambda>c. c \<noteq> CHR ''/'') (rev p)
      in case d of [] \<Rightarrow> ''.'' | _ # r \<Rightarrow> if r = [] then ''/'' else rev r)"

definition ancestors :: "string \<Rightarrow> string list" where
  "ancestors p = map (\<lambda>i. take i p) (filter (\<lambda>i. p ! i = CHR ''/'') [1..<length p]) @ [p]"

definition make_dir :: "nat \<Rightarrow> string \<Rightarrow> ('x world, unit) state" where
  "make_dir m p = modify (\<lambda>w.
     case files w p of
       Some _ \<Rightarrow> w
     | None \<Rightarrow> w\<lparr>files := (files w)(p \<mapsto>
         \<lparr>fcontent = [], fmode = m, fowner = self_user w, fgroup = self_user w, fisdir = True\<rparr>)\<rparr>)"

definition os_MkdirAll :: "string \<Rightarrow> nat \<Rightarrow> ('x world, go_error option) state" where
  "os_MkdirAll p m = do {
     f \<leftarrow> syscall;
     (case f of Some e \<Rightarrow> ret (Some (PathError ''mkdir'' p e))
      | None \<Rightarrow> do { _ \<leftarrow> for_do (make_dir m) (ancestors p); ret None })
   }"

text \<open>
  \<open>os.CreateTemp(dir, pre*suf)\<close>: a new empty file of mode 0600 under a name not in use;
  a name in use is tried again with the next random part, 10000 times at most.
\<close>

fun pick_temp :: "nat \<Rightarrow> string \<Rightarrow> string \<Rightarrow> ('x world, string option) state" where
  "pick_temp 0 pre suf = ret None"
| "pick_temp (Suc n) pre suf = do {
     r \<leftarrow> State (\<lambda>w. (rand_at w (randno w), w\<lparr>randno := Suc (randno w)\<rparr>));
     fs \<leftarrow> gets files;
     (if fs (pre @ r @ suf) = None then ret (Some (pre @ r @ suf)) else pick_temp n pre suf)
   }"

definition os_CreateTemp :: "string \<Rightarrow> string \<Rightarrow> string \<Rightarrow> ('x world, string result) state" where
  "os_CreateTemp dir pre suf = do {
     f \<leftarrow> syscall;
     (case f of Some e \<Rightarrow> ret (Inl (PathError ''open'' (dir @ ''/'' @ pre @ suf) e))
      | None \<Rightarrow> do {
          t \<leftarrow> pick_temp 10000 (dir @ ''/'' @ pre) suf;
          (case t of None \<Rightarrow> ret (Inl (PathError ''createtemp'' (dir @ ''/'' @ pre @ suf) EEXIST))
           | Some p \<Rightarrow> do {
               n \<leftarrow> new_node (octal [0, 6, 0, 0]) [];
               _ \<leftarrow> set_file p (Some n);
               ret (Inr p)
             })
        })
   }"

text \<open>
  Calls on an open file, named by the path it was opened under. A write that fails leaves
  part of its data. A write to a file whose name is gone has no effect on the files.
\<close>

definition append_content :: "string \<Rightarrow> string \<Rightarrow> ('x world, unit) state" where
  "append_content p s = modify (\<lambda>w. case files w p of None \<Rightarrow> w
     | Some n \<Rightarrow> w\<lparr>files := (files w)(p \<mapsto> n\<lparr>fcontent := fcontent n @ s\<rparr>)\<rparr>)"

definition file_Write :: "string \<Rightarrow> string \<Rightarrow> ('x world, go_error option) state" where
  "file_Write p s = do {
     k \<leftarrow> gets (\<lambda>w. short_at w (sysno w));
     f \<leftarrow> syscall;
     (case f of
        Some e \<Rightarrow> do { _ \<leftarrow> append_content p (take k s); ret (Some (PathError ''write'' p e)) }
      | None \<Rightarrow> do { _ \<leftarrow> append_content p s; ret None })
   }"

definition file_Sync :: "string \<Rightarrow> ('x world, go_error option) state" where
  "file_Sync p = do { f \<leftarrow> syscall; ret (map_option (PathError ''sync'' p) f) }"

definition file_Close :: "string \<Rightarrow> ('x world, go_error option) state" where
  "file_Close p = do { f \<leftarrow> syscall; ret (map_option (PathError ''close'' p) f) }"

text \<open>\<open>OpenFile\<close> with \<open>O_CREATE|O_EXCL\<close>, with \<open>O_APPEND|O_CREATE\<close>, with \<open>O_CREATE|O_TRUNC\<close>.\<close>

definition os_OpenExcl :: "string \<Rightarrow> nat \<Rightarrow> ('x world, go_error option) state" where
  "os_OpenExcl p m = do {
     f \<leftarrow> syscall;
     fs \<leftarrow> gets files;
     (case f of Some e \<Rightarrow> ret (Some (PathError ''open'' p e))
      | None \<Rightarrow> (case fs p of
          Some _ \<Rightarrow> ret (Some (PathError ''open'' p EEXIST))
        | None \<Rightarrow> do { n \<leftarrow> new_node m []; _ \<leftarrow> set_file p (Some n); ret None }))
   }"

definition os_OpenAppend :: "string \<Rightarrow> nat \<Rightarrow> ('x world, go_error option) state" where
  "os_OpenAppend p m = do {
     f \<leftarrow> syscall;
     fs \<leftarrow> gets files;
     (case f of Some e \<Rightarrow> ret (Some (PathError ''open'' p e))
      | None \<Rightarrow> (case fs p of
          Some _ \<Rightarrow> ret None
        | None \<Rightarrow> do { n \<leftarrow> new_node m []; _ \<leftarrow> set_file p (Some n); ret None }))
   }"

definition os_OpenTrunc :: "string \<Rightarrow> nat \<Rightarrow> ('x world, go_error option) state" where
  "os_OpenTrunc p m = do {
     f \<leftarrow> syscall;
     fs \<leftarrow> gets files;
     (case f of Some e \<Rightarrow> ret (Some (PathError ''open'' p e))
      | None \<Rightarrow> (case fs p of
          Some n \<Rightarrow> do { _ \<leftarrow> set_file p (Some (n\<lparr>fcontent := []\<rparr>)); ret None }
        | None \<Rightarrow> do { n \<leftarrow> new_node m []; _ \<leftarrow> set_file p (Some n); ret None }))
   }"

subsection \<open>What the calls leave alone\<close>

text \<open>
  What one path shows of the world: the node there, with the process's own identity and
  the process table, which no call on files changes. A call keeps what a path shows unless
  it works on that path.
\<close>

definition seen :: "string \<Rightarrow> 'x world \<Rightarrow> fnode option \<times> int \<times> (int \<Rightarrow> errno option)" where
  "seen q w = (files w q, self_pid w, kill0 w)"

definition file_is :: "string \<Rightarrow> fnode option \<times> int \<times> (int \<Rightarrow> errno option) \<Rightarrow> 'x world \<Rightarrow> bool" where
  "file_is q c w \<longleftrightarrow> seen q w = c"

lemmas seen_defs = seen_def file_is_def

lemma keeps_syscall [keeps_rules]: "keeps (file_is q c) syscall"
  by (simp add: keeps_def hoare_def syscall_def seen_defs)

lemma keeps_time_now [keeps_rules]: "keeps (file_is q c) time_now"
  by (simp add: keeps_def hoare_def time_now_def seen_defs)

lemma keeps_mono_now [keeps_rules]: "keeps (file_is q c) mono_now"
  by (simp add: keeps_def hoare_def mono_now_def seen_defs)

lemma keeps_oprint [keeps_rules]: "keeps (file_is q c) (oprint s)"
  unfolding oprint_def by (intro keeps_modify) (simp add: seen_defs)

lemma keeps_eprint [keeps_rules]: "keeps (file_is q c) (eprint s)"
  unfolding eprint_def by (intro keeps_modify) (simp add: seen_defs)

lemma keeps_getpid [keeps_rules]: "keeps I os_Getpid"
  unfolding os_Getpid_def by (intro keeps_rules)

lemma keeps_new_node [keeps_rules]: "keeps I (new_node m c)"
  unfolding new_node_def by (intro keeps_rules)

lemma keeps_set_file: "p \<noteq> q \<Longrightarrow> keeps (file_is q c) (set_file p n)"
  unfolding set_file_def by (intro keeps_modify) (simp add: seen_defs)

lemma keeps_append_content: "p \<noteq> q \<Longrightarrow> keeps (file_is q c) (append_content p s)"
  unfolding append_content_def by (intro keeps_modify) (simp add: seen_defs split: option.splits)

lemma keeps_make_dir: "p \<noteq> q \<Longrightarrow> keeps (file_is q c) (make_dir m p)"
  unfolding make_dir_def by (intro keeps_modify) (simp add: seen_defs split: option.splits)

lemma keeps_ReadFile [keeps_rules]: "keeps (file_is q c) (os_ReadFile p)"
  unfolding os_ReadFile_def by (intro keeps_rules)

lemma keeps_Stat [keeps_rules]: "keeps (file_is q c) (os_Stat p)"
  unfolding os_Stat_def by (intro keeps_rules)

lemma keeps_Remove: "p \<noteq> q \<Longrightarrow> keeps (file_is q c) (os_Remove p)"
  unfolding os_Remove_def by (intro keeps_rules keeps_set_file)

lemma keeps_Rename: "a \<noteq> q \<Longrightarrow> b \<noteq> q \<Longrightarrow> keeps (file_is q c) (os_Rename a b)"
  unfolding os_Rename_def by (intro keeps_rules keeps_set_file)

lemma keeps_Chmod: "p \<noteq> q \<Longrightarrow> keeps (file_is q c) (os_Chmod p m)"
  unfolding os_Chmod_def by (intro keeps_rules keeps_set_file)

lemma keeps_for_do_in: "(\<And>x. x \<in> set xs \<Longrightarrow> keeps I (f x)) \<Longrightarrow> keeps I (for_do f xs)"
  by (induction xs) (auto intro: keeps_rules)

lemma keeps_MkdirAll: "q \<notin> set (ancestors p) \<Longrightarrow> keeps (file_is q c) (os_MkdirAll p m)"
  unfolding os_MkdirAll_def by (intro keeps_rules keeps_for_do_in keeps_make_dir) auto

lemma keeps_Write: "p \<noteq> q \<Longrightarrow> keeps (file_is q c) (file_Write p s)"
  unfolding file_Write_def by (intro keeps_rules keeps_append_content)

lemma keeps_Sync [keeps_rules]: "keeps (file_is q c) (file_Sync p)"
  unfolding file_Sync_def by (intro keeps_rules)

lemma keeps_Close [keeps_rules]: "keeps (file_is q c) (file_Close p)"
  unfolding file_Close_def by (intro keeps_rules)

lemma keeps_OpenExcl: "p \<noteq> q \<Longrightarrow> keeps (file_is q c) (os_OpenExcl p m)"
  unfolding os_OpenExcl_def by (intro keeps_rules keeps_set_file)

lemma keeps_OpenAppend: "p \<noteq> q \<Longrightarrow> keeps (file_is q c) (os_OpenAppend p m)"
  unfolding os_OpenAppend_def by (intro keeps_rules keeps_set_file)

lemma keeps_OpenTrunc: "p \<noteq> q \<Longrightarrow> keeps (file_is q c) (os_OpenTrunc p m)"
  unfolding os_OpenTrunc_def by (intro keeps_rules keeps_set_file)

lemma keeps_rand [keeps_rules]:
  "keeps (file_is q c) (State (\<lambda>w. (rand_at w (randno w), w\<lparr>randno := Suc (randno w)\<rparr>)))"
  by (simp add: keeps_def hoare_def seen_defs)

lemma keeps_pick_temp [keeps_rules]: "keeps (file_is q c) (pick_temp n pre suf)"
  by (induction n) (auto intro!: keeps_rules)

lemma pick_temp_run:
  "run (pick_temp n pre suf) w = (t, w') \<Longrightarrow>
     files w' = files w \<and> (\<forall>p. t = Some p \<longrightarrow> files w p = None \<and> (\<exists>r. p = pre @ r @ suf))"
proof (induction n arbitrary: w)
  case 0
  then show ?case by simp
next
  case (Suc n)
  show ?case
    using Suc.prems Suc.IH [of "w\<lparr>randno := Suc (randno w)\<rparr>"] by (auto split: if_splits)
qed

lemma ancestors_length: "q \<in> set (ancestors p) \<Longrightarrow> length q \<le> length p"
  by (auto simp: ancestors_def)

lemma dir_of_length: "has_prefix p ''/'' \<Longrightarrow> 1 < length p \<Longrightarrow> length (dir_of p) < length p"
proof -
  assume h: "has_prefix p ''/''" "1 < length p"
  then obtain r where p: "p = CHR ''/'' # r" by (auto simp: has_prefix_iff)
  define d where "d = dropWhile (\<lambda>c. c \<noteq> CHR ''/'') (rev p)"
  have "length d \<le> length p" unfolding d_def using length_dropWhile_le [of _ "rev p"] by simp
  moreover have "d \<noteq> []" unfolding d_def p by (auto simp: dropWhile_eq_Nil_conv)
  ultimately show ?thesis using h(2)
    unfolding dir_of_def d_def [symmetric] by (auto simp: Let_def split: list.splits)
qed

lemma not_own_ancestor:
  "has_prefix p ''/'' \<Longrightarrow> 1 < length p \<Longrightarrow> p \<notin> set (ancestors (dir_of p))"
  using ancestors_length [of p "dir_of p"] dir_of_length [of p] by auto

end
