(* ===== verification/LabConfig.thy ===== *)
theory LabConfig
  imports GoOS
begin

text \<open>
  \<^verbatim>\<open>internal/config/config.go\<close>: the canonical constants of the lab environment (paths, modes,
  owners, service names, addresses, the targets of the R2 reset), and the three files it
  embeds (\<^verbatim>\<open>config.yaml\<close>, \<^verbatim>\<open>app.service\<close>, \<^verbatim>\<open>nginx.conf\<close>), byte for byte. The few
  characters beyond ASCII that the program's texts use are named by their UTF-8 bytes.
\<close>

subsection \<open>Characters beyond ASCII\<close>

definition u_emdash :: string where
  "u_emdash = [CHR 0xE2, CHR 0x80, CHR 0x94]"

definition u_rarrow :: string where
  "u_rarrow = [CHR 0xE2, CHR 0x86, CHR 0x92]"

definition u_larrow :: string where
  "u_larrow = [CHR 0xE2, CHR 0x86, CHR 0x90]"

definition u_hbar :: string where
  "u_hbar = [CHR 0xE2, CHR 0x94, CHR 0x80]"

definition u_ge :: string where
  "u_ge = [CHR 0xE2, CHR 0x89, CHR 0xA5]"

definition u_ne :: string where
  "u_ne = [CHR 0xE2, CHR 0x89, CHR 0xA0]"

definition u_nbhyphen :: string where
  "u_nbhyphen = [CHR 0xE2, CHR 0x80, CHR 0x91]"

definition u_rsquo :: string where
  "u_rsquo = [CHR 0xE2, CHR 0x80, CHR 0x99]"

definition u_dot :: string where
  "u_dot = [CHR 0xE2, CHR 0x97, CHR 0x8F]"

definition u_cross :: string where
  "u_cross = [CHR 0xE2, CHR 0x9C, CHR 0x97]"

definition u_check :: string where
  "u_check = [CHR 0xE2, CHR 0x9C, CHR 0x93]"

definition u_middot :: string where
  "u_middot = [CHR 0xC2, CHR 0xB7]"

definition u_section :: string where
  "u_section = [CHR 0xC2, CHR 0xA7]"

subsection \<open>Paths\<close>

definition StatePath :: string where "StatePath = ''/var/lib/lab/state.json''"
definition AuditPath :: string where "AuditPath = ''/var/lib/lab/audit.log''"
definition LockPath :: string where "LockPath = ''/var/lib/lab/lab.lock''"
definition BootstrapScript :: string where "BootstrapScript = ''/opt/lab-env/scripts/bootstrap.sh''"
definition BinaryPath :: string where "BinaryPath = ''/opt/app/server''"
definition BinaryName :: string where "BinaryName = ''server''"
definition ConfigPath :: string where "ConfigPath = ''/etc/app/config.yaml''"
definition ChaosEnvPath :: string where "ChaosEnvPath = ''/etc/app/chaos.env''"
definition LogDir :: string where "LogDir = ''/var/log/app''"
definition LogPath :: string where "LogPath = ''/var/log/app/app.log''"
definition StateDir :: string where "StateDir = ''/var/lib/app''"
definition StateTouchPath :: string where "StateTouchPath = ''/var/lib/app/state''"
definition UnitFilePath :: string where "UnitFilePath = ''/etc/systemd/system/app.service''"
definition NginxConfigPath :: string where "NginxConfigPath = ''/etc/nginx/sites-enabled/app''"
definition TLSCertPath :: string where "TLSCertPath = ''/etc/nginx/tls/app.local.crt''"
definition TLSKeyPath :: string where "TLSKeyPath = ''/etc/nginx/tls/app.local.key''"
definition ServiceSourceDir :: string where "ServiceSourceDir = ''/opt/lab-env/service''"

subsection \<open>Modes\<close>

definition ModeBinary :: nat where "ModeBinary = octal [0, 7, 5, 0]"
definition ModeConfig :: nat where "ModeConfig = octal [0, 6, 4, 0]"
definition ModeLogDir :: nat where "ModeLogDir = octal [0, 7, 5, 5]"
definition ModeLogFile :: nat where "ModeLogFile = octal [0, 6, 4, 0]"
definition ModeStateDir :: nat where "ModeStateDir = octal [0, 7, 5, 5]"
definition ModeUnitFile :: nat where "ModeUnitFile = octal [0, 6, 4, 4]"
definition ModeNginxConfig :: nat where "ModeNginxConfig = octal [0, 6, 4, 4]"

subsection \<open>Ownership, services, addresses\<close>

definition ServiceUser :: string where "ServiceUser = ''appuser''"
definition ServiceGroup :: string where "ServiceGroup = ''appuser''"
definition RootUser :: string where "RootUser = ''root''"
definition RootGroup :: string where "RootGroup = ''root''"
definition AppServiceName :: string where "AppServiceName = ''app.service''"
definition NginxServiceName :: string where "NginxServiceName = ''nginx''"
definition AppBindAddr :: string where "AppBindAddr = ''127.0.0.1:8080''"
definition NginxHTTPAddr :: string where "NginxHTTPAddr = ''0.0.0.0:80''"
definition NginxHTTPSAddr :: string where "NginxHTTPSAddr = ''0.0.0.0:443''"
definition AppLocalHostname :: string where "AppLocalHostname = ''app.local''"

subsection \<open>R2 reset targets\<close>

definition R2RestoreFiles :: "string list" where
  "R2RestoreFiles = [ConfigPath, UnitFilePath, NginxConfigPath]"

definition R2RestoreModes :: "(string \<times> nat) list" where
  "R2RestoreModes =
     [(BinaryPath, ModeBinary), (ConfigPath, ModeConfig), (StateDir, ModeStateDir), (LogDir, ModeLogDir)]"

lemmas path_defs = StatePath_def AuditPath_def LockPath_def BootstrapScript_def BinaryPath_def
  ConfigPath_def ChaosEnvPath_def LogDir_def LogPath_def StateDir_def StateTouchPath_def
  UnitFilePath_def NginxConfigPath_def TLSCertPath_def

lemmas mode_defs = ModeBinary_def ModeConfig_def ModeLogDir_def ModeLogFile_def ModeStateDir_def
  ModeUnitFile_def ModeNginxConfig_def

lemmas owner_defs = ServiceUser_def ServiceGroup_def RootUser_def RootGroup_def

subsection \<open>The embedded files\<close>

definition AppConfigLines :: "string list" where
  "AppConfigLines =
    [''# /etc/app/config.yaml'',
     ''# Canonical application configuration.'',
     ''# Owner: appuser:appuser  Mode: 0640'',
     ''#'',
     ''# This file is the R2 reset restore target.'',
     ''# Fault F-002 changes server.addr to 127.0.0.1:9090 '' @ u_emdash @
      '' P-002 check then fails.'',
     ''# Fault F-016 changes server.addr to 0.0.0.0:8080 '' @ u_emdash @ '' P-002 check then fails.'',
     ''# KnownFields strict parsing is enforced: unknown keys cause startup failure.'',
     [],
     ''server:'',
     ''  # addr is the TCP address the service binds to.'',
     ''  # Canonical value: 127.0.0.1:8080 (loopback only '' @ u_emdash @
      '' nginx proxies externally).'',
     ''  # Must match internal/config/config.go AppBindAddr.'',
     ''  addr: 127.0.0.1:8080'',
     [],
     ''# app_env is the runtime environment name.'',
     ''# Embedded in GET / response body: {'' @ [CHR 0x22] @ ''status'' @ [CHR 0x22] @ '':'' @
      [CHR 0x22] @ ''ok'' @ [CHR 0x22] @ '','' @ [CHR 0x22] @ ''env'' @ [CHR 0x22] @ '':'' @
      [CHR 0x22] @ ''<app_env>'' @ [CHR 0x22] @ ''}.'',
     ''# Control characters and newlines are stripped by the service at startup.'',
     ''# Canonical value: prod.'',
     ''app_env: prod'']"

definition EmbeddedAppConfig :: string where
  "EmbeddedAppConfig = str_join [nl] AppConfigLines"

definition UnitFileLines :: "string list" where
  "UnitFileLines =
    [''[Unit]'',
     ''Description=Lab environment subject application'',
     ''Documentation=https://github.com/lab_env/lab'',
     ''After=network.target'',
     ''Wants=network.target'',
     [],
     ''[Service]'',
     ''# '' @ u_hbar @ u_hbar @ '' Identity '' @ concat (replicate 65 u_hbar),
     ''Type=simple'',
     ''User=appuser'',
     ''Group=appuser'',
     [],
     ''# '' @ u_hbar @ u_hbar @ '' Binary '' @ concat (replicate 67 u_hbar),
     ''ExecStart=/opt/app/server'',
     ''WorkingDirectory=/var/lib/app'',
     [],
     ''# '' @ u_hbar @ u_hbar @ '' Environment '' @ concat (replicate 62 u_hbar),
     ''# app_env is the canonical runtime environment name.'',
     ''# Fault F-006 removes this line; F-017 overrides it via systemctl set-environment.'',
     ''Environment=APP_ENV=prod'',
     [],
     ''# Chaos injection interface (Application Runtime Contract '' @ u_section @ ''5).'',
     ''# This file is written by fault apply/recover operations.'',
     ''# An empty or missing file means no chaos is active.'',
     ''#'',
     ''# CRITICAL: this file must be mode 0644 owned by appuser:appuser (or at minimum'',
     ''# world-readable). The '' @ [CHR 0x27] @ ''-'' @ [CHR 0x27] @ '' prefix suppresses '' @
      [CHR 0x22] @ ''file not found'' @ [CHR 0x22] @ '' errors but also'',
     ''# silently suppresses permission errors '' @ u_emdash @
      '' if root creates this file with mode 0600,'',
     ''# the environment variables are silently ignored and chaos injection appears broken'',
     ''# with no visible error in the service logs or journald.'',
     ''EnvironmentFile=-/etc/app/chaos.env'',
     [],
     ''# '' @ u_hbar @ u_hbar @ '' Runtime limits '' @ concat (replicate 59 u_hbar),
     ''# Placed in app.slice per Application Runtime Contract '' @ u_section @ ''4.1.'',
     ''# MemoryMax=256M and CPUQuota=20% are enforced at the slice level, not here.'',
     ''Slice=app.slice'',
     [],
     ''# '' @ u_hbar @ u_hbar @ '' Logging '' @ concat (replicate 66 u_hbar),
     ''# The service writes structured JSON to /var/log/app/app.log directly (opened'',
     ''# by the logging package with O_APPEND). stdout/stderr go to journald.'',
     ''# StandardOutput=journal captures the service'' @ [CHR 0x27] @
      ''s Stderr() calls (early startup'',
     ''# errors before the log file opens, and post-shutdown messages).'',
     ''# StandardError=journal captures Go runtime panics and OOM stack traces.'',
     ''# Both are queryable via: journalctl -u app.service'',
     ''StandardOutput=journal'',
     ''StandardError=journal'',
     ''SyslogIdentifier=app'',
     [],
     ''# '' @ u_hbar @ u_hbar @ '' Lifecycle '' @ concat (replicate 64 u_hbar),
     ''# TimeoutStopSec must exceed ShutdownGrace in service/main.go (currently 5s).'',
     ''# 10s provides 5s headroom for telemetry flush, signal file cleanup, and'',
     ''# log file close. If shutdown consistently approaches 10s, increase to 15s'',
     ''# and investigate which step is slow.'',
     ''# If exceeded, systemd sends SIGKILL, leaving /run/app/ signal files dirty.'',
     ''TimeoutStopSec=10'',
     [],
     ''# Restart on unexpected exit (not on clean exit code 0).'',
     ''Restart=on-failure'',
     ''RestartSec=2'',
     [],
     ''# Limit restart attempts to prevent infinite loops during persistent faults.'',
     ''# F-001 (config missing), F-003 (config unreadable), F-005 (binary not executable)'',
     ''# all cause immediate startup failure. Without a limit, systemd will restart'',
     ''# indefinitely, hitting the built-in default rate limit (5 restarts in 10s)'',
     ''# which stops the unit entirely with start-limit-hit '' @ u_emdash @ '' making the lab'',
     ''# unresponsive. With this limit, the unit stops after 5 failures in 30s,'',
     ''# which is enough for the conformance suite to detect S-001 failure.'',
     ''StartLimitBurst=5'',
     ''StartLimitInterval=30s'',
     [],
     ''# '' @ u_hbar @ u_hbar @ '' Signal file directory '' @ concat (replicate 53 u_hbar),
     ''# /run/app is a tmpfs created by this unit and removed on stop.'',
     ''# The service writes PID, healthy, loading, status, and telemetry.json here.'',
     ''RuntimeDirectory=app'',
     ''RuntimeDirectoryMode=0755'',
     [],
     ''[Install]'',
     ''WantedBy=multi-user.target'']"

definition EmbeddedUnitFile :: string where
  "EmbeddedUnitFile = str_join [nl] UnitFileLines"

definition NginxConfigLines :: "string list" where
  "NginxConfigLines =
    [''# /etc/nginx/sites-enabled/app'',
     ''# Canonical nginx reverse proxy configuration.'',
     ''# Owner: root:root  Mode: 0644'',
     ''#'',
     ''# This file is the R2 reset restore target.'',
     ''#'',
     ''# Fault F-007 changes the upstream server address to 9090 '' @ u_emdash @
      '' E-series checks fail.'',
     ''# The upstream block is the single change point: one edit breaks all proxy blocks.'',
     ''# Fault F-015 appends an invalid directive '' @ u_emdash @ '' F-005 (nginx -t) check fails.'',
     ''#'',
     ''# Conforms to canonical-environment.md '' @ u_section @ ''4.3.'',
     [],
     ''# Named upstream block.'',
     ''# F-007 Apply replaces '' @ [CHR 0x22] @ ''server 127.0.0.1:8080'' @ [CHR 0x22] @ '' with '' @
      [CHR 0x22] @ ''server 127.0.0.1:9090'' @ [CHR 0x22] @ '' here.'',
     ''# Using a single upstream block means F-007 breaks all proxy blocks with one edit,'',
     ''# and there is no risk of partial fault application (one block changed, one not).'',
     ''upstream app_backend {'',
     ''    server 127.0.0.1:8080;'',
     ''}'',
     [],
     ''# HTTP '' @ u_rarrow @ '' HTTPS redirect (app.local)'',
     ''server {'',
     ''    listen 0.0.0.0:80;'',
     ''    server_name app.local;'',
     [],
     ''    return 301 https://$host$request_uri;'',
     ''}'',
     [],
     ''# HTTPS termination and upstream proxy (app.local)'',
     ''server {'',
     ''    listen 0.0.0.0:443 ssl;'',
     ''    server_name app.local;'',
     [],
     ''    # TLS configuration.'',
     ''    # Certificate is self-signed; E-005 uses -k (skip verify).'',
     ''    ssl_certificate     /etc/nginx/tls/app.local.crt;'',
     ''    ssl_certificate_key /etc/nginx/tls/app.local.key;'',
     ''    ssl_protocols       TLSv1.2 TLSv1.3;'',
     ''    ssl_ciphers         HIGH:!aNULL:!MD5;'',
     [],
     ''    location / {'',
     ''        proxy_pass         http://app_backend;'',
     ''        proxy_http_version 1.1;'',
     [],
     ''        proxy_set_header   Host              $host;'',
     ''        proxy_set_header   X-Real-IP         $remote_addr;'',
     ''        proxy_set_header   X-Forwarded-For   $proxy_add_x_forwarded_for;'',
     ''        proxy_set_header   X-Forwarded-Proto $scheme;'',
     [],
     ''        # E-004 conformance check: response must include X-Proxy: nginx.'',
     ''        # This header is added here '' @ u_emdash @ '' the service does NOT set it.'',
     ''        add_header         X-Proxy nginx always;'',
     [],
     ''        # Timeout: shorter than the service'' @ [CHR 0x27] @ ''s /slow endpoint (5s).'',
     ''        # F-011 baseline behavior: GET /slow via nginx returns 504;'',
     ''        # direct access to 127.0.0.1:8080/slow returns 200 after 5s.'',
     ''        proxy_read_timeout    3s;'',
     ''        proxy_send_timeout    3s;'',
     ''        proxy_connect_timeout 2s;'',
     ''        proxy_buffering       off;'',
     ''    }'',
     ''}'',
     [],
     ''# HTTP (non-TLS) for conformance checks P-003, E-001, E-002, E-003, E-004.'',
     ''# These checks use http://localhost which reaches this server block.'',
     ''#'',
     ''# Server block selection: nginx matches server_name exactly before falling back'',
     ''# to the default. A request with '' @ [CHR 0x22] @ ''Host: localhost'' @ [CHR 0x22] @
      '' matches this block'' @ [CHR 0x27] @ ''s'',
     ''# server_name localhost exactly, taking priority over server_name app.local.'',
     ''# default_server makes explicit what handles requests with no Host header.'',
     ''server {'',
     ''    listen 127.0.0.1:80 default_server;'',
     ''    server_name localhost;'',
     [],
     ''    location / {'',
     ''        proxy_pass         http://app_backend;'',
     ''        proxy_http_version 1.1;'',
     [],
     ''        proxy_set_header   Host              $host;'',
     ''        proxy_set_header   X-Real-IP         $remote_addr;'',
     ''        proxy_set_header   X-Forwarded-For   $proxy_add_x_forwarded_for;'',
     [],
     ''        # E-004 conformance check.'',
     ''        add_header         X-Proxy nginx always;'',
     [],
     ''        proxy_read_timeout    3s;'',
     ''        proxy_send_timeout    3s;'',
     ''        proxy_connect_timeout 2s;'',
     ''        proxy_buffering       off;'',
     ''    }'',
     ''}'']"

definition EmbeddedNginxConfig :: string where
  "EmbeddedNginxConfig = str_join [nl] NginxConfigLines"

end
