(* ===== verification/Json.thy ===== *)
theory Json
  imports GoBase
begin

text \<open>
  JSON texts, for the uses the program makes of \<open>encoding/json\<close>: \<open>Marshal\<close> and
  \<open>MarshalIndent\<close> print a value, \<open>Unmarshal\<close> parses a text. A number is kept as its
  literal. The printer is given by the white space of its layout, so that one function is
  both the compact and the indented form, and one round-trip theorem covers both.

  Strings are taken to be valid UTF-8 (for an invalid byte Go writes U+FFFD, this printer
  writes the byte), and the two line separators U+2028 and U+2029 are printed as they are
  where Go escapes them.
\<close>

datatype json =
    JNull
  | JBool bool
  | JNum string
  | JStr string
  | JArr "json list"
  | JObj "(string \<times> json) list"

subsection \<open>Printing\<close>

definition hex_digit :: "nat \<Rightarrow> char" where
  "hex_digit d = (if d < 10 then char_of (48 + d) else char_of (87 + d))"

text \<open>One byte of a string: the short escapes, \<open>\u00XX\<close> for the other control bytes and
  for \<open><\<close>, \<open>>\<close>, \<open>&\<close> (Go's HTML escaping), the byte itself otherwise.\<close>

definition escape_char :: "char \<Rightarrow> string" where
  "escape_char c =
     (let n = of_char c :: nat in
      if c = CHR 0x22 \<or> c = CHR 0x5C then [CHR 0x5C, c]
      else if n = 8 then [CHR 0x5C, CHR ''b'']
      else if n = 9 then [CHR 0x5C, CHR ''t'']
      else if n = 10 then [CHR 0x5C, CHR ''n'']
      else if n = 12 then [CHR 0x5C, CHR ''f'']
      else if n = 13 then [CHR 0x5C, CHR ''r'']
      else if n < 32 \<or> n = 60 \<or> n = 62 \<or> n = 38
        then [CHR 0x5C, CHR ''u'', CHR ''0'', CHR ''0'', hex_digit (n div 16), hex_digit (n mod 16)]
      else [c])"

definition quote :: "string \<Rightarrow> string" where
  "quote s = [CHR 0x22] @ concat (map escape_char s) @ [CHR 0x22]"

text \<open>
  \<open>print_json brk col d j\<close> prints \<open>j\<close> at depth \<open>d\<close>, with \<open>brk\<close> giving the white space of
  a line break at a depth and \<open>col\<close> the text between a key and its value.
\<close>

fun print_json :: "(nat \<Rightarrow> string) \<Rightarrow> string \<Rightarrow> nat \<Rightarrow> json \<Rightarrow> string"
and print_elems :: "(nat \<Rightarrow> string) \<Rightarrow> string \<Rightarrow> nat \<Rightarrow> json list \<Rightarrow> string"
and print_members :: "(nat \<Rightarrow> string) \<Rightarrow> string \<Rightarrow> nat \<Rightarrow> (string \<times> json) list \<Rightarrow> string" where
  "print_json brk col d JNull = ''null''"
| "print_json brk col d (JBool b) = (if b then ''true'' else ''false'')"
| "print_json brk col d (JNum s) = s"
| "print_json brk col d (JStr s) = quote s"
| "print_json brk col d (JArr xs) =
     (if xs = [] then ''[]''
      else ''['' @ brk (Suc d) @ print_elems brk col (Suc d) xs @ brk d @ '']'')"
| "print_json brk col d (JObj kvs) =
     (if kvs = [] then ''{}''
      else ''{'' @ brk (Suc d) @ print_members brk col (Suc d) kvs @ brk d @ ''}'')"
| "print_elems brk col d [] = []"
| "print_elems brk col d (x # xs) =
     print_json brk col d x @ (if xs = [] then [] else '','' @ brk d @ print_elems brk col d xs)"
| "print_members brk col d [] = []"
| "print_members brk col d ((k, v) # kvs) =
     quote k @ col @ print_json brk col d v @
     (if kvs = [] then [] else '','' @ brk d @ print_members brk col d kvs)"

text \<open>\<open>json.Marshal\<close> and \<open>json.MarshalIndent(v, "", "  ")\<close>.\<close>

definition json_marshal :: "json \<Rightarrow> string" where
  "json_marshal j = print_json (\<lambda>_. []) '':'' 0 j"

definition json_marshal_indent :: "json \<Rightarrow> string" where
  "json_marshal_indent j =
     print_json (\<lambda>d. nl # replicate (2 * d) (CHR '' '')) '': '' 0 j"

subsection \<open>Parsing\<close>

definition json_ws :: "char \<Rightarrow> bool" where
  "json_ws c \<longleftrightarrow> of_char c \<in> {9, 10, 13, 32 :: nat}"

abbreviation skip_ws :: "string \<Rightarrow> string" where
  "skip_ws \<equiv> dropWhile json_ws"

definition hex_val :: "char \<Rightarrow> nat option" where
  "hex_val c =
     (let n = of_char c :: nat in
      if 48 \<le> n \<and> n \<le> 57 then Some (n - 48)
      else if 97 \<le> n \<and> n \<le> 102 then Some (n - 87)
      else if 65 \<le> n \<and> n \<le> 70 then Some (n - 55)
      else None)"

text \<open>The UTF-8 encoding of a code point.\<close>

definition utf8 :: "nat \<Rightarrow> string" where
  "utf8 u =
     (if u < 128 then [char_of u]
      else if u < 2048 then [char_of (192 + u div 64), char_of (128 + u mod 64)]
      else if u < 65536 then
        [char_of (224 + u div 4096), char_of (128 + u div 64 mod 64), char_of (128 + u mod 64)]
      else
        [char_of (240 + u div 262144), char_of (128 + u div 4096 mod 64),
         char_of (128 + u div 64 mod 64), char_of (128 + u mod 64)])"

fun hex4 :: "string \<Rightarrow> (nat \<times> string) option" where
  "hex4 (a # b # c # d # r) =
     (case (hex_val a, hex_val b, hex_val c, hex_val d) of
        (Some w, Some x, Some y, Some z) \<Rightarrow> Some (((w * 16 + x) * 16 + y) * 16 + z, r)
      | _ \<Rightarrow> None)"
| "hex4 _ = None"

text \<open>What follows \<open>\u\<close>: a surrogate pair is one code point, a lone surrogate is U+FFFD.\<close>

definition unescape_u :: "string \<Rightarrow> (string \<times> string) option" where
  "unescape_u s =
     (case hex4 s of None \<Rightarrow> None
      | Some (u, r) \<Rightarrow>
          if 55296 \<le> u \<and> u < 56320 then
            (case r of b # e # r' \<Rightarrow>
               if b = CHR 0x5C \<and> e = CHR ''u'' then
                 (case hex4 r' of
                    Some (v, r'') \<Rightarrow>
                      if 56320 \<le> v \<and> v < 57344
                      then Some (utf8 (65536 + (u - 55296) * 1024 + (v - 56320)), r'')
                      else Some (utf8 65533, r)
                  | None \<Rightarrow> Some (utf8 65533, r))
               else Some (utf8 65533, r)
             | _ \<Rightarrow> Some (utf8 65533, r))
          else if 56320 \<le> u \<and> u < 57344 then Some (utf8 65533, r)
          else Some (utf8 u, r))"

text \<open>What follows a backslash: the bytes it stands for and the rest.\<close>

fun unescape :: "string \<Rightarrow> (string \<times> string) option" where
  "unescape [] = None"
| "unescape (e # r) =
     (if e = CHR ''u'' then unescape_u r
      else if e = CHR 0x22 \<or> e = CHR 0x5C \<or> e = CHR ''/'' then Some ([e], r)
      else if e = CHR ''b'' then Some ([char_of (8::nat)], r)
      else if e = CHR ''f'' then Some ([char_of (12::nat)], r)
      else if e = CHR ''n'' then Some ([char_of (10::nat)], r)
      else if e = CHR ''r'' then Some ([char_of (13::nat)], r)
      else if e = CHR ''t'' then Some ([char_of (9::nat)], r)
      else None)"

lemma hex4_shorter: "hex4 s = Some (u, r) \<Longrightarrow> length r < length s"
  by (cases s rule: hex4.cases) (auto split: option.splits)

lemma unescape_shorter: "unescape s = Some (x, r) \<Longrightarrow> length r < length s"
proof (cases s)
  case Nil
  moreover assume "unescape s = Some (x, r)"
  ultimately show ?thesis by simp
next
  case (Cons e t)
  assume h: "unescape s = Some (x, r)"
  show ?thesis
  proof (cases "e = CHR ''u''")
    case True
    with h Cons have "unescape_u t = Some (x, r)" by simp
    then have "length r < length t"
      by (auto simp: unescape_u_def dest!: hex4_shorter split: option.splits list.splits if_splits)
    with Cons show ?thesis by simp
  next
    case False
    with h Cons show ?thesis by (auto split: if_splits)
  qed
qed

text \<open>The body of a string, after its opening quote.\<close>

function parse_str :: "string \<Rightarrow> (string \<times> string) option" where
  "parse_str [] = None"
| "parse_str (c # s) =
     (if c = CHR 0x22 then Some ([], s)
      else if c = CHR 0x5C then
        (case unescape s of None \<Rightarrow> None
         | Some (x, t) \<Rightarrow> map_option (\<lambda>(y, u). (x @ y, u)) (parse_str t))
      else if of_char c < (32::nat) then None
      else map_option (\<lambda>(y, u). (c # y, u)) (parse_str s))"
  by pat_completeness auto
termination
  by (relation "measure length") (auto dest: unescape_shorter)

text \<open>Numbers: \<open>-?(0|[1-9][0-9]*)(.[0-9]+)?([eE][+-]?[0-9]+)?\<close>.\<close>

definition num_char :: "char \<Rightarrow> bool" where
  "num_char c \<longleftrightarrow> is_digit c \<or> c \<in> {CHR ''-'', CHR ''+'', CHR ''.'', CHR ''e'', CHR ''E''}"

definition digits_span :: "string \<Rightarrow> string \<times> string" where
  "digits_span s = (takeWhile is_digit s, dropWhile is_digit s)"

definition valid_exp :: "string \<Rightarrow> bool" where
  "valid_exp s =
     (case s of [] \<Rightarrow> True
      | e # r \<Rightarrow> (e = CHR ''e'' \<or> e = CHR ''E'') \<and>
          (let t = (case r of c # q \<Rightarrow> if c = CHR ''+'' \<or> c = CHR ''-'' then q else r | [] \<Rightarrow> [])
           in t \<noteq> [] \<and> list_all is_digit t))"

definition valid_frac :: "string \<Rightarrow> bool" where
  "valid_frac s =
     (case s of c # r \<Rightarrow>
        if c = CHR ''.'' then (case digits_span r of (ds, t) \<Rightarrow> ds \<noteq> [] \<and> valid_exp t)
        else valid_exp s
      | [] \<Rightarrow> True)"

definition valid_num :: "string \<Rightarrow> bool" where
  "valid_num s =
     (let t = (case s of c # r \<Rightarrow> if c = CHR ''-'' then r else s | [] \<Rightarrow> [])
      in (case digits_span t of (ds, r) \<Rightarrow>
            ds \<noteq> [] \<and> (hd ds = CHR ''0'' \<longrightarrow> length ds = 1) \<and> valid_frac r))"

text \<open>
  Values, with fuel for the nesting and the elements; \<open>parse_json\<close> below supplies more fuel
  than a text of its length can use.
\<close>

fun parse_value :: "nat \<Rightarrow> string \<Rightarrow> (json \<times> string) option"
and parse_elems :: "nat \<Rightarrow> string \<Rightarrow> (json list \<times> string) option"
and parse_members :: "nat \<Rightarrow> string \<Rightarrow> ((string \<times> json) list \<times> string) option" where
  "parse_value 0 s = None"
| "parse_value (Suc n) s =
     (case skip_ws s of [] \<Rightarrow> None
      | c # r \<Rightarrow>
          if c = CHR 0x22 then map_option (\<lambda>(x, t). (JStr x, t)) (parse_str r)
          else if c = CHR ''['' then
            (case skip_ws r of
               d # t \<Rightarrow> if d = CHR '']'' then Some (JArr [], t)
                        else map_option (\<lambda>(xs, u). (JArr xs, u)) (parse_elems n r)
             | [] \<Rightarrow> None)
          else if c = CHR ''{'' then
            (case skip_ws r of
               d # t \<Rightarrow> if d = CHR ''}'' then Some (JObj [], t)
                        else map_option (\<lambda>(kvs, u). (JObj kvs, u)) (parse_members n r)
             | [] \<Rightarrow> None)
          else if c = CHR ''n'' then
            (if has_prefix r ''ull'' then Some (JNull, drop 3 r) else None)
          else if c = CHR ''t'' then
            (if has_prefix r ''rue'' then Some (JBool True, drop 3 r) else None)
          else if c = CHR ''f'' then
            (if has_prefix r ''alse'' then Some (JBool False, drop 4 r) else None)
          else (let s' = takeWhile num_char (c # r) in
                if valid_num s' then Some (JNum s', dropWhile num_char (c # r)) else None))"
| "parse_elems 0 s = None"
| "parse_elems (Suc n) s =
     (case parse_value n s of None \<Rightarrow> None
      | Some (x, r) \<Rightarrow>
          (case skip_ws r of [] \<Rightarrow> None
           | c # t \<Rightarrow>
               if c = CHR '','' then map_option (\<lambda>(xs, u). (x # xs, u)) (parse_elems n t)
               else if c = CHR '']'' then Some ([x], t)
               else None))"
| "parse_members 0 s = None"
| "parse_members (Suc n) s =
     (case skip_ws s of [] \<Rightarrow> None
      | q # r \<Rightarrow>
          if q \<noteq> CHR 0x22 then None
          else (case parse_str r of None \<Rightarrow> None
                | Some (k, t) \<Rightarrow>
                    (case skip_ws t of [] \<Rightarrow> None
                     | c # u \<Rightarrow>
                         if c \<noteq> CHR '':'' then None
                         else (case parse_value n u of None \<Rightarrow> None
                               | Some (v, w) \<Rightarrow>
                                   (case skip_ws w of [] \<Rightarrow> None
                                    | e # x \<Rightarrow>
                                        if e = CHR '','' then
                                          map_option (\<lambda>(kvs, y). ((k, v) # kvs, y)) (parse_members n x)
                                        else if e = CHR ''}'' then Some ([(k, v)], x)
                                        else None)))))"

text \<open>The syntax check and parse of \<open>json.Unmarshal\<close>: one value, then only white space.\<close>

definition parse_json :: "string \<Rightarrow> json option" where
  "parse_json s =
     (case parse_value (Suc (2 * length s)) s of
        Some (j, r) \<Rightarrow> if skip_ws r = [] then Some j else None
      | None \<Rightarrow> None)"

subsection \<open>Printing then parsing\<close>

lemma nat_of_char_lt: "of_char c < (256 :: nat)"
  by simp

lemma char_of_of_char [simp]: "char_of (of_char c :: nat) = c"
  by simp

lemma hex_val_digit: "d < 16 \<Longrightarrow> hex_val (hex_digit d) = Some d"
  by (simp add: hex_val_def hex_digit_def)

lemma hex4_byte:
  "n < 256 \<Longrightarrow> hex4 (CHR ''0'' # CHR ''0'' # hex_digit (n div 16) # hex_digit (n mod 16) # r) = Some (n, r)"
proof -
  assume n: "n < 256"
  have z: "hex_val (CHR ''0'') = Some 0" by (simp add: hex_val_def)
  have d: "n div 16 < 16" "n mod 16 < 16" using n by auto
  show ?thesis by (simp add: z hex_val_digit [OF d(1)] hex_val_digit [OF d(2)])
qed

lemma parse_str_escape:
  "parse_str (escape_char c @ t) = map_option (\<lambda>(y, u). (c # y, u)) (parse_str t)"
proof -
  define n where "n = (of_char c :: nat)"
  have n: "n < 256" "char_of n = c" by (simp_all add: n_def)
  consider (q) "c = CHR 0x22 \<or> c = CHR 0x5C" | (short) "n \<in> {8, 9, 10, 12, 13}"
    | (u) "\<not> (c = CHR 0x22 \<or> c = CHR 0x5C)" "n \<notin> {8, 9, 10, 12, 13}" "n < 32 \<or> n = 60 \<or> n = 62 \<or> n = 38"
    | (plain) "\<not> (c = CHR 0x22 \<or> c = CHR 0x5C)" "\<not> (n < 32 \<or> n = 60 \<or> n = 62 \<or> n = 38)"
    by blast
  then show ?thesis
  proof cases
    case q
    then show ?thesis by (auto simp: escape_char_def)
  next
    case short
    then have "c \<in> {char_of (8::nat), char_of (9::nat), char_of (10::nat), char_of (12::nat), char_of (13::nat)}"
      using n by auto
    then show ?thesis by (auto simp: escape_char_def)
  next
    case u
    then have e: "escape_char c = [CHR 0x5C, CHR ''u'', CHR ''0'', CHR ''0'', hex_digit (n div 16), hex_digit (n mod 16)]"
      by (auto simp: escape_char_def n_def Let_def)
    have "n < 128" using u by auto
    then have "utf8 n = [c]" using n by (simp add: utf8_def)
    with \<open>n < 128\<close> have "unescape_u (CHR ''0'' # CHR ''0'' # hex_digit (n div 16) # hex_digit (n mod 16) # t) = Some ([c], t)"
      by (simp only: unescape_u_def hex4_byte [OF n(1)]) simp
    with e show ?thesis by simp
  next
    case plain
    then have "escape_char c = [c]" by (auto simp: escape_char_def n_def Let_def)
    moreover have "\<not> (of_char c < (32::nat))" using plain by (simp add: n_def)
    ultimately show ?thesis using plain by simp
  qed
qed

lemma parse_str_quote:
  "parse_str (concat (map escape_char s) @ CHR 0x22 # r) = Some (s, r)"
  by (induction s) (simp_all add: parse_str_escape)

fun json_ok :: "json \<Rightarrow> bool" and elems_ok :: "json list \<Rightarrow> bool"
and members_ok :: "(string \<times> json) list \<Rightarrow> bool" where
  "json_ok (JNum s) = valid_num s"
| "json_ok (JArr xs) = elems_ok xs"
| "json_ok (JObj kvs) = members_ok kvs"
| "json_ok _ = True"
| "elems_ok [] = True"
| "elems_ok (x # xs) = (json_ok x \<and> elems_ok xs)"
| "members_ok [] = True"
| "members_ok ((k, v) # kvs) = (json_ok v \<and> members_ok kvs)"

fun json_fuel :: "json \<Rightarrow> nat" and elems_fuel :: "json list \<Rightarrow> nat"
and members_fuel :: "(string \<times> json) list \<Rightarrow> nat" where
  "json_fuel (JArr xs) = Suc (elems_fuel xs)"
| "json_fuel (JObj kvs) = Suc (members_fuel kvs)"
| "json_fuel _ = 1"
| "elems_fuel [] = 0"
| "elems_fuel (x # xs) = Suc (max (json_fuel x) (elems_fuel xs))"
| "members_fuel [] = 0"
| "members_fuel ((k, v) # kvs) = Suc (max (json_fuel v) (members_fuel kvs))"

lemma digit_num_char: "is_digit c \<Longrightarrow> num_char c"
  by (simp add: num_char_def)

lemma digits_num: "list_all is_digit s \<Longrightarrow> list_all num_char s"
  by (simp add: list_all_iff digit_num_char)

lemma valid_exp_num: "valid_exp s \<Longrightarrow> list_all num_char s"
proof (cases s)
  case (Cons e r)
  assume "valid_exp s"
  with Cons have e: "e = CHR ''e'' \<or> e = CHR ''E''"
    and t: "list_all is_digit (case r of c # q \<Rightarrow> if c = CHR ''+'' \<or> c = CHR ''-'' then q else r | [] \<Rightarrow> [])"
    by (auto simp: valid_exp_def Let_def)
  have "list_all num_char r"
    using t by (cases r) (auto dest: digits_num simp: num_char_def split: if_splits)
  with e Cons show ?thesis by (auto simp: num_char_def)
qed simp

lemma digits_span_append: "digits_span s = (ds, t) \<Longrightarrow> s = ds @ t \<and> list_all is_digit ds"
  by (auto simp: digits_span_def list_all_iff dest: set_takeWhileD)

lemma valid_frac_num: "valid_frac s \<Longrightarrow> list_all num_char s"
proof (cases s)
  case (Cons c r)
  assume v: "valid_frac s"
  show ?thesis
  proof (cases "c = CHR ''.''")
    case True
    obtain ds t where d: "digits_span r = (ds, t)" by (cases "digits_span r")
    with v Cons True have "valid_exp t" by (simp add: valid_frac_def)
    with digits_span_append [OF d] have "list_all num_char r"
      by (simp add: digits_num valid_exp_num)
    with Cons True show ?thesis by (simp add: num_char_def)
  next
    case False
    with v Cons have "valid_exp s" by (simp add: valid_frac_def)
    then show ?thesis by (rule valid_exp_num)
  qed
qed simp

lemma valid_num_chars: "valid_num s \<Longrightarrow> list_all num_char s \<and> (\<exists>c r. s = c # r \<and> (c = CHR ''-'' \<or> is_digit c))"
proof -
  assume v: "valid_num s"
  define t where "t = (case s of c # r \<Rightarrow> if c = CHR ''-'' then r else s | [] \<Rightarrow> [])"
  obtain ds r where d: "digits_span t = (ds, r)" by (cases "digits_span t")
  with v have ds: "ds \<noteq> []" and fr: "valid_frac r" by (simp_all add: valid_num_def t_def Let_def)
  with digits_span_append [OF d] have t: "list_all num_char t" and hd: "\<exists>c q. t = c # q \<and> is_digit c"
    by (auto simp: digits_num valid_frac_num neq_Nil_conv)
  show ?thesis
  proof (cases s)
    case Nil
    with hd show ?thesis by (simp add: t_def)
  next
    case (Cons c q)
    with t hd show ?thesis by (cases "c = CHR ''-''") (auto simp: t_def num_char_def)
  qed
qed

definition stop :: "string \<Rightarrow> bool" where
  "stop r \<longleftrightarrow> (case r of [] \<Rightarrow> True | c # _ \<Rightarrow> \<not> num_char c)"

definition layout :: "(nat \<Rightarrow> string) \<Rightarrow> string \<Rightarrow> bool" where
  "layout brk col \<longleftrightarrow> (\<forall>d. list_all json_ws (brk d)) \<and> (\<exists>w. col = CHR '':'' # w \<and> list_all json_ws w)"

lemma skip_ws_append: "list_all json_ws w \<Longrightarrow> skip_ws (w @ s) = skip_ws s"
  by (induction w) auto

lemma takeWhile_stop: "list_all p s \<Longrightarrow> (case r of [] \<Rightarrow> True | c # _ \<Rightarrow> \<not> p c) \<Longrightarrow> takeWhile p (s @ r) = s \<and> dropWhile p (s @ r) = r"
  by (induction s) (auto split: list.splits)

text \<open>The first character of a value decides the parser's branch.\<close>

lemma print_start:
  "json_ok j \<Longrightarrow> \<exists>c s. print_json brk col d j = c # s \<and> \<not> json_ws c \<and> c \<noteq> CHR '']'' \<and> c \<noteq> CHR ''}''"
proof (cases j)
  case (JNum s)
  assume "json_ok j"
  with JNum obtain c r where c: "s = c # r" "c = CHR ''-'' \<or> is_digit c"
    using valid_num_chars [of s] by (metis json_ok.simps(1))
  from c(2) have "\<not> json_ws c \<and> c \<noteq> CHR '']'' \<and> c \<noteq> CHR ''}''"
    by (auto simp: json_ws_def is_digit_def)
  with c JNum show ?thesis by simp
qed (auto simp: quote_def json_ws_def)

lemma ws_not_num: "json_ws c \<Longrightarrow> \<not> num_char c"
  by (auto simp: json_ws_def num_char_def is_digit_def)

lemma sep_not_num: "\<not> num_char (CHR '','')" "\<not> num_char (CHR '']'')" "\<not> num_char (CHR ''}'')"
  by (simp_all add: num_char_def is_digit_def)

lemma stop_ws: "list_all json_ws w \<Longrightarrow> c \<in> {CHR '','', CHR '']'', CHR ''}''} \<Longrightarrow> stop (w @ c # r)"
  by (cases w) (auto simp: stop_def ws_not_num sep_not_num)

lemma parse_num:
  assumes v: "valid_num s" and r: "stop r" and w: "list_all json_ws w"
  shows "parse_value (Suc n) (w @ s @ r) = Some (JNum s, r)"
proof -
  obtain c q where c: "s = c # q" "c = CHR ''-'' \<or> is_digit c" and all: "list_all num_char s"
    using valid_num_chars [OF v] by blast
  have ws: "\<not> json_ws c" using c(2) by (auto simp: json_ws_def is_digit_def)
  have br: "c \<noteq> CHR 0x22" "c \<noteq> CHR ''[''" "c \<noteq> CHR ''{''" "c \<noteq> CHR ''n''" "c \<noteq> CHR ''t''" "c \<noteq> CHR ''f''"
    using c(2) by (auto simp: is_digit_def)
  have span: "takeWhile num_char (s @ r) = s" "dropWhile num_char (s @ r) = r"
    using takeWhile_stop [of num_char s r] all r by (auto simp: stop_def split: list.splits)
  have skip: "skip_ws (w @ s @ r) = c # (q @ r)"
    using w ws c(1) by (simp add: skip_ws_append)
  have sr: "c # (q @ r) = s @ r" using c(1) by simp
  show ?thesis
    by (subst parse_value.simps(2))
       (simp only: skip list.case br if_False Let_def, simp only: sr span v if_True)
qed

lemma not_ws_brackets: "\<not> json_ws (CHR '','')" "\<not> json_ws (CHR '']'')" "\<not> json_ws (CHR ''}'')"
  "\<not> json_ws (CHR '':'')" "\<not> json_ws (CHR 0x22)" "\<not> json_ws (CHR ''['')" "\<not> json_ws (CHR ''{'')"
  by (simp_all add: json_ws_def)

lemma not_ws_letters: "\<not> json_ws (CHR ''n'')" "\<not> json_ws (CHR ''t'')" "\<not> json_ws (CHR ''f'')"
  by (simp_all add: json_ws_def)

lemmas not_ws_start = not_ws_brackets not_ws_letters

lemma skip_ws_sep [simp]:
  "list_all json_ws w \<Longrightarrow> \<not> json_ws c \<Longrightarrow> skip_ws (w @ c # r) = c # r"
  by (simp add: skip_ws_append)

lemma print_elems_start:
  "elems_ok xs \<Longrightarrow> xs \<noteq> [] \<Longrightarrow>
     \<exists>c s. print_elems brk col d xs = c # s \<and> \<not> json_ws c \<and> c \<noteq> CHR '']''"
  using print_start by (cases xs) fastforce+

declare parse_value.simps [simp del] parse_elems.simps [simp del] parse_members.simps [simp del]

lemmas parse_simps = parse_value.simps parse_elems.simps parse_members.simps

lemma parse_print:
  assumes lay: "layout brk col"
  shows "json_ok j \<Longrightarrow> json_fuel j \<le> n \<Longrightarrow> list_all json_ws w \<Longrightarrow> stop r \<Longrightarrow>
           parse_value n (w @ print_json brk col d j @ r) = Some (j, r)"
    and "elems_ok xs \<Longrightarrow> elems_fuel xs \<le> m \<Longrightarrow> list_all json_ws u \<Longrightarrow> list_all json_ws v \<Longrightarrow> xs \<noteq> [] \<Longrightarrow>
           parse_elems m (u @ print_elems brk col d xs @ v @ CHR '']'' # r') = Some (xs, r')"
    and "members_ok kvs \<Longrightarrow> members_fuel kvs \<le> k \<Longrightarrow> list_all json_ws u' \<Longrightarrow> list_all json_ws v' \<Longrightarrow> kvs \<noteq> [] \<Longrightarrow>
           parse_members k (u' @ print_members brk col d kvs @ v' @ CHR ''}'' # r'') = Some (kvs, r'')"
proof (induction j and xs and kvs arbitrary: n w r d and m u v r' d and k u' v' r'' d
    rule: json_ok_elems_ok_members_ok.induct)
  case (1 s)
  then show ?case
    by (cases n) (auto simp: parse_num)
next
  case (2 xs)
  obtain n' where n: "n = Suc n'" using "2.prems"(2) by (cases n) auto
  show ?case
  proof (cases "xs = []")
    case True
    with "2.prems" n show ?thesis by (simp add: parse_simps not_ws_start)
  next
    case False
    define t where "t = brk (Suc d) @ print_elems brk col (Suc d) xs @ brk d @ CHR '']'' # r"
    have ws: "list_all json_ws (brk (Suc d))" "list_all json_ws (brk d)" using lay by (auto simp: layout_def)
    have p: "parse_elems n' t = Some (xs, r)"
      unfolding t_def using "2.IH" [of n' "brk (Suc d)" "brk d" "Suc d" r] "2.prems" n ws False by simp
    obtain c s where c: "print_elems brk col (Suc d) xs = c # s" "\<not> json_ws c" "c \<noteq> CHR '']''"
      using print_elems_start [of xs brk col "Suc d"] "2.prems"(1) False by auto
    have sk: "skip_ws t = c # s @ brk d @ CHR '']'' # r" using c ws by (simp add: t_def)
    have "w @ print_json brk col d (JArr xs) @ r = w @ CHR ''['' # t" using False by (simp add: t_def)
    then show ?thesis using "2.prems"(3) c(3) p sk by (simp add: n parse_simps not_ws_start)
  qed
next
  case (3 kvs)
  obtain n' where n: "n = Suc n'" using "3.prems"(2) by (cases n) auto
  show ?case
  proof (cases "kvs = []")
    case True
    with "3.prems" n show ?thesis by (simp add: parse_simps not_ws_start)
  next
    case False
    define t where "t = brk (Suc d) @ print_members brk col (Suc d) kvs @ brk d @ CHR ''}'' # r"
    have ws: "list_all json_ws (brk (Suc d))" "list_all json_ws (brk d)" using lay by (auto simp: layout_def)
    have p: "parse_members n' t = Some (kvs, r)"
      unfolding t_def using "3.IH" [of n' "brk (Suc d)" "brk d" "Suc d" r] "3.prems" n ws False by simp
    obtain s where c: "print_members brk col (Suc d) kvs = CHR 0x22 # s"
      using False by (cases kvs) (auto simp: quote_def)
    have sk: "skip_ws t = CHR 0x22 # s @ brk d @ CHR ''}'' # r"
      using c ws by (simp add: t_def not_ws_start)
    have "w @ print_json brk col d (JObj kvs) @ r = w @ CHR ''{'' # t" using False by (simp add: t_def)
    then show ?thesis using "3.prems"(3) p sk by (simp add: n parse_simps not_ws_start)
  qed
next
  case "4_1"
  then show ?case by (cases n) (simp_all add: parse_simps not_ws_start)
next
  case "4_2"
  then show ?case by (cases n) (simp_all add: parse_simps not_ws_start)
next
  case "4_3"
  then show ?case by (cases n) (simp_all add: parse_simps not_ws_start quote_def parse_str_quote)
next
  case 5
  then show ?case by simp
next
  case (6 x xs)
  obtain m' where m: "m = Suc m'" using "6.prems"(2) by (cases m) auto
  have ws: "list_all json_ws (brk d)" using lay by (auto simp: layout_def)
  show ?case
  proof (cases "xs = []")
    case True
    have "parse_value m' (u @ print_json brk col d x @ v @ CHR '']'' # r') = Some (x, v @ CHR '']'' # r')"
      using "6.prems" m by (intro "6.IH"(1)) (auto simp: stop_ws)
    with True "6.prems"(4) show ?thesis by (simp add: m parse_simps not_ws_start)
  next
    case False
    define t where "t = brk d @ print_elems brk col d xs @ v @ CHR '']'' # r'"
    have "parse_value m' (u @ print_json brk col d x @ CHR '','' # t) = Some (x, CHR '','' # t)"
      using "6.prems" m stop_ws [of "[]"] by (intro "6.IH"(1)) auto
    moreover have "parse_elems m' t = Some (xs, r')"
      unfolding t_def using "6.prems" m ws False by (intro "6.IH"(2)) auto
    ultimately show ?thesis using False by (simp add: m parse_simps not_ws_start t_def)
  qed
next
  case 7
  then show ?case by simp
next
  case (8 key x kvs)
  obtain k' where k: "k = Suc k'" using "8.prems"(2) by (cases k) auto
  obtain cw where col: "col = CHR '':'' # cw" "list_all json_ws cw" using lay by (auto simp: layout_def)
  have ws: "list_all json_ws (brk d)" using lay by (auto simp: layout_def)
  show ?case
  proof (cases "kvs = []")
    case True
    have "parse_value k' (cw @ print_json brk col d x @ v' @ CHR ''}'' # r'') = Some (x, v' @ CHR ''}'' # r'')"
      using "8.prems" k col(2) by (intro "8.IH"(1)) (auto simp: stop_ws)
    with True "8.prems"(3,4) show ?thesis
      by (simp add: k parse_simps not_ws_start quote_def parse_str_quote col(1))
  next
    case False
    define t where "t = brk d @ print_members brk col d kvs @ v' @ CHR ''}'' # r''"
    have "parse_value k' (cw @ print_json brk col d x @ CHR '','' # t) = Some (x, CHR '','' # t)"
      using "8.prems" k col(2) stop_ws [of "[]"] by (intro "8.IH"(1)) auto
    moreover have "parse_members k' t = Some (kvs, r'')"
      unfolding t_def using "8.prems" k ws False by (intro "8.IH"(2)) auto
    ultimately show ?thesis using False "8.prems"(3)
      by (simp add: k parse_simps not_ws_start quote_def parse_str_quote col(1) t_def)
  qed
qed

lemma fuel_le_length:
  shows "json_ok j \<Longrightarrow> json_fuel j \<le> length (print_json brk col d j)"
    and "elems_ok xs \<Longrightarrow> elems_fuel xs \<le> Suc (length (print_elems brk col d xs))"
    and "members_ok kvs \<Longrightarrow> members_fuel kvs \<le> Suc (length (print_members brk col d kvs))"
proof (induction j and xs and kvs arbitrary: d and d and d rule: json_ok_elems_ok_members_ok.induct)
  case (1 s)
  then obtain c r where "s = c # r" using valid_num_chars [of s] by auto
  then show ?case by simp
next
  case (2 xs)
  show ?case using "2.IH" [of "Suc d"] "2.prems" by (cases "xs = []") auto
next
  case (3 kvs)
  show ?case using "3.IH" [of "Suc d"] "3.prems" by (cases "kvs = []") auto
next
  case (6 x xs)
  show ?case using "6.IH"(1) [of d] "6.IH"(2) [of d] "6.prems" by (cases "xs = []") auto
next
  case (8 k x kvs)
  show ?case using "8.IH"(1) [of d] "8.IH"(2) [of d] "8.prems" by (cases "kvs = []") (auto simp: quote_def)
qed (auto simp: quote_def)

lemma json_roundtrip:
  assumes "layout brk col" and "json_ok j"
  shows "parse_json (print_json brk col d j) = Some j"
proof -
  have "json_fuel j \<le> Suc (2 * length (print_json brk col d j))"
    using fuel_le_length(1) [OF assms(2), of brk col d] by simp
  then have "parse_value (Suc (2 * length (print_json brk col d j))) ([] @ print_json brk col d j @ []) = Some (j, [])"
    using assms by (intro parse_print(1)) (auto simp: stop_def)
  then show ?thesis by (simp add: parse_json_def)
qed

lemma layout_compact: "layout (\<lambda>_. []) '':''"
  by (simp add: layout_def)

lemma layout_indent: "layout (\<lambda>d. nl # replicate (2 * d) (CHR '' '')) '': ''"
  by (simp add: layout_def json_ws_def nl_def list_all_iff)

lemma parse_marshal: "json_ok j \<Longrightarrow> parse_json (json_marshal j) = Some j"
  unfolding json_marshal_def by (rule json_roundtrip [OF layout_compact])

lemma parse_marshal_indent: "json_ok j \<Longrightarrow> parse_json (json_marshal_indent j) = Some j"
  unfolding json_marshal_indent_def by (rule json_roundtrip [OF layout_indent])

lemma nat_str_no_leading_zero: "0 < n \<Longrightarrow> hd (nat_str n) \<noteq> CHR ''0''"
proof (induction n rule: nat_str.induct)
  case (1 n)
  show ?case
  proof (cases "n < 10")
    case True
    with 1 have "of_char (digit_char n) \<noteq> (of_char (CHR ''0'') :: nat)"
      by (simp add: of_char_digit)
    then have "digit_char n \<noteq> CHR ''0''" by metis
    with True show ?thesis by (subst nat_str.simps) simp
  next
    case False
    with 1 have "hd (nat_str (n div 10)) \<noteq> CHR ''0''" by simp
    with False show ?thesis by (subst nat_str.simps) (simp add: hd_append)
  qed
qed

lemma digits_span_all: "list_all is_digit s \<Longrightarrow> digits_span s = (s, [])"
  by (simp add: digits_span_def list_all_iff)

lemma valid_num_nat_str: "valid_num (nat_str n) \<and> valid_num (CHR ''-'' # nat_str n)"
proof -
  obtain c r where c: "nat_str n = c # r" by (cases "nat_str n") auto
  with nat_str_digits [of n] not_digit_sign have "c \<noteq> CHR ''-''" by auto
  moreover have "hd (nat_str n) = CHR ''0'' \<longrightarrow> length (nat_str n) = 1"
  proof (cases "n = 0")
    case True
    then show ?thesis by (subst nat_str.simps) simp
  next
    case False
    then show ?thesis using nat_str_no_leading_zero by simp
  qed
  ultimately show ?thesis
    using c digits_span_all [OF nat_str_digits [of n]] by (simp add: valid_num_def valid_frac_def)
qed

lemma valid_num_itoa [simp]: "valid_num (itoa i)"
  using valid_num_nat_str by (simp add: itoa_def)


subsection \<open>Decoding into a struct\<close>

text \<open>
  How \<open>json.Unmarshal\<close> fills a field: every member whose key equals the field's name up to
  ASCII case is decoded in turn. For a plain field \<open>null\<close> leaves the value as it was and the
  zero value stays if no member matches; for a pointer or a slice \<open>null\<close> resets it to nil. A
  member of the wrong type makes the whole call fail (\<open>None\<close>). Two members for one pointer
  field do not merge here: the later replaces the earlier.
\<close>

definition lower_char :: "char \<Rightarrow> char" where
  "lower_char c = (let n = of_char c :: nat in if 65 \<le> n \<and> n \<le> 90 then char_of (n + 32) else c)"

definition fold_eq :: "string \<Rightarrow> string \<Rightarrow> bool" where
  "fold_eq a b \<longleftrightarrow> map lower_char a = map lower_char b"

definition field_vals :: "string \<Rightarrow> (string \<times> json) list \<Rightarrow> json list" where
  "field_vals name kvs = map snd (filter (\<lambda>kv. fold_eq (fst kv) name) kvs)"

definition dec_plain :: "(json \<Rightarrow> 'a option) \<Rightarrow> 'a \<Rightarrow> json list \<Rightarrow> 'a option" where
  "dec_plain d zero vs = foldl (\<lambda>acc v. case acc of None \<Rightarrow> None
     | Some a \<Rightarrow> if v = JNull then Some a else d v) (Some zero) vs"

definition dec_ptr :: "(json \<Rightarrow> 'a option) \<Rightarrow> json list \<Rightarrow> 'a option option" where
  "dec_ptr d vs = foldl (\<lambda>acc v. case acc of None \<Rightarrow> None
     | Some a \<Rightarrow> if v = JNull then Some None else map_option Some (d v)) (Some None) vs"

fun dec_string :: "json \<Rightarrow> string option" where
  "dec_string (JStr s) = Some s"
| "dec_string _ = None"

fun dec_bool :: "json \<Rightarrow> bool option" where
  "dec_bool (JBool b) = Some b"
| "dec_bool _ = None"

fun dec_int :: "json \<Rightarrow> int option" where
  "dec_int (JNum s) = atoi s"
| "dec_int _ = None"

fun dec_list :: "(json \<Rightarrow> 'a option) \<Rightarrow> json list \<Rightarrow> 'a list option" where
  "dec_list d [] = Some []"
| "dec_list d (x # xs) =
     (case d x of None \<Rightarrow> None | Some y \<Rightarrow> map_option ((#) y) (dec_list d xs))"

lemma dec_plain_simps [simp]:
  "dec_plain d z [] = Some z"
  "v \<noteq> JNull \<Longrightarrow> dec_plain d z [v] = d v"
  by (simp_all add: dec_plain_def)

lemma dec_ptr_simps [simp]:
  "dec_ptr d [] = Some None"
  "dec_ptr d [JNull] = Some None"
  "v \<noteq> JNull \<Longrightarrow> dec_ptr d [v] = map_option Some (d v)"
  by (simp_all add: dec_ptr_def)

lemma dec_list_map: "(\<And>x. x \<in> set xs \<Longrightarrow> d (e x) = Some x) \<Longrightarrow> dec_list d (map e xs) = Some xs"
  by (induction xs) auto

lemma dec_int_itoa [simp]: "int64_ok i \<Longrightarrow> dec_int (JNum (itoa i)) = Some i"
  by (simp add: atoi_itoa)

lemma elems_ok_map: "(\<And>x. x \<in> set xs \<Longrightarrow> json_ok (e x)) \<Longrightarrow> elems_ok (map e xs)"
  by (induction xs) auto

end
