(* ===== verification/StateFile.thy ===== *)
theory StateFile
  imports LabConfig Json
begin

text \<open>
  The state names and their guards (\<^verbatim>\<open>internal/state/state.go\<close>), the records of
  \<^verbatim>\<open>state.json\<close> (\<^verbatim>\<open>internal/state/store.go\<close>) and their JSON form. A state is a string, as in
  the source: a file may hold a name that is none of the six, and the empty string is the
  zero value the detection algorithm uses for "not known".

  A nil slice and an empty one are both the empty list: \<open>failing_checks\<close> is printed as
  \<open>null\<close> when empty (the program only ever leaves it nil), \<open>history\<close> as \<open>[]\<close>. The syntax of a
  timestamp read from the file is not checked.
\<close>

subsection \<open>States\<close>

type_synonym lab_state = string

definition StateUnprovisioned :: lab_state where "StateUnprovisioned = ''UNPROVISIONED''"
definition StateProvisioned :: lab_state where "StateProvisioned = ''PROVISIONED''"
definition StateConformant :: lab_state where "StateConformant = ''CONFORMANT''"
definition StateDegraded :: lab_state where "StateDegraded = ''DEGRADED''"
definition StateBroken :: lab_state where "StateBroken = ''BROKEN''"
definition StateRecovering :: lab_state where "StateRecovering = ''RECOVERING''"

lemmas state_defs = StateUnprovisioned_def StateProvisioned_def StateConformant_def StateDegraded_def StateBroken_def StateRecovering_def

lemma state_distinct [simp]:
  "StateUnprovisioned \<noteq> StateProvisioned"
  "StateUnprovisioned \<noteq> StateConformant"
  "StateUnprovisioned \<noteq> StateDegraded"
  "StateUnprovisioned \<noteq> StateBroken"
  "StateUnprovisioned \<noteq> StateRecovering"
  "StateProvisioned \<noteq> StateUnprovisioned"
  "StateProvisioned \<noteq> StateConformant"
  "StateProvisioned \<noteq> StateDegraded"
  "StateProvisioned \<noteq> StateBroken"
  "StateProvisioned \<noteq> StateRecovering"
  "StateConformant \<noteq> StateUnprovisioned"
  "StateConformant \<noteq> StateProvisioned"
  "StateConformant \<noteq> StateDegraded"
  "StateConformant \<noteq> StateBroken"
  "StateConformant \<noteq> StateRecovering"
  "StateDegraded \<noteq> StateUnprovisioned"
  "StateDegraded \<noteq> StateProvisioned"
  "StateDegraded \<noteq> StateConformant"
  "StateDegraded \<noteq> StateBroken"
  "StateDegraded \<noteq> StateRecovering"
  "StateBroken \<noteq> StateUnprovisioned"
  "StateBroken \<noteq> StateProvisioned"
  "StateBroken \<noteq> StateConformant"
  "StateBroken \<noteq> StateDegraded"
  "StateBroken \<noteq> StateRecovering"
  "StateRecovering \<noteq> StateUnprovisioned"
  "StateRecovering \<noteq> StateProvisioned"
  "StateRecovering \<noteq> StateConformant"
  "StateRecovering \<noteq> StateDegraded"
  "StateRecovering \<noteq> StateBroken"
  by (simp_all add: state_defs)

lemma state_nonempty [simp]:
  "StateUnprovisioned \<noteq> []"
  "StateProvisioned \<noteq> []"
  "StateConformant \<noteq> []"
  "StateDegraded \<noteq> []"
  "StateBroken \<noteq> []"
  "StateRecovering \<noteq> []"
  by (simp_all add: state_defs)

definition AllStates :: "lab_state list" where
  "AllStates = [StateUnprovisioned, StateProvisioned, StateConformant, StateDegraded, StateBroken,
     StateRecovering]"

definition IsValid :: "lab_state \<Rightarrow> bool" where
  "IsValid s \<longleftrightarrow> list_ex (\<lambda>v. v = s) AllStates"

definition IsOperational :: "lab_state \<Rightarrow> bool" where
  "IsOperational s = IsValid s"

definition RequiresActiveFault :: "lab_state \<Rightarrow> bool" where
  "RequiresActiveFault s \<longleftrightarrow> s = StateDegraded"

definition ForbidsActiveFault :: "lab_state \<Rightarrow> bool" where
  "ForbidsActiveFault s \<longleftrightarrow> s \<noteq> StateDegraded"

definition CanApplyFault :: "lab_state \<Rightarrow> bool \<Rightarrow> bool" where
  "CanApplyFault s force = (if force then s \<noteq> StateRecovering else s = StateConformant)"

definition CanReset :: "lab_state \<Rightarrow> bool" where
  "CanReset s = True"

lemma IsValid_simps [simp]:
  "IsValid StateUnprovisioned" "IsValid StateProvisioned" "IsValid StateConformant"
  "IsValid StateDegraded" "IsValid StateBroken" "IsValid StateRecovering" "\<not> IsValid []"
  by (simp_all add: IsValid_def AllStates_def)

lemma IsValid_cases:
  "IsValid s \<Longrightarrow> s = StateUnprovisioned \<or> s = StateProvisioned \<or> s = StateConformant \<or>
     s = StateDegraded \<or> s = StateBroken \<or> s = StateRecovering"
  by (auto simp: IsValid_def AllStates_def)

subsection \<open>The records of state.json\<close>

definition HistoryMaxEntries :: nat where
  "HistoryMaxEntries = 50"

definition SpecVersion :: string where
  "SpecVersion = ''1.0.0''"

record active_fault =
  afID :: string
  afAppliedAt :: time
  afForced :: bool

record validate_record =
  vrAt :: time
  vrPassed :: int
  vrTotal :: int
  vrFailingChecks :: "string list"

record reset_record =
  rrAt :: time
  rrTier :: string
  rrFromState :: lab_state
  rrFaultCleared :: string

record provision_record =
  prAt :: time
  prResult :: string

record history_entry =
  heTs :: time
  heFrom :: lab_state
  heTo :: lab_state
  heCommand :: string
  heFault :: string
  heForced :: bool

record state_file =
  sfSpecVersion :: string
  sfState :: lab_state
  sfClassificationValid :: bool
  sfActiveFault :: "active_fault option"
  sfLastValidate :: "validate_record option"
  sfLastReset :: "reset_record option"
  sfLastProvision :: "provision_record option"
  sfLastStatusAt :: "time option"
  sfHistory :: "history_entry list"

subsection \<open>JSON form\<close>

definition enc_ptr :: "('a \<Rightarrow> json) \<Rightarrow> 'a option \<Rightarrow> json" where
  "enc_ptr e p = (case p of None \<Rightarrow> JNull | Some x \<Rightarrow> e x)"

definition enc_active_fault :: "active_fault \<Rightarrow> json" where
  "enc_active_fault a = JObj [(''id'', JStr (afID a)), (''applied_at'', JStr (afAppliedAt a)),
     (''forced'', JBool (afForced a))]"

definition enc_validate :: "validate_record \<Rightarrow> json" where
  "enc_validate v = JObj [(''at'', JStr (vrAt v)), (''passed'', JNum (itoa (vrPassed v))),
     (''total'', JNum (itoa (vrTotal v))),
     (''failing_checks'', if vrFailingChecks v = [] then JNull else JArr (map JStr (vrFailingChecks v)))]"

definition enc_reset :: "reset_record \<Rightarrow> json" where
  "enc_reset r = JObj ([(''at'', JStr (rrAt r)), (''tier'', JStr (rrTier r)),
     (''from_state'', JStr (rrFromState r))] @
     (if rrFaultCleared r = [] then [] else [(''fault_cleared'', JStr (rrFaultCleared r))]))"

definition enc_provision :: "provision_record \<Rightarrow> json" where
  "enc_provision p = JObj [(''at'', JStr (prAt p)), (''result'', JStr (prResult p))]"

definition enc_history :: "history_entry \<Rightarrow> json" where
  "enc_history h = JObj ([(''ts'', JStr (heTs h)), (''from'', JStr (heFrom h)), (''to'', JStr (heTo h)),
     (''command'', JStr (heCommand h))] @
     (if heFault h = [] then [] else [(''fault'', JStr (heFault h))]) @
     (if heForced h then [(''forced'', JBool True)] else []))"

definition enc_file :: "state_file \<Rightarrow> json" where
  "enc_file f = JObj [(''spec_version'', JStr (sfSpecVersion f)), (''state'', JStr (sfState f)),
     (''classification_valid'', JBool (sfClassificationValid f)),
     (''active_fault'', enc_ptr enc_active_fault (sfActiveFault f)),
     (''last_validate'', enc_ptr enc_validate (sfLastValidate f)),
     (''last_reset'', enc_ptr enc_reset (sfLastReset f)),
     (''last_provision'', enc_ptr enc_provision (sfLastProvision f)),
     (''last_status_at'', enc_ptr JStr (sfLastStatusAt f)),
     (''history'', JArr (map enc_history (sfHistory f)))]"

text \<open>The fields of an object; \<open>null\<close> for a struct value leaves every field at its zero.\<close>

fun members_of :: "json \<Rightarrow> (string \<times> json) list option" where
  "members_of (JObj kvs) = Some kvs"
| "members_of JNull = Some []"
| "members_of _ = None"

fun dec_strings :: "json \<Rightarrow> string list option" where
  "dec_strings (JArr xs) = dec_list (\<lambda>v. if v = JNull then Some [] else dec_string v) xs"
| "dec_strings _ = None"

definition dec_active_fault :: "json \<Rightarrow> active_fault option" where
  "dec_active_fault j = do {
     kvs \<leftarrow> members_of j;
     i \<leftarrow> dec_plain dec_string [] (field_vals ''id'' kvs);
     a \<leftarrow> dec_plain dec_string [] (field_vals ''applied_at'' kvs);
     f \<leftarrow> dec_plain dec_bool False (field_vals ''forced'' kvs);
     Some \<lparr>afID = i, afAppliedAt = a, afForced = f\<rparr>
   }"

definition dec_validate :: "json \<Rightarrow> validate_record option" where
  "dec_validate j = do {
     kvs \<leftarrow> members_of j;
     a \<leftarrow> dec_plain dec_string [] (field_vals ''at'' kvs);
     p \<leftarrow> dec_plain dec_int 0 (field_vals ''passed'' kvs);
     t \<leftarrow> dec_plain dec_int 0 (field_vals ''total'' kvs);
     f \<leftarrow> dec_ptr dec_strings (field_vals ''failing_checks'' kvs);
     Some \<lparr>vrAt = a, vrPassed = p, vrTotal = t,
           vrFailingChecks = (case f of None \<Rightarrow> [] | Some xs \<Rightarrow> xs)\<rparr>
   }"

definition dec_reset :: "json \<Rightarrow> reset_record option" where
  "dec_reset j = do {
     kvs \<leftarrow> members_of j;
     a \<leftarrow> dec_plain dec_string [] (field_vals ''at'' kvs);
     t \<leftarrow> dec_plain dec_string [] (field_vals ''tier'' kvs);
     s \<leftarrow> dec_plain dec_string [] (field_vals ''from_state'' kvs);
     c \<leftarrow> dec_plain dec_string [] (field_vals ''fault_cleared'' kvs);
     Some \<lparr>rrAt = a, rrTier = t, rrFromState = s, rrFaultCleared = c\<rparr>
   }"

definition dec_provision :: "json \<Rightarrow> provision_record option" where
  "dec_provision j = do {
     kvs \<leftarrow> members_of j;
     a \<leftarrow> dec_plain dec_string [] (field_vals ''at'' kvs);
     r \<leftarrow> dec_plain dec_string [] (field_vals ''result'' kvs);
     Some \<lparr>prAt = a, prResult = r\<rparr>
   }"

definition dec_history :: "json \<Rightarrow> history_entry option" where
  "dec_history j = do {
     kvs \<leftarrow> members_of j;
     ts \<leftarrow> dec_plain dec_string [] (field_vals ''ts'' kvs);
     f \<leftarrow> dec_plain dec_string [] (field_vals ''from'' kvs);
     t \<leftarrow> dec_plain dec_string [] (field_vals ''to'' kvs);
     c \<leftarrow> dec_plain dec_string [] (field_vals ''command'' kvs);
     x \<leftarrow> dec_plain dec_string [] (field_vals ''fault'' kvs);
     y \<leftarrow> dec_plain dec_bool False (field_vals ''forced'' kvs);
     Some \<lparr>heTs = ts, heFrom = f, heTo = t, heCommand = c, heFault = x, heForced = y\<rparr>
   }"

fun dec_histories :: "json \<Rightarrow> history_entry list option" where
  "dec_histories (JArr xs) = dec_list dec_history xs"
| "dec_histories _ = None"

definition dec_file :: "json \<Rightarrow> state_file option" where
  "dec_file j = do {
     kvs \<leftarrow> members_of j;
     v \<leftarrow> dec_plain dec_string [] (field_vals ''spec_version'' kvs);
     s \<leftarrow> dec_plain dec_string [] (field_vals ''state'' kvs);
     c \<leftarrow> dec_plain dec_bool False (field_vals ''classification_valid'' kvs);
     a \<leftarrow> dec_ptr dec_active_fault (field_vals ''active_fault'' kvs);
     lv \<leftarrow> dec_ptr dec_validate (field_vals ''last_validate'' kvs);
     lr \<leftarrow> dec_ptr dec_reset (field_vals ''last_reset'' kvs);
     lp \<leftarrow> dec_ptr dec_provision (field_vals ''last_provision'' kvs);
     ls \<leftarrow> dec_ptr dec_string (field_vals ''last_status_at'' kvs);
     h \<leftarrow> dec_ptr dec_histories (field_vals ''history'' kvs);
     Some \<lparr>sfSpecVersion = v, sfState = s, sfClassificationValid = c, sfActiveFault = a,
           sfLastValidate = lv, sfLastReset = lr, sfLastProvision = lp, sfLastStatusAt = ls,
           sfHistory = (case h of None \<Rightarrow> [] | Some xs \<Rightarrow> xs)\<rparr>
   }"

definition marshal_file :: "state_file \<Rightarrow> string" where
  "marshal_file f = json_marshal_indent (enc_file f)"

definition unmarshal_file :: "string \<Rightarrow> state_file option" where
  "unmarshal_file s = (case parse_json s of None \<Rightarrow> None | Some j \<Rightarrow> dec_file j)"

subsection \<open>Encoding then decoding\<close>

text \<open>The integers of a record fit Go's 64-bit \<open>int\<close>.\<close>

definition file_ok :: "state_file \<Rightarrow> bool" where
  "file_ok f \<longleftrightarrow> (case sfLastValidate f of None \<Rightarrow> True
     | Some v \<Rightarrow> int64_ok (vrPassed v) \<and> int64_ok (vrTotal v))"

text \<open>The keys are lower-case ASCII, so matching them up to case is matching them.\<close>

lemma fold_eq_refl [simp]: "fold_eq a a"
  by (simp add: fold_eq_def)

definition lower_key :: "string \<Rightarrow> bool" where
  "lower_key s \<longleftrightarrow> map lower_char s = s"

lemma fold_eq_lower: "lower_key a \<Longrightarrow> lower_key b \<Longrightarrow> fold_eq a b \<longleftrightarrow> a = b"
  by (simp add: fold_eq_def lower_key_def)

lemma field_vals_simps:
  "field_vals name [] = []"
  "lower_key k \<Longrightarrow> lower_key name \<Longrightarrow>
     field_vals name ((k, v) # kvs) = (if k = name then v # field_vals name kvs else field_vals name kvs)"
  by (simp_all add: field_vals_def fold_eq_lower)

lemma lower_keys:
  "lower_key ''id''" "lower_key ''applied_at''" "lower_key ''forced''" "lower_key ''at''"
  "lower_key ''passed''" "lower_key ''total''" "lower_key ''failing_checks''" "lower_key ''tier''"
  "lower_key ''from_state''" "lower_key ''fault_cleared''" "lower_key ''result''" "lower_key ''ts''"
  "lower_key ''from''" "lower_key ''to''" "lower_key ''command''" "lower_key ''fault''"
  "lower_key ''spec_version''" "lower_key ''state''" "lower_key ''classification_valid''"
  "lower_key ''active_fault''" "lower_key ''last_validate''" "lower_key ''last_reset''"
  "lower_key ''last_provision''" "lower_key ''last_status_at''" "lower_key ''history''"
  by (simp_all add: lower_key_def lower_char_def)

lemmas field_simps_json = field_vals_simps lower_keys

lemma dec_enc_active_fault: "dec_active_fault (enc_active_fault a) = Some a"
  by (simp add: dec_active_fault_def enc_active_fault_def field_simps_json)

lemma dec_strings_map: "dec_strings (JArr (map JStr xs)) = Some xs"
  by (simp add: dec_list_map)

lemma dec_enc_validate:
  "int64_ok (vrPassed v) \<Longrightarrow> int64_ok (vrTotal v) \<Longrightarrow> dec_validate (enc_validate v) = Some v"
  by (simp add: dec_validate_def enc_validate_def field_simps_json dec_list_map atoi_itoa)

lemma dec_enc_reset: "dec_reset (enc_reset r) = Some r"
  by (simp add: dec_reset_def enc_reset_def field_simps_json)

lemma dec_enc_provision: "dec_provision (enc_provision p) = Some p"
  by (simp add: dec_provision_def enc_provision_def field_simps_json)

lemma dec_enc_history: "dec_history (enc_history h) = Some h"
  by (simp add: dec_history_def enc_history_def field_simps_json)

lemma enc_not_null:
  "enc_active_fault a \<noteq> JNull" "enc_validate v \<noteq> JNull" "enc_reset r \<noteq> JNull"
  "enc_provision p \<noteq> JNull" "enc_history h \<noteq> JNull"
  by (simp_all add: enc_active_fault_def enc_validate_def enc_reset_def enc_provision_def enc_history_def)

lemma dec_enc_ptr:
  "(\<And>x. p = Some x \<Longrightarrow> d (e x) = Some x \<and> e x \<noteq> JNull) \<Longrightarrow> dec_ptr d [enc_ptr e p] = Some p"
  by (cases p) (simp_all add: enc_ptr_def)

text \<open>The decoded fields of an encoded file, one by one.\<close>

lemma enc_file_fields:
  assumes "members_of (enc_file f) = Some kvs"
  shows "field_vals ''spec_version'' kvs = [JStr (sfSpecVersion f)]"
    "field_vals ''state'' kvs = [JStr (sfState f)]"
    "field_vals ''classification_valid'' kvs = [JBool (sfClassificationValid f)]"
    "field_vals ''active_fault'' kvs = [enc_ptr enc_active_fault (sfActiveFault f)]"
    "field_vals ''last_validate'' kvs = [enc_ptr enc_validate (sfLastValidate f)]"
    "field_vals ''last_reset'' kvs = [enc_ptr enc_reset (sfLastReset f)]"
    "field_vals ''last_provision'' kvs = [enc_ptr enc_provision (sfLastProvision f)]"
    "field_vals ''last_status_at'' kvs = [enc_ptr JStr (sfLastStatusAt f)]"
    "field_vals ''history'' kvs = [JArr (map enc_history (sfHistory f))]"
  using assms by (auto simp: enc_file_def field_simps_json)

lemma members_enc_file: "\<exists>kvs. members_of (enc_file f) = Some kvs"
  by (simp add: enc_file_def)

lemma dec_enc_file: "file_ok f \<Longrightarrow> dec_file (enc_file f) = Some f"
proof -
  assume ok: "file_ok f"
  obtain kvs where kvs: "members_of (enc_file f) = Some kvs" using members_enc_file by blast
  have "dec_ptr dec_validate [enc_ptr enc_validate (sfLastValidate f)] = Some (sfLastValidate f)"
    using ok by (intro dec_enc_ptr) (auto simp: file_ok_def dec_enc_validate enc_not_null)
  moreover have "dec_ptr dec_active_fault [enc_ptr enc_active_fault (sfActiveFault f)] = Some (sfActiveFault f)"
    by (intro dec_enc_ptr) (simp add: dec_enc_active_fault enc_not_null)
  moreover have "dec_ptr dec_reset [enc_ptr enc_reset (sfLastReset f)] = Some (sfLastReset f)"
    by (intro dec_enc_ptr) (simp add: dec_enc_reset enc_not_null)
  moreover have "dec_ptr dec_provision [enc_ptr enc_provision (sfLastProvision f)] = Some (sfLastProvision f)"
    by (intro dec_enc_ptr) (simp add: dec_enc_provision enc_not_null)
  moreover have "dec_ptr dec_string [enc_ptr JStr (sfLastStatusAt f)] = Some (sfLastStatusAt f)"
    by (intro dec_enc_ptr) simp
  ultimately show ?thesis
    by (simp add: dec_file_def kvs enc_file_fields [OF kvs] dec_list_map dec_enc_history)
qed

text \<open>
  Without the bound on the integers the decoder may refuse the text, but what it returns
  has the same state and the same active fault.
\<close>

lemma dec_enc_file_core:
  assumes "dec_file (enc_file f) = Some g"
  shows "sfState g = sfState f \<and> sfClassificationValid g = sfClassificationValid f \<and>
     sfActiveFault g = sfActiveFault f \<and> sfHistory g = sfHistory f"
proof -
  obtain kvs where kvs: "members_of (enc_file f) = Some kvs" using members_enc_file by blast
  have "dec_ptr dec_active_fault [enc_ptr enc_active_fault (sfActiveFault f)] = Some (sfActiveFault f)"
    by (intro dec_enc_ptr) (simp add: dec_enc_active_fault enc_not_null)
  then show ?thesis
    using assms by (auto simp: dec_file_def kvs enc_file_fields [OF kvs] dec_list_map dec_enc_history
        split: Option.bind_splits)
qed

lemma json_ok_enc_file: "json_ok (enc_file f)"
  by (auto simp: enc_file_def enc_ptr_def enc_active_fault_def enc_validate_def enc_reset_def
      enc_provision_def enc_history_def intro!: elems_ok_map split: option.splits)

lemma parse_marshal_file: "parse_json (marshal_file f) = Some (enc_file f)"
  unfolding marshal_file_def by (rule parse_marshal_indent [OF json_ok_enc_file])

lemma unmarshal_marshal_file: "file_ok f \<Longrightarrow> unmarshal_file (marshal_file f) = Some f"
  by (simp add: unmarshal_file_def parse_marshal_file dec_enc_file)

lemma unmarshal_marshal_core:
  "unmarshal_file (marshal_file f) = Some g \<Longrightarrow>
     sfState g = sfState f \<and> sfClassificationValid g = sfClassificationValid f \<and>
     sfActiveFault g = sfActiveFault f \<and> sfHistory g = sfHistory f"
  by (simp add: unmarshal_file_def parse_marshal_file dec_enc_file_core)

end
