(* ===== verification/Store.thy ===== *)
theory Store
  imports StateFile GoOS
begin

text \<open>
  The state store, \<^verbatim>\<open>internal/state/store.go\<close>: reading \<^verbatim>\<open>state.json\<close>, writing it by a
  temporary file and a rename, invalidating a classification and the bounded history.

  A store is its path. The theory ends with the contract a client of the store relies on,
  the locale \<open>state_store\<close>, and its interpretation on these definitions.
\<close>

subsection \<open>Reading\<close>

text \<open>
  The cause \<open>json.Unmarshal\<close> reports is kept as one message: only that it failed is used.
\<close>

definition json_cause :: go_error where
  "json_cause = Errorf ''invalid JSON''"

definition parse_state :: "string \<Rightarrow> string \<Rightarrow> state_file result" where
  "parse_state path data =
     (case unmarshal_file data of
        None \<Rightarrow> Inl (ErrStateFileCorrupt path json_cause)
      | Some f \<Rightarrow>
          if \<not> IsValid (sfState f) then Inl (ErrStateFileCorrupt path (ErrInvalidState (sfState f)))
          else Inr f)"

definition Store_Read :: "string \<Rightarrow> ('x world, state_file result) state" where
  "Store_Read path = do {
     d \<leftarrow> os_ReadFile path;
     ret (case d of
        Inl err \<Rightarrow>
          if is_not_exist err then Inl (ErrStateFileNotFound path)
          else Inl (Wrapf (''reading state file '' @ path @ '': '') err [])
      | Inr data \<Rightarrow> parse_state path data)
   }"

subsection \<open>Writing\<close>

definition wrapping :: "string \<Rightarrow> ('w, go_error option) state \<Rightarrow> ('w, go_error option) state" where
  "wrapping msg m = do { e \<leftarrow> m; ret (map_option (\<lambda>x. Wrapf msg x []) e) }"

text \<open>A step that closes the open file before it reports its error.\<close>

definition closing_on_error ::
  "string \<Rightarrow> ('x world, go_error option) state \<Rightarrow> ('x world, go_error option) state" where
  "closing_on_error p m = do {
     e \<leftarrow> m;
     (case e of None \<Rightarrow> ret None | Some x \<Rightarrow> do { _ \<leftarrow> file_Close p; ret (Some x) })
   }"

text \<open>A deferred removal that runs when the block failed.\<close>

definition removing_on_error ::
  "string \<Rightarrow> ('x world, go_error option) state \<Rightarrow> ('x world, go_error option) state" where
  "removing_on_error p m = do {
     e \<leftarrow> m;
     (case e of None \<Rightarrow> ret None | Some x \<Rightarrow> do { _ \<leftarrow> os_Remove p; ret (Some x) })
   }"

text \<open>
  The sequence of calls that makes a temporary file complete. \<^verbatim>\<open>real.go\<close> has the same one under
  other messages and with a mode of the caller's.
\<close>

definition fill_temp :: "string \<Rightarrow> string \<Rightarrow> nat \<Rightarrow> string \<Rightarrow> string \<Rightarrow> ('x world, go_error option) state" where
  "fill_temp what mode_msg mode tmp data =
     and_then (closing_on_error tmp (wrapping (''writing '' @ what @ '': '') (file_Write tmp data)))
    (and_then (closing_on_error tmp (wrapping (''syncing '' @ what @ '': '') (file_Sync tmp)))
    (and_then (wrapping (''closing '' @ what @ '': '') (file_Close tmp))
       (wrapping mode_msg (os_Chmod tmp mode))))"

definition fill_state_temp :: "string \<Rightarrow> string \<Rightarrow> ('x world, go_error option) state" where
  "fill_state_temp = fill_temp ''temp state file'' ''setting temp state file permissions: '' (octal [0, 6, 4, 4])"

definition Store_Write :: "string \<Rightarrow> state_file \<Rightarrow> ('x world, go_error option) state" where
  "Store_Write path f = (
     let data = marshal_file (f\<lparr>sfSpecVersion := SpecVersion\<rparr>);
         dir = dir_of path
     in and_then (wrapping (''creating state directory '' @ dir @ '': '') (os_MkdirAll dir (octal [0, 7, 5, 5])))
       (do {
          t \<leftarrow> os_CreateTemp dir ''.state-'' ''.json'';
          (case t of
             Inl err \<Rightarrow> ret (Some (Wrapf ''creating temp state file: '' err []))
           | Inr tmp \<Rightarrow>
               removing_on_error tmp
                 (and_then (fill_state_temp tmp data)
                    (wrapping ''renaming state file: '' (os_Rename tmp path))))
        }))"

definition Store_InvalidateClassification :: "string \<Rightarrow> ('x world, go_error option) state" where
  "Store_InvalidateClassification path = do {
     r \<leftarrow> Store_Read path;
     (case r of
        Inl err \<Rightarrow> ret (Some (Wrapf ''reading state file for invalidation: '' err []))
      | Inr f \<Rightarrow> Store_Write path (f\<lparr>sfClassificationValid := False\<rparr>))
   }"

definition AppendHistory :: "history_entry \<Rightarrow> state_file \<Rightarrow> state_file" where
  "AppendHistory e f =
     (let h = sfHistory f @ [e] in
      f\<lparr>sfHistory := (if length h > HistoryMaxEntries then drop (length h - HistoryMaxEntries) h else h)\<rparr>)"

definition Fresh :: "lab_state \<Rightarrow> ('x world, state_file) state" where
  "Fresh st = do {
     now \<leftarrow> time_now;
     ret \<lparr>sfSpecVersion = SpecVersion, sfState = st, sfClassificationValid = True, sfActiveFault = None,
          sfLastValidate = None, sfLastReset = None, sfLastProvision = None, sfLastStatusAt = Some now,
          sfHistory = []\<rparr>
   }"

subsection \<open>The history is a ring of the last fifty entries\<close>

lemma AppendHistory_simps [simp]:
  "sfState (AppendHistory e f) = sfState f"
  "sfClassificationValid (AppendHistory e f) = sfClassificationValid f"
  "sfActiveFault (AppendHistory e f) = sfActiveFault f"
  "sfLastValidate (AppendHistory e f) = sfLastValidate f"
  "sfLastReset (AppendHistory e f) = sfLastReset f"
  "sfLastProvision (AppendHistory e f) = sfLastProvision f"
  by (simp_all add: AppendHistory_def Let_def)

definition last_n :: "nat \<Rightarrow> 'a list \<Rightarrow> 'a list" where
  "last_n n xs = drop (length xs - n) xs"

lemma length_last_n [simp]: "length (last_n n xs) = min n (length xs)"
  by (simp add: last_n_def)

lemma last_n_all [simp]: "length xs \<le> n \<Longrightarrow> last_n n xs = xs"
  by (simp add: last_n_def)

lemma last_n_append_last_n: "last_n n (last_n n xs @ ys) = last_n n (xs @ ys)"
proof (cases "length xs \<le> n")
  case False
  then show ?thesis by (simp add: last_n_def add.commute)
qed simp

lemma sfHistory_AppendHistory:
  "sfHistory (AppendHistory e f) = last_n HistoryMaxEntries (sfHistory f @ [e])"
  by (simp add: AppendHistory_def Let_def last_n_def)

lemma sfHistory_foldl_AppendHistory:
  "sfHistory (foldl (\<lambda>f e. AppendHistory e f) f es) =
     (if es = [] then sfHistory f else last_n HistoryMaxEntries (sfHistory f @ es))"
proof (induction es rule: rev_induct)
  case Nil
  show ?case by simp
next
  case (snoc e es)
  have "sfHistory (foldl (\<lambda>f e. AppendHistory e f) f (es @ [e])) =
      last_n HistoryMaxEntries (sfHistory (foldl (\<lambda>f e. AppendHistory e f) f es) @ [e])"
    by (simp add: sfHistory_AppendHistory)
  with snoc.IH show ?case
    by (cases "es = []") (simp_all add: last_n_append_last_n)
qed

subsection \<open>What a write does to the files\<close>

lemma keeps_wrapping [keeps_rules]: "keeps I m \<Longrightarrow> keeps I (wrapping msg m)"
  unfolding wrapping_def by (intro keeps_rules)

lemma keeps_closing [keeps_rules]:
  "keeps (file_is q c) m \<Longrightarrow> keeps (file_is q c) (closing_on_error p m)"
  unfolding closing_on_error_def by (intro keeps_rules)

lemma keeps_removing:
  "p \<noteq> q \<Longrightarrow> keeps (file_is q c) m \<Longrightarrow> keeps (file_is q c) (removing_on_error p m)"
  unfolding removing_on_error_def by (intro keeps_rules keeps_Remove)

lemma keeps_fill_temp: "tmp \<noteq> q \<Longrightarrow> keeps (file_is q c) (fill_temp what msg m tmp data)"
  unfolding fill_temp_def by (intro keeps_rules keeps_Write keeps_Chmod)

lemma run_and_then:
  "run (and_then m n) w = (case run m w of (None, w') \<Rightarrow> run n w' | (Some x, w') \<Rightarrow> (Some x, w'))"
  by (simp add: and_then_def split: option.splits prod.splits)

lemma run_wrapping:
  "run (wrapping msg m) w = (map_option (\<lambda>x. Wrapf msg x []) (fst (run m w)), snd (run m w))"
  by (simp add: wrapping_def case_prod_beta)

lemma run_removing:
  "run (removing_on_error p m) w =
     (case run m w of (None, w') \<Rightarrow> (None, w') | (Some x, w') \<Rightarrow> (Some x, snd (run (os_Remove p) w')))"
  by (simp add: removing_on_error_def case_prod_beta split: option.splits prod.splits)

lemma run_closing:
  "run (closing_on_error p m) w =
     (case run m w of (None, w') \<Rightarrow> (None, w') | (Some x, w') \<Rightarrow> (Some x, snd (run (file_Close p) w')))"
  by (simp add: closing_on_error_def case_prod_beta split: option.splits prod.splits)

lemma run_syscall: "run syscall w = (fault_at w (sysno w), w\<lparr>sysno := Suc (sysno w)\<rparr>)"
  by (simp add: syscall_def)

lemma Write_ok: "run (file_Write p s) w = (None, w') \<Longrightarrow> files w p = Some n \<Longrightarrow>
    files w' p = Some (n\<lparr>fcontent := fcontent n @ s\<rparr>)"
  by (auto simp: file_Write_def append_content_def run_syscall split: option.splits)

lemma Chmod_ok: "run (os_Chmod p m) w = (None, w') \<Longrightarrow> files w p = Some n \<Longrightarrow>
    files w' p = Some (n\<lparr>fmode := m\<rparr>)"
  by (auto simp: os_Chmod_def set_file_def run_syscall split: option.splits)

lemma Sync_files: "files (snd (run (file_Sync p) w)) = files w"
  by (simp add: file_Sync_def run_syscall)

lemma Close_files: "files (snd (run (file_Close p) w)) = files w"
  by (simp add: file_Close_def run_syscall)

lemma fill_temp_ok:
  assumes "run (fill_temp what msg m tmp data) w = (None, w')" and "files w tmp = Some n"
  shows "files w' tmp = Some (n\<lparr>fcontent := fcontent n @ data, fmode := m\<rparr>)"
proof -
  obtain e1 w1 where 1: "run (file_Write tmp data) w = (e1, w1)" by (meson surj_pair)
  obtain e2 w2 where 2: "run (file_Sync tmp) w1 = (e2, w2)" by (meson surj_pair)
  obtain e3 w3 where 3: "run (file_Close tmp) w2 = (e3, w3)" by (meson surj_pair)
  obtain e4 w4 where 4: "run (os_Chmod tmp (m)) w3 = (e4, w4)" by (meson surj_pair)
  from assms(1) have "e1 = None \<and> e4 = None \<and> w' = w4"
    by (auto simp: fill_temp_def run_and_then run_closing run_wrapping 1 2 3 4 split: option.splits)
  with 1 4 assms(2) Sync_files [of tmp w1] Close_files [of tmp w2] show ?thesis
    by (auto dest!: Write_ok Chmod_ok simp: 2 3)
qed

lemma Rename_cases:
  "run (os_Rename a b) w = (e, w') \<Longrightarrow> a \<noteq> b \<Longrightarrow>
     (if e = None then \<exists>n. files w a = Some n \<and> files w' = (files w)(a := None, b \<mapsto> n)
      else files w' = files w)"
  by (auto simp: os_Rename_def set_file_def run_syscall split: option.splits)

text \<open>A path of a store: absolute, and not itself a name of its temporary files.\<close>

definition temp_prefix :: "string \<Rightarrow> string" where
  "temp_prefix path = dir_of path @ ''/'' @ ''.state-''"

definition store_path :: "string \<Rightarrow> bool" where
  "store_path path \<longleftrightarrow> has_prefix path ''/'' \<and> 1 < length path \<and> \<not> has_prefix path (temp_prefix path)"

lemma store_path_StatePath: "store_path StatePath"
  by (simp add: store_path_def temp_prefix_def path_defs dir_of_def has_prefix_iff)

lemma CreateTemp_cases:
  assumes "run (os_CreateTemp dir pre suf) w = (t, w')"
  shows "case t of
      Inl _ \<Rightarrow> files w' = files w
    | Inr tmp \<Rightarrow> (\<exists>r. tmp = dir @ ''/'' @ pre @ r @ suf) \<and> files w tmp = None \<and>
        files w' = (files w)(tmp \<mapsto>
          \<lparr>fcontent = [], fmode = octal [0, 6, 0, 0], fowner = self_user w', fgroup = self_user w', fisdir = False\<rparr>)"
proof -
  define w1 where "w1 = w\<lparr>sysno := Suc (sysno w)\<rparr>"
  obtain p w2 where pick: "run (pick_temp 10000 (dir @ ''/'' @ pre) suf) w1 = (p, w2)" by (meson surj_pair)
  note P = pick_temp_run [OF pick]
  show ?thesis
  proof (cases "fault_at w (sysno w)")
    case (Some e)
    with assms show ?thesis by (auto simp: os_CreateTemp_def run_syscall)
  next
    case None
    with assms pick P show ?thesis
      by (cases p) (auto simp: os_CreateTemp_def run_syscall w1_def new_node_def set_file_def)
  qed
qed

lemma store_dir_not_path: "store_path path \<Longrightarrow> path \<notin> set (ancestors (dir_of path))"
  by (simp add: store_path_def not_own_ancestor)

lemma temp_not_path: "store_path path \<Longrightarrow> dir_of path @ ''/'' @ ''.state-'' @ r @ s \<noteq> path"
proof
  assume "store_path path" and "dir_of path @ ''/'' @ ''.state-'' @ r @ s = path"
  then have "path = temp_prefix path @ r @ s" by (simp add: temp_prefix_def)
  then have "has_prefix path (temp_prefix path)" by (metis has_prefix_iff)
  with \<open>store_path path\<close> show False by (simp add: store_path_def)
qed

text \<open>A write that reports success has put the whole text there; one that fails has not touched the file.\<close>

lemma Store_Write_cases:
  assumes "store_path path" and run: "run (Store_Write path f) w = (e, w')"
  shows "if e = None
     then \<exists>n. files w' path = Some n \<and> fcontent n = marshal_file (f\<lparr>sfSpecVersion := SpecVersion\<rparr>) \<and>
            fmode n = octal [0, 6, 4, 4] \<and> \<not> fisdir n
     else files w' path = files w path"
proof -
  obtain e1 w1 where 1: "run (os_MkdirAll (dir_of path) (octal [0, 7, 5, 5])) w = (e1, w1)" by (meson surj_pair)
  obtain t w2 where 2: "run (os_CreateTemp (dir_of path) ''.state-'' ''.json'') w1 = (t, w2)" by (meson surj_pair)
  have f1: "files w1 path = files w path"
    using keepsD [OF keeps_MkdirAll [OF store_dir_not_path [OF assms(1)]] _ 1, of "seen path w"]
    by (simp add: file_is_def seen_def)
  note C = CreateTemp_cases [OF 2]
  show ?thesis
  proof (cases e1)
    case (Some x)
    with run 1 f1 show ?thesis by (auto simp: Store_Write_def Let_def run_and_then run_wrapping)
  next
    case None
    note n1 = None
    show ?thesis
    proof (cases t)
      case (Inl x)
      with run 1 2 n1 C f1 show ?thesis by (auto simp: Store_Write_def Let_def run_and_then run_wrapping)
    next
      case (Inr tmp)
      with C obtain r where "tmp = dir_of path @ ''/'' @ ''.state-'' @ r @ ''.json''" by auto
      then have ne: "tmp \<noteq> path" using temp_not_path [OF assms(1)] by metis
      with C Inr have ft: "files w2 path = files w path"
        and nt: "files w2 tmp = Some \<lparr>fcontent = [], fmode = octal [0, 6, 0, 0], fowner = self_user w2,
             fgroup = self_user w2, fisdir = False\<rparr>"
        using f1 by auto
      define data where "data = marshal_file (f\<lparr>sfSpecVersion := SpecVersion\<rparr>)"
      obtain e3 w3 where 3: "run (fill_state_temp tmp data) w2 = (e3, w3)" by (meson surj_pair)
      obtain e4 w4 where 4: "run (os_Rename tmp path) w3 = (e4, w4)" by (meson surj_pair)
      have f3: "files w3 path = files w path"
        using keepsD [OF keeps_fill_temp [OF ne] _ 3 [unfolded fill_state_temp_def], of "seen path w2"] ft
        by (simp add: file_is_def seen_def)
      have frm: "files (snd (run (os_Remove tmp) v)) path = files v path" for v :: "'a world"
        using keeps_snd [OF keeps_Remove [OF ne], of "seen path v" v] by (simp add: file_is_def seen_def)
      note R = Rename_cases [OF 4 ne]
      have w': "(e, w') = (case e3 of
          Some x \<Rightarrow> (Some x, snd (run (os_Remove tmp) w3))
        | None \<Rightarrow> (case e4 of None \<Rightarrow> (None, w4)
            | Some y \<Rightarrow> (Some (Wrapf ''renaming state file: '' y []), snd (run (os_Remove tmp) w4))))"
        using run 1 2 3 4 n1 Inr unfolding data_def
        by (auto simp: Store_Write_def Let_def run_and_then run_wrapping run_removing split: option.splits)
      show ?thesis
      proof (cases e3)
        case (Some x)
        with w' frm f3 show ?thesis by auto
      next
        case None
        with fill_temp_ok [OF 3 [unfolded fill_state_temp_def None] nt] have "files w3 tmp = Some \<lparr>fcontent = data, fmode = octal [0, 6, 4, 4],
            fowner = self_user w2, fgroup = self_user w2, fisdir = False\<rparr>" by simp
        with w' None R ne frm f3 show ?thesis
          by (cases e4) (auto simp: data_def)
      qed
    qed
  qed
qed

text \<open>
  A failed write leaves no temporary file, unless the removal of the temporary file fails as
  well: so none is left if at most one system call fails.
\<close>

definition failed_between :: "'x world \<Rightarrow> 'x world \<Rightarrow> bool" where
  "failed_between w w' \<longleftrightarrow> (\<exists>k. sysno w \<le> k \<and> k < sysno w' \<and> fault_at w k \<noteq> None)"

definition one_fault :: "'x world \<Rightarrow> bool" where
  "one_fault w \<longleftrightarrow> (\<forall>i j. fault_at w i \<noteq> None \<and> fault_at w j \<noteq> None \<longrightarrow> i = j)"

lemma fill_temp_failed:
  assumes "run (fill_temp what msg m tmp data) w = (Some x, w')" and "files w tmp = Some n"
  shows "files w' tmp \<noteq> None" "fault_at w' = fault_at w" "failed_between w w'"
    "q \<noteq> tmp \<Longrightarrow> files w' q = files w q"
proof -
  have "files w' tmp \<noteq> None \<and> fault_at w' = fault_at w \<and> failed_between w w' \<and>
      (q \<noteq> tmp \<longrightarrow> files w' q = files w q)"
    using assms
    by (auto simp: fill_temp_def run_and_then run_closing run_wrapping file_Write_def file_Sync_def
        file_Close_def os_Chmod_def append_content_def set_file_def run_syscall failed_between_def
        split: option.splits
        intro: exI [of _ "sysno w"] exI [of _ "Suc (sysno w)"] exI [of _ "Suc (Suc (sysno w))"]
          exI [of _ "Suc (Suc (Suc (sysno w)))"])
  then show "files w' tmp \<noteq> None" "fault_at w' = fault_at w" "failed_between w w'"
    "q \<noteq> tmp \<Longrightarrow> files w' q = files w q" by auto
qed

lemma Rename_failed:
  "run (os_Rename a b) w = (Some x, w') \<Longrightarrow> files w a = Some n \<Longrightarrow>
     files w' = files w \<and> fault_at w' = fault_at w \<and> failed_between w w'"
  by (auto simp: os_Rename_def set_file_def run_syscall failed_between_def split: option.splits if_splits
      intro: exI [of _ "sysno w"])

lemma Remove_after_fault:
  assumes "failed_between w w'" and "fault_at w' = fault_at w" and "one_fault w" and "files w' p \<noteq> None"
  shows "files (snd (run (os_Remove p) w')) = (files w')(p := None)"
proof -
  from assms(1) obtain k where "k < sysno w'" "fault_at w k \<noteq> None" by (auto simp: failed_between_def)
  then have "fault_at w' (sysno w') = None"
    using assms(2,3) by (metis one_fault_def less_irrefl)
  with assms(4) show ?thesis by (auto simp: os_Remove_def set_file_def run_syscall)
qed

lemma failed_between_trans1:
  "failed_between v w' \<Longrightarrow> sysno w \<le> sysno v \<Longrightarrow> fault_at v = fault_at w \<Longrightarrow> failed_between w w'"
  unfolding failed_between_def by (metis le_trans)

text \<open>The block after the temporary file was made: on failure it is as if it never was.\<close>

lemma write_block_failed:
  assumes run: "run (removing_on_error tmp (and_then (fill_temp what msg m tmp data)
       (wrapping msg' (os_Rename tmp path)))) w = (Some x, w')"
    and "files w tmp = Some n" and "tmp \<noteq> path" and "one_fault w"
  shows "files w' = (files w)(tmp := None)"
proof -
  obtain e3 w3 where 3: "run (fill_temp what msg m tmp data) w = (e3, w3)" by (meson surj_pair)
  obtain e4 w4 where 4: "run (os_Rename tmp path) w3 = (e4, w4)" by (meson surj_pair)
  show ?thesis
  proof (cases e3)
    case (Some y)
    note F = fill_temp_failed [OF 3 [unfolded Some] assms(2)]
    have "files w' = (files w3)(tmp := None)"
      using run 3 Some Remove_after_fault [OF F(3,2) assms(4) F(1)]
      by (auto simp: run_removing run_and_then run_wrapping)
    with F(4) show ?thesis by (auto simp: fun_eq_iff)
  next
    case None
    obtain z where e4: "e4 = Some z" and w': "w' = snd (run (os_Remove tmp) w4)"
      using run 3 4 None by (auto simp: run_removing run_and_then run_wrapping split: option.splits)
    note t3 = fill_temp_ok [OF 3 [unfolded None] assms(2)]
    have fa: "fault_at w3 = fault_at w \<and> sysno w \<le> sysno w3 \<and> (\<forall>q. q \<noteq> tmp \<longrightarrow> files w3 q = files w q)"
      using 3 None assms(2)
      by (auto simp: fill_temp_def run_and_then run_closing run_wrapping file_Write_def file_Sync_def
        file_Close_def os_Chmod_def append_content_def set_file_def run_syscall split: option.splits)
    note R = Rename_failed [OF 4 [unfolded e4] t3]
    have "failed_between w w4" using R fa by (metis failed_between_trans1)
    moreover have "fault_at w4 = fault_at w" "files w4 tmp \<noteq> None" using R fa t3 by auto
    ultimately have "files w' = (files w4)(tmp := None)"
      using Remove_after_fault assms(4) unfolding w' by blast
    with R fa show ?thesis by (auto simp: fun_eq_iff)
  qed
qed

lemma MkdirAll_world:
  "run (os_MkdirAll p m) w = (e, w') \<Longrightarrow> fault_at w' = fault_at w"
proof -
  have *: "fault_at (snd (run (for_do (make_dir m) ps) v)) = fault_at v" for ps and v :: "'a world"
  proof (induction ps arbitrary: v)
    case (Cons a ps)
    show ?case using Cons.IH by (simp add: make_dir_def case_prod_beta split: option.splits)
  qed simp
  assume "run (os_MkdirAll p m) w = (e, w')"
  then have "w' = snd (run (os_MkdirAll p m) w)" by simp
  then show ?thesis using * by (auto simp: os_MkdirAll_def run_syscall case_prod_beta split: option.splits)
qed

lemma pick_temp_world: "run (pick_temp n pre suf) w = (t, w') \<Longrightarrow> fault_at w' = fault_at w"
proof (induction n arbitrary: w)
  case (Suc n)
  from Suc.prems show ?case
    using Suc.IH [of "w\<lparr>randno := Suc (randno w)\<rparr>"] by (auto split: if_splits)
qed simp

lemma CreateTemp_world: "run (os_CreateTemp d a b) w = (t, w') \<Longrightarrow> fault_at w' = fault_at w"
proof -
  assume run: "run (os_CreateTemp d a b) w = (t, w')"
  obtain p w2 where pick: "run (pick_temp 10000 (d @ ''/'' @ a) b) (w\<lparr>sysno := Suc (sysno w)\<rparr>) = (p, w2)"
    by (meson surj_pair)
  from run pick pick_temp_world [OF pick] show ?thesis
    by (cases p) (auto simp: os_CreateTemp_def run_syscall new_node_def set_file_def split: option.splits)
qed

lemma Store_Write_failed_clean:
  assumes run: "run (Store_Write path f) w = (Some x, w')" and "store_path path" and "one_fault w"
    and q: "q \<notin> set (ancestors (dir_of path))"
  shows "files w' q = files w q"
proof -
  obtain e1 w1 where 1: "run (os_MkdirAll (dir_of path) (octal [0, 7, 5, 5])) w = (e1, w1)" by (meson surj_pair)
  obtain t w2 where 2: "run (os_CreateTemp (dir_of path) ''.state-'' ''.json'') w1 = (t, w2)" by (meson surj_pair)
  have f1: "files w1 q = files w q"
    using keepsD [OF keeps_MkdirAll [OF q] _ 1, of "seen q w"] by (simp add: file_is_def seen_def)
  have of2: "one_fault w2"
    using assms(3) MkdirAll_world [OF 1] CreateTemp_world [OF 2] by (simp add: one_fault_def)
  note C = CreateTemp_cases [OF 2]
  show ?thesis
  proof (cases e1)
    case (Some x)
    with run 1 f1 show ?thesis by (auto simp: Store_Write_def Let_def run_and_then run_wrapping)
  next
    case None
    show ?thesis
    proof (cases t)
      case (Inl x)
      with run 1 2 None C f1 show ?thesis by (auto simp: Store_Write_def Let_def run_and_then run_wrapping)
    next
      case (Inr tmp)
      with C obtain r where "tmp = dir_of path @ ''/'' @ ''.state-'' @ r @ ''.json''" by auto
      then have ne: "tmp \<noteq> path" using temp_not_path [OF assms(2)] by metis
      obtain n where n: "files w2 tmp = Some n" and u: "files w1 tmp = None"
        and w2: "files w2 = (files w1)(tmp \<mapsto> n)" using C Inr by auto
      from run 1 2 None Inr have "run (removing_on_error tmp (and_then
           (fill_state_temp tmp (marshal_file (f\<lparr>sfSpecVersion := SpecVersion\<rparr>)))
           (wrapping ''renaming state file: '' (os_Rename tmp path)))) w2 = (Some x, w')"
        by (simp add: Store_Write_def Let_def run_and_then run_wrapping)
      from write_block_failed [OF this [unfolded fill_state_temp_def] n ne of2] w2 u f1 show ?thesis by auto
    qed
  qed
qed

subsection \<open>What a reader sees\<close>

text \<open>The state a reader of the file gets when its read does not fail.\<close>

definition recorded :: "string \<Rightarrow> 'x world \<Rightarrow> state_file option" where
  "recorded path w =
     (case files w path of
        None \<Rightarrow> None
      | Some n \<Rightarrow> if fisdir n then None
          else (case parse_state path (fcontent n) of Inl _ \<Rightarrow> None | Inr f \<Rightarrow> Some f))"

lemma recorded_cong: "files w' path = files w path \<Longrightarrow> recorded path w' = recorded path w"
  by (simp add: recorded_def)

lemma run_ReadFile: "run (os_ReadFile p) w =
    (case fault_at w (sysno w) of
       Some e \<Rightarrow> Inl (PathError ''open'' p e)
     | None \<Rightarrow> (case files w p of
         None \<Rightarrow> Inl (PathError ''open'' p ENOENT)
       | Some n \<Rightarrow> if fisdir n then Inl (PathError ''read'' p EIO) else Inr (fcontent n)),
     w\<lparr>sysno := Suc (sysno w)\<rparr>)"
  by (simp add: os_ReadFile_def run_syscall split: option.splits)

lemma Store_Read_files: "run (Store_Read path) w = (r, w') \<Longrightarrow> w' = w\<lparr>sysno := Suc (sysno w)\<rparr>"
  by (simp add: Store_Read_def run_ReadFile)

lemma Store_Read_quiet: "run (Store_Read path) w = (r, w') \<Longrightarrow> recorded p w' = recorded p w"
  by (auto dest!: Store_Read_files simp: recorded_def)

lemma Store_Read_recorded: "run (Store_Read path) w = (Inr f, w') \<Longrightarrow> recorded path w = Some f"
  by (auto simp: Store_Read_def run_ReadFile recorded_def split: option.splits if_splits)

lemma Store_Read_complete:
  "fault_at w (sysno w) = None \<Longrightarrow> recorded path w = Some f \<Longrightarrow>
     run (Store_Read path) w = (Inr f, w\<lparr>sysno := Suc (sysno w)\<rparr>)"
  by (auto simp: Store_Read_def run_ReadFile recorded_def split: option.splits if_splits sum.splits)

lemma recorded_valid: "recorded path w = Some f \<Longrightarrow> IsValid (sfState f)"
  by (auto simp: recorded_def parse_state_def split: option.splits if_splits sum.splits)

text \<open>The parts of a state file the state model speaks of.\<close>

definition same_core :: "state_file \<Rightarrow> state_file \<Rightarrow> bool" where
  "same_core f g \<longleftrightarrow> sfState f = sfState g \<and> sfClassificationValid f = sfClassificationValid g \<and>
     sfActiveFault f = sfActiveFault g \<and> sfHistory f = sfHistory g"

lemma parse_marshal_state:
  "file_ok f \<Longrightarrow> IsValid (sfState f) \<Longrightarrow>
     parse_state path (marshal_file (f\<lparr>sfSpecVersion := SpecVersion\<rparr>)) = Inr (f\<lparr>sfSpecVersion := SpecVersion\<rparr>)"
  using unmarshal_marshal_file [of "f\<lparr>sfSpecVersion := SpecVersion\<rparr>"]
  by (simp add: parse_state_def file_ok_def)

lemma parse_marshal_core:
  "parse_state path (marshal_file (f\<lparr>sfSpecVersion := SpecVersion\<rparr>)) = Inr g \<Longrightarrow> same_core g f"
  using unmarshal_marshal_core [of "f\<lparr>sfSpecVersion := SpecVersion\<rparr>" g]
  by (auto simp: parse_state_def same_core_def split: option.splits if_splits)

text \<open>A predicate of what is recorded, if a state is.\<close>

definition recorded_is :: "('w \<Rightarrow> state_file option) \<Rightarrow> (state_file \<Rightarrow> bool) \<Rightarrow> 'w \<Rightarrow> bool" where
  "recorded_is view P w \<longleftrightarrow> (\<forall>g. view w = Some g \<longrightarrow> P g)"

subsection \<open>The contract of a state store\<close>

text \<open>
  What a command relies on: a read that succeeds gives the recorded state, a read and a
  failed write leave it, a successful write of a sound file makes it the recorded one, and
  whatever is recorded after a successful write has the written state and fault.
\<close>

locale state_store =
  fixes fetch :: "('w, state_file result) state"
    and put :: "state_file \<Rightarrow> ('w, go_error option) state"
    and view :: "'w \<Rightarrow> state_file option"
  assumes read_view: "run fetch w = (Inr f, w') \<Longrightarrow> view w = Some f"
    and read_quiet: "run fetch w = (r, w') \<Longrightarrow> view w' = view w"
    and write_failed: "run (put f) w = (Some e, w') \<Longrightarrow> view w' = view w"
    and write_done: "run (put f) w = (None, w') \<Longrightarrow> file_ok f \<Longrightarrow> IsValid (sfState f) \<Longrightarrow>
       view w' = Some (f\<lparr>sfSpecVersion := SpecVersion\<rparr>)"
    and write_core: "run (put f) w = (None, w') \<Longrightarrow> view w' = Some g \<Longrightarrow> same_core g f"
begin

lemma read_keeps: "keeps (recorded_is view P) fetch"
  by (auto simp: keeps_def hoare_def recorded_is_def dest: read_quiet)

lemma write_keeps:
  assumes "\<And>f g. same_core g f \<Longrightarrow> P f \<Longrightarrow> P g" and "P f"
  shows "keeps (recorded_is view P) (put f)"
proof (rule keepsI)
  fix w e w'
  assume w: "recorded_is view P w" and run: "run (put f) w = (e, w')"
  show "recorded_is view P w'"
  proof (cases e)
    case None
    then show ?thesis using run assms by (auto simp: recorded_is_def dest: write_core)
  next
    case (Some x)
    then show ?thesis using run w write_failed by (simp add: recorded_is_def)
  qed
qed

text \<open>A write either installs the new state or leaves the old one recorded.\<close>

lemma write_old_or_new:
  assumes "run (put f) w = (e, w')" and "file_ok f" and "IsValid (sfState f)"
  shows "view w' = (if e = None then Some (f\<lparr>sfSpecVersion := SpecVersion\<rparr>) else view w)"
  using assms write_done write_failed by (cases e) auto

text \<open>Reading, changing and writing back: the shape of every update.\<close>

lemma update_old_or_new:
  assumes "run (do { r \<leftarrow> fetch; (case r of Inl x \<Rightarrow> ret (Some (h x)) | Inr f \<Rightarrow> put (u f)) }) w = (e, w')"
    and "\<And>f. view w = Some f \<Longrightarrow> file_ok (u f) \<and> IsValid (sfState (u f))"
  shows "if e = None then \<exists>f. view w = Some f \<and> view w' = Some (u f\<lparr>sfSpecVersion := SpecVersion\<rparr>)
     else view w' = view w"
proof -
  obtain r w1 where 1: "run fetch w = (r, w1)" by (meson surj_pair)
  show ?thesis
  proof (cases r)
    case (Inl x)
    with assms(1) 1 read_quiet [OF 1] show ?thesis by auto
  next
    case (Inr f)
    with 1 have v: "view w = Some f" by (auto dest: read_view)
    with assms 1 Inr have "run (put (u f)) w1 = (e, w')" "file_ok (u f)" "IsValid (sfState (u f))"
      by auto
    from write_old_or_new [OF this] v read_quiet [OF 1] show ?thesis by auto
  qed
qed

end

lemma Store_Write_view:
  assumes "store_path path" and "run (Store_Write path f) w = (e, w')"
  shows "if e = None
     then \<exists>n. files w' path = Some n \<and> \<not> fisdir n \<and> fcontent n = marshal_file (f\<lparr>sfSpecVersion := SpecVersion\<rparr>)
     else recorded path w' = recorded path w"
  using Store_Write_cases [OF assms] by (cases "e = None") (auto intro: recorded_cong)

text \<open>Every store at a sound path keeps the contract.\<close>

locale stored_at =
  fixes path :: string
  assumes sound_path: "store_path path"

sublocale stored_at \<subseteq> state_store "Store_Read path" "Store_Write path" "recorded path"
proof
  fix w :: "'x world" and f w'
  show "run (Store_Read path) w = (Inr f, w') \<Longrightarrow> recorded path w = Some f"
    by (rule Store_Read_recorded)
next
  fix w :: "'x world" and r w'
  show "run (Store_Read path) w = (r, w') \<Longrightarrow> recorded path w' = recorded path w"
    by (rule Store_Read_quiet)
next
  fix w :: "'x world" and f e w'
  assume "run (Store_Write path f) w = (Some e, w')"
  from Store_Write_view [OF sound_path this] show "recorded path w' = recorded path w" by simp
next
  fix w :: "'x world" and f w'
  assume run: "run (Store_Write path f) w = (None, w')" and ok: "file_ok f" "IsValid (sfState f)"
  from Store_Write_view [OF sound_path run] parse_marshal_state [OF ok, of path]
  show "recorded path w' = Some (f\<lparr>sfSpecVersion := SpecVersion\<rparr>)"
    by (auto simp: recorded_def)
next
  fix w :: "'x world" and f w' g
  assume run: "run (Store_Write path f) w = (None, w')" and g: "recorded path w' = Some g"
  from Store_Write_view [OF sound_path run] g show "same_core g f"
    by (auto simp: recorded_def dest: parse_marshal_core split: sum.splits)
qed

interpretation canonical: stored_at StatePath
  by unfold_locales (rule store_path_StatePath)

subsection \<open>What is read fits the records\<close>

lemma atoi_bound: "atoi s = Some i \<Longrightarrow> int64_ok i"
  by (auto simp: atoi_def Let_def split: if_splits prod.splits)

lemma dec_int_bound: "dec_int v = Some i \<Longrightarrow> int64_ok i"
  by (cases v) (auto dest: atoi_bound)

lemma dec_plain_inv:
  assumes "\<And>v a. d v = Some a \<Longrightarrow> P a" and "P z" and "dec_plain d z vs = Some a"
  shows "P a"
proof -
  have "(case r of None \<Rightarrow> True | Some b \<Rightarrow> P b) \<Longrightarrow>
      (case foldl (\<lambda>acc v. case acc of None \<Rightarrow> None
         | Some a \<Rightarrow> if v = JNull then Some a else d v) r vs of None \<Rightarrow> True | Some b \<Rightarrow> P b)" for r
  proof (induction vs arbitrary: r)
    case (Cons v vs)
    show ?case unfolding foldl_Cons
      by (rule Cons.IH) (use Cons.prems assms(1) in \<open>auto split: option.splits\<close>)
  qed simp
  from this [of "Some z"] assms(2,3) show ?thesis by (simp add: dec_plain_def)
qed

lemma dec_ptr_inv:
  assumes "\<And>v a. d v = Some a \<Longrightarrow> P a" and "dec_ptr d vs = Some (Some a)"
  shows "P a"
proof -
  define Q where "Q r \<longleftrightarrow> (\<forall>b. r = Some (Some b) \<longrightarrow> P b)" for r
  have "Q r \<Longrightarrow> Q (foldl (\<lambda>acc v. case acc of None \<Rightarrow> None
         | Some a \<Rightarrow> if v = JNull then Some None else map_option Some (d v)) r vs)" for r
  proof (induction vs arbitrary: r)
    case (Cons v vs)
    show ?case unfolding foldl_Cons
      by (rule Cons.IH) (use Cons.prems assms(1) in \<open>auto simp: Q_def split: option.splits\<close>)
  qed simp
  from this [of "Some None"] assms(2) show ?thesis by (simp add: dec_ptr_def Q_def)
qed

lemma dec_validate_bounds: "dec_validate j = Some v \<Longrightarrow> int64_ok (vrPassed v) \<and> int64_ok (vrTotal v)"
proof -
  assume "dec_validate j = Some v"
  then obtain ps ts where "dec_plain dec_int 0 ps = Some (vrPassed v)" "dec_plain dec_int 0 ts = Some (vrTotal v)"
    by (auto simp: dec_validate_def split: Option.bind_splits)
  moreover have "int64_ok a" if "dec_plain dec_int 0 vs = Some a" for vs a
    by (rule dec_plain_inv [OF _ _ that]) (auto dest: dec_int_bound simp: int64_ok_def)
  ultimately show ?thesis by blast
qed

lemma dec_file_ok: "dec_file j = Some f \<Longrightarrow> file_ok f"
proof -
  assume "dec_file j = Some f"
  then obtain vs where "dec_ptr dec_validate vs = Some (sfLastValidate f)"
    by (auto simp: dec_file_def split: Option.bind_splits)
  then show ?thesis
    using dec_ptr_inv [where P = "\<lambda>v. int64_ok (vrPassed v) \<and> int64_ok (vrTotal v)", OF dec_validate_bounds]
    by (auto simp: file_ok_def split: option.splits)
qed

lemma recorded_file_ok: "recorded path w = Some f \<Longrightarrow> file_ok f"
  by (auto simp: recorded_def parse_state_def unmarshal_file_def dec_file_ok
      split: option.splits if_splits sum.splits)

context stored_at
begin

lemma Invalidate_old_or_new:
  assumes "run (Store_InvalidateClassification path) w = (e, w')"
  shows "if e = None
     then \<exists>f. recorded path w = Some f \<and>
            recorded path w' = Some (f\<lparr>sfClassificationValid := False, sfSpecVersion := SpecVersion\<rparr>)
     else recorded path w' = recorded path w"
proof -
  have "file_ok (f\<lparr>sfClassificationValid := False\<rparr>) \<and> IsValid (sfState (f\<lparr>sfClassificationValid := False\<rparr>))"
    if "recorded path w = Some f" for f
    using recorded_file_ok [OF that] recorded_valid [OF that] by (simp add: file_ok_def)
  from update_old_or_new [OF assms [unfolded Store_InvalidateClassification_def] this]
  show ?thesis by simp
qed

lemma Invalidate_keeps:
  assumes "\<And>f g. same_core g f \<Longrightarrow> P f \<Longrightarrow> P g" and "\<And>f b. P f \<Longrightarrow> P (f\<lparr>sfClassificationValid := b\<rparr>)"
  shows "keeps (recorded_is (recorded path) P) (Store_InvalidateClassification path)"
proof (rule keepsI)
  fix w e w'
  assume w: "recorded_is (recorded path) P w" and run: "run (Store_InvalidateClassification path) w = (e, w')"
  have *: "P (f\<lparr>sfClassificationValid := b, sfSpecVersion := v\<rparr>)" if "P f" for f b v
    using assms(2) [OF that, of b] by (rule assms(1) [rotated]) (simp add: same_core_def)
  from Invalidate_old_or_new [OF run] w show "recorded_is (recorded path) P w'"
    by (auto simp: recorded_is_def intro: * split: if_splits)
qed

end

subsection \<open>Properties\<close>

text \<open>
  C3: the write of the state file is atomic whatever system calls fail: if it reports success
  the file is the complete JSON text of the given state, with the binary's spec version and
  mode 0644; if it reports an error, or if every call after some point fails as after a crash,
  the file is the one that was there before.
\<close>

theorem Store_Write_atomic:
  "case run (Store_Write StatePath f) w of (e, w') \<Rightarrow>
     (if e = None
      then \<exists>n. files w' StatePath = Some n \<and> \<not> fisdir n \<and> fmode n = octal [0, 6, 4, 4] \<and>
             fcontent n = marshal_file (f\<lparr>sfSpecVersion := SpecVersion\<rparr>)
      else files w' StatePath = files w StatePath)"
proof (cases "run (Store_Write StatePath f) w")
  case (Pair e w')
  from Store_Write_cases [OF store_path_StatePath Pair] show ?thesis unfolding Pair by auto
qed

text \<open>
  a failed write leaves the files as they were, its temporary file removed, if at most
  one system call fails; only the directories it creates stay.
\<close>

theorem Store_Write_leaves_no_temp:
  assumes "one_fault w" and "run (Store_Write StatePath f) w = (Some x, w')"
    and "q \<notin> set (ancestors (dir_of StatePath))"
  shows "files w' q = files w q"
  by (rule Store_Write_failed_clean [OF assms(2) store_path_StatePath assms(1,3)])

text \<open>A machine with one file, on which the calls fail that a list names.\<close>

definition demo_world :: "(string \<times> string) list \<Rightarrow> (nat \<times> errno) list \<Rightarrow> unit world" where
  "demo_world fs es = \<lparr>
     files = map_of (map (\<lambda>(p, c). (p, \<lparr>fcontent = c, fmode = 420, fowner = ''root'', fgroup = ''root'',
       fisdir = False\<rparr>)) fs),
     ext = (), sysno = 0, fault_at = map_of es, short_at = (\<lambda>_. 3), randno = 0,
     rand_at = (\<lambda>n. itoa (int n)), clockno = 0, clock_at = (\<lambda>n. ''t'' @ itoa (int n)), mono_at = int, self_pid = 100,
     self_user = ''root'', kill0 = (\<lambda>p. if p = 100 \<or> p = 200 then None else Some ESRCH), stderr = [], stdout = []\<rparr>"

lemma one_fault_demo: "one_fault (demo_world fs [(k, e)])"
  by (simp add: one_fault_def demo_world_def)

definition demo_file :: "lab_state \<Rightarrow> state_file" where
  "demo_file s = \<lparr>sfSpecVersion = SpecVersion, sfState = s, sfClassificationValid = True,
     sfActiveFault = None, sfLastValidate = None, sfLastReset = None, sfLastProvision = None,
     sfLastStatusAt = None, sfHistory = []\<rparr>"

theorem Store_Write_leaves_no_temp_witness:
  "case run (Store_Write StatePath (demo_file StateBroken)) (demo_world [] [(4, EIO)]) of
     (e, w') \<Rightarrow> e \<noteq> None \<and> files w' ''/var/lib/lab/.state-0.json'' = None"
proof -
  have 1: "fst (run (Store_Write StatePath (demo_file StateBroken)) (demo_world [] [(4, EIO)])) \<noteq> None"
    by code_simp
  have 2: "''/var/lib/lab/.state-0.json'' \<notin> set (ancestors (dir_of StatePath))" by code_simp
  obtain x w' where r: "run (Store_Write StatePath (demo_file StateBroken)) (demo_world [] [(4, EIO)]) = (Some x, w')"
    using 1 by (metis not_Some_eq prod.collapse)
  from Store_Write_leaves_no_temp [OF one_fault_demo r 2] r show ?thesis by (simp add: demo_world_def)
qed

text \<open>
  C11: what a read gives is well typed, whatever bytes are in the file and whatever fails: an
  error, or a record with one of the six states, validation counts within 64 bits, and the
  fields of the file, which the program can write and read back; a record that is there is
  only missed when the read itself fails. Nothing is changed.
\<close>

theorem Store_Read_typed:
  "case run (Store_Read path) w of
     (Inl _, w') \<Rightarrow> files w' = files w \<and> (if fault_at w (sysno w) = None then recorded path w = None else True)
   | (Inr f, w') \<Rightarrow> files w' = files w \<and> recorded path w = Some f \<and> sfState f \<in> set AllStates \<and>
       (case sfLastValidate f of None \<Rightarrow> True
        | Some v \<Rightarrow> {vrPassed v, vrTotal v} \<subseteq> {- (2 ^ 63) ..< 2 ^ 63}) \<and>
       parse_state path (marshal_file (f\<lparr>sfSpecVersion := SpecVersion\<rparr>)) = Inr (f\<lparr>sfSpecVersion := SpecVersion\<rparr>)"
proof -
  obtain r w' where run: "run (Store_Read path) w = (r, w')" by (meson surj_pair)
  note w' = Store_Read_files [OF run]
  show ?thesis
  proof (cases r)
    case (Inl e)
    with run w' Store_Read_complete [of w path] show ?thesis by (cases "recorded path w") auto
  next
    case (Inr f)
    with run have f: "recorded path w = Some f" using Store_Read_recorded by blast
    note ok = recorded_file_ok [OF f] recorded_valid [OF f]
    then have "sfState f \<in> set AllStates" by (auto simp: IsValid_def list_ex_iff)
    with f ok run w' Inr parse_marshal_state [OF ok, of path] show ?thesis
      by (auto simp: file_ok_def int64_ok_def split: option.splits)
  qed
qed

text \<open>
  C10: reading back what was written gives the written state, for every state file whose state
  is one of the six and whose counters fit 64 bits: no field is lost or changed but the spec
  version, which is the binary's.
\<close>

theorem Store_Read_after_Write:
  assumes "file_ok f" and "IsValid (sfState f)"
    and "run (Store_Write StatePath f) w = (None, w')" and "fault_at w' (sysno w') = None"
  shows "fst (run (Store_Read StatePath) w') = Inr (f\<lparr>sfSpecVersion := SpecVersion\<rparr>)"
  using canonical.write_done [OF assms(3,1,2)] Store_Read_complete [OF assms(4)] by simp

theorem Store_Read_after_Write_witness:
  "case run (Store_Write StatePath (demo_file StateConformant)) (demo_world [] []) of
     (e, w') \<Rightarrow> e = None \<and> fst (run (Store_Read StatePath) w') = Inr (demo_file StateConformant)"
proof -
  let ?r = "run (Store_Write StatePath (demo_file StateConformant)) (demo_world [] [])"
  have 1: "fst ?r = None" by code_simp
  have 2: "fault_at (snd ?r) (sysno (snd ?r)) = None" by code_simp
  have r: "?r = (None, snd ?r)" using 1 by (metis prod.collapse)
  have ok: "file_ok (demo_file StateConformant)" "IsValid (sfState (demo_file StateConformant))"
    by (simp_all add: file_ok_def demo_file_def)
  from Store_Read_after_Write [OF ok r 2]
  have "fst (run (Store_Read StatePath) (snd ?r)) = Inr (demo_file StateConformant)"
    by (simp add: demo_file_def)
  with 1 show ?thesis unfolding case_prod_beta by blast
qed

text \<open>
  invalidating the classification changes nothing but the flag: on success the recorded
  state, fault, history and records are the old ones with \<open>classification_valid\<close> false (the
  state is not set to BROKEN); on failure what is recorded is as it was.
\<close>

theorem Invalidate_only_clears_the_flag:
  "case run (Store_InvalidateClassification StatePath) w of (e, w') \<Rightarrow>
     (if e = None
      then \<exists>f. recorded StatePath w = Some f \<and>
             recorded StatePath w' = Some (f\<lparr>sfClassificationValid := False, sfSpecVersion := SpecVersion\<rparr>)
      else recorded StatePath w' = recorded StatePath w)"
proof (cases "run (Store_InvalidateClassification StatePath) w")
  case (Pair e w')
  from canonical.Invalidate_old_or_new [OF Pair] show ?thesis unfolding Pair by auto
qed

text \<open>
  the history is a ring: after any sequence of appends it is the last fifty of the old
  entries followed by the new ones, in order, oldest dropped first.
\<close>

theorem AppendHistory_ring:
  "es \<noteq> [] \<Longrightarrow>
     sfHistory (foldl (\<lambda>f e. AppendHistory e f) f es) =
       (let h = sfHistory f @ es in drop (length h - 50) h) \<and>
     length (sfHistory (foldl (\<lambda>f e. AppendHistory e f) f es)) \<le> 50"
  by (simp add: sfHistory_foldl_AppendHistory last_n_def HistoryMaxEntries_def Let_def)

definition demo_entry :: "nat \<Rightarrow> history_entry" where
  "demo_entry n = \<lparr>heTs = itoa (int n), heFrom = StateConformant, heTo = StateDegraded,
     heCommand = ''lab'', heFault = [], heForced = False\<rparr>"

theorem AppendHistory_ring_witness:
  "sfHistory (foldl (\<lambda>f e. AppendHistory e f) (demo_file StateBroken) (map demo_entry [0..<52])) =
     drop 2 (map demo_entry [0..<52])"
proof -
  have 1: "map demo_entry [0..<52] \<noteq> []" by simp
  have 2: "sfHistory (demo_file StateBroken) = []" by (simp add: demo_file_def)
  have 3: "length (map demo_entry [0..<52]) - 50 = 2" by simp
  from AppendHistory_ring [OF 1, of "demo_file StateBroken"] show ?thesis
    unfolding 2 Let_def append_Nil 3 by blast
qed

end
