(* ===== verification/Conformance.thy ===== *)
theory Conformance
  imports LabConfig
begin

text \<open>
  The conformance engine, \<^verbatim>\<open>internal/conformance\<close>: the Observer interface
  (\<^verbatim>\<open>observer.go\<close>), checks and their results (\<^verbatim>\<open>check.go\<close>), the classification of a suite
  result (\<^verbatim>\<open>result.go\<close>) and the runner (\<^verbatim>\<open>runner.go\<close>). The check catalog is in the theory
  \<open>CheckCatalog\<close>.
\<close>

subsection \<open>The Observer interface\<close>

record file_info =
  fi_size :: int
  fi_mode :: nat
  fi_isdir :: bool

record process_status =
  ps_running :: bool
  ps_pid :: int
  ps_user :: string

record port_status =
  pt_listening :: bool
  pt_addr :: string

record endpoint_status =
  ep_status_code :: int
  ep_reachable :: bool
  ep_body :: string

text \<open>A Go interface value is the record of its methods over the world \<open>'w\<close>.\<close>

record 'w observer =
  Stat :: "string \<Rightarrow> ('w, file_info result) state"
  ReadFile :: "string \<Rightarrow> ('w, string result) state"
  CheckProcess :: "string \<Rightarrow> string \<Rightarrow> ('w, process_status result) state"
  CheckPort :: "string \<Rightarrow> ('w, port_status result) state"
  CheckEndpoint :: "string \<Rightarrow> bool \<Rightarrow> ('w, endpoint_status result) state"
  ResolveHost :: "string \<Rightarrow> ('w, string result) state"
  ServiceActive :: "string \<Rightarrow> ('w, bool result) state"
  ServiceEnabled :: "string \<Rightarrow> ('w, bool result) state"
  RunCommand :: "string \<Rightarrow> string list \<Rightarrow> ('w, string result) state"

subsection \<open>Checks\<close>

datatype severity = SeverityBlocking | SeverityDegraded

fun severity_string :: "severity \<Rightarrow> string" where
  "severity_string SeverityBlocking = ''blocking''"
| "severity_string SeverityDegraded = ''degraded''"

datatype category =
    CategorySystemState | CategoryProcess | CategoryEndpoint | CategoryFilesystem | CategoryLog

fun category_string :: "category \<Rightarrow> string" where
  "category_string CategorySystemState = ''S''"
| "category_string CategoryProcess = ''P''"
| "category_string CategoryEndpoint = ''E''"
| "category_string CategoryFilesystem = ''F''"
| "category_string CategoryLog = ''L''"

datatype check_layer = LayerBehavioral | LayerStructural | LayerOperational

text \<open>
  A check is its metadata and the function that evaluates it; a result points to the
  metadata. A function called under \<open>recover\<close> returns or panics with a message.
\<close>

datatype 'a outcome = Returns 'a | Panics string

record check_meta =
  cID :: string
  cCategory :: category
  cLayer :: check_layer
  cSeverity :: severity
  cAssertion :: string
  cFailureMeaning :: string
  cObservableCommand :: string

record 'w check = check_meta +
  cExecute :: "'w observer \<Rightarrow> ('w, go_error option outcome) state"

definition meta :: "'w check \<Rightarrow> check_meta" where
  "meta c = check_meta.truncate c"

lemma meta_simps [simp]:
  "cID (meta c) = cID c" "cCategory (meta c) = cCategory c" "cSeverity (meta c) = cSeverity c"
  "cAssertion (meta c) = cAssertion c"
  by (simp_all add: meta_def check_meta.truncate_def)

record check_result =
  rCheck :: check_meta
  rPassed :: bool
  rErr :: "go_error option"
  rDependent :: bool

definition check_result_string :: "check_result \<Rightarrow> string" where
  "check_result_string r =
     (if rPassed r then ''[PASS] '' @ cID (rCheck r) @ ''  '' @ cAssertion (rCheck r)
      else if rDependent r then
        ''[SKIP] '' @ cID (rCheck r) @ ''  '' @ cAssertion (rCheck r) @ '' (dependent on failed check)''
      else ''[FAIL] '' @ cID (rCheck r) @ ''  '' @ cAssertion (rCheck r) @ '' '' @ u_emdash @ '' '' @
        (case rErr r of None \<Rightarrow> ''<nil>'' | Some e \<Rightarrow> error_text e))"

subsection \<open>Suite results\<close>

datatype classification = ClassConformant | ClassDegradedConformant | ClassNonConformant

fun classification_string :: "classification \<Rightarrow> string" where
  "classification_string ClassConformant = ''CONFORMANT''"
| "classification_string ClassDegradedConformant = ''CONFORMANT (degraded)''"
| "classification_string ClassNonConformant = ''NON-CONFORMANT''"

definition IsConformant :: "classification \<Rightarrow> bool" where
  "IsConformant c \<longleftrightarrow> c = ClassConformant \<or> c = ClassDegradedConformant"

record suite_result =
  sAt :: time
  sResults :: "check_result list"
  sClassification :: classification
  sPassed :: int
  sTotal :: int
  sFailingBlockingIDs :: "string list"
  sFailingDegradedIDs :: "string list"

text \<open>The loop of \<open>Classify\<close>, with its three accumulators.\<close>

fun classify_loop :: "check_result list \<Rightarrow> int \<times> string list \<times> string list \<Rightarrow> int \<times> string list \<times> string list" where
  "classify_loop [] acc = acc"
| "classify_loop (r # rs) (p, b, d) =
     (if rPassed r then classify_loop rs (p + 1, b, d)
      else if rDependent r then classify_loop rs (p, b, d)
      else (case cSeverity (rCheck r) of
              SeverityBlocking \<Rightarrow> classify_loop rs (p, b @ [cID (rCheck r)], d)
            | SeverityDegraded \<Rightarrow> classify_loop rs (p, b, d @ [cID (rCheck r)])))"

definition Classify :: "suite_result \<Rightarrow> suite_result" where
  "Classify s =
     (case classify_loop (sResults s) (0, [], []) of (p, b, d) \<Rightarrow>
        s\<lparr>sPassed := p, sFailingBlockingIDs := b, sFailingDegradedIDs := d,
          sClassification :=
            (if b \<noteq> [] then ClassNonConformant
             else if d \<noteq> [] then ClassDegradedConformant
             else ClassConformant)\<rparr>)"

definition ExitCode :: "suite_result \<Rightarrow> int" where
  "ExitCode s = (if sFailingBlockingIDs s \<noteq> [] then 1 else 0)"

definition SuiteCheckByID :: "suite_result \<Rightarrow> string \<Rightarrow> check_result option" where
  "SuiteCheckByID s i = List.find (\<lambda>r. cID (rCheck r) = i) (sResults s)"

definition HasFailingCheck :: "suite_result \<Rightarrow> string \<Rightarrow> bool" where
  "HasFailingCheck s i \<longleftrightarrow> i \<in> set (sFailingBlockingIDs s) \<or> i \<in> set (sFailingDegradedIDs s)"

subsection \<open>The runner\<close>

definition runOne :: "'w check \<Rightarrow> 'w observer \<Rightarrow> bool \<Rightarrow> ('w, check_result) state" where
  "runOne c ob s001Passed = do {
     r \<leftarrow> cExecute c ob;
     (let err = (case r of Returns e \<Rightarrow> e | Panics m \<Rightarrow> Some (Errorf (''check panicked: '' @ m)))
      in ret \<lparr>rCheck = meta c, rPassed = (err = None), rErr = err,
              rDependent = (cCategory c = CategoryEndpoint \<and> \<not> s001Passed)\<rparr>)
   }"

fun run_checks :: "'w observer \<Rightarrow> bool \<Rightarrow> 'w check list \<Rightarrow> ('w, check_result list) state" where
  "run_checks ob s001Passed [] = ret []"
| "run_checks ob s001Passed (c # cs) = do {
     res \<leftarrow> runOne c ob s001Passed;
     rest \<leftarrow> run_checks ob (if cID c = ''S-001'' \<and> \<not> rPassed res then False else s001Passed) cs;
     ret (res # rest)
   }"

definition empty_suite :: "time \<Rightarrow> int \<Rightarrow> check_result list \<Rightarrow> suite_result" where
  "empty_suite t n rs = \<lparr>sAt = t, sResults = rs, sClassification = ClassConformant, sPassed = 0,
     sTotal = n, sFailingBlockingIDs = [], sFailingDegradedIDs = []\<rparr>"

text \<open>A \<open>Runner\<close> is its list of checks.\<close>

definition Runner_Run :: "'x world check list \<Rightarrow> 'x world observer \<Rightarrow> ('x world, suite_result) state" where
  "Runner_Run checks ob = do {
     t \<leftarrow> time_now;
     rs \<leftarrow> run_checks ob True checks;
     ret (Classify (empty_suite t (int (length checks)) rs))
   }"

definition Runner_RunSingle ::
  "'x world check list \<Rightarrow> string \<Rightarrow> 'x world observer \<Rightarrow> ('x world, check_result result) state" where
  "Runner_RunSingle checks i ob =
     (case List.find (\<lambda>c. cID c = i) checks of
        Some c \<Rightarrow> do { res \<leftarrow> runOne c ob True; ret (Inr res) }
      | None \<Rightarrow> ret (Inl (Errorf (''unknown check ID: '' @ [CHR 0x22] @ i @ [CHR 0x22]))))"

fun run_wanted :: "string list \<Rightarrow> 'w observer \<Rightarrow> 'w check list \<Rightarrow> ('w, check_result list) state" where
  "run_wanted ids ob [] = ret []"
| "run_wanted ids ob (c # cs) =
     (if cID c \<notin> set ids then run_wanted ids ob cs
      else do { res \<leftarrow> runOne c ob True; rest \<leftarrow> run_wanted ids ob cs; ret (res # rest) })"

definition Runner_RunIDs :: "'w check list \<Rightarrow> string list \<Rightarrow> 'w observer \<Rightarrow> ('w, check_result list) state" where
  "Runner_RunIDs checks ids ob = run_wanted ids ob checks"

definition lightweightIDs :: "string list" where
  "lightweightIDs = [''P-001'', ''P-002'', ''S-003'', ''E-001'']"

definition Runner_LightweightRun ::
  "'x world check list \<Rightarrow> 'x world observer \<Rightarrow> ('x world, suite_result) state" where
  "Runner_LightweightRun checks ob = do {
     rs \<leftarrow> Runner_RunIDs checks lightweightIDs ob;
     t \<leftarrow> time_now;
     ret (Classify (empty_suite t (int (length rs)) rs))
   }"

subsection \<open>Classification\<close>

text \<open>A failure counts when it is not dependent; its severity says which list it joins.\<close>

definition counts_as :: "severity \<Rightarrow> check_result \<Rightarrow> bool" where
  "counts_as v r \<longleftrightarrow> \<not> rPassed r \<and> \<not> rDependent r \<and> cSeverity (rCheck r) = v"

definition failing_ids :: "severity \<Rightarrow> check_result list \<Rightarrow> string list" where
  "failing_ids v rs = map (\<lambda>r. cID (rCheck r)) (filter (counts_as v) rs)"

lemma failing_ids_simps [simp]:
  "failing_ids v [] = []"
  "failing_ids v (r # rs) = (if counts_as v r then cID (rCheck r) # failing_ids v rs else failing_ids v rs)"
  "failing_ids v (rs @ rs') = failing_ids v rs @ failing_ids v rs'"
  by (simp_all add: failing_ids_def)

lemma classify_loop_eq:
  "classify_loop rs (p, b, d) =
     (p + int (length (filter rPassed rs)),
      b @ failing_ids SeverityBlocking rs, d @ failing_ids SeverityDegraded rs)"
  by (induction rs arbitrary: p b d) (auto simp: counts_as_def split: severity.splits)

lemma Classify_simps [simp]:
  "sPassed (Classify s) = int (length (filter rPassed (sResults s)))"
  "sFailingBlockingIDs (Classify s) = failing_ids SeverityBlocking (sResults s)"
  "sFailingDegradedIDs (Classify s) = failing_ids SeverityDegraded (sResults s)"
  "sResults (Classify s) = sResults s" "sTotal (Classify s) = sTotal s" "sAt (Classify s) = sAt s"
  by (simp_all add: Classify_def classify_loop_eq)

lemma Classify_classification:
  "sClassification (Classify s) =
     (if failing_ids SeverityBlocking (sResults s) \<noteq> [] then ClassNonConformant
      else if failing_ids SeverityDegraded (sResults s) \<noteq> [] then ClassDegradedConformant
      else ClassConformant)"
  by (simp add: Classify_def classify_loop_eq)

lemma IsConformant_Classify:
  "IsConformant (sClassification (Classify s)) \<longleftrightarrow> failing_ids SeverityBlocking (sResults s) = []"
  by (simp add: IsConformant_def Classify_classification)

lemma failing_ids_empty_iff: "failing_ids v rs = [] \<longleftrightarrow> (\<forall>r \<in> set rs. \<not> counts_as v r)"
  by (simp add: failing_ids_def filter_empty_conv)

subsection \<open>What a run of the suite is\<close>

definition result_of :: "'w check \<Rightarrow> bool \<Rightarrow> check_result \<Rightarrow> bool" where
  "result_of c s001 r \<longleftrightarrow> rCheck r = meta c \<and> (rPassed r \<longleftrightarrow> rErr r = None) \<and>
     (rDependent r \<longleftrightarrow> cCategory c = CategoryEndpoint \<and> \<not> s001)"

lemma runOne_result: "run (runOne c ob s001) w = (r, w') \<Longrightarrow> result_of c s001 r"
  by (auto simp: runOne_def result_of_def Let_def split: prod.splits)

text \<open>Whether S-001 counts as passed before a position: no earlier S-001 failed.\<close>

fun s001_before :: "bool \<Rightarrow> check_result list \<Rightarrow> bool" where
  "s001_before b [] = b"
| "s001_before b (r # rs) = s001_before (if cID (rCheck r) = ''S-001'' \<and> \<not> rPassed r then False else b) rs"

lemma s001_before_iff:
  "s001_before b rs \<longleftrightarrow> b \<and> (\<forall>r \<in> set rs. cID (rCheck r) = ''S-001'' \<longrightarrow> rPassed r)"
  by (induction rs arbitrary: b) auto

lemma run_checks_results:
  "run (run_checks ob s001 cs) w = (rs, w') \<Longrightarrow>
     length rs = length cs \<and> (\<forall>i < length cs. result_of (cs ! i) (s001_before s001 (take i rs)) (rs ! i))"
proof (induction cs arbitrary: s001 w rs w')
  case Nil
  then show ?case by simp
next
  case (Cons c cs)
  obtain r w1 where r: "run (runOne c ob s001) w = (r, w1)" by (cases "run (runOne c ob s001) w")
  define s where "s = (if cID c = ''S-001'' \<and> \<not> rPassed r then False else s001)"
  obtain rs1 w2 where rs1: "run (run_checks ob s cs) w1 = (rs1, w2)" by (cases "run (run_checks ob s cs) w1")
  have rs: "rs = r # rs1" using Cons.prems r rs1 by (simp add: s_def)
  have res: "result_of c s001 r" using runOne_result [OF r] .
  then have before: "s001_before s001 (take (Suc i) rs) = s001_before s (take i rs1)" for i
    by (simp add: rs s_def result_of_def)
  have "result_of ((c # cs) ! i) (s001_before s001 (take i rs)) (rs ! i)" if "i < length (c # cs)" for i
  proof (cases i)
    case 0
    with res show ?thesis by (simp add: rs)
  next
    case (Suc j)
    with that have "result_of (cs ! j) (s001_before s (take j rs1)) (rs1 ! j)"
      using Cons.IH [OF rs1] by simp
    with before [of j] show ?thesis by (simp add: Suc rs)
  qed
  moreover have "length rs = length (c # cs)" using Cons.IH [OF rs1] by (simp add: rs)
  ultimately show ?case by blast
qed

lemma run_checks_ids:
  assumes "run (run_checks ob s001 cs) w = (rs, w')"
  shows "map (\<lambda>r. cID (rCheck r)) rs = map cID cs"
proof (rule nth_equalityI)
  show "length (map (\<lambda>r. cID (rCheck r)) rs) = length (map cID cs)"
    using run_checks_results [OF assms] by simp
next
  fix i assume "i < length (map (\<lambda>r. cID (rCheck r)) rs)"
  then show "map (\<lambda>r. cID (rCheck r)) rs ! i = map cID cs ! i"
    using run_checks_results [OF assms] by (auto simp: result_of_def)
qed

lemma Runner_Run_eq:
  assumes "run (Runner_Run checks ob) w = (s, w')"
  obtains t w1 rs where "run (run_checks ob True checks) w1 = (rs, w')"
    and "s = Classify (empty_suite t (int (length checks)) rs)"
proof -
  obtain t w1 where t: "run time_now w = (t, w1)" by (cases "run time_now w")
  obtain rs w2 where rs: "run (run_checks ob True checks) w1 = (rs, w2)"
    by (cases "run (run_checks ob True checks) w1")
  from assms t rs have "w' = w2" "s = Classify (empty_suite t (int (length checks)) rs)"
    by (simp_all add: Runner_Run_def)
  with rs that show ?thesis by simp
qed

lemma empty_suite_simps [simp]:
  "sResults (empty_suite t n rs) = rs" "sTotal (empty_suite t n rs) = n" "sAt (empty_suite t n rs) = t"
  by (simp_all add: empty_suite_def)

lemma run_wanted_results:
  "run (run_wanted ids ob cs) w = (rs, w') \<Longrightarrow>
     map (\<lambda>r. cID (rCheck r)) rs = filter (\<lambda>i. i \<in> set ids) (map cID cs) \<and> (\<forall>r \<in> set rs. \<not> rDependent r)"
proof (induction cs arbitrary: w rs w')
  case Nil
  then show ?case by simp
next
  case (Cons c cs)
  show ?case
  proof (cases "cID c \<in> set ids")
    case False
    with Cons show ?thesis by simp
  next
    case True
    obtain r w1 where r: "run (runOne c ob True) w = (r, w1)" by (cases "run (runOne c ob True) w")
    obtain rs1 w2 where rs1: "run (run_wanted ids ob cs) w1 = (rs1, w2)" by (cases "run (run_wanted ids ob cs) w1")
    from True Cons.prems r rs1 have "rs = r # rs1" by simp
    with True Cons.IH [OF rs1] runOne_result [OF r] show ?thesis by (simp add: result_of_def)
  qed
qed

subsection \<open>Observers that only observe\<close>

text \<open>
  The contract of the Observer interface: its methods have no mutation authority. Here it
  is stated for one predicate of the world that an observer keeps; a run of the suite then
  keeps it too.
\<close>

definition observes :: "('w \<Rightarrow> bool) \<Rightarrow> 'w observer \<Rightarrow> bool" where
  "observes I ob \<longleftrightarrow>
     (\<forall>p. keeps I (Stat ob p)) \<and> (\<forall>p. keeps I (ReadFile ob p)) \<and>
     (\<forall>n u. keeps I (CheckProcess ob n u)) \<and> (\<forall>a. keeps I (CheckPort ob a)) \<and>
     (\<forall>u s. keeps I (CheckEndpoint ob u s)) \<and> (\<forall>h. keeps I (ResolveHost ob h)) \<and>
     (\<forall>u. keeps I (ServiceActive ob u)) \<and> (\<forall>u. keeps I (ServiceEnabled ob u)) \<and>
     (\<forall>c as. keeps I (RunCommand ob c as))"

lemma observesD:
  assumes "observes I ob"
  shows "keeps I (Stat ob p)" "keeps I (ReadFile ob p)" "keeps I (CheckProcess ob n u)"
    "keeps I (CheckPort ob a)" "keeps I (CheckEndpoint ob url s)" "keeps I (ResolveHost ob h)"
    "keeps I (ServiceActive ob un)" "keeps I (ServiceEnabled ob un)" "keeps I (RunCommand ob c as)"
  using assms by (auto simp: observes_def)

text \<open>A check that reaches the world through its observer only.\<close>

definition well_behaved :: "'w check \<Rightarrow> bool" where
  "well_behaved c \<longleftrightarrow> (\<forall>I ob. observes I ob \<longrightarrow> keeps I (cExecute c ob))"

lemma keeps_runOne: "well_behaved c \<Longrightarrow> observes I ob \<Longrightarrow> keeps I (runOne c ob s)"
  unfolding runOne_def by (intro keeps_rules) (simp add: well_behaved_def)

lemma keeps_run_checks:
  "(\<And>c. c \<in> set cs \<Longrightarrow> well_behaved c) \<Longrightarrow> observes I ob \<Longrightarrow> keeps I (run_checks ob s cs)"
  by (induction cs arbitrary: s) (auto intro!: keeps_rules keeps_runOne)

lemma keeps_run_wanted:
  "(\<And>c. c \<in> set cs \<Longrightarrow> well_behaved c) \<Longrightarrow> observes I ob \<Longrightarrow> keeps I (run_wanted ids ob cs)"
  by (induction cs) (auto intro!: keeps_rules keeps_runOne)

end
