(* ===== verification/Executor.thy ===== *)
theory Executor
  imports Store Conformance
begin

text \<open>
  The Executor interface (\<^verbatim>\<open>internal/executor/executor.go\<close>), the audit log
  (\<^verbatim>\<open>internal/executor/audit.go\<close>) and the implementation against the machine
  (\<^verbatim>\<open>internal/executor/real.go\<close>, \<^verbatim>\<open>canonical_files.go\<close>, \<^verbatim>\<open>export.go\<close>).

  Commands, HTTP requests and name resolution reach code outside the repository: what
  \<open>exec.Cmd.Run\<close>, \<open>http.Client.Get\<close> and \<open>net.LookupHost\<close> do is a parameter of the
  implementation, the record \<open>outside\<close>.
\<close>

record 'w executor = "'w observer" +
  WriteFile :: "string \<Rightarrow> string \<Rightarrow> nat \<Rightarrow> string \<Rightarrow> string \<Rightarrow> ('w, go_error option) state"
  Chmod :: "string \<Rightarrow> nat \<Rightarrow> ('w, go_error option) state"
  Chown :: "string \<Rightarrow> string \<Rightarrow> string \<Rightarrow> ('w, go_error option) state"
  Remove :: "string \<Rightarrow> ('w, go_error option) state"
  MkdirAll :: "string \<Rightarrow> nat \<Rightarrow> string \<Rightarrow> string \<Rightarrow> ('w, go_error option) state"
  Systemctl :: "string \<Rightarrow> string \<Rightarrow> ('w, go_error option) state"
  NginxReload :: "('w, go_error option) state"
  RestoreFile :: "string \<Rightarrow> ('w, go_error option) state"
  RunMutation :: "string \<Rightarrow> string list \<Rightarrow> ('w, go_error option) state"

subsection \<open>The audit log\<close>

record audit_entry =
  aeTs :: time
  aeEntryType :: string
  aeCommand :: string
  aeFaultID :: string
  aeOp :: string
  aeOpArgs :: string
  aeExitCode :: "int option"
  aeDurationMs :: int
  aeError :: string

definition EntryTypeExecutorOp :: string where "EntryTypeExecutorOp = ''executor_op''"
definition EntryTypeStateTransition :: string where "EntryTypeStateTransition = ''state_transition''"
definition EntryTypeReconciliation :: string where "EntryTypeReconciliation = ''reconciliation''"
definition EntryTypeInterrupt :: string where "EntryTypeInterrupt = ''interrupt''"
definition EntryTypeError :: string where "EntryTypeError = ''error''"

text \<open>The JSON line of an entry; the fields marked \<open>omitempty\<close> are left out when zero.\<close>

definition omit_empty :: "string \<Rightarrow> string \<Rightarrow> (string \<times> json) list" where
  "omit_empty k v = (if v = [] then [] else [(k, JStr v)])"

definition enc_audit :: "audit_entry \<Rightarrow> json" where
  "enc_audit e = JObj (
     [(''ts'', JStr (aeTs e)), (''entry_type'', JStr (aeEntryType e)), (''command'', JStr (aeCommand e))] @
     omit_empty ''fault_id'' (aeFaultID e) @ omit_empty ''op'' (aeOp e) @ omit_empty ''op_args'' (aeOpArgs e) @
     (case aeExitCode e of None \<Rightarrow> [] | Some c \<Rightarrow> [(''exit_code'', JNum (itoa c))]) @
     [(''duration_ms'', JNum (itoa (aeDurationMs e)))] @ omit_empty ''error'' (aeError e))"

record audit_logger =
  alPath :: string
  alCommand :: string

definition NewAuditLoggerAt :: "string \<Rightarrow> string \<Rightarrow> audit_logger" where
  "NewAuditLoggerAt path command = \<lparr>alPath = path, alCommand = command\<rparr>"

definition NewAuditLogger :: "string \<Rightarrow> audit_logger" where
  "NewAuditLogger command = NewAuditLoggerAt AuditPath command"

definition audit_line :: "audit_entry \<Rightarrow> string" where
  "audit_line e = json_marshal (enc_audit e) @ [nl]"

definition audit_append :: "audit_logger \<Rightarrow> audit_entry \<Rightarrow> ('x world, unit) state" where
  "audit_append l entry = do {
     f \<leftarrow> os_OpenAppend (alPath l) (octal [0, 6, 4, 4]);
     (case f of
        Some err \<Rightarrow> eprint (''audit log open error: '' @ error_text err @ [nl])
      | None \<Rightarrow> do {
          e \<leftarrow> file_Write (alPath l) (audit_line entry);
          _ \<leftarrow> (case e of Some err \<Rightarrow> eprint (''audit log write error: '' @ error_text err @ [nl])
                | None \<Rightarrow> ret ());
          _ \<leftarrow> file_Close (alPath l);
          ret ()
        })
   }"

definition blank_entry :: "audit_logger \<Rightarrow> time \<Rightarrow> string \<Rightarrow> audit_entry" where
  "blank_entry l now t = \<lparr>aeTs = now, aeEntryType = t, aeCommand = alCommand l, aeFaultID = [], aeOp = [],
     aeOpArgs = [], aeExitCode = None, aeDurationMs = 0, aeError = []\<rparr>"

definition LogOp ::
  "audit_logger \<Rightarrow> string \<Rightarrow> string \<Rightarrow> int \<Rightarrow> int \<Rightarrow> go_error option \<Rightarrow> ('x world, unit) state" where
  "LogOp l opn args durationMs exitCode err = do {
     now \<leftarrow> time_now;
     audit_append l ((blank_entry l now EntryTypeExecutorOp)\<lparr>aeOp := opn, aeOpArgs := args,
       aeExitCode := Some exitCode, aeDurationMs := durationMs,
       aeError := (case err of None \<Rightarrow> [] | Some e \<Rightarrow> error_text e)\<rparr>)
   }"

text \<open>The arrow between two states is the character U+2192.\<close>

definition arrow_text :: "lab_state \<Rightarrow> lab_state \<Rightarrow> string" where
  "arrow_text a b = a @ '' '' @ u_rarrow @ '' '' @ b"

definition LogTransition :: "audit_logger \<Rightarrow> lab_state \<Rightarrow> lab_state \<Rightarrow> string \<Rightarrow> ('x world, unit) state" where
  "LogTransition l a b faultID = do {
     now \<leftarrow> time_now;
     audit_append l ((blank_entry l now EntryTypeStateTransition)\<lparr>aeFaultID := faultID, aeOp := arrow_text a b\<rparr>)
   }"

definition LogReconciliation :: "audit_logger \<Rightarrow> lab_state \<Rightarrow> lab_state \<Rightarrow> ('x world, unit) state" where
  "LogReconciliation l a b = do {
     now \<leftarrow> time_now;
     audit_append l ((blank_entry l now EntryTypeReconciliation)\<lparr>aeOp := arrow_text a b\<rparr>)
   }"

definition LogInterrupt :: "audit_logger \<Rightarrow> string \<Rightarrow> bool \<Rightarrow> ('x world, unit) state" where
  "LogInterrupt l opn gracePeriodExceeded = do {
     now \<leftarrow> time_now;
     audit_append l ((blank_entry l now EntryTypeInterrupt)\<lparr>aeOp := opn, aeOpArgs :=
       (if gracePeriodExceeded then ''signal received; grace period exceeded; operation abandoned''
        else ''signal received'')\<rparr>)
   }"

definition LogError :: "audit_logger \<Rightarrow> string \<Rightarrow> string \<Rightarrow> ('x world, unit) state" where
  "LogError l errName detail = do {
     now \<leftarrow> time_now;
     audit_append l ((blank_entry l now EntryTypeError)\<lparr>aeOp := errName, aeError := detail\<rparr>)
   }"

text \<open>A call under \<open>if c.audit != nil\<close>.\<close>

definition with_audit :: "audit_logger option \<Rightarrow> (audit_logger \<Rightarrow> ('w, unit) state) \<Rightarrow> ('w, unit) state" where
  "with_audit a f = (case a of None \<Rightarrow> ret () | Some l \<Rightarrow> f l)"

subsection \<open>The log is append-only\<close>

lemma keeps_audit_append: "alPath l \<noteq> q \<Longrightarrow> keeps (file_is q c) (audit_append l e)"
  unfolding audit_append_def by (intro keeps_rules keeps_OpenAppend keeps_Write)

lemma keeps_LogOp: "alPath l \<noteq> q \<Longrightarrow> keeps (file_is q c) (LogOp l opn args d x e)"
  unfolding LogOp_def by (intro keeps_rules keeps_audit_append)

lemma keeps_LogError: "alPath l \<noteq> q \<Longrightarrow> keeps (file_is q c) (LogError l n d)"
  unfolding LogError_def by (intro keeps_rules keeps_audit_append)

lemma keeps_LogTransition: "alPath l \<noteq> q \<Longrightarrow> keeps (file_is q c) (LogTransition l a b f)"
  unfolding LogTransition_def by (intro keeps_rules keeps_audit_append)

lemma keeps_LogReconciliation: "alPath l \<noteq> q \<Longrightarrow> keeps (file_is q c) (LogReconciliation l a b)"
  unfolding LogReconciliation_def by (intro keeps_rules keeps_audit_append)

lemma keeps_LogInterrupt: "alPath l \<noteq> q \<Longrightarrow> keeps (file_is q c) (LogInterrupt l opn b)"
  unfolding LogInterrupt_def by (intro keeps_rules keeps_audit_append)

lemmas keeps_log = keeps_LogOp keeps_LogError keeps_LogTransition keeps_LogReconciliation keeps_LogInterrupt

lemma keeps_with_audit:
  "(\<And>l. a = Some l \<Longrightarrow> keeps I (f l)) \<Longrightarrow> keeps I (with_audit a f)"
  unfolding with_audit_def by (cases a) (auto intro: keeps_rules)

text \<open>The text of a file, empty when it is absent.\<close>

definition content_of :: "string \<Rightarrow> 'x world \<Rightarrow> string" where
  "content_of p w = (case files w p of None \<Rightarrow> [] | Some n \<Rightarrow> fcontent n)"

lemma OpenAppend_content: "run (os_OpenAppend p m) w = (e, w') \<Longrightarrow>
    content_of p w' = content_of p w \<and> (e = None \<longrightarrow> files w' p \<noteq> None)"
  by (auto simp: os_OpenAppend_def run_syscall new_node_def set_file_def content_of_def split: option.splits)

lemma Write_content:
  assumes "run (file_Write p s) w = (e, w')" and "files w p \<noteq> None"
  shows "\<exists>k. content_of p w' = content_of p w @ take k s"
proof (cases "fault_at w (sysno w)")
  case None
  with assms show ?thesis
    by (intro exI [of _ "length s"])
       (auto simp: file_Write_def append_content_def run_syscall content_of_def split: option.splits)
next
  case (Some x)
  with assms show ?thesis
    by (intro exI [of _ "short_at w (sysno w)"])
       (auto simp: file_Write_def append_content_def run_syscall content_of_def split: option.splits)
qed

lemma Close_content: "run (file_Close p) w = (e, w') \<Longrightarrow> content_of q w' = content_of q w"
  by (auto simp: file_Close_def run_syscall content_of_def)

lemma eprint_content: "content_of q (snd (run (eprint s) w)) = content_of q w"
  by (simp add: eprint_def content_of_def)

lemma audit_append_content:
  "\<exists>k. content_of (alPath l) (snd (run (audit_append l e) w)) = content_of (alPath l) w @ take k (audit_line e)"
proof -
  obtain e1 w1 where 1: "run (os_OpenAppend (alPath l) (octal [0, 6, 4, 4])) w = (e1, w1)" by (meson surj_pair)
  note A = OpenAppend_content [OF 1]
  show ?thesis
  proof (cases e1)
    case (Some x)
    with 1 A show ?thesis
      by (intro exI [of _ 0]) (simp add: audit_append_def eprint_content)
  next
    case None
    obtain e2 w2 where 2: "run (file_Write (alPath l) (audit_line e)) w1 = (e2, w2)" by (meson surj_pair)
    from Write_content [OF 2] A None obtain k where k: "content_of (alPath l) w2 =
        content_of (alPath l) w @ take k (audit_line e)" by auto
    have "content_of (alPath l) (snd (run (audit_append l e) w)) = content_of (alPath l) w2"
      using 1 2 None
      by (cases e2) (auto simp: audit_append_def case_prod_beta eprint_def content_of_def file_Close_def run_syscall)
    with k show ?thesis by auto
  qed
qed

text \<open>
  the audit log is never truncated or rewritten: whatever system calls fail, an entry
  adds to the end of the log a prefix of its JSON line (all of it when nothing fails), what
  was logged before stays, and no other file changes.
\<close>

theorem audit_append_only:
  "case run (audit_append l e) w of (_, w') \<Rightarrow>
     (\<exists>k. content_of (alPath l) w' = content_of (alPath l) w @ take k (audit_line e)) \<and>
     {q. files w' q \<noteq> files w q} \<subseteq> {alPath l}"
proof -
  have "files (snd (run (audit_append l e) w)) q = files w q" if "q \<noteq> alPath l" for q
    using keeps_snd [OF keeps_audit_append [of l q], of "seen q w" w] that
    by (simp add: file_is_def seen_def)
  then show ?thesis using audit_append_content [of l e w] by (auto simp: case_prod_beta)
qed

end
