(* ===== verification/Faults.thy ===== *)
theory Faults
  imports Executor Conformance
begin

text \<open>
  The fault catalog, \<^verbatim>\<open>internal/catalog\<close>: the definition of a fault and its implementation
  (\<^verbatim>\<open>fault.go\<close>), the nineteen faults and the lookups (\<^verbatim>\<open>faults.go\<close>). A fault is its metadata
  and two programs over the Executor interface; the texts are those of the source, byte for
  byte. Properties of the catalog are in the theory \<open>FaultProps\<close>.
\<close>

record postcondition_spec =
  pcBehavioral :: string
  pcFailingChecks :: "string list"
  pcPassingChecks :: "string list"

record fault_def =
  fdID :: string
  fdLayer :: string
  fdDomain :: "string list"
  fdRequiresConfirmation :: bool
  fdIsReversible :: bool
  fdResetTier :: string
  fdPreconditions :: "lab_state list"
  fdPreconditionChecks :: "string list"
  fdPostcondition :: postcondition_spec
  fdSymptom :: string
  fdAuthoritativeSignal :: string
  fdObservable :: string
  fdMutationDisplay :: string
  fdResetAction :: string

record 'w fault_impl =
  fiDef :: fault_def
  fiApply :: "'w executor \<Rightarrow> ('w, go_error option) state"
  fiRecover :: "'w executor \<Rightarrow> ('w, go_error option) state"

definition replaceInBytes :: "string \<Rightarrow> string \<Rightarrow> string \<Rightarrow> string" where
  "replaceInBytes data old new = replace_first data old new"

text \<open>The numbers of the files of F-018.\<close>

definition inode_numbers :: "int list" where
  "inode_numbers = [1..100000]"

definition errNonReversible :: "string \<Rightarrow> go_error" where
  "errNonReversible i = Errorf (''fault '' @ i @ '' requires R3 reset (full reprovision) '' @ u_emdash @
     '' run: lab reset --tier R3'')"


definition def_F001 :: fault_def where
  "def_F001 = \<lparr>
     fdID = ''F-001'', fdLayer = ''filesystem'', fdDomain = [''linux'', ''os''],
     fdRequiresConfirmation = False, fdIsReversible = True, fdResetTier = ''R2'',
     fdPreconditions = [StateConformant], fdPreconditionChecks = [],
     fdPostcondition = \<lparr>
       pcBehavioral =
      ''App cannot start because config is missing. Restart loop with connection refused.'',
       pcFailingChecks = [''S-001'', ''E-001'', ''E-002'', ''E-003'', ''E-004'', ''E-005''],
       pcPassingChecks = [''F-003'', ''F-007'']\<rparr>,
     fdSymptom =
      ''Service enters restart loop; curl localhost/health fails (connection refused)'',
     fdAuthoritativeSignal = ''journald '' @ u_emdash @ '' journalctl -u app.service'',
     fdObservable =
      ''journalctl -u app.service -n 20 shows repeated start failures with config-not-found error; curl localhost/health '' @
      u_rarrow @ '' connection refused'',
     fdMutationDisplay =
      ''sudo rm /etc/app/config.yaml'',
     fdResetAction =
      ''sudo cp config/config.yaml /etc/app/config.yaml && sudo chown appuser:appuser /etc/app/config.yaml && sudo chmod 640 /etc/app/config.yaml && sudo systemctl restart app''\<rparr>"

definition apply_F001 :: "'w executor \<Rightarrow> ('w, go_error option) state" where
  "apply_F001 x = Remove x ConfigPath"

definition recover_F001 :: "'w executor \<Rightarrow> ('w, go_error option) state" where
  "recover_F001 x = RestoreFile x ConfigPath"

definition faultF001 :: "'w fault_impl" where
  "faultF001 = \<lparr>fiDef = def_F001, fiApply = apply_F001, fiRecover = recover_F001\<rparr>"

definition def_F002 :: fault_def where
  "def_F002 = \<lparr>
     fdID = ''F-002'', fdLayer = ''config/socket'', fdDomain = [''linux'', ''networking''],
     fdRequiresConfirmation = False, fdIsReversible = True, fdResetTier = ''R2'',
     fdPreconditions = [StateConformant], fdPreconditionChecks = [],
     fdPostcondition = \<lparr>
       pcBehavioral =
      ''App is running and healthy from its own perspective (reachable directly on 9090) but unreachable via nginx (which expects 8080).'',
       pcFailingChecks = [''P-002'', ''E-001'', ''E-002'', ''E-003'', ''E-004'', ''E-005''],
       pcPassingChecks = [''S-001'', ''P-001'', ''F-002'']\<rparr>,
     fdSymptom =
      ''nginx returns 502; app process is running and believes it is healthy'',
     fdAuthoritativeSignal = ''ss -ltnp + nginx error log'',
     fdObservable =
      ''ss -ltnp | grep 9090 shows app on wrong port; curl -I localhost '' @ u_rarrow @
      '' 502 with X-Proxy: nginx; curl 127.0.0.1:9090/health '' @ u_rarrow @ '' 200 (direct)'',
     fdMutationDisplay =
      ''Change server.addr in /etc/app/config.yaml from 127.0.0.1:8080 to 127.0.0.1:9090; sudo systemctl restart app'',
     fdResetAction =
      ''Restore canonical config.yaml, restart app''\<rparr>"

definition apply_F002 :: "'w executor \<Rightarrow> ('w, go_error option) state" where
  "apply_F002 x = do {
     r \<leftarrow> ReadFile x ConfigPath;
     (case r of
        Inl err \<Rightarrow> ret (Some (Wrapf ''reading config: '' err []))
      | Inr data \<Rightarrow>
          and_then (wrapping ''writing config: '' (WriteFile x ConfigPath (replaceInBytes data AppBindAddr ''127.0.0.1:9090'') ModeConfig ServiceUser ServiceGroup))
    (Systemctl x ''restart'' ''app.service''))
   }"

definition recover_F002 :: "'w executor \<Rightarrow> ('w, go_error option) state" where
  "recover_F002 x = and_then (RestoreFile x ConfigPath)
    (Systemctl x ''restart'' ''app.service'')"

definition faultF002 :: "'w fault_impl" where
  "faultF002 = \<lparr>fiDef = def_F002, fiApply = apply_F002, fiRecover = recover_F002\<rparr>"

definition def_F003 :: fault_def where
  "def_F003 = \<lparr>
     fdID = ''F-003'', fdLayer = ''permissions'', fdDomain = [''linux'', ''security''],
     fdRequiresConfirmation = False, fdIsReversible = True, fdResetTier = ''R2'',
     fdPreconditions = [StateConformant], fdPreconditionChecks = [],
     fdPostcondition = \<lparr>
       pcBehavioral =
      ''App cannot read config (permission denied). Same observable symptoms as F-001 but structural check F-002 mode bits distinguish the cause.'',
       pcFailingChecks = [''S-001'', ''E-001'', ''E-002'', ''E-003'', ''E-004'', ''E-005''],
       pcPassingChecks = [''F-002'', ''F-007'']\<rparr>,
     fdSymptom =
      ''Service enters restart loop; journald shows permission denied reading config'',
     fdAuthoritativeSignal = ''journald'',
     fdObservable =
      ''journalctl -u app.service -n 10 shows permission denied error; stat /etc/app/config.yaml shows mode 000'',
     fdMutationDisplay =
      ''sudo chmod 000 /etc/app/config.yaml'',
     fdResetAction =
      ''sudo chmod 640 /etc/app/config.yaml && sudo systemctl restart app''\<rparr>"

definition apply_F003 :: "'w executor \<Rightarrow> ('w, go_error option) state" where
  "apply_F003 x = Chmod x ConfigPath (octal [0, 0, 0, 0])"

definition recover_F003 :: "'w executor \<Rightarrow> ('w, go_error option) state" where
  "recover_F003 x = and_then (Chmod x ConfigPath ModeConfig)
    (do { _ \<leftarrow> Systemctl x ''reset-failed'' ''app''; Systemctl x ''restart'' ''app.service'' })"

definition faultF003 :: "'w fault_impl" where
  "faultF003 = \<lparr>fiDef = def_F003, fiApply = apply_F003, fiRecover = recover_F003\<rparr>"

definition def_F004 :: fault_def where
  "def_F004 = \<lparr>
     fdID = ''F-004'', fdLayer = ''permissions'', fdDomain = [''linux'', ''os''],
     fdRequiresConfirmation = False, fdIsReversible = True, fdResetTier = ''R2'',
     fdPreconditions = [StateConformant], fdPreconditionChecks = [],
     fdPostcondition = \<lparr>
       pcBehavioral =
      ''/health returns 200 (service is alive); / returns 500 (state write fails). Health/ready split is the diagnostic signal.'',
       pcFailingChecks = [''E-002'', ''F-004''],
       pcPassingChecks = [''S-001'', ''E-001'', ''E-003'']\<rparr>,
     fdSymptom =
      ''/health returns 200; / returns 500; app continues running'',
     fdAuthoritativeSignal = ''app.log'',
     fdObservable =
      ''curl localhost/health '' @ u_rarrow @ '' 200; curl localhost/ '' @ u_rarrow @
      '' 500; tail -5 /var/log/app/app.log shows '' @ [CHR 0x22] @ ''level'' @ [CHR 0x22] @ '':'' @
      [CHR 0x22] @ ''error'' @ [CHR 0x22] @ '','' @ [CHR 0x22] @ ''msg'' @ [CHR 0x22] @ '':'' @
      [CHR 0x22] @ ''state write failed'' @ [CHR 0x22],
     fdMutationDisplay =
      ''sudo chmod 000 /var/lib/app/'',
     fdResetAction =
      ''sudo chmod 755 /var/lib/app/''\<rparr>"

definition apply_F004 :: "'w executor \<Rightarrow> ('w, go_error option) state" where
  "apply_F004 x = Chmod x StateDir (octal [0, 0, 0, 0])"

definition recover_F004 :: "'w executor \<Rightarrow> ('w, go_error option) state" where
  "recover_F004 x = Chmod x StateDir ModeStateDir"

definition faultF004 :: "'w fault_impl" where
  "faultF004 = \<lparr>fiDef = def_F004, fiApply = apply_F004, fiRecover = recover_F004\<rparr>"

definition def_F005 :: fault_def where
  "def_F005 = \<lparr>
     fdID = ''F-005'', fdLayer = ''permissions'', fdDomain = [''linux''],
     fdRequiresConfirmation = False, fdIsReversible = True, fdResetTier = ''R2'',
     fdPreconditions = [StateConformant], fdPreconditionChecks = [],
     fdPostcondition = \<lparr>
       pcBehavioral =
      ''systemd cannot execute the binary (execute bit removed). Restart loop with exec failure.'',
       pcFailingChecks = [''S-001'', ''E-001'', ''E-002'', ''E-003'', ''E-004'', ''E-005'', ''F-001''],
       pcPassingChecks = [''F-002'', ''F-007'']\<rparr>,
     fdSymptom =
      ''Service fails to start; systemctl status app shows exec failure'',
     fdAuthoritativeSignal = ''journald'',
     fdObservable =
      ''journalctl -u app.service -n 5 shows exec format error or permission denied; ls -la /opt/app/server shows 640'',
     fdMutationDisplay =
      ''sudo chmod 640 /opt/app/server'',
     fdResetAction =
      ''sudo chmod 750 /opt/app/server && sudo systemctl restart app''\<rparr>"

definition apply_F005 :: "'w executor \<Rightarrow> ('w, go_error option) state" where
  "apply_F005 x = Chmod x BinaryPath (octal [0, 6, 4, 0])"

definition recover_F005 :: "'w executor \<Rightarrow> ('w, go_error option) state" where
  "recover_F005 x = and_then (Chmod x BinaryPath ModeBinary)
    (Systemctl x ''restart'' ''app.service'')"

definition faultF005 :: "'w fault_impl" where
  "faultF005 = \<lparr>fiDef = def_F005, fiApply = apply_F005, fiRecover = recover_F005\<rparr>"

definition def_F006 :: fault_def where
  "def_F006 = \<lparr>
     fdID = ''F-006'', fdLayer = ''service'', fdDomain = [''linux'', ''os''],
     fdRequiresConfirmation = False, fdIsReversible = True, fdResetTier = ''R2'',
     fdPreconditions = [StateConformant], fdPreconditionChecks = [],
     fdPostcondition = \<lparr>
       pcBehavioral =
      ''App startup validation fails on the environment variable check. journald message explicitly identifies APP_ENV as missing.'',
       pcFailingChecks = [''S-001'', ''E-001'', ''E-002'', ''E-003'', ''E-004'', ''E-005''],
       pcPassingChecks = [''F-002'']\<rparr>,
     fdSymptom =
      ''Service fails to start; journald shows missing APP_ENV error'',
     fdAuthoritativeSignal = ''journald'',
     fdObservable =
      ''journalctl -u app.service -n 10 shows missing APP_ENV error; systemctl show app --property=Environment shows no APP_ENV'',
     fdMutationDisplay =
      ''Remove Environment=APP_ENV=prod line from /etc/systemd/system/app.service; sudo systemctl daemon-reload && sudo systemctl restart app'',
     fdResetAction =
      ''Restore canonical unit file; sudo systemctl daemon-reload && sudo systemctl restart app''\<rparr>"

definition apply_F006 :: "'w executor \<Rightarrow> ('w, go_error option) state" where
  "apply_F006 x = do {
     r \<leftarrow> ReadFile x UnitFilePath;
     (case r of
        Inl err \<Rightarrow> ret (Some (Wrapf ''reading unit file: '' err []))
      | Inr data \<Rightarrow>
          and_then (WriteFile x UnitFilePath (replaceInBytes data (''Environment=APP_ENV=prod'' @ [nl]) []) ModeUnitFile RootUser RootGroup)
    (and_then (Systemctl x ''daemon-reload'' [])
    (Systemctl x ''restart'' ''app.service'')))
   }"

definition recover_F006 :: "'w executor \<Rightarrow> ('w, go_error option) state" where
  "recover_F006 x = and_then (RestoreFile x UnitFilePath)
    (and_then (Systemctl x ''daemon-reload'' [])
    (Systemctl x ''restart'' ''app.service''))"

definition faultF006 :: "'w fault_impl" where
  "faultF006 = \<lparr>fiDef = def_F006, fiApply = apply_F006, fiRecover = recover_F006\<rparr>"

definition def_F007 :: fault_def where
  "def_F007 = \<lparr>
     fdID = ''F-007'', fdLayer = ''proxy/config'', fdDomain = [''linux'', ''networking''],
     fdRequiresConfirmation = False, fdIsReversible = True, fdResetTier = ''R2'',
     fdPreconditions = [StateConformant], fdPreconditionChecks = [],
     fdPostcondition = \<lparr>
       pcBehavioral =
      ''App is healthy on 8080. nginx is misconfigured to upstream port 9090. Distinguishable from F-002 because P-002 passes (app on correct port).'',
       pcFailingChecks = [''E-001'', ''E-002'', ''E-003'', ''E-004'', ''E-005''],
       pcPassingChecks = [''S-001'', ''P-001'', ''P-002'']\<rparr>,
     fdSymptom =
      ''nginx returns 502; app is running correctly on 8080'',
     fdAuthoritativeSignal = ''nginx error log + ss -ltnp'',
     fdObservable =
      ''ss -ltnp | grep 8080 shows app running correctly; curl -I localhost '' @ u_rarrow @
      '' 502; curl 127.0.0.1:8080/health '' @ u_rarrow @ '' 200 (direct)'',
     fdMutationDisplay =
      ''Change upstream app_backend server from 127.0.0.1:8080 to 127.0.0.1:9090 in /etc/nginx/sites-enabled/app; sudo nginx -s reload'',
     fdResetAction =
      ''Restore canonical nginx config; sudo nginx -s reload''\<rparr>"

definition apply_F007 :: "'w executor \<Rightarrow> ('w, go_error option) state" where
  "apply_F007 x = do {
     r \<leftarrow> ReadFile x NginxConfigPath;
     (case r of
        Inl err \<Rightarrow> ret (Some (Wrapf ''reading nginx config: '' err []))
      | Inr data \<Rightarrow>
          and_then (WriteFile x NginxConfigPath (replaceInBytes data (''server '' @ AppBindAddr @ '';'') ''server 127.0.0.1:9090;'') ModeNginxConfig RootUser RootGroup)
    (NginxReload x))
   }"

definition recover_F007 :: "'w executor \<Rightarrow> ('w, go_error option) state" where
  "recover_F007 x = and_then (RestoreFile x NginxConfigPath)
    (NginxReload x)"

definition faultF007 :: "'w fault_impl" where
  "faultF007 = \<lparr>fiDef = def_F007, fiApply = apply_F007, fiRecover = recover_F007\<rparr>"

definition def_F008 :: fault_def where
  "def_F008 = \<lparr>
     fdID = ''F-008'', fdLayer = ''process'', fdDomain = [''linux'', ''os''],
     fdRequiresConfirmation = True, fdIsReversible = False, fdResetTier = ''R3'',
     fdPreconditions = [StateConformant], fdPreconditionChecks = [],
     fdPostcondition = \<lparr>
       pcBehavioral =
      ''App appears healthy to all endpoint checks during fault. The fault only manifests at shutdown '' @
      u_emdash @ '' systemctl stop hangs 90 seconds.'',
       pcFailingChecks = [],
       pcPassingChecks = [''S-001'', ''E-001'', ''E-002'']\<rparr>,
     fdSymptom =
      ''systemctl stop app hangs 90 seconds (SIGTERM ignored); app serves requests normally during wait'',
     fdAuthoritativeSignal = ''systemctl status app showing stop-sigterm '' @ u_rarrow @ '' stop-sigkill transition'',
     fdObservable =
      ''time sudo systemctl stop app takes ~90 seconds; journalctl shows Sent signal SIGTERM followed by Sent signal SIGKILL 90s later'',
     fdMutationDisplay =
      ''Rebuild binary with FAULT_IGNORE_SIGTERM=true flag enabled; redeploy.'',
     fdResetAction =
      ''Rebuild binary without fault flag; redeploy. Run: lab reset --tier R3''\<rparr>"

definition apply_F008 :: "'w executor \<Rightarrow> ('w, go_error option) state" where
  "apply_F008 x = and_then (wrapping ''writing chaos.env: '' (WriteFile x ChaosEnvPath (''CHAOS_IGNORE_SIGTERM=1'' @ [nl]) (octal [0, 6, 4, 4]) ServiceUser ServiceGroup))
    (Systemctl x ''restart'' ''app.service'')"

definition recover_F008 :: "'w executor \<Rightarrow> ('w, go_error option) state" where
  "recover_F008 x = and_then (wrapping ''clearing chaos.env: '' (WriteFile x ChaosEnvPath [] (octal [0, 6, 4, 4]) ServiceUser ServiceGroup))
    (Systemctl x ''restart'' ''app.service'')"

definition faultF008 :: "'w fault_impl" where
  "faultF008 = \<lparr>fiDef = def_F008, fiApply = apply_F008, fiRecover = recover_F008\<rparr>"

definition def_F009 :: fault_def where
  "def_F009 = \<lparr>
     fdID = ''F-009'', fdLayer = ''permissions'', fdDomain = [''linux'', ''os''],
     fdRequiresConfirmation = False, fdIsReversible = True, fdResetTier = ''R2'',
     fdPreconditions = [StateConformant], fdPreconditionChecks = [],
     fdPostcondition = \<lparr>
       pcBehavioral =
      ''App cannot open its log file at startup (mode 000). Startup fails before binding.'',
       pcFailingChecks = [''S-001'', ''E-001'', ''E-002'', ''E-003'', ''E-004'', ''E-005'', ''L-001'', ''L-002'', ''L-003'', ''F-003''],
       pcPassingChecks = [''F-002'']\<rparr>,
     fdSymptom =
      ''Service fails to start; journald shows log file permission denied'',
     fdAuthoritativeSignal = ''journald'',
     fdObservable =
      ''journalctl -u app.service -n 5 shows log file permission denied; stat /var/log/app/app.log shows mode 000'',
     fdMutationDisplay =
      ''sudo chmod 000 /var/log/app/app.log'',
     fdResetAction =
      ''sudo chmod 640 /var/log/app/app.log && sudo chown appuser:appuser /var/log/app/app.log && sudo systemctl restart app''\<rparr>"

definition apply_F009 :: "'w executor \<Rightarrow> ('w, go_error option) state" where
  "apply_F009 x = Chmod x LogPath (octal [0, 0, 0, 0])"

definition recover_F009 :: "'w executor \<Rightarrow> ('w, go_error option) state" where
  "recover_F009 x = and_then (Chmod x LogPath ModeLogFile)
    (and_then (Chown x LogPath ServiceUser ServiceGroup)
    (Systemctl x ''restart'' ''app.service''))"

definition faultF009 :: "'w fault_impl" where
  "faultF009 = \<lparr>fiDef = def_F009, fiApply = apply_F009, fiRecover = recover_F009\<rparr>"

definition def_F010 :: fault_def where
  "def_F010 = \<lparr>
     fdID = ''F-010'', fdLayer = ''filesystem'', fdDomain = [''linux'', ''os''],
     fdRequiresConfirmation = False, fdIsReversible = True, fdResetTier = ''R1'',
     fdPreconditions = [StateConformant], fdPreconditionChecks = [''P-001''],
     fdPostcondition = \<lparr>
       pcBehavioral =
      ''App is alive and serving requests. Log file is unlinked (link count 0) but inode held open by the app process.'',
       pcFailingChecks = [''L-001'', ''L-002'', ''L-003''],
       pcPassingChecks = [''S-001'', ''P-001'', ''P-002'', ''E-001'', ''E-002'']\<rparr>,
     fdSymptom =
      ''app.log does not exist on disk; app continues running; disk space held by open fd'',
     fdAuthoritativeSignal = ''lsof -p $(pgrep server)'',
     fdObservable =
      ''ls /var/log/app/ shows no app.log; lsof +L1 shows app process holding deleted file descriptor; curl localhost/health '' @
      u_rarrow @ '' 200'',
     fdMutationDisplay =
      ''sudo rm /var/log/app/app.log (while service is running)'',
     fdResetAction =
      ''sudo systemctl restart app (recreates the log file on startup)''\<rparr>"

definition apply_F010 :: "'w executor \<Rightarrow> ('w, go_error option) state" where
  "apply_F010 x = Remove x LogPath"

definition recover_F010 :: "'w executor \<Rightarrow> ('w, go_error option) state" where
  "recover_F010 x = Systemctl x ''restart'' ''app.service''"

definition faultF010 :: "'w fault_impl" where
  "faultF010 = \<lparr>fiDef = def_F010, fiApply = apply_F010, fiRecover = recover_F010\<rparr>"

definition def_F013 :: fault_def where
  "def_F013 = \<lparr>
     fdID = ''F-013'', fdLayer = ''service'', fdDomain = [''linux''],
     fdRequiresConfirmation = False, fdIsReversible = True, fdResetTier = ''R2'',
     fdPreconditions = [StateConformant], fdPreconditionChecks = [],
     fdPostcondition = \<lparr>
       pcBehavioral =
      ''Service is enabled (desired state) but not active (runtime state). Demonstrates the critical distinction between systemd desired state and runtime state.'',
       pcFailingChecks = [''S-001'', ''E-001'', ''E-002'', ''E-003'', ''E-004'', ''E-005''],
       pcPassingChecks = [''S-002'']\<rparr>,
     fdSymptom =
      ''systemctl is-enabled app '' @ u_rarrow @ '' enabled; systemctl is-active app '' @ u_rarrow @
      '' failed; service will not start'',
     fdAuthoritativeSignal = ''journald + systemctl status app'',
     fdObservable =
      ''systemctl status app shows failed state and exec error; systemctl is-enabled app '' @
      u_rarrow @ '' enabled (desired '' @ u_ne @ '' actual)'',
     fdMutationDisplay =
      ''Replace ExecStart=/opt/app/server with ExecStart=/opt/app/DOESNOTEXIST in unit file; sudo systemctl daemon-reload'',
     fdResetAction =
      ''Restore canonical unit file; sudo systemctl daemon-reload && sudo systemctl start app''\<rparr>"

definition apply_F013 :: "'w executor \<Rightarrow> ('w, go_error option) state" where
  "apply_F013 x = do {
     r \<leftarrow> ReadFile x UnitFilePath;
     (case r of
        Inl err \<Rightarrow> ret (Some (Wrapf ''reading unit file: '' err []))
      | Inr data \<Rightarrow>
          and_then (WriteFile x UnitFilePath (replaceInBytes data ''ExecStart=/opt/app/server'' ''ExecStart=/opt/app/DOESNOTEXIST'') ModeUnitFile RootUser RootGroup)
    (Systemctl x ''daemon-reload'' []))
   }"

definition recover_F013 :: "'w executor \<Rightarrow> ('w, go_error option) state" where
  "recover_F013 x = and_then (RestoreFile x UnitFilePath)
    (and_then (Systemctl x ''daemon-reload'' [])
    (Systemctl x ''start'' ''app''))"

definition faultF013 :: "'w fault_impl" where
  "faultF013 = \<lparr>fiDef = def_F013, fiApply = apply_F013, fiRecover = recover_F013\<rparr>"

definition def_F014 :: fault_def where
  "def_F014 = \<lparr>
     fdID = ''F-014'', fdLayer = ''process'', fdDomain = [''linux'', ''os''],
     fdRequiresConfirmation = True, fdIsReversible = False, fdResetTier = ''R3'',
     fdPreconditions = [StateConformant], fdPreconditionChecks = [],
     fdPostcondition = \<lparr>
       pcBehavioral =
      ''App serves all endpoints correctly. Zombie accumulation is a resource leak (PID table slots) not an immediate behavioral failure.'',
       pcFailingChecks = [],
       pcPassingChecks = []\<rparr>,
     fdSymptom =
      ''ps aux shows growing count of Z-state processes parented to the app'',
     fdAuthoritativeSignal = ''ps -eo pid,ppid,stat,comm | grep Z'',
     fdObservable =
      ''Zombie count increases with each / request; pstree -p $(pgrep server) shows zombie children'',
     fdMutationDisplay =
      ''Rebuild binary with FAULT_ZOMBIE_CHILDREN=true flag enabled; redeploy.'',
     fdResetAction =
      ''Rebuild binary without fault flag; redeploy. Run: lab reset --tier R3''\<rparr>"

definition apply_F014 :: "'w executor \<Rightarrow> ('w, go_error option) state" where
  "apply_F014 x = and_then (wrapping ''F-014 Apply: writing chaos.env: '' (WriteFile x ChaosEnvPath (''CHAOS_ZOMBIE_CHILDREN=1'' @ [nl]) (octal [0, 6, 4, 4]) ServiceUser ServiceGroup))
    (Systemctl x ''restart'' ''app.service'')"

definition recover_F014 :: "'w executor \<Rightarrow> ('w, go_error option) state" where
  "recover_F014 x = and_then (wrapping ''clearing chaos.env: '' (WriteFile x ChaosEnvPath [] (octal [0, 6, 4, 4]) ServiceUser ServiceGroup))
    (Systemctl x ''restart'' ''app.service'')"

definition faultF014 :: "'w fault_impl" where
  "faultF014 = \<lparr>fiDef = def_F014, fiApply = apply_F014, fiRecover = recover_F014\<rparr>"

definition def_F015 :: fault_def where
  "def_F015 = \<lparr>
     fdID = ''F-015'', fdLayer = ''proxy'', fdDomain = [''linux'', ''networking''],
     fdRequiresConfirmation = False, fdIsReversible = True, fdResetTier = ''R2'',
     fdPreconditions = [StateConformant], fdPreconditionChecks = [],
     fdPostcondition = \<lparr>
       pcBehavioral =
      ''Endpoints continue to work (old config persists). Only F-005 (nginx config syntax) fails.'',
       pcFailingChecks = [''F-005''],
       pcPassingChecks = [''S-003'', ''P-003'', ''P-004'', ''E-001'', ''E-002'']\<rparr>,
     fdSymptom =
      ''nginx reload fails; existing nginx worker processes continue with old config'',
     fdAuthoritativeSignal = ''nginx -t output'',
     fdObservable =
      ''sudo nginx -t shows configuration error; sudo nginx -s reload returns error; curl localhost/health '' @
      u_rarrow @ '' 200 (old config still active)'',
     fdMutationDisplay =
      ''Add invalid directive '' @ [CHR 0x27] @ ''invalid_directive on;'' @ [CHR 0x27] @
      '' to /etc/nginx/sites-enabled/app; attempt sudo nginx -s reload'',
     fdResetAction =
      ''Restore canonical nginx config; sudo nginx -s reload''\<rparr>"

definition apply_F015 :: "'w executor \<Rightarrow> ('w, go_error option) state" where
  "apply_F015 x = do {
     r \<leftarrow> ReadFile x NginxConfigPath;
     (case r of
        Inl err \<Rightarrow> ret (Some (Wrapf ''reading nginx config: '' err []))
      | Inr data \<Rightarrow>
          and_then (WriteFile x NginxConfigPath (data @ [nl] @ ''invalid_directive on;'' @ [nl]) ModeNginxConfig RootUser RootGroup)
    (do { _ \<leftarrow> NginxReload x; ret None }))
   }"

definition recover_F015 :: "'w executor \<Rightarrow> ('w, go_error option) state" where
  "recover_F015 x = and_then (RestoreFile x NginxConfigPath)
    (NginxReload x)"

definition faultF015 :: "'w fault_impl" where
  "faultF015 = \<lparr>fiDef = def_F015, fiApply = apply_F015, fiRecover = recover_F015\<rparr>"

definition def_F016 :: fault_def where
  "def_F016 = \<lparr>
     fdID = ''F-016'', fdLayer = ''socket/config'', fdDomain = [''linux'', ''networking'', ''security''],
     fdRequiresConfirmation = False, fdIsReversible = True, fdResetTier = ''R2'',
     fdPreconditions = [StateConformant], fdPreconditionChecks = [],
     fdPostcondition = \<lparr>
       pcBehavioral =
      ''All nginx-proxied endpoints continue to work. App is additionally exposed directly on all interfaces. P-002 check for 127.0.0.1:8080 fails (app is on 0.0.0.0:8080 instead).'',
       pcFailingChecks = [''P-002''],
       pcPassingChecks = [''S-001'', ''E-001'', ''E-002'', ''E-003'', ''E-004'']\<rparr>,
     fdSymptom =
      ''App is accessible directly on port 8080 from any interface, bypassing nginx'',
     fdAuthoritativeSignal = ''ss -ltnp'',
     fdObservable =
      ''ss -ltnp | grep 8080 shows 0.0.0.0:8080 instead of 127.0.0.1:8080; direct access bypasses nginx (X-Proxy: nginx header absent)'',
     fdMutationDisplay =
      ''Change server.addr in /etc/app/config.yaml from 127.0.0.1:8080 to 0.0.0.0:8080; sudo systemctl restart app'',
     fdResetAction =
      ''Restore canonical config.yaml; sudo systemctl restart app''\<rparr>"

definition apply_F016 :: "'w executor \<Rightarrow> ('w, go_error option) state" where
  "apply_F016 x = do {
     r \<leftarrow> ReadFile x ConfigPath;
     (case r of
        Inl err \<Rightarrow> ret (Some (Wrapf ''reading config: '' err []))
      | Inr data \<Rightarrow>
          and_then (WriteFile x ConfigPath (replaceInBytes data ''127.0.0.1:8080'' ''0.0.0.0:8080'') ModeConfig ServiceUser ServiceGroup)
    (Systemctl x ''restart'' ''app.service''))
   }"

definition recover_F016 :: "'w executor \<Rightarrow> ('w, go_error option) state" where
  "recover_F016 x = and_then (RestoreFile x ConfigPath)
    (Systemctl x ''restart'' ''app.service'')"

definition faultF016 :: "'w fault_impl" where
  "faultF016 = \<lparr>fiDef = def_F016, fiApply = apply_F016, fiRecover = recover_F016\<rparr>"

definition def_F017 :: fault_def where
  "def_F017 = \<lparr>
     fdID = ''F-017'', fdLayer = ''service'', fdDomain = [''linux'', ''os''],
     fdRequiresConfirmation = False, fdIsReversible = True, fdResetTier = ''R2'',
     fdPreconditions = [StateConformant], fdPreconditionChecks = [],
     fdPostcondition = \<lparr>
       pcBehavioral =
      ''Service does not start. journald error message distinguishes from F-006 '' @ u_emdash @
      '' in F-006, the unit file lacks the directive; in F-017, the directive is present but overridden by the system-level environment.'',
       pcFailingChecks = [''S-001'', ''E-001'', ''E-002'', ''E-003'', ''E-004'', ''E-005''],
       pcPassingChecks = [''F-002'', ''F-001'']\<rparr>,
     fdSymptom =
      ''Service fails to start; journald shows APP_ENV is empty or missing error'',
     fdAuthoritativeSignal = ''journald'',
     fdObservable =
      ''journalctl -u app.service -n 5 shows empty APP_ENV error; systemctl show app --property=Environment shows APP_ENV= (empty)'',
     fdMutationDisplay =
      ''sudo systemctl set-environment APP_ENV=; sudo systemctl restart app'',
     fdResetAction =
      ''sudo systemctl unset-environment APP_ENV && sudo systemctl restart app''\<rparr>"

definition apply_F017 :: "'w executor \<Rightarrow> ('w, go_error option) state" where
  "apply_F017 x = and_then (wrapping ''setting empty APP_ENV: '' (RunMutation x ''systemctl'' [''set-environment'', ''APP_ENV='']))
    (Systemctl x ''restart'' ''app.service'')"

definition recover_F017 :: "'w executor \<Rightarrow> ('w, go_error option) state" where
  "recover_F017 x = and_then (wrapping ''unsetting APP_ENV: '' (RunMutation x ''systemctl'' [''unset-environment'', ''APP_ENV'']))
    (Systemctl x ''restart'' ''app.service'')"

definition faultF017 :: "'w fault_impl" where
  "faultF017 = \<lparr>fiDef = def_F017, fiApply = apply_F017, fiRecover = recover_F017\<rparr>"

definition def_F018 :: fault_def where
  "def_F018 = \<lparr>
     fdID = ''F-018'', fdLayer = ''filesystem'', fdDomain = [''linux'', ''os''],
     fdRequiresConfirmation = False, fdIsReversible = True, fdResetTier = ''R2'',
     fdPreconditions = [StateConformant], fdPreconditionChecks = [],
     fdPostcondition = \<lparr>
       pcBehavioral =
      ''App is running but / fails (cannot create the state file touch). /health continues to return 200. Demonstrates the inode/block distinction.'',
       pcFailingChecks = [''E-002'', ''F-004''],
       pcPassingChecks = [''S-001'', ''E-001'', ''E-003'']\<rparr>,
     fdSymptom =
      ''Filesystem reports inode exhaustion; new files cannot be created despite available disk blocks'',
     fdAuthoritativeSignal = ''df -i'',
     fdObservable =
      ''df -i /var/lib/app shows inode usage near 100%; touch /var/lib/app/test '' @ u_rarrow @
      '' No space left on device despite df -h showing available blocks; app / endpoint returns 500'',
     fdMutationDisplay =
      ''for i in $(seq 1 100000); do sudo touch /var/lib/app/file_$i; done'',
     fdResetAction =
      ''sudo rm /var/lib/app/file_*''\<rparr>"

definition apply_F018 :: "'w executor \<Rightarrow> ('w, go_error option) state" where
  "apply_F018 x = for_each (\<lambda>i. wrapping (''creating inode exhaustion file '' @ itoa i @ '': '')
     (WriteFile x (StateDir @ ''/file_'' @ itoa i) [] (octal [0, 6, 4, 4]) ServiceUser ServiceGroup)) inode_numbers"

definition recover_F018 :: "'w executor \<Rightarrow> ('w, go_error option) state" where
  "recover_F018 x = RunMutation x ''sh'' [''-c'', ''rm -f /var/lib/app/file_*'']"

definition faultF018 :: "'w fault_impl" where
  "faultF018 = \<lparr>fiDef = def_F018, fiApply = apply_F018, fiRecover = recover_F018\<rparr>"

definition def_F020 :: fault_def where
  "def_F020 = \<lparr>
     fdID = ''F-020'', fdLayer = ''service'', fdDomain = [''linux'', ''networking''],
     fdRequiresConfirmation = False, fdIsReversible = True, fdResetTier = ''R2'',
     fdPreconditions = [StateConformant], fdPreconditionChecks = [],
     fdPostcondition = \<lparr>
       pcBehavioral =
      ''All requests (except /health) are delayed by 400ms. /health responds immediately.'',
       pcFailingChecks = [],
       pcPassingChecks = [''S-001'', ''E-001'', ''E-003'']\<rparr>,
     fdSymptom =
      ''Requests take at least 400ms. /health returns immediately. Telemetry shows chaos_active=true with chaos_modes=['' @
      [CHR 0x22] @ ''latency'' @ [CHR 0x22] @ ''].'',
     fdAuthoritativeSignal = ''telemetry.json chaos_modes + curl timing'',
     fdObservable =
      ''time curl -s http://localhost/ > /dev/null '' @ u_emdash @ '' takes '' @ u_ge @
      ''400ms; time curl -s http://localhost/health > /dev/null '' @ u_emdash @ '' takes <50ms'',
     fdMutationDisplay =
      ''Set CHAOS_LATENCY_MS=400 in /etc/app/chaos.env and restart the service'',
     fdResetAction =
      ''Clear /etc/app/chaos.env and restart the service''\<rparr>"

definition apply_F020 :: "'w executor \<Rightarrow> ('w, go_error option) state" where
  "apply_F020 x = and_then (wrapping ''writing chaos.env: '' (WriteFile x ChaosEnvPath (''CHAOS_LATENCY_MS=400'' @ [nl]) (octal [0, 6, 4, 4]) ServiceUser ServiceGroup))
    (Systemctl x ''restart'' ''app.service'')"

definition recover_F020 :: "'w executor \<Rightarrow> ('w, go_error option) state" where
  "recover_F020 x = and_then (wrapping ''clearing chaos.env: '' (WriteFile x ChaosEnvPath [] (octal [0, 6, 4, 4]) ServiceUser ServiceGroup))
    (Systemctl x ''restart'' ''app.service'')"

definition faultF020 :: "'w fault_impl" where
  "faultF020 = \<lparr>fiDef = def_F020, fiApply = apply_F020, fiRecover = recover_F020\<rparr>"

definition def_F021 :: fault_def where
  "def_F021 = \<lparr>
     fdID = ''F-021'', fdLayer = ''network'', fdDomain = [''linux'', ''networking''],
     fdRequiresConfirmation = False, fdIsReversible = True, fdResetTier = ''R2'',
     fdPreconditions = [StateConformant], fdPreconditionChecks = [],
     fdPostcondition = \<lparr>
       pcBehavioral =
      ''nginx cannot reach the app. All proxied endpoints return 502. Direct access to the app on 127.0.0.1:8080 still works.'',
       pcFailingChecks = [''E-001'', ''E-002'', ''E-003'', ''E-004'', ''E-005''],
       pcPassingChecks = [''S-001'', ''P-001'', ''P-002'']\<rparr>,
     fdSymptom =
      ''curl http://localhost/ returns 502. curl http://127.0.0.1:8080/health returns 200. nft list chain shows a drop rule.'',
     fdAuthoritativeSignal = ''nft list chain inet lab_filter LAB-FAULT + curl'',
     fdObservable =
      ''nft list chain inet lab_filter LAB-FAULT '' @ u_emdash @
      '' shows drop rule; curl -I localhost '' @ u_rarrow @ '' 502; curl 127.0.0.1:8080/health '' @
      u_rarrow @ '' 200'',
     fdMutationDisplay =
      ''nft add rule inet lab_filter LAB-FAULT tcp dport 8080 drop'',
     fdResetAction =
      ''nft flush chain inet lab_filter LAB-FAULT''\<rparr>"

definition apply_F021 :: "'w executor \<Rightarrow> ('w, go_error option) state" where
  "apply_F021 x = RunMutation x ''nft'' [''add'', ''rule'', ''inet'', ''lab_filter'', ''LAB-FAULT'', ''iif'', ''enp0s8'', ''tcp'', ''dport'', ''8080'', ''drop'']"

definition recover_F021 :: "'w executor \<Rightarrow> ('w, go_error option) state" where
  "recover_F021 x = RunMutation x ''nft'' [''flush'', ''chain'', ''inet'', ''lab_filter'', ''LAB-FAULT'']"

definition faultF021 :: "'w fault_impl" where
  "faultF021 = \<lparr>fiDef = def_F021, fiApply = apply_F021, fiRecover = recover_F021\<rparr>"

definition def_F019 :: fault_def where
  "def_F019 = \<lparr>
     fdID = ''F-019'', fdLayer = ''filesystem'', fdDomain = [''linux'', ''os''],
     fdRequiresConfirmation = False, fdIsReversible = True, fdResetTier = ''R2'',
     fdPreconditions = [StateConformant], fdPreconditionChecks = [],
     fdPostcondition = \<lparr>
       pcBehavioral =
      ''The loopback mount is full. GET / returns 500 because state file writes fail. GET /health returns 200.'',
       pcFailingChecks = [''E-002'', ''F-004''],
       pcPassingChecks = [''S-001'', ''E-001'', ''E-003'']\<rparr>,
     fdSymptom =
      ''df -h /var/lib/app shows 100% usage. curl http://localhost/ '' @ u_rarrow @
      '' 500. curl http://localhost/health '' @ u_rarrow @ '' 200.'',
     fdAuthoritativeSignal = ''df -h /var/lib/app'',
     fdObservable =
      ''df -h /var/lib/app '' @ u_emdash @ '' 100%% usage; curl -s localhost/ '' @ u_rarrow @ '' {'' @
      [CHR 0x22] @ ''status'' @ [CHR 0x22] @ '':'' @ [CHR 0x22] @ ''error'' @ [CHR 0x22] @ '','' @
      [CHR 0x22] @ ''msg'' @ [CHR 0x22] @ '':'' @ [CHR 0x22] @ ''state write failed'' @ [CHR 0x22] @
      ''}; curl -s localhost/health '' @ u_rarrow @ '' {'' @ [CHR 0x22] @ ''status'' @ [CHR 0x22] @
      '':'' @ [CHR 0x22] @ ''ok'' @ [CHR 0x22] @ ''}'',
     fdMutationDisplay =
      ''dd if=/dev/zero of=/var/lib/app/fill bs=1M count=100'',
     fdResetAction =
      ''rm /var/lib/app/fill''\<rparr>"

definition apply_F019 :: "'w executor \<Rightarrow> ('w, go_error option) state" where
  "apply_F019 x = RunMutation x ''dd'' [''if=/dev/zero'', ''of=/var/lib/app/fill'', ''bs=1M'', ''count=100'']"

definition recover_F019 :: "'w executor \<Rightarrow> ('w, go_error option) state" where
  "recover_F019 x = RunMutation x ''rm'' [''-f'', ''/var/lib/app/fill'']"

definition faultF019 :: "'w fault_impl" where
  "faultF019 = \<lparr>fiDef = def_F019, fiApply = apply_F019, fiRecover = recover_F019\<rparr>"

definition AllImpls :: "'w fault_impl list" where
  "AllImpls = [
     faultF001, faultF002, faultF003, faultF004, faultF005, faultF006,
     faultF007, faultF008, faultF009, faultF010, faultF013, faultF014,
     faultF015, faultF016, faultF017, faultF018, faultF020, faultF021,
     faultF019
   ]"

definition AllDefs :: "fault_def list" where
  "AllDefs = map fiDef (AllImpls :: unit fault_impl list)"

definition ImplByID :: "string \<Rightarrow> 'w fault_impl option" where
  "ImplByID i = List.find (\<lambda>f. fdID (fiDef f) = i) AllImpls"

definition ByID :: "string \<Rightarrow> 'w fault_impl option" where
  "ByID i = ImplByID i"

definition DefByID :: "string \<Rightarrow> fault_def option" where
  "DefByID i = map_option fiDef (ImplByID i :: unit fault_impl option)"

lemmas def_defs = def_F001_def def_F002_def def_F003_def def_F004_def def_F005_def def_F006_def def_F007_def def_F008_def def_F009_def def_F010_def def_F013_def def_F014_def def_F015_def def_F016_def def_F017_def def_F018_def def_F020_def def_F021_def def_F019_def

lemmas apply_defs = apply_F001_def apply_F002_def apply_F003_def apply_F004_def apply_F005_def apply_F006_def apply_F007_def apply_F008_def apply_F009_def apply_F010_def apply_F013_def apply_F014_def apply_F015_def apply_F016_def apply_F017_def apply_F018_def apply_F020_def apply_F021_def apply_F019_def

lemmas recover_defs = recover_F001_def recover_F002_def recover_F003_def recover_F004_def recover_F005_def recover_F006_def recover_F007_def recover_F008_def recover_F009_def recover_F010_def recover_F013_def recover_F014_def recover_F015_def recover_F016_def recover_F017_def recover_F018_def recover_F020_def recover_F021_def recover_F019_def

lemmas fault_defs = faultF001_def faultF002_def faultF003_def faultF004_def faultF005_def faultF006_def faultF007_def faultF008_def faultF009_def faultF010_def faultF013_def faultF014_def faultF015_def faultF016_def faultF017_def faultF018_def faultF020_def faultF021_def faultF019_def

end
