(* ===== verification/CheckCatalog.thy ===== *)
theory CheckCatalog
  imports Conformance Json
begin

text \<open>
  \<^verbatim>\<open>internal/conformance/catalog.go\<close>: the registry of the 25 conformance checks, each
  with its texts and its \<open>Execute\<close> function over the Observer. None of them panics. The text of a
  JSON error is not modelled: \<open>json_error\<close> stands for it.
\<close>

subsection \<open>Helpers\<close>

definition json_error :: go_error where
  "json_error = Errorf ''invalid JSON''"

text \<open>\<open>json.Unmarshal\<close> into a struct with the one field \<open>Status\<close>.\<close>

definition unmarshal_status :: "string \<Rightarrow> string option" where
  "unmarshal_status s =
     (case parse_json s of
        Some (JObj kvs) \<Rightarrow> dec_plain dec_string [] (field_vals ''status'' kvs)
      | Some JNull \<Rightarrow> Some []
      | _ \<Rightarrow> None)"

definition startup_entry :: string where
  "startup_entry = [CHR 0x22] @ ''msg'' @ [CHR 0x22] @ '':'' @ [CHR 0x22] @ ''server started'' @ [CHR 0x22]"

definition checkFileOwnerMode ::
  "'w observer \<Rightarrow> string \<Rightarrow> string \<Rightarrow> string \<Rightarrow> string \<Rightarrow> ('w, go_error option) state" where
  "checkFileOwnerMode ob path wantOwner wantGroup wantMode = do {
     r \<leftarrow> RunCommand ob ''stat'' [''-c'', ''%U:%G %a'', path];
     ret (case r of
         Inl e \<Rightarrow> Some (Wrapf (path @ '': stat failed: '') e [])
       | Inr out \<Rightarrow>
           (let out = trim_space out; want = wantOwner @ '':'' @ wantGroup @ '' '' @ wantMode in
            if out \<noteq> want
            then Some (Errorf (path @ '': got '' @ [CHR 0x22] @ out @ [CHR 0x22] @ '', want '' @
                   [CHR 0x22] @ want @ [CHR 0x22]))
            else None))
   }"

text \<open>The shapes that several checks share: a service flag, a listening port, a 200 response.\<close>

definition service_check ::
  "('w, bool result) state \<Rightarrow> string \<Rightarrow> string \<Rightarrow> ('w, go_error option outcome) state" where
  "service_check m prefix msg = do {
     r \<leftarrow> m;
     ret (Returns (case r of
         Inl e \<Rightarrow> Some (Wrapf prefix e [])
       | Inr b \<Rightarrow> if \<not> b then Some (Errorf msg) else None))
   }"

definition port_check ::
  "'w observer \<Rightarrow> string \<Rightarrow> string \<Rightarrow> ('w, go_error option outcome) state" where
  "port_check ob addr prefix = do {
     r \<leftarrow> CheckPort ob addr;
     ret (Returns (case r of
         Inl e \<Rightarrow> Some (Wrapf prefix e [])
       | Inr ps \<Rightarrow> if \<not> pt_listening ps then Some (Errorf (''no listener on '' @ addr)) else None))
   }"

definition status_200_check ::
  "'w observer \<Rightarrow> string \<Rightarrow> bool \<Rightarrow> string \<Rightarrow> string \<Rightarrow> ('w, go_error option outcome) state" where
  "status_200_check ob url skipTLS prefix got = do {
     r \<leftarrow> CheckEndpoint ob url skipTLS;
     ret (Returns (case r of
         Inl e \<Rightarrow> Some (Wrapf prefix e [])
       | Inr ep \<Rightarrow> if ep_status_code ep \<noteq> 200
           then Some (Errorf (got @ itoa (ep_status_code ep) @ '', want 200''))
           else None))
   }"

subsection \<open>The checks\<close>

definition check_S001 :: "'w check" where
  "check_S001 =
    \<lparr>cID = ''S-001'', cCategory = CategorySystemState, cLayer = LayerStructural, cSeverity = SeverityBlocking,
     cAssertion = ''app.service is active'',
     cFailureMeaning = ''App process is not running'',
     cObservableCommand = ''systemctl is-active app.service --quiet'',
     cExecute = \<lambda>ob. service_check (ServiceActive ob AppServiceName) ''checking app.service: '' ''app.service is not active''\<rparr>"

definition check_S002 :: "'w check" where
  "check_S002 =
    \<lparr>cID = ''S-002'', cCategory = CategorySystemState, cLayer = LayerStructural, cSeverity = SeverityBlocking,
     cAssertion = ''app.service is enabled'',
     cFailureMeaning = ''App will not start on reboot'',
     cObservableCommand = ''systemctl is-enabled app.service --quiet'',
     cExecute = \<lambda>ob. service_check (ServiceEnabled ob AppServiceName) ''checking app.service enablement: '' ''app.service is not enabled''\<rparr>"

definition check_S003 :: "'w check" where
  "check_S003 =
    \<lparr>cID = ''S-003'', cCategory = CategorySystemState, cLayer = LayerStructural, cSeverity = SeverityBlocking,
     cAssertion = ''nginx is active'',
     cFailureMeaning = ''Proxy is not running; no traffic reaches app'',
     cObservableCommand = ''systemctl is-active nginx --quiet'',
     cExecute = \<lambda>ob. service_check (ServiceActive ob NginxServiceName) ''checking nginx state: '' ''nginx is not active''\<rparr>"

definition check_S004 :: "'w check" where
  "check_S004 =
    \<lparr>cID = ''S-004'', cCategory = CategorySystemState, cLayer = LayerStructural, cSeverity = SeverityBlocking,
     cAssertion = ''nginx is enabled'',
     cFailureMeaning = ''nginx will not start on reboot'',
     cObservableCommand = ''systemctl is-enabled nginx --quiet'',
     cExecute = \<lambda>ob. service_check (ServiceEnabled ob NginxServiceName) ''checking nginx enablement: '' ''nginx is not enabled''\<rparr>"

definition check_P001 :: "'w check" where
  "check_P001 =
    \<lparr>cID = ''P-001'', cCategory = CategoryProcess, cLayer = LayerBehavioral, cSeverity = SeverityBlocking,
     cAssertion = ''App process runs as appuser'',
     cFailureMeaning = ''Service is running with wrong identity '' @ u_emdash @ '' security violation'',
     cObservableCommand = ''pgrep -u appuser server > /dev/null'',
     cExecute = \<lambda>ob. do {
       r \<leftarrow> CheckProcess ob BinaryName ServiceUser;
       ret (Returns (case r of
           Inl e \<Rightarrow> Some (Wrapf ''checking app process: '' e [])
         | Inr ps \<Rightarrow> if \<not> ps_running ps
             then Some (Errorf (''no '' @ [CHR 0x22] @ BinaryName @ [CHR 0x22] @ '' process running as '' @ ServiceUser))
             else None))
     }\<rparr>"

definition check_P002 :: "'w check" where
  "check_P002 =
    \<lparr>cID = ''P-002'', cCategory = CategoryProcess, cLayer = LayerBehavioral, cSeverity = SeverityBlocking,
     cAssertion = ''App listens on 127.0.0.1:8080'',
     cFailureMeaning = ''App bound to wrong address or port; nginx upstream unreachable'',
     cObservableCommand = ''ss -ltnp | grep -q '' @ [CHR 0x27] @ ''127.0.0.1:8080'' @ [CHR 0x27],
     cExecute = \<lambda>ob. port_check ob AppBindAddr ''checking port 8080: ''\<rparr>"

definition check_P003 :: "'w check" where
  "check_P003 =
    \<lparr>cID = ''P-003'', cCategory = CategoryProcess, cLayer = LayerBehavioral, cSeverity = SeverityBlocking,
     cAssertion = ''nginx listens on 0.0.0.0:80'',
     cFailureMeaning = ''No HTTP traffic can reach the system'',
     cObservableCommand = ''ss -ltnp | grep -q '' @ [CHR 0x27] @ ''0.0.0.0:80'' @ [CHR 0x27],
     cExecute = \<lambda>ob. port_check ob NginxHTTPAddr ''checking port 80: ''\<rparr>"

definition check_P004 :: "'w check" where
  "check_P004 =
    \<lparr>cID = ''P-004'', cCategory = CategoryProcess, cLayer = LayerBehavioral, cSeverity = SeverityBlocking,
     cAssertion = ''nginx listens on 0.0.0.0:443'',
     cFailureMeaning = ''No HTTPS traffic can reach the system'',
     cObservableCommand = ''ss -ltnp | grep -q '' @ [CHR 0x27] @ ''0.0.0.0:443'' @ [CHR 0x27],
     cExecute = \<lambda>ob. port_check ob NginxHTTPSAddr ''checking port 443: ''\<rparr>"

definition check_E001 :: "'w check" where
  "check_E001 =
    \<lparr>cID = ''E-001'', cCategory = CategoryEndpoint, cLayer = LayerBehavioral, cSeverity = SeverityBlocking,
     cAssertion = ''GET /health returns HTTP 200'',
     cFailureMeaning = ''App is not serving health checks; process may be running but not functional'',
     cObservableCommand = ''curl -sf http://localhost/health > /dev/null'',
     cExecute = \<lambda>ob. status_200_check ob ''http://localhost/health'' False ''reaching /health: ''
       ''/health returned ''\<rparr>"

definition check_E002 :: "'w check" where
  "check_E002 =
    \<lparr>cID = ''E-002'', cCategory = CategoryEndpoint, cLayer = LayerBehavioral, cSeverity = SeverityBlocking,
     cAssertion = ''GET / returns HTTP 200'',
     cFailureMeaning = ''Primary request path is failing'',
     cObservableCommand = ''curl -sf http://localhost/ > /dev/null'',
     cExecute = \<lambda>ob. status_200_check ob ''http://localhost/'' False ''reaching /: ''
       ''/ returned ''\<rparr>"

definition check_E003 :: "'w check" where
  "check_E003 =
    \<lparr>cID = ''E-003'', cCategory = CategoryEndpoint, cLayer = LayerBehavioral, cSeverity = SeverityBlocking,
     cAssertion = ''/health body contains '' @ [CHR 0x22] @ ''status'' @ [CHR 0x22] @ '':'' @ [CHR 0x22] @
      ''ok'' @ [CHR 0x22],
     cFailureMeaning = ''App is responding but not confirming config loaded'',
     cObservableCommand = ''curl -s http://localhost/health | jq -e '' @ [CHR 0x27] @ ''.status == '' @ [CHR 0x22] @
      ''ok'' @ [CHR 0x22] @ [CHR 0x27] @ '' > /dev/null'',
     cExecute = \<lambda>ob. do {
       r \<leftarrow> CheckEndpoint ob ''http://localhost/health'' False;
       ret (Returns (case r of
           Inl e \<Rightarrow> Some (Wrapf ''reaching /health for body check: '' e [])
         | Inr ep \<Rightarrow>
             if ep_status_code ep \<noteq> 200
             then Some (Errorf (''/health returned '' @ itoa (ep_status_code ep) @ '', cannot check body''))
             else (case unmarshal_status (ep_body ep) of
                 None \<Rightarrow> Some (Wrapf ''parsing /health body: '' json_error [])
               | Some s \<Rightarrow> if s \<noteq> ''ok''
                   then Some (Errorf (''/health body status='' @ [CHR 0x22] @ s @ [CHR 0x22] @
                          '', want '' @ [CHR 0x22] @ ''ok'' @ [CHR 0x22]))
                   else None)))
     }\<rparr>"

definition check_E004 :: "'w check" where
  "check_E004 =
    \<lparr>cID = ''E-004'', cCategory = CategoryEndpoint, cLayer = LayerBehavioral, cSeverity = SeverityBlocking,
     cAssertion = ''Response includes X-Proxy: nginx header'',
     cFailureMeaning = ''nginx is not proxying '' @ u_emdash @
      '' traffic reaching app directly or response from wrong source'',
     cObservableCommand = ''curl -sI http://localhost/ | grep -q '' @ [CHR 0x27] @ ''X-Proxy: nginx'' @ [CHR 0x27],
     cExecute = \<lambda>ob. do {
       r \<leftarrow> RunCommand ob ''curl'' [''-sI'', ''http://localhost/''];
       ret (Returns (case r of
           Inl e \<Rightarrow> Some (Wrapf ''fetching headers from /: '' e [])
         | Inr out \<Rightarrow> if \<not> str_contains out ''X-Proxy: nginx''
             then Some (Errorf ''X-Proxy: nginx header absent from response'')
             else None))
     }\<rparr>"

definition check_E005 :: "'w check" where
  "check_E005 =
    \<lparr>cID = ''E-005'', cCategory = CategoryEndpoint, cLayer = LayerBehavioral, cSeverity = SeverityBlocking,
     cAssertion = ''GET https://app.local/health returns 200 (skip verify)'',
     cFailureMeaning = ''TLS listener or upstream not functioning'',
     cObservableCommand = ''curl -skf https://app.local/health > /dev/null'',
     cExecute = \<lambda>ob. status_200_check ob (''https://'' @ AppLocalHostname @ ''/health'') True (''reaching https://'' @ AppLocalHostname @ ''/health: '')
       (''https://'' @ AppLocalHostname @ ''/health returned '')\<rparr>"

definition check_F001 :: "'w check" where
  "check_F001 =
    \<lparr>cID = ''F-001'', cCategory = CategoryFilesystem, cLayer = LayerStructural, cSeverity = SeverityBlocking,
     cAssertion = ''/opt/app/server exists, owned appuser:appuser, mode 750'',
     cFailureMeaning = ''Binary missing, wrong ownership, or not executable'',
     cObservableCommand = ''stat -c '' @ [CHR 0x27] @ ''%U:%G %a'' @ [CHR 0x27] @ '' /opt/app/server | grep -q '' @
      [CHR 0x27] @ ''appuser:appuser 750'' @ [CHR 0x27],
     cExecute = \<lambda>ob. do { e \<leftarrow> checkFileOwnerMode ob BinaryPath ServiceUser ServiceGroup ''750''; ret (Returns e) }\<rparr>"

definition check_F002 :: "'w check" where
  "check_F002 =
    \<lparr>cID = ''F-002'', cCategory = CategoryFilesystem, cLayer = LayerStructural, cSeverity = SeverityBlocking,
     cAssertion = ''/etc/app/config.yaml exists, owned appuser:appuser, mode 640'',
     cFailureMeaning = ''Config missing, wrong ownership, or unreadable by appuser'',
     cObservableCommand = ''stat -c '' @ [CHR 0x27] @ ''%U:%G %a'' @ [CHR 0x27] @ '' /etc/app/config.yaml | grep -q '' @
      [CHR 0x27] @ ''appuser:appuser 640'' @ [CHR 0x27],
     cExecute = \<lambda>ob. do { e \<leftarrow> checkFileOwnerMode ob ConfigPath ServiceUser ServiceGroup ''640''; ret (Returns e) }\<rparr>"

definition check_F003 :: "'w check" where
  "check_F003 =
    \<lparr>cID = ''F-003'', cCategory = CategoryFilesystem, cLayer = LayerStructural, cSeverity = SeverityBlocking,
     cAssertion = ''/var/log/app/ exists, owned appuser:appuser, mode 755'',
     cFailureMeaning = ''Log directory missing or wrong permissions'',
     cObservableCommand = ''stat -c '' @ [CHR 0x27] @ ''%U:%G %a'' @ [CHR 0x27] @ '' /var/log/app | grep -q '' @
      [CHR 0x27] @ ''appuser:appuser 755'' @ [CHR 0x27],
     cExecute = \<lambda>ob. do { e \<leftarrow> checkFileOwnerMode ob LogDir ServiceUser ServiceGroup ''755''; ret (Returns e) }\<rparr>"

definition check_F004 :: "'w check" where
  "check_F004 =
    \<lparr>cID = ''F-004'', cCategory = CategoryFilesystem, cLayer = LayerStructural, cSeverity = SeverityBlocking,
     cAssertion = ''/var/lib/app/ exists, owned appuser:appuser, mode 755'',
     cFailureMeaning = ''State directory missing or wrong permissions '' @ u_emdash @ '' / will return 500'',
     cObservableCommand = ''stat -c '' @ [CHR 0x27] @ ''%U:%G %a'' @ [CHR 0x27] @ '' /var/lib/app | grep -q '' @
      [CHR 0x27] @ ''appuser:appuser 755'' @ [CHR 0x27],
     cExecute = \<lambda>ob. do { e \<leftarrow> checkFileOwnerMode ob StateDir ServiceUser ServiceGroup ''755''; ret (Returns e) }\<rparr>"

definition check_F005 :: "'w check" where
  "check_F005 =
    \<lparr>cID = ''F-005'', cCategory = CategoryFilesystem, cLayer = LayerStructural, cSeverity = SeverityBlocking,
     cAssertion = ''nginx configuration passes syntax check'',
     cFailureMeaning = ''nginx config has syntax error; nginx will not reload'',
     cObservableCommand = ''nginx -t 2>/dev/null'',
     cExecute = \<lambda>ob. do {
       r \<leftarrow> RunCommand ob ''nginx'' [''-t''];
       ret (Returns (case r of Inl e \<Rightarrow> Some (Wrapf ''nginx config syntax check failed: '' e []) | Inr _ \<Rightarrow> None))
     }\<rparr>"

definition check_F006 :: "'w check" where
  "check_F006 =
    \<lparr>cID = ''F-006'', cCategory = CategoryFilesystem, cLayer = LayerStructural, cSeverity = SeverityDegraded,
     cAssertion = ''TLS certificate exists and has not expired'',
     cFailureMeaning = ''HTTPS will fail; certificate requires renewal'',
     cObservableCommand = ''openssl x509 -checkend 0 -noout -in /etc/nginx/tls/app.local.crt'',
     cExecute = \<lambda>ob. do {
       r \<leftarrow> RunCommand ob ''openssl'' [''x509'', ''-checkend'', ''0'', ''-noout'', ''-in'', TLSCertPath];
       ret (Returns (case r of Inl e \<Rightarrow> Some (Wrapf ''TLS certificate expired or missing: '' e []) | Inr _ \<Rightarrow> None))
     }\<rparr>"

definition check_F007 :: "'w check" where
  "check_F007 =
    \<lparr>cID = ''F-007'', cCategory = CategoryFilesystem, cLayer = LayerStructural, cSeverity = SeverityBlocking,
     cAssertion = ''app.local resolves to 127.0.0.1'',
     cFailureMeaning = ''TLS hostname resolution broken; HTTPS problems will be misattributed'',
     cObservableCommand = ''getent hosts app.local | grep -q '' @ [CHR 0x27] @ ''127.0.0.1'' @ [CHR 0x27],
     cExecute = \<lambda>ob. do {
       r \<leftarrow> ResolveHost ob AppLocalHostname;
       ret (Returns (case r of
           Inl e \<Rightarrow> Some (Wrapf (''resolving '' @ AppLocalHostname @ '': '') e [])
         | Inr addr \<Rightarrow> if addr \<noteq> ''127.0.0.1''
             then Some (Errorf (AppLocalHostname @ '' resolves to '' @ [CHR 0x22] @ addr @ [CHR 0x22] @ '', want 127.0.0.1''))
             else None))
     }\<rparr>"

definition check_L001 :: "'w check" where
  "check_L001 =
    \<lparr>cID = ''L-001'', cCategory = CategoryLog, cLayer = LayerOperational, cSeverity = SeverityDegraded,
     cAssertion = ''/var/log/app/app.log exists and is non-empty'',
     cFailureMeaning = ''No log output '' @ u_emdash @ '' app may not be logging, or log file was deleted'',
     cObservableCommand = ''test -s /var/log/app/app.log'',
     cExecute = \<lambda>ob. do {
       r \<leftarrow> Stat ob LogPath;
       ret (Returns (case r of
           Inl e \<Rightarrow> Some (Wrapf ''stat app.log: '' e [])
         | Inr info \<Rightarrow> if fi_size info = 0 then Some (Errorf ''app.log exists but is empty'') else None))
     }\<rparr>"

definition check_L002 :: "'w check" where
  "check_L002 =
    \<lparr>cID = ''L-002'', cCategory = CategoryLog, cLayer = LayerOperational, cSeverity = SeverityDegraded,
     cAssertion = ''Last line of app.log is valid JSON'',
     cFailureMeaning = ''Log is corrupted or format has changed'',
     cObservableCommand = ''tail -1 /var/log/app/app.log | jq . > /dev/null 2>&1'',
     cExecute = \<lambda>ob. do {
       r \<leftarrow> ReadFile ob LogPath;
       ret (Returns (case r of
           Inl e \<Rightarrow> Some (Wrapf ''reading app.log: '' e [])
         | Inr data \<Rightarrow>
             (let ls = split_on nl (trim_right_nl data) in
              if ls = [] \<or> last ls = [] then Some (Errorf ''app.log is empty'')
              else (case parse_json (last ls) of
                  None \<Rightarrow> Some (Wrapf ''last line of app.log is not valid JSON: '' json_error [])
                | Some v \<Rightarrow> None))))
     }\<rparr>"

definition check_L003 :: "'w check" where
  "check_L003 =
    \<lparr>cID = ''L-003'', cCategory = CategoryLog, cLayer = LayerOperational, cSeverity = SeverityDegraded,
     cAssertion = ''app.log contains a startup entry'',
     cFailureMeaning = ''App started but startup log was not produced '' @ u_emdash @ '' logging failure'',
     cObservableCommand = ''grep -q '' @ [CHR 0x27] @ [CHR 0x22] @ ''msg'' @ [CHR 0x22] @ '':'' @ [CHR 0x22] @
      ''server started'' @ [CHR 0x22] @ [CHR 0x27] @ '' /var/log/app/app.log'',
     cExecute = \<lambda>ob. do {
       r \<leftarrow> ReadFile ob LogPath;
       ret (Returns (case r of
           Inl e \<Rightarrow> Some (Wrapf ''reading app.log: '' e [])
         | Inr data \<Rightarrow> if \<not> str_contains data startup_entry
             then Some (Errorf (''app.log does not contain startup entry ('' @ startup_entry @ '')''))
             else None))
     }\<rparr>"

definition check_H001 :: "'w check" where
  "check_H001 =
    \<lparr>cID = ''H-001'', cCategory = CategoryEndpoint, cLayer = LayerBehavioral, cSeverity = SeverityBlocking,
     cAssertion = ''/headers returns proxy headers'',
     cFailureMeaning = ''Proxy headers not propagated; nginx may be bypassed'',
     cObservableCommand = ''curl -s http://localhost/headers'',
     cExecute = \<lambda>ob. do {
       r \<leftarrow> CheckEndpoint ob ''http://localhost/headers'' False;
       ret (Returns (case r of
           Inl e \<Rightarrow> Some (Wrapf ''reaching /headers: '' e [])
         | Inr ep \<Rightarrow>
             if ep_status_code ep \<noteq> 200
             then Some (Errorf (''/headers returned '' @ itoa (ep_status_code ep) @ '', want 200''))
             else if \<not> str_contains (ep_body ep) ([CHR 0x22] @ ''Host'' @ [CHR 0x22])
             then Some (Errorf ''/headers body missing Host field'')
             else None))
     }\<rparr>"

definition check_H002 :: "'w check" where
  "check_H002 =
    \<lparr>cID = ''H-002'', cCategory = CategoryEndpoint, cLayer = LayerBehavioral, cSeverity = SeverityBlocking,
     cAssertion = ''/reset causes TCP connection reset'',
     cFailureMeaning = ''TCP RST not sent; SO_LINGER may not be configured'',
     cObservableCommand = ''curl -s http://localhost/reset; test $? -eq 56'',
     cExecute = \<lambda>ob. do {
       r \<leftarrow> CheckEndpoint ob ''http://localhost/reset'' False;
       ret (Returns (case r of
           Inl e \<Rightarrow> Some (Wrapf ''reaching /reset: '' e [])
         | Inr ep \<Rightarrow> if ep_status_code ep = 200
             then Some (Errorf (''/reset returned '' @ itoa (ep_status_code ep) @ '', want non-200 (connection reset expected)''))
             else None))
     }\<rparr>"

subsection \<open>The catalog\<close>

definition Catalog :: "'w check list" where
  "Catalog =
     [check_S001, check_S002, check_S003, check_S004, check_P001, check_P002, check_P003,
      check_P004, check_E001, check_E002, check_E003, check_E004, check_E005, check_F001,
      check_F002, check_F003, check_F004, check_F005, check_F006, check_F007, check_L001,
      check_L002, check_L003, check_H001, check_H002]"

definition CheckByID :: "string \<Rightarrow> 'w check option" where
  "CheckByID i = List.find (\<lambda>c. cID c = i) Catalog"

definition NewRunner :: "'w check list" where
  "NewRunner = Catalog"

lemmas check_defs = check_S001_def check_S002_def check_S003_def check_S004_def check_P001_def check_P002_def check_P003_def check_P004_def check_E001_def check_E002_def check_E003_def check_E004_def check_E005_def check_F001_def check_F002_def check_F003_def check_F004_def check_F005_def check_F006_def check_F007_def check_L001_def check_L002_def check_L003_def check_H001_def check_H002_def

lemma Catalog_ids:
  "map cID (Catalog :: 'w check list) =
     [''S-001'', ''S-002'', ''S-003'', ''S-004'', ''P-001'', ''P-002'', ''P-003'', ''P-004'',
      ''E-001'', ''E-002'', ''E-003'', ''E-004'', ''E-005'',
      ''F-001'', ''F-002'', ''F-003'', ''F-004'', ''F-005'', ''F-006'', ''F-007'',
      ''L-001'', ''L-002'', ''L-003'', ''H-001'', ''H-002'']"
  by (simp add: Catalog_def check_defs)

lemma Catalog_distinct: "distinct (map cID (Catalog :: 'w check list))"
  unfolding Catalog_ids by simp

lemma CheckByID_iff: "CheckByID i = Some (c :: 'w check) \<longleftrightarrow> c \<in> set Catalog \<and> cID c = i"
proof
  assume "CheckByID i = Some c"
  then show "c \<in> set Catalog \<and> cID c = i" by (auto simp: CheckByID_def dest: find_SomeD)
next
  assume c: "c \<in> set Catalog \<and> cID c = i"
  then show "CheckByID i = Some c"
    using find_distinct_map [OF Catalog_distinct, of c] by (auto simp: CheckByID_def)
qed

lemma CheckByID_None_iff: "CheckByID i = (None :: 'w check option) \<longleftrightarrow> i \<notin> set (map cID (Catalog :: 'w check list))"
  by (auto simp: CheckByID_def find_None_iff)

text \<open>Every check reaches the world through the Observer only.\<close>

lemma keeps_checkFileOwnerMode: "observes I ob \<Longrightarrow> keeps I (checkFileOwnerMode ob p u g m)"
  unfolding checkFileOwnerMode_def by (intro keeps_rules observesD(9))

lemma Catalog_well_behaved:
  fixes c :: "'w check"
  assumes "c \<in> set Catalog"
  shows "well_behaved c"
proof -
  have "list_all well_behaved (Catalog :: 'w check list)"
    by (simp add: Catalog_def well_behaved_def check_defs service_check_def port_check_def status_200_check_def)
       (intro conjI allI impI keeps_rules keeps_checkFileOwnerMode; simp add: observesD)
  with assms show ?thesis by (simp add: list_all_iff)
qed

end
