(* ===== verification/Lock.thy ===== *)
theory Lock
  imports Store Conformance
begin

text \<open>
  The mutation lock, \<^verbatim>\<open>internal/executor/lock.go\<close>: one process's view of it. How the system
  calls of several processes interleave is in the theory \<open>LockProtocol\<close>.

  \<open>Acquire\<close> calls itself after it removed a lock file it takes for stale, and nothing bounds
  how often. A Go stack is finite, so the model takes the number of frames there is room for
  and ends in a panic when they are used up; with no failing call three frames are enough
  (\<open>Acquire_returns\<close>).
\<close>

record lock =
  lkPath :: string
  lkPid :: int
  lkFile :: bool

definition NewLockAt :: "string \<Rightarrow> lock" where
  "NewLockAt path = \<lparr>lkPath = path, lkPid = 0, lkFile = False\<rparr>"

definition NewLock :: lock where
  "NewLock = NewLockAt LockPath"

text \<open>\<open>os.FindProcess\<close> succeeds for every number; signalling process 0 or -1 is refused by it.\<close>

definition processRunning :: "int \<Rightarrow> ('x world, bool) state" where
  "processRunning pid = gets (\<lambda>w.
     if pid = 0 \<or> pid = -1 then False
     else (case kill0 w pid of None \<Rightarrow> True | Some e \<Rightarrow> e = EPERM))"

definition stack_overflow :: string where
  "stack_overflow = ''stack overflow''"

fun Acquire :: "nat \<Rightarrow> lock \<Rightarrow> ('x world, (go_error option \<times> lock) outcome) state" where
  "Acquire 0 l = ret (Panics stack_overflow)"
| "Acquire (Suc n) l = do {
     d \<leftarrow> os_MkdirAll (dir_of LockPath) (octal [0, 7, 5, 5]);
     (case d of
        Some err \<Rightarrow> ret (Returns (Some (Wrapf ''creating lock directory: '' err []), l))
      | None \<Rightarrow> do {
          f \<leftarrow> os_OpenExcl (lkPath l) (octal [0, 6, 0, 0]);
          (case f of
             None \<Rightarrow> do {
               pid \<leftarrow> os_Getpid;
               _ \<leftarrow> file_Write (lkPath l) (itoa pid @ [nl]);
               ret (Returns (None, l\<lparr>lkPid := pid, lkFile := True\<rparr>))
             }
           | Some err \<Rightarrow>
               if \<not> is_exist err then ret (Returns (Some (Wrapf ''acquiring lock: '' err []), l))
               else do {
                 data \<leftarrow> os_ReadFile (lkPath l);
                 (case data of
                    Inl _ \<Rightarrow> do { _ \<leftarrow> os_Remove (lkPath l); Acquire n l }
                  | Inr s \<Rightarrow>
                      (case atoi (trim_space s) of
                         None \<Rightarrow> do { _ \<leftarrow> os_Remove (lkPath l); Acquire n l }
                       | Some holder \<Rightarrow> do {
                           alive \<leftarrow> processRunning holder;
                           (if \<not> alive then do { _ \<leftarrow> os_Remove (lkPath l); Acquire n l }
                            else ret (Returns (Some (ErrLockHeld holder), l)))
                         }))
               })
        })
   }"

definition Release :: "lock \<Rightarrow> ('x world, lock) state" where
  "Release l = do {
     _ \<leftarrow> (if lkFile l then do { _ \<leftarrow> file_Close (lkPath l); ret () } else ret ());
     me \<leftarrow> os_Getpid;
     (if lkPid l = me then do { _ \<leftarrow> os_Remove (lkPath l); ret (l\<lparr>lkFile := False, lkPid := 0\<rparr>) }
      else ret (l\<lparr>lkFile := False\<rparr>))
   }"

definition Held :: "lock \<Rightarrow> ('x world, bool) state" where
  "Held l = do { me \<leftarrow> os_Getpid; ret (lkPid l = me \<and> lkFile l) }"

definition IsErrLockHeld :: "go_error \<Rightarrow> bool" where
  "IsErrLockHeld e \<longleftrightarrow> errors_as is_ErrLockHeld e"

subsection \<open>What the lock touches\<close>

lemma keeps_processRunning [keeps_rules]: "keeps I (processRunning p)"
  unfolding processRunning_def by (intro keeps_rules)

lemma keeps_Acquire:
  "lkPath l \<noteq> q \<Longrightarrow> q \<notin> set (ancestors (dir_of LockPath)) \<Longrightarrow> keeps (file_is q c) (Acquire n l)"
  by (induction n)
     (auto intro!: keeps_rules keeps_MkdirAll keeps_OpenExcl keeps_Write keeps_Remove)

lemma keeps_Release: "lkPath l \<noteq> q \<Longrightarrow> keeps (file_is q c) (Release l)"
  unfolding Release_def by (intro keeps_rules keeps_Remove)

lemma Release_lock: "run (Release l) w = (l', w') \<Longrightarrow> \<not> lkFile l'"
  by (auto simp: Release_def os_Getpid_def split: if_splits prod.splits)

subsection \<open>Acquiring with no failing call\<close>

text \<open>What the lock file says: who holds the lock, if a live process does.\<close>

definition pid_alive :: "'x world \<Rightarrow> int \<Rightarrow> bool" where
  "pid_alive w pid \<longleftrightarrow> pid \<noteq> 0 \<and> pid \<noteq> -1 \<and> (case kill0 w pid of None \<Rightarrow> True | Some e \<Rightarrow> e = EPERM)"

definition holder :: "string \<Rightarrow> 'x world \<Rightarrow> int option" where
  "holder path w =
     (case files w path of
        None \<Rightarrow> None
      | Some n \<Rightarrow>
          if fisdir n then None
          else (case atoi (trim_space (fcontent n)) of
                  None \<Rightarrow> None
                | Some pid \<Rightarrow> if pid_alive w pid then Some pid else None))"

definition lock_file_of :: "int \<Rightarrow> string" where
  "lock_file_of pid = itoa pid @ [nl]"

lemma not_digit_space: "is_digit c \<Longrightarrow> \<not> is_space c"
  by (auto simp: is_digit_def is_space_def)

lemma itoa_no_space: "c \<in> set (itoa i) \<Longrightarrow> \<not> is_space c"
  using nat_str_digits [of "nat i"] nat_str_digits [of "nat (- i)"]
  by (auto simp: itoa_def list_all_iff not_digit_space split: if_splits) (simp add: is_space_def)

lemma trim_space_itoa: "trim_space (itoa i @ [nl]) = itoa i"
proof -
  have *: "dropWhile is_space xs = xs" if "\<forall>c \<in> set xs. \<not> is_space c" for xs
    using that by (cases xs) auto
  have ns: "\<forall>c \<in> set (itoa i). \<not> is_space c" using itoa_no_space by blast
  have ne: "itoa i \<noteq> []" by (simp add: itoa_def)
  have "dropWhile is_space (itoa i @ [nl]) = itoa i @ [nl]"
    using ns ne by (cases "itoa i") auto
  moreover have "is_space nl" by (simp add: is_space_def nl_def)
  ultimately show ?thesis using ns * [of "rev (itoa i)"]
    by (simp add: trim_space_def trim_right_by_def)
qed

lemma atoi_lock_file: "int64_ok pid \<Longrightarrow> atoi (trim_space (lock_file_of pid)) = Some pid"
  by (simp add: lock_file_of_def trim_space_itoa atoi_itoa)

text \<open>No system call fails.\<close>

definition no_fault :: "'x world \<Rightarrow> bool" where
  "no_fault w \<longleftrightarrow> fault_at w = (\<lambda>_. None)"

lemma lock_dir_no_lock: "has_prefix path ''/var/lib/lab/'' \<Longrightarrow> path \<notin> set (ancestors (dir_of LockPath))"
  by (auto simp: ancestors_def path_defs dir_of_def has_prefix_iff upt_rec)

text \<open>The directory is made first; it does not matter to the rest.\<close>

lemma MkdirAll_no_fault:
  assumes "no_fault w" and "run (os_MkdirAll d m) w = (e, w')" and "q \<notin> set (ancestors d)"
  shows "e = None \<and> no_fault w' \<and> seen q w' = seen q w"
proof -
  have "e = None" using assms(1,2)
    by (auto simp: os_MkdirAll_def run_syscall no_fault_def split: prod.splits)
  moreover have "seen q w' = seen q w"
    using keepsD [OF keeps_MkdirAll [OF assms(3)] _ assms(2), of "seen q w"] by (simp add: file_is_def)
  ultimately show ?thesis using MkdirAll_world [OF assms(2)] assms(1) by (simp add: no_fault_def)
qed

text \<open>One round: it ends, or it removes the stale file and goes on.\<close>

lemma Acquire_round:
  assumes nf: "no_fault w" and q: "lkPath l \<notin> set (ancestors (dir_of LockPath))"
    and run: "run (Acquire (Suc n) l) w = (r, w')"
  shows "(files w (lkPath l) = None \<and> r = Returns (None, l\<lparr>lkPid := self_pid w, lkFile := True\<rparr>) \<and>
            (\<exists>m. files w' (lkPath l) = Some m \<and> fcontent m = lock_file_of (self_pid w) \<and> \<not> fisdir m) \<and>
            no_fault w' \<and> self_pid w' = self_pid w \<and> kill0 w' = kill0 w) \<or>
         (\<exists>pid. holder (lkPath l) w = Some pid \<and> r = Returns (Some (ErrLockHeld pid), l) \<and>
            seen (lkPath l) w' = seen (lkPath l) w) \<or>
         (files w (lkPath l) \<noteq> None \<and> holder (lkPath l) w = None \<and>
            (\<exists>v. run (Acquire n l) v = (r, w') \<and> files v (lkPath l) = None \<and> no_fault v \<and>
               self_pid v = self_pid w \<and> kill0 v = kill0 w))"
proof -
  obtain e v where m: "run (os_MkdirAll (dir_of LockPath) (octal [0, 7, 5, 5])) w = (e, v)" by (meson surj_pair)
  from MkdirAll_no_fault [OF nf m q] have e: "e = None" and v: "no_fault v"
    and sv: "files v (lkPath l) = files w (lkPath l)" "self_pid v = self_pid w" "kill0 v = kill0 w"
    by (auto simp: seen_def)
  show ?thesis
  proof (cases "files w (lkPath l)")
    case None
    with run m e v sv show ?thesis
      by (auto simp: os_OpenExcl_def run_syscall no_fault_def new_node_def set_file_def os_Getpid_def
          file_Write_def append_content_def lock_file_of_def)
  next
    case (Some nd)
    have ex: "run (os_OpenExcl (lkPath l) (octal [0, 6, 0, 0])) v =
        (Some (PathError ''open'' (lkPath l) EEXIST), v\<lparr>sysno := Suc (sysno v)\<rparr>)"
      using v sv Some by (simp add: os_OpenExcl_def run_syscall no_fault_def)
    have rm: "run (os_Remove (lkPath l)) (v\<lparr>sysno := Suc (Suc (sysno v))\<rparr>) =
        (None, v\<lparr>sysno := Suc (Suc (Suc (sysno v))), files := (files v)(lkPath l := None)\<rparr>)"
      using v sv Some by (simp add: os_Remove_def run_syscall no_fault_def set_file_def)
    show ?thesis
    proof (cases "holder (lkPath l) w")
      case None
      have "run (Acquire n l) (v\<lparr>sysno := Suc (Suc (Suc (sysno v))), files := (files v)(lkPath l := None)\<rparr>) = (r, w')"
        using run m e ex rm v sv Some None
        by (auto simp: run_ReadFile no_fault_def holder_def processRunning_def pid_alive_def
            split: option.splits if_splits)
      with v sv Some None show ?thesis
        by (intro disjI2 conjI exI [of _ "v\<lparr>sysno := Suc (Suc (Suc (sysno v))), files := (files v)(lkPath l := None)\<rparr>"])
           (simp_all add: no_fault_def)
    next
      case (Some pid)
      with run m e ex v sv \<open>files w (lkPath l) = Some nd\<close> show ?thesis
        by (auto simp: run_ReadFile no_fault_def holder_def processRunning_def pid_alive_def seen_def
            split: option.splits if_splits)
    qed
  qed
qed

declare Acquire.simps [simp del]

lemma holder_cong: "seen path w' = seen path w \<Longrightarrow> holder path w' = holder path w"
proof -
  assume s: "seen path w' = seen path w"
  then have "pid_alive w' = pid_alive w" by (simp add: seen_def pid_alive_def fun_eq_iff)
  with s show ?thesis by (auto simp: holder_def seen_def split: option.splits)
qed

lemma lock_path_ok: "LockPath \<notin> set (ancestors (dir_of LockPath))"
  by (rule lock_dir_no_lock) (simp add: path_defs has_prefix_iff)

lemma holder_absent: "files w path = None \<Longrightarrow> holder path w = None"
  by (simp add: holder_def)

lemma Acquire_no_fault:
  assumes "no_fault w" and "lkPath l \<notin> set (ancestors (dir_of LockPath))"
    and "run (Acquire (Suc (Suc n)) l) w = (r, w')"
  shows "case holder (lkPath l) w of
      Some pid \<Rightarrow> r = Returns (Some (ErrLockHeld pid), l) \<and> files w' (lkPath l) = files w (lkPath l)
    | None \<Rightarrow> r = Returns (None, l\<lparr>lkPid := self_pid w, lkFile := True\<rparr>) \<and> no_fault w' \<and>
        self_pid w' = self_pid w \<and> kill0 w' = kill0 w \<and>
        (\<exists>m. files w' (lkPath l) = Some m \<and> fcontent m = lock_file_of (self_pid w) \<and> \<not> fisdir m)"
proof -
  consider (free) "files w (lkPath l) = None" | (held) pid where "holder (lkPath l) w = Some pid"
    | (stale) "files w (lkPath l) \<noteq> None" "holder (lkPath l) w = None" by (cases "holder (lkPath l) w") auto
  then show ?thesis
  proof cases
    case free
    with Acquire_round [OF assms] show ?thesis by (auto simp: holder_absent)
  next
    case held
    with Acquire_round [OF assms] show ?thesis by (auto simp: holder_absent seen_def)
  next
    case stale
    with Acquire_round [OF assms] obtain v where v: "run (Acquire (Suc n) l) v = (r, w')"
      "files v (lkPath l) = None" "no_fault v" "self_pid v = self_pid w" "kill0 v = kill0 w" by auto
    from Acquire_round [OF v(3) assms(2) v(1)] v stale show ?thesis
      by (auto simp: holder_absent)
  qed
qed

lemma Release_own:
  assumes "no_fault w" and "lkPid l = self_pid w" and "files w (lkPath l) = Some n"
  shows "files (snd (run (Release l) w)) = (files w)(lkPath l := None)"
  using assms
  by (simp add: Release_def file_Close_def os_Remove_def os_Getpid_def run_syscall no_fault_def set_file_def
      case_prod_beta)

text \<open>
  The lock as an interface: a process takes it or is told the holder, and giving it back
  frees it. \<open>view\<close> is the holder; \<open>calm\<close> the worlds in which no call fails.
\<close>

locale mutex =
  fixes acquire :: "('w, (go_error option \<times> 'l) outcome) state"
    and give_back :: "'l \<Rightarrow> ('w, 'l) state"
    and view :: "'w \<Rightarrow> int option"
    and me :: "'w \<Rightarrow> int"
    and calm :: "'w \<Rightarrow> bool"
  assumes refused: "calm w \<Longrightarrow> view w = Some p \<Longrightarrow> run acquire w = (r, w') \<Longrightarrow>
      (\<exists>l. r = Returns (Some (ErrLockHeld p), l)) \<and> view w' = view w"
    and taken: "calm w \<Longrightarrow> view w = None \<Longrightarrow> run acquire w = (r, w') \<Longrightarrow>
      (\<exists>l. r = Returns (None, l)) \<and> view w' = Some (me w)"
    and freed: "calm w \<Longrightarrow> view w = None \<Longrightarrow> run acquire w = (Returns (None, l), w') \<Longrightarrow>
      view (snd (run (give_back l) w')) = None"
begin

lemma always_answers: "calm w \<Longrightarrow> \<exists>e l. fst (run acquire w) = Returns (e, l)"
  using refused [of w _ "fst (run acquire w)" "snd (run acquire w)"]
    taken [of w "fst (run acquire w)" "snd (run acquire w)"]
  by (cases "view w") auto

lemma acquired_iff_free: "calm w \<Longrightarrow> (\<exists>l. fst (run acquire w) = Returns (None, l)) \<longleftrightarrow> view w = None"
  using refused [of w _ "fst (run acquire w)" "snd (run acquire w)"]
    taken [of w "fst (run acquire w)" "snd (run acquire w)"]
  by (cases "view w") auto

text \<open>A section under the lock: refused while it is held, otherwise run and the lock free after.\<close>

lemma second_refused:
  assumes "calm w" and "view w = None" and "run acquire w = (r, w')" and "calm v" and "view v = view w'"
  shows "\<exists>l. fst (run acquire v) = Returns (Some (ErrLockHeld (me w)), l)"
  using taken [OF assms(1-3)] refused [OF assms(4), of "me w" "fst (run acquire v)" "snd (run acquire v)"] assms(5)
  by auto

end

text \<open>A live process whose number is an ordinary process number.\<close>

definition live_self :: "'x world \<Rightarrow> bool" where
  "live_self w \<longleftrightarrow> 0 < self_pid w \<and> int64_ok (self_pid w) \<and> kill0 w (self_pid w) = None"

lemma holder_self:
  "live_self w \<Longrightarrow> self_pid w' = self_pid w \<Longrightarrow> kill0 w' = kill0 w \<Longrightarrow> files w' path = Some m \<Longrightarrow>
     fcontent m = lock_file_of (self_pid w) \<Longrightarrow> \<not> fisdir m \<Longrightarrow> holder path w' = Some (self_pid w)"
  by (simp add: holder_def atoi_lock_file live_self_def pid_alive_def)

interpretation lk: mutex "Acquire (Suc (Suc n)) NewLock" Release "holder LockPath" self_pid
  "\<lambda>w. no_fault w \<and> live_self w" for n
proof
  fix w :: "'x world" and p r w'
  assume "no_fault w \<and> live_self w" "holder LockPath w = Some p" "run (Acquire (Suc (Suc n)) NewLock) w = (r, w')"
  moreover from this have "seen LockPath w' = seen LockPath w"
    using Acquire_round [of w NewLock "Suc n" r w'] lock_path_ok
    by (auto simp: NewLock_def NewLockAt_def holder_absent)
  ultimately show "(\<exists>l. r = Returns (Some (ErrLockHeld p), l)) \<and> holder LockPath w' = holder LockPath w"
    using Acquire_no_fault [of w NewLock n r w'] lock_path_ok holder_cong [of LockPath w' w]
    by (auto simp: NewLock_def NewLockAt_def)
next
  fix w :: "'x world" and r w'
  assume "no_fault w \<and> live_self w" "holder LockPath w = None" "run (Acquire (Suc (Suc n)) NewLock) w = (r, w')"
  then show "(\<exists>l. r = Returns (None, l)) \<and> holder LockPath w' = Some (self_pid w)"
    using Acquire_no_fault [of w NewLock n r w'] lock_path_ok holder_self [of w w' LockPath]
    by (auto simp: NewLock_def NewLockAt_def)
next
  fix w :: "'x world" and l w'
  assume "no_fault w \<and> live_self w" "holder LockPath w = None"
    "run (Acquire (Suc (Suc n)) NewLock) w = (Returns (None, l), w')"
  then have "no_fault w'" "lkPid l = self_pid w'" "lkPath l = LockPath" "\<exists>m. files w' LockPath = Some m"
    using Acquire_no_fault [of w NewLock n "Returns (None, l)" w'] lock_path_ok
    by (auto simp: NewLock_def NewLockAt_def)
  then show "holder LockPath (snd (run (Release l) w')) = None"
    using Release_own [of w' l] by (auto simp: holder_def)
qed

subsection \<open>Properties\<close>

text \<open>
  C25: when no system call fails, acquiring the lock returns (one removal of a stale file is
  enough): it is refused, naming the holder, exactly when the lock file names a process that
  is alive, and the file is then left alone; otherwise it succeeds and the lock file holds
  this process's number.
\<close>

theorem Acquire_decides:
  assumes "no_fault w" and "live_self w"
  shows "case run (Acquire (Suc (Suc n)) NewLock) w of (r, w') \<Rightarrow>
     (case holder LockPath w of
        Some pid \<Rightarrow> (\<exists>l. r = Returns (Some (ErrLockHeld pid), l)) \<and> holder LockPath w' = Some pid
      | None \<Rightarrow> (\<exists>l. r = Returns (None, l)) \<and> holder LockPath w' = Some (self_pid w))"
  using lk.refused [of w _ n "fst (run (Acquire (Suc (Suc n)) NewLock) w)" "snd (run (Acquire (Suc (Suc n)) NewLock) w)"]
    lk.taken [of w n "fst (run (Acquire (Suc (Suc n)) NewLock) w)" "snd (run (Acquire (Suc (Suc n)) NewLock) w)"] assms
  by (auto simp: case_prod_beta split: option.splits)

theorem Acquire_decides_witness:
  "case run (Acquire 2 NewLock) (demo_world [(LockPath, lock_file_of 300)] []) of
     (r, w') \<Rightarrow> (\<exists>l. r = Returns (None, l)) \<and> holder LockPath w' = Some 100"
proof -
  let ?w = "demo_world [(LockPath, lock_file_of 300)] []"
  have 1: "no_fault ?w" "live_self ?w"
    by (simp_all add: no_fault_def live_self_def demo_world_def int64_ok_def)
  have 2: "holder LockPath ?w = None" by code_simp
  have 3: "self_pid ?w = 100" by (simp add: demo_world_def)
  from Acquire_decides [OF 1, of 0] show ?thesis
    unfolding 2 3 by (simp add: numeral_2_eq_2)
qed

text \<open>
  two processes whose acquisitions do not interleave exclude each other: once one has
  taken the lock and as long as its file stands, another that sees it alive is refused with
  \<open>ErrLockHeld\<close> and the number of the first.
\<close>

theorem Acquire_excludes:
  assumes "no_fault w" and "live_self w" and "holder LockPath w = None"
    and "run (Acquire (Suc (Suc n)) NewLock) w = (r, w')"
    and "no_fault v" and "live_self v" and "files v LockPath = files w' LockPath"
    and "kill0 v (self_pid w) = None"
  shows "\<exists>l. fst (run (Acquire (Suc (Suc k)) NewLock) v) = Returns (Some (ErrLockHeld (self_pid w)), l)"
proof -
  obtain m where "files w' LockPath = Some m" "fcontent m = lock_file_of (self_pid w)" "\<not> fisdir m"
    using Acquire_no_fault [of w NewLock n r w'] assms(1,3,4) lock_path_ok
    by (auto simp: NewLock_def NewLockAt_def)
  then have "holder LockPath v = Some (self_pid w)"
    using assms(2,7,8) by (simp add: holder_def atoi_lock_file live_self_def pid_alive_def)
  then show ?thesis
    using lk.refused [of v "self_pid w" k "fst (run (Acquire (Suc (Suc k)) NewLock) v)"
      "snd (run (Acquire (Suc (Suc k)) NewLock) v)"] assms(5,6) by auto
qed

theorem Acquire_excludes_witness:
  "\<exists>l. fst (run (Acquire 2 NewLock)
      ((snd (run (Acquire 2 NewLock) (demo_world [] [])))\<lparr>self_pid := 200\<rparr>)) =
    Returns (Some (ErrLockHeld 100), l)"
proof -
  let ?w = "demo_world [] []"
  let ?v = "(snd (run (Acquire 2 NewLock) ?w))\<lparr>self_pid := 200\<rparr>"
  have 1: "no_fault ?w" "live_self ?w"
    by (simp_all add: no_fault_def live_self_def demo_world_def int64_ok_def)
  have 2: "holder LockPath ?w = None" by code_simp
  have 3: "self_pid ?w = 100" by (simp add: demo_world_def)
  obtain r w' where r: "run (Acquire (Suc (Suc 0)) NewLock) ?w = (r, w')" by (meson surj_pair)
  then have w': "snd (run (Acquire 2 NewLock) ?w) = w'" by (simp add: numeral_2_eq_2)
  from lk.taken [OF _ 2 r] Acquire_no_fault [OF 1(1) _ r] lock_path_ok 2 1
  have 4: "no_fault w'" "kill0 w' = kill0 ?w" by (auto simp: NewLock_def NewLockAt_def)
  have 5: "no_fault ?v" "live_self ?v" "kill0 ?v 100 = None"
    unfolding w' using 4 by (simp_all add: no_fault_def live_self_def demo_world_def int64_ok_def)
  have 6: "files ?v LockPath = files w' LockPath" unfolding w' by simp
  from Acquire_excludes [OF 1 2 r 5(1,2) 6 5(3) [folded 3], of 0] show ?thesis
    unfolding 3 by (simp only: numeral_2_eq_2)
qed

end
