(* ===== verification/Output.thy ===== *)
theory Output
  imports Faults CheckCatalog Lock
begin

text \<open>
  The structured results of the commands (\<^verbatim>\<open>internal/output/model.go\<close>), what the commands are
  built from, and the frame of a command that runs under the mutation lock.
\<close>

subsection \<open>Results\<close>

record fault_ref =
  frID :: string
  frAppliedAt :: time

record svc_info =
  siActive :: bool
  siPID :: int

record port_info =
  piAddr :: string
  piOwner :: string

record validate_summary =
  vsAt :: time
  vsPassed :: int
  vsTotal :: int

record reset_summary =
  rsAt :: time
  rsTier :: string

record status_result =
  stState :: lab_state
  stActiveFault :: "fault_ref option"
  stServices :: "(string \<times> svc_info) list"
  stPorts :: "port_info list"
  stEndpoints :: "(string \<times> int) list"
  stLastValidate :: "validate_summary option"
  stLastReset :: "reset_summary option"
  stReconciled :: bool
  stUnknown :: bool
  stClassificationValid :: bool

record check_result_item =
  ciID :: string
  ciAssertion :: string
  ciPassed :: bool
  ciSeverity :: string
  ciDependent :: bool
  ciError :: string

record validate_result =
  vlAt :: time
  vlChecks :: "check_result_item list"
  vlPassed :: int
  vlTotal :: int
  vlClassification :: string
  vlFailingChecks :: "string list"

record fault_summary =
  fsID :: string
  fsLayer :: string
  fsDomain :: "string list"
  fsSymptom :: string

record fault_list_result =
  flFaults :: "fault_summary list"
  flTotal :: int

record fault_info_result =
  fnID :: string
  fnLayer :: string
  fnDomain :: "string list"
  fnResetTier :: string
  fnRequiresConfirmation :: bool
  fnIsReversible :: bool
  fnMutationDisplay :: string
  fnSymptom :: string
  fnAuthoritativeSignal :: string
  fnObservable :: string
  fnResetAction :: string

record fault_apply_result =
  faFaultID :: string
  faApplied :: bool
  faFromState :: lab_state
  faToState :: lab_state
  faForced :: bool
  faAborted :: bool
  faAbortReason :: string

record reset_result =
  reTier :: string
  reFromState :: lab_state
  reToState :: lab_state
  reFaultCleared :: string
  reValidationRan :: bool
  reSuite :: "suite_result option"
  reDurationMs :: int

record provision_result =
  poToState :: lab_state
  poValidation :: "validate_summary option"
  poDurationMs :: int

record history_item =
  hiTs :: time
  hiFrom :: lab_state
  hiTo :: lab_state
  hiCommand :: string
  hiFault :: string
  hiForced :: bool

record history_result =
  hrEntries :: "history_item list"
  hrTotal :: int

text \<open>\<open>CommandResult.Value\<close> is an \<open>interface{}\<close>: one of the result types, or nil.\<close>

datatype result_value =
    VStatus status_result
  | VValidate validate_result
  | VFaultList fault_list_result
  | VFaultInfo fault_info_result
  | VFaultApply fault_apply_result
  | VReset reset_result
  | VProvision provision_result
  | VHistory history_result

record command_result =
  crValue :: "result_value option"
  crExitCode :: int
  crErr :: "go_error option"

definition failure :: "int \<Rightarrow> go_error \<Rightarrow> command_result" where
  "failure code err = \<lparr>crValue = None, crExitCode = code, crErr = Some err\<rparr>"

definition success :: "result_value \<Rightarrow> command_result" where
  "success v = \<lparr>crValue = Some v, crExitCode = 0, crErr = None\<rparr>"

lemma failure_simps [simp]:
  "crValue (failure c e) = None" "crExitCode (failure c e) = c" "crErr (failure c e) = Some e"
  by (simp_all add: failure_def)

lemma success_simps [simp]:
  "crValue (success v) = Some v" "crExitCode (success v) = 0" "crErr (success v) = None"
  by (simp_all add: success_def)

definition result_item :: "check_result \<Rightarrow> check_result_item" where
  "result_item r = \<lparr>ciID = cID (rCheck r), ciAssertion = cAssertion (rCheck r), ciPassed = rPassed r,
     ciSeverity = severity_string (cSeverity (rCheck r)), ciDependent = rDependent r,
     ciError = (case rErr r of None \<Rightarrow> [] | Some e \<Rightarrow> error_text e)\<rparr>"

definition FromSuiteResult :: "suite_result \<Rightarrow> validate_result" where
  "FromSuiteResult sr = \<lparr>vlAt = sAt sr, vlChecks = map result_item (sResults sr), vlPassed = sPassed sr,
     vlTotal = sTotal sr, vlClassification = classification_string (sClassification sr),
     vlFailingChecks = sFailingBlockingIDs sr\<rparr>"

subsection \<open>What a command is built from\<close>

text \<open>
  The dependencies the composition root wires into a command: the observer, the runner's
  checks, the executor, the path of the state store, the audit logger, and the stack room
  of the process for \<open>Acquire\<close>. Every command has a lock of its own on the canonical path.
\<close>

record 'x deps =
  dObs :: "'x world observer"
  dChecks :: "'x world check list"
  dExec :: "'x world executor"
  dStore :: string
  dAudit :: "audit_logger option"
  dFrames :: nat

definition log_error :: "'x deps \<Rightarrow> string \<Rightarrow> string \<Rightarrow> ('x world, unit) state" where
  "log_error d name detail = with_audit (dAudit d) (\<lambda>l. LogError l name detail)"

text \<open>
  The frame of a mutation command: acquire the lock or fail, and release it when the body
  is left, by a return or by a panic (\<open>defer\<close>). A stack overflow in \<open>Acquire\<close> ends the
  process, deferred calls do not run.
\<close>

definition under_lock ::
  "nat \<Rightarrow> (go_error \<Rightarrow> ('x world, 'a outcome) state) \<Rightarrow> ('x world, 'a outcome) state \<Rightarrow> ('x world, 'a outcome) state" where
  "under_lock frames refuse body = do {
     r \<leftarrow> Acquire frames NewLock;
     (case r of
        Panics s \<Rightarrow> ret (Panics s)
      | Returns (e, l) \<Rightarrow>
          (case e of
             Some err \<Rightarrow> refuse err
           | None \<Rightarrow> do { v \<leftarrow> body; _ \<leftarrow> Release l; ret v }))
   }"

text \<open>\<open>%v\<close> of a slice of strings.\<close>

definition strings_text :: "string list \<Rightarrow> string" where
  "strings_text xs = ''['' @ str_join '' '' xs @ '']''"

end
