(* ===== verification/CmdFault.thy ===== *)
theory CmdFault
  imports Output
begin

text \<open>
  The fault commands, \<^verbatim>\<open>cmd/fault.go\<close>: \<open>lab fault list\<close>, \<open>lab fault info\<close> and
  \<open>lab fault apply\<close>.
\<close>

definition FaultListCmd_Run :: command_result where
  "FaultListCmd_Run = success (VFaultList
     \<lparr>flFaults = map (\<lambda>f. \<lparr>fsID = fdID f, fsLayer = fdLayer f, fsDomain = fdDomain f, fsSymptom = fdSymptom f\<rparr>) AllDefs,
      flTotal = int (length AllDefs)\<rparr>)"

definition FaultInfoCmd_Run :: "string \<Rightarrow> command_result" where
  "FaultInfoCmd_Run i =
     (case DefByID i of
        None \<Rightarrow> failure 1 (Errorf (''ErrUnknownFaultID: unknown fault ID '' @ [CHR 0x22] @ i @ [CHR 0x22] @ '' '' @
          u_emdash @ '' run '' @ [CHR 0x27] @ ''lab fault list'' @ [CHR 0x27] @ '' to see available faults''))
      | Some f \<Rightarrow> success (VFaultInfo
          \<lparr>fnID = fdID f, fnLayer = fdLayer f, fnDomain = fdDomain f, fnResetTier = fdResetTier f,
           fnRequiresConfirmation = fdRequiresConfirmation f, fnIsReversible = fdIsReversible f,
           fnMutationDisplay = fdMutationDisplay f, fnSymptom = fdSymptom f,
           fnAuthoritativeSignal = fdAuthoritativeSignal f, fnObservable = fdObservable f,
           fnResetAction = fdResetAction f\<rparr>))"

subsection \<open>lab fault apply\<close>

text \<open>Precondition 5: the live checks; \<open>None\<close> when all pass.\<close>

fun precondition_checks ::
  "'x deps \<Rightarrow> string \<Rightarrow> string list \<Rightarrow> ('x world, command_result option outcome) state" where
  "precondition_checks d i [] = ret (Returns None)"
| "precondition_checks d i (checkID # rest) =
     (case CheckByID checkID of
        None \<Rightarrow> ret (Returns (Some (failure 2 (Errorf (''internal error: fault '' @ i @
          '' declares unknown PreconditionCheck '' @ [CHR 0x22] @ checkID @ [CHR 0x22])))))
      | Some check \<Rightarrow> do {
          r \<leftarrow> cExecute check (dObs d);
          (case r of
             Panics s \<Rightarrow> ret (Panics s)
           | Returns (Some err) \<Rightarrow> do {
               _ \<leftarrow> log_error d ''ErrFaultPreconditionFailed'' checkID;
               ret (Returns (Some (failure 3 (Errorf (''ErrFaultPreconditionFailed: check '' @ checkID @
                 '' must pass before applying fault '' @ i @ [nl, nl] @
                 ''Ensure the prerequisite condition is met, or use --force to bypass (not recommended)'')))))
             }
           | Returns None \<Rightarrow> precondition_checks d i rest)
        })"

text \<open>Post-apply verification: a warning for each expected failure that passes.\<close>

fun post_apply_checks :: "'x deps \<Rightarrow> string \<Rightarrow> string list \<Rightarrow> ('x world, unit outcome) state" where
  "post_apply_checks d i [] = ret (Returns ())"
| "post_apply_checks d i (checkID # rest) =
     (case CheckByID checkID of
        None \<Rightarrow> post_apply_checks d i rest
      | Some check \<Rightarrow> do {
          r \<leftarrow> cExecute check (dObs d);
          (case r of
             Panics s \<Rightarrow> ret (Panics s)
           | Returns (Some _) \<Rightarrow> post_apply_checks d i rest
           | Returns None \<Rightarrow> do {
               _ \<leftarrow> eprint (''warning: post'' @ u_nbhyphen @ ''apply check '' @ checkID @ '' passed; fault '' @ i @
                 '' may not be fully active'' @ [nl]);
               post_apply_checks d i rest
             })
        })"

text \<open>The preconditions 2, 3 and 4, in the order of the code; \<open>None\<close> when they hold.\<close>

definition state_preconditions ::
  "'x deps \<Rightarrow> string \<Rightarrow> fault_def \<Rightarrow> state_file \<Rightarrow> ('x world, command_result option) state" where
  "state_preconditions d i f sf =
     (if sfState sf \<noteq> StateConformant then do {
        _ \<leftarrow> log_error d ''ErrPreconditionNotMet'' (sfState sf);
        ret (Some (failure 3 (Errorf (''ErrPreconditionNotMet: current state is '' @ sfState sf @
          ''; lab fault apply requires CONFORMANT'' @ [nl, nl] @ ''Reset first:   lab reset'' @ [nl] @
          ''Then apply:    lab fault apply '' @ i @ [nl, nl] @
          ''To override (not recommended):  lab fault apply '' @ i @ '' --force''))))
      }
      else (case sfActiveFault sf of
        Some a \<Rightarrow> do {
          _ \<leftarrow> log_error d ''ErrFaultAlreadyActive'' (afID a);
          ret (Some (failure 3 (Errorf (''ErrFaultAlreadyActive: fault '' @ afID a @ '' is currently active'' @
            [nl, nl] @ ''Reset first:   lab reset'' @ [nl] @ ''Then apply:    lab fault apply '' @ i))))
        }
      | None \<Rightarrow>
          if list_ex (\<lambda>p. p = sfState sf) (fdPreconditions f) then ret None
          else do {
            _ \<leftarrow> log_error d ''ErrFaultPreconditionFailed'' ''state precondition not met'';
            ret (Some (failure 3 (Errorf (''ErrFaultPreconditionFailed: state precondition not satisfied for fault '' @ i))))
          }))"

definition aborted_result :: "string \<Rightarrow> fault_def \<Rightarrow> command_result" where
  "aborted_result i f = success (VFaultApply
     \<lparr>faFaultID = i, faApplied = False, faFromState = [], faToState = [], faForced = False, faAborted = True,
      faAbortReason = ''fault '' @ i @ '' requires confirmation; re-run with --yes to confirm:'' @ [nl, nl] @
        ''  Mutation: '' @ fdMutationDisplay f\<rparr>)"

definition applied_file :: "string \<Rightarrow> bool \<Rightarrow> time \<Rightarrow> state_file \<Rightarrow> state_file" where
  "applied_file i force now sf =
     AppendHistory
       \<lparr>heTs = now, heFrom = sfState sf, heTo = StateDegraded, heCommand = ''lab fault apply '' @ i,
        heFault = i, heForced = force\<rparr>
       (sf\<lparr>sfState := StateDegraded, sfClassificationValid := True,
           sfActiveFault := Some \<lparr>afID = i, afAppliedAt = now, afForced = force\<rparr>\<rparr>)"

text \<open>From the mutation on: apply, verify, record.\<close>

definition apply_and_record ::
  "'x deps \<Rightarrow> string \<Rightarrow> bool \<Rightarrow> 'x world fault_impl \<Rightarrow> state_file \<Rightarrow> ('x world, command_result outcome) state" where
  "apply_and_record d i force fault sf = do {
     applyErr \<leftarrow> fiApply fault (dExec d);
     (case applyErr of
        Some err \<Rightarrow> do {
          _ \<leftarrow> log_error d ''ErrApplyFailed'' (error_text err);
          ret (Returns (failure 1 (Wrapf ''ErrApplyFailed: fault application failed: '' err
            ([nl, nl] @ ''Run '' @ [CHR 0x27] @ ''lab status'' @ [CHR 0x27] @ '' to determine current state.''))))
        }
      | None \<Rightarrow> do {
          p \<leftarrow> post_apply_checks d i (pcFailingChecks (fdPostcondition (fiDef fault)));
          (case p of
             Panics s \<Rightarrow> ret (Panics s)
           | Returns _ \<Rightarrow> do {
               now \<leftarrow> time_now;
               e \<leftarrow> Store_Write (dStore d) (applied_file i force now sf);
               (case e of
                  Some err \<Rightarrow> do {
                    _ \<leftarrow> log_error d ''StateRecordingFailed'' (error_text err);
                    _ \<leftarrow> Store_InvalidateClassification (dStore d);
                    ret (Returns (failure 4 (Wrapf (''fault applied but state recording failed '' @ u_emdash @
                      '' run '' @ [CHR 0x27] @ ''lab status'' @ [CHR 0x27] @ '' to re-establish state: '') err [])))
                  }
                | None \<Rightarrow> do {
                    _ \<leftarrow> with_audit (dAudit d) (\<lambda>l. LogTransition l (sfState sf) StateDegraded i);
                    ret (Returns (success (VFaultApply
                      \<lparr>faFaultID = i, faApplied = True, faFromState = sfState sf, faToState = StateDegraded,
                       faForced = force, faAborted = False, faAbortReason = []\<rparr>)))
                  })
             })
        })
   }"

definition FaultApply_locked ::
  "'x deps \<Rightarrow> string \<Rightarrow> bool \<Rightarrow> bool \<Rightarrow> 'x world fault_impl \<Rightarrow> ('x world, command_result outcome) state" where
  "FaultApply_locked d i force yes fault = do {
     r \<leftarrow> Store_Read (dStore d);
     (case r of
        Inl err \<Rightarrow> do {
          _ \<leftarrow> log_error d ''ErrStateFileUnreadable'' (error_text err);
          ret (Returns (failure 1 (Wrapf ''reading state file: '' err [])))
        }
      | Inr sf \<Rightarrow> do {
          pre \<leftarrow> (if force then ret None else state_preconditions d i (fiDef fault) sf);
          (case pre of
             Some res \<Rightarrow> ret (Returns res)
           | None \<Rightarrow> do {
               live \<leftarrow> (if force then ret (Returns None)
                        else precondition_checks d i (fdPreconditionChecks (fiDef fault)));
               (case live of
                  Panics s \<Rightarrow> ret (Panics s)
                | Returns (Some res) \<Rightarrow> ret (Returns res)
                | Returns None \<Rightarrow>
                    if fdRequiresConfirmation (fiDef fault) \<and> \<not> yes
                    then ret (Returns (aborted_result i (fiDef fault)))
                    else apply_and_record d i force fault sf)
             })
        })
   }"

definition FaultApplyCmd_Run :: "'x deps \<Rightarrow> string \<Rightarrow> bool \<Rightarrow> bool \<Rightarrow> ('x world, command_result outcome) state" where
  "FaultApplyCmd_Run d i force yes =
     (case ByID i of
        None \<Rightarrow> do {
          _ \<leftarrow> log_error d ''ErrUnknownFaultID'' i;
          ret (Returns (failure 2 (Errorf (''ErrUnknownFaultID: unknown fault ID '' @ [CHR 0x22] @ i @ [CHR 0x22] @
            '' '' @ u_emdash @ '' run '' @ [CHR 0x27] @ ''lab fault list'' @ [CHR 0x27]))))
        }
      | Some fault \<Rightarrow>
          under_lock (dFrames d)
            (\<lambda>err. do { _ \<leftarrow> log_error d ''ErrLockHeld'' (error_text err); ret (Returns (failure 1 err)) })
            (FaultApply_locked d i force yes fault))"

end
