(* ===== verification/CmdReset.thy ===== *)
theory CmdReset
  imports Output
begin

text \<open>\<open>lab reset\<close>, \<^verbatim>\<open>cmd/reset.go\<close>.\<close>

subsection \<open>The tier operations\<close>

text \<open>The catalog is the same for every world; the tier of a fault is read off its definition.\<close>

definition selectTier :: "state_file \<Rightarrow> string" where
  "selectTier sf =
     (case sfActiveFault sf of
        Some a \<Rightarrow> (case (ByID (afID a) :: unit world fault_impl option) of
            Some f \<Rightarrow> fdResetTier (fiDef f)
          | None \<Rightarrow> ''R2'')
      | None \<Rightarrow> ''R2'')"

definition recover_active :: "'x deps \<Rightarrow> state_file \<Rightarrow> ('x world, go_error option) state" where
  "recover_active d sf =
     (case sfActiveFault sf of
        None \<Rightarrow> ret None
      | Some a \<Rightarrow> (case ByID (afID a) of
            None \<Rightarrow> ret None
          | Some f \<Rightarrow>
              if fdIsReversible (fiDef f)
              then wrapping (''fault '' @ fdID (fiDef f) @ '' Recover: '') (fiRecover f (dExec d))
              else ret None))"

text \<open>The end of R1 and of R2: the error of \<open>reset-failed\<close> is ignored.\<close>

definition restart_and_reload :: "'x deps \<Rightarrow> string \<Rightarrow> ('x world, go_error option) state" where
  "restart_and_reload d tier = do {
     _ \<leftarrow> Systemctl (dExec d) ''reset-failed'' AppServiceName;
     and_then (wrapping (tier @ '' app restart: '') (Systemctl (dExec d) ''restart'' AppServiceName))
       (wrapping (tier @ '' nginx reload: '') (NginxReload (dExec d)))
   }"

definition restore_files :: "'x deps \<Rightarrow> ('x world, go_error option) state" where
  "restore_files d =
     for_each (\<lambda>path. wrapping (''R2 restore '' @ path @ '': '') (RestoreFile (dExec d) path)) R2RestoreFiles"

definition restore_modes :: "'x deps \<Rightarrow> ('x world, go_error option) state" where
  "restore_modes d =
     for_each (\<lambda>(path, mode). wrapping (''R2 chmod '' @ path @ '': '') (Chmod (dExec d) path mode)) R2RestoreModes"

definition executeTier :: "'x deps \<Rightarrow> string \<Rightarrow> state_file \<Rightarrow> ('x world, go_error option) state" where
  "executeTier d tier sf =
     and_then (recover_active d sf)
       (if tier = ''R1'' then restart_and_reload d ''R1''
        else if tier = ''R2'' then
          and_then (restore_files d)
          (and_then (restore_modes d)
          (and_then (wrapping ''R2 daemon-reload: '' (Systemctl (dExec d) ''daemon-reload'' []))
             (restart_and_reload d ''R2'')))
        else if tier = ''R3'' then
          wrapping ''R3 bootstrap: '' (RunMutation (dExec d) ''bash'' [BootstrapScript])
        else ret (Some (Errorf (''unknown reset tier '' @ [CHR 0x22] @ tier @ [CHR 0x22] @ '': must be R1, R2, or R3''))))"

subsection \<open>The command\<close>

definition suite_state :: "suite_result \<Rightarrow> lab_state" where
  "suite_state sr = (if IsConformant (sClassification sr) then StateConformant else StateBroken)"

definition cleared_fault :: "state_file \<Rightarrow> string" where
  "cleared_fault sf = (case sfActiveFault sf of Some a \<Rightarrow> afID a | None \<Rightarrow> [])"

definition suite_record :: "suite_result \<Rightarrow> validate_record" where
  "suite_record sr = \<lparr>vrAt = sAt sr, vrPassed = sPassed sr, vrTotal = sTotal sr,
     vrFailingChecks = sFailingBlockingIDs sr\<rparr>"

definition reset_file :: "string \<Rightarrow> time \<Rightarrow> suite_result \<Rightarrow> state_file \<Rightarrow> state_file" where
  "reset_file tier now sr sf =
     AppendHistory
       \<lparr>heTs = now, heFrom = sfState sf, heTo = suite_state sr, heCommand = ''lab reset --tier '' @ tier,
        heFault = cleared_fault sf, heForced = False\<rparr>
       (sf\<lparr>sfState := suite_state sr, sfClassificationValid := True, sfActiveFault := None,
           sfLastReset := Some \<lparr>rrAt = now, rrTier = tier, rrFromState = sfState sf,
             rrFaultCleared = cleared_fault sf\<rparr>,
           sfLastValidate := Some (suite_record sr)\<rparr>)"

definition reset_value :: "string \<Rightarrow> lab_state \<Rightarrow> lab_state \<Rightarrow> string \<Rightarrow> suite_result \<Rightarrow> int \<Rightarrow> result_value" where
  "reset_value tier fromState toState cleared sr ms = VReset
     \<lparr>reTier = tier, reFromState = fromState, reToState = toState, reFaultCleared = cleared,
      reValidationRan = True, reSuite = Some sr, reDurationMs = ms\<rparr>"

definition reset_result_of :: "string \<Rightarrow> state_file \<Rightarrow> suite_result \<Rightarrow> int \<Rightarrow> command_result" where
  "reset_result_of tier sf sr ms =
     (let v = reset_value tier (sfState sf) (suite_state sr) (cleared_fault sf) sr ms in
      if IsConformant (sClassification sr) then success v
      else \<lparr>crValue = Some v, crExitCode = 1,
        crErr = Some (Errorf (''ErrPostResetValidationFailed: reset completed but validation failed: '' @
          strings_text (sFailingBlockingIDs sr)))\<rparr>)"

definition reset_and_record ::
  "'x deps \<Rightarrow> int \<Rightarrow> string \<Rightarrow> state_file \<Rightarrow> ('x world, command_result outcome) state" where
  "reset_and_record d start tier sf = do {
     e \<leftarrow> executeTier d tier sf;
     (case e of
        Some err \<Rightarrow> do {
          _ \<leftarrow> log_error d ''ErrResetOperationFailed'' (error_text err);
          ret (Returns (failure 1 (Wrapf ''ErrResetOperationFailed: '' err [])))
        }
      | None \<Rightarrow> do {
          sr \<leftarrow> Runner_Run (dChecks d) (dObs d);
          now \<leftarrow> time_now;
          _ \<leftarrow> Store_Write (dStore d) (reset_file tier now sr sf);
          _ \<leftarrow> with_audit (dAudit d) (\<lambda>l. LogTransition l (sfState sf) (suite_state sr) (cleared_fault sf));
          t \<leftarrow> mono_now;
          ret (Returns (reset_result_of tier sf sr (t - start)))
        })
   }"

text \<open>The early verification: a suite run when the file says CONFORMANT and names no fault.\<close>

definition verify_conformant :: "'x deps \<Rightarrow> state_file \<Rightarrow> ('x world, suite_result option) state" where
  "verify_conformant d sf =
     (if sfState sf = StateConformant \<and> sfActiveFault sf = None then do {
        sr \<leftarrow> Runner_Run (dChecks d) (dObs d);
        ret (if IsConformant (sClassification sr) then Some sr else None)
      } else ret None)"

definition Reset_locked :: "'x deps \<Rightarrow> int \<Rightarrow> string \<Rightarrow> ('x world, command_result outcome) state" where
  "Reset_locked d start tier0 = do {
     r \<leftarrow> Store_Read (dStore d);
     sf \<leftarrow> (case r of Inl _ \<Rightarrow> Fresh StateBroken | Inr f \<Rightarrow> ret f);
     early \<leftarrow> verify_conformant d sf;
     (let tier = (if tier0 = [] then selectTier sf else tier0) in
      case early of
        Some sr \<Rightarrow> do {
          t \<leftarrow> mono_now;
          ret (Returns (success (reset_value tier (sfState sf) StateConformant [] sr (t - start))))
        }
      | None \<Rightarrow> reset_and_record d start tier sf)
   }"

definition ResetCmd_Run :: "'x deps \<Rightarrow> string \<Rightarrow> ('x world, command_result outcome) state" where
  "ResetCmd_Run d tier = do {
     start \<leftarrow> mono_now;
     under_lock (dFrames d) (\<lambda>err. ret (Returns (failure 1 err))) (Reset_locked d start tier)
   }"

end
