(* ===== verification/CmdProvision.thy ===== *)
theory CmdProvision
  imports CmdReset
begin

text \<open>\<open>lab provision\<close> and \<open>lab history\<close>, \<^verbatim>\<open>cmd/reset_provision_history.go\<close>.\<close>

subsection \<open>lab provision\<close>

definition provision_file :: "time \<Rightarrow> suite_result \<Rightarrow> state_file \<Rightarrow> state_file" where
  "provision_file now sr sf =
     AppendHistory
       \<lparr>heTs = now, heFrom = StateUnprovisioned, heTo = suite_state sr, heCommand = ''lab provision'',
        heFault = [], heForced = False\<rparr>
       (sf\<lparr>sfLastProvision := Some \<lparr>prAt = now, prResult = suite_state sr\<rparr>,
           sfLastValidate := Some \<lparr>vrAt = sAt sr, vrPassed = sPassed sr, vrTotal = sTotal sr, vrFailingChecks = []\<rparr>\<rparr>)"

definition provision_result_of :: "suite_result \<Rightarrow> int \<Rightarrow> command_result" where
  "provision_result_of sr ms =
     (if IsConformant (sClassification sr) then success (VProvision
        \<lparr>poToState = suite_state sr,
         poValidation = Some \<lparr>vsAt = sAt sr, vsPassed = sPassed sr, vsTotal = sTotal sr\<rparr>,
         poDurationMs = ms\<rparr>)
      else failure 1 (Errorf (''ErrPostProvisionValidationFailed: provision completed but validation failed: '' @
        strings_text (sFailingBlockingIDs sr))))"

definition Provision_locked :: "'x deps \<Rightarrow> int \<Rightarrow> ('x world, command_result outcome) state" where
  "Provision_locked d start = do {
     e \<leftarrow> RunMutation (dExec d) ''bash'' [BootstrapScript];
     (case e of
        Some err \<Rightarrow> ret (Returns (failure 1 (Wrapf ''ErrProvisionStepFailed: bootstrap: '' err [])))
      | None \<Rightarrow> do {
          sr \<leftarrow> Runner_Run (dChecks d) (dObs d);
          sf \<leftarrow> Fresh (suite_state sr);
          now \<leftarrow> time_now;
          _ \<leftarrow> Store_Write (dStore d) (provision_file now sr sf);
          t \<leftarrow> mono_now;
          ret (Returns (provision_result_of sr (t - start)))
        })
   }"

definition ProvisionCmd_Run :: "'x deps \<Rightarrow> ('x world, command_result outcome) state" where
  "ProvisionCmd_Run d = do {
     start \<leftarrow> mono_now;
     under_lock (dFrames d) (\<lambda>err. ret (Returns (failure 1 err))) (Provision_locked d start)
   }"

subsection \<open>lab history\<close>

definition history_item_of :: "history_entry \<Rightarrow> history_item" where
  "history_item_of e = \<lparr>hiTs = heTs e, hiFrom = heFrom e, hiTo = heTo e, hiCommand = heCommand e,
     hiFault = heFault e, hiForced = heForced e\<rparr>"

definition history_window :: "int \<Rightarrow> history_entry list \<Rightarrow> history_entry list" where
  "history_window last_count es =
     (if 0 < last_count \<and> last_count < int (length es) then drop (nat (int (length es) - last_count)) es else es)"

definition HistoryCmd_Run :: "string \<Rightarrow> int \<Rightarrow> ('x world, command_result) state" where
  "HistoryCmd_Run store last_count = do {
     r \<leftarrow> Store_Read store;
     ret (case r of
        Inl err \<Rightarrow> failure 1 (Wrapf ''ErrStateFileUnreadable: '' err [])
      | Inr sf \<Rightarrow> success (VHistory
          \<lparr>hrEntries = map history_item_of (rev (history_window last_count (sfHistory sf))),
           hrTotal = int (length (sfHistory sf))\<rparr>))
   }"

end
