(* ===== verification/Detect.thy ===== *)
theory Detect
  imports StateFile Conformance
begin

text \<open>
  The state detection algorithm, \<^verbatim>\<open>internal/state/detect.go\<close>: pure functions from the recorded
  state file, a lightweight suite result and a full suite result to the detected state.
\<close>

datatype detection_confidence =
    ConfidenceRuntime | ConfidenceConformance | ConfidenceStateFile | ConfidenceUnknown

record detection_result =
  dDetected :: lab_state
  dConfidence :: detection_confidence
  dReconciled :: bool
  dPriorState :: lab_state

record detect_input =
  diStateFile :: "state_file option"
  diSuiteResult :: "suite_result option"
  diLightweightResult :: "suite_result option"

definition reconcileFromRuntime ::
  "suite_result \<Rightarrow> active_fault option \<Rightarrow> lab_state \<Rightarrow> detection_result" where
  "reconcileFromRuntime lr activeFault recorded =
     (let runtimeHealthy = IsConformant (sClassification lr) in
      if runtimeHealthy then
        (if activeFault \<noteq> None then
           \<lparr>dDetected = StateDegraded, dConfidence = ConfidenceRuntime,
            dReconciled = (if recorded \<noteq> [] then recorded \<noteq> StateDegraded else False),
            dPriorState = recorded\<rparr>
         else
           \<lparr>dDetected = StateConformant, dConfidence = ConfidenceRuntime,
            dReconciled = (if recorded \<noteq> [] then recorded \<noteq> StateConformant else False),
            dPriorState = recorded\<rparr>)
      else if activeFault \<noteq> None then
        \<lparr>dDetected = StateDegraded, dConfidence = ConfidenceRuntime,
         dReconciled = (if recorded \<noteq> [] then recorded \<noteq> StateDegraded else False),
         dPriorState = recorded\<rparr>
      else
        \<lparr>dDetected = StateBroken, dConfidence = ConfidenceRuntime,
         dReconciled = (if recorded \<noteq> [] then recorded \<noteq> StateBroken else False),
         dPriorState = recorded\<rparr>)"

definition reconcileFromSuite ::
  "suite_result \<Rightarrow> active_fault option \<Rightarrow> lab_state \<Rightarrow> detection_result" where
  "reconcileFromSuite sr activeFault recorded =
     (let suiteConformant = IsConformant (sClassification sr) in
      if suiteConformant \<and> recorded = StateDegraded then
        \<lparr>dDetected = StateConformant, dConfidence = ConfidenceConformance,
         dReconciled = (recorded \<noteq> []), dPriorState = recorded\<rparr>
      else if \<not> suiteConformant \<and> recorded = StateConformant then
        \<lparr>dDetected = StateBroken, dConfidence = ConfidenceConformance,
         dReconciled = (recorded \<noteq> []), dPriorState = recorded\<rparr>
      else if \<not> suiteConformant \<and> activeFault = None then
        \<lparr>dDetected = StateBroken, dConfidence = ConfidenceConformance,
         dReconciled = (if recorded \<noteq> [] then recorded \<noteq> StateBroken else False),
         dPriorState = recorded\<rparr>
      else if sFailingBlockingIDs sr \<noteq> [] then
        \<lparr>dDetected = StateBroken, dConfidence = ConfidenceConformance,
         dReconciled = (if recorded \<noteq> [] then recorded \<noteq> StateBroken else False),
         dPriorState = recorded\<rparr>
      else if activeFault = None \<and> recorded = StateDegraded then
        \<lparr>dDetected = StateConformant, dConfidence = ConfidenceConformance,
         dReconciled = True, dPriorState = recorded\<rparr>
      else
        (let detected = (if recorded = [] then StateConformant else recorded) in
         \<lparr>dDetected = detected, dConfidence = ConfidenceConformance,
          dReconciled = (recorded \<noteq> [] \<and> recorded \<noteq> detected), dPriorState = recorded\<rparr>))"

definition Detect :: "detect_input \<Rightarrow> detection_result" where
  "Detect inp =
     (let (recorded, activeFault, classificationValid) =
        (case diStateFile inp of
           Some f \<Rightarrow> (sfState f, sfActiveFault f, sfClassificationValid f)
         | None \<Rightarrow> ([], None, False));
        recorded = (if \<not> classificationValid \<and> diStateFile inp \<noteq> None then [] else recorded)
      in
      case diLightweightResult inp of
        Some lr \<Rightarrow> reconcileFromRuntime lr activeFault recorded
      | None \<Rightarrow>
          (case diSuiteResult inp of
             Some sr \<Rightarrow> reconcileFromSuite sr activeFault recorded
           | None \<Rightarrow>
               if recorded \<noteq> [] then
                 \<lparr>dDetected = recorded, dConfidence = ConfidenceStateFile, dReconciled = False, dPriorState = []\<rparr>
               else
                 \<lparr>dDetected = [], dConfidence = ConfidenceUnknown, dReconciled = False, dPriorState = []\<rparr>))"

definition IsUnknown :: "detection_result \<Rightarrow> bool" where
  "IsUnknown r \<longleftrightarrow> dConfidence r = ConfidenceUnknown \<or> dDetected r = []"

definition StateFileError :: "go_error \<Rightarrow> bool" where
  "StateFileError e \<longleftrightarrow> errors_as is_state_file_error e"

subsection \<open>The recorded state the algorithm goes by\<close>

text \<open>A file whose classification was invalidated records no state.\<close>

definition recorded_of :: "state_file option \<Rightarrow> lab_state" where
  "recorded_of sf = (case sf of Some f \<Rightarrow> if sfClassificationValid f then sfState f else [] | None \<Rightarrow> [])"

definition fault_of :: "state_file option \<Rightarrow> active_fault option" where
  "fault_of sf = (case sf of Some f \<Rightarrow> sfActiveFault f | None \<Rightarrow> None)"

lemma Detect_eq:
  "Detect inp =
     (case diLightweightResult inp of
        Some lr \<Rightarrow> reconcileFromRuntime lr (fault_of (diStateFile inp)) (recorded_of (diStateFile inp))
      | None \<Rightarrow>
          (case diSuiteResult inp of
             Some sr \<Rightarrow> reconcileFromSuite sr (fault_of (diStateFile inp)) (recorded_of (diStateFile inp))
           | None \<Rightarrow>
               (let r = recorded_of (diStateFile inp) in
                \<lparr>dDetected = r, dConfidence = (if r \<noteq> [] then ConfidenceStateFile else ConfidenceUnknown),
                 dReconciled = False, dPriorState = []\<rparr>)))"
  by (auto simp: Detect_def recorded_of_def fault_of_def Let_def split: option.splits)

text \<open>What the runtime evidence alone says.\<close>

definition runtime_state :: "bool \<Rightarrow> bool \<Rightarrow> lab_state" where
  "runtime_state healthy faulted =
     (if faulted then StateDegraded else if healthy then StateConformant else StateBroken)"

lemma runtime_state_simps [simp]:
  "runtime_state h True = StateDegraded" "runtime_state True False = StateConformant"
  "runtime_state False False = StateBroken"
  by (simp_all add: runtime_state_def)

lemma runtime_state_nonempty [simp]: "runtime_state h f \<noteq> []"
  by (simp add: runtime_state_def)

lemma runtime_state_valid [simp]: "IsValid (runtime_state h f)"
  by (simp add: runtime_state_def)

lemma runtime_state_degraded [simp]: "runtime_state h f = StateDegraded \<longleftrightarrow> f"
  by (simp add: runtime_state_def)

lemma reconcileFromRuntime_eq:
  "reconcileFromRuntime lr af recorded =
     (let d = runtime_state (IsConformant (sClassification lr)) (af \<noteq> None) in
      \<lparr>dDetected = d, dConfidence = ConfidenceRuntime,
       dReconciled = (recorded \<noteq> [] \<and> recorded \<noteq> d), dPriorState = recorded\<rparr>)"
  by (auto simp: reconcileFromRuntime_def runtime_state_def Let_def)

lemma Detect_lightweight:
  "Detect \<lparr>diStateFile = sf, diSuiteResult = sr, diLightweightResult = Some lr\<rparr> =
     (let d = runtime_state (IsConformant (sClassification lr)) (fault_of sf \<noteq> None) in
      \<lparr>dDetected = d, dConfidence = ConfidenceRuntime,
       dReconciled = (recorded_of sf \<noteq> [] \<and> recorded_of sf \<noteq> d), dPriorState = recorded_of sf\<rparr>)"
  by (simp add: Detect_eq reconcileFromRuntime_eq)

subsection \<open>Properties\<close>

text \<open>
  with lightweight runtime evidence the detection never ends in UNKNOWN: it is DEGRADED
  exactly when a fault is recorded (invariant I-2), otherwise CONFORMANT exactly when no
  blocking lightweight check counts as failed and BROKEN if one does; the suite result is
  not looked at, and a reconciliation is reported exactly when a trusted recorded state
  differs from the detected one.
\<close>

theorem Detect_runtime_authority:
  "let d = Detect \<lparr>diStateFile = sf, diSuiteResult = sr, diLightweightResult = Some (Classify lr)\<rparr> in
     \<not> IsUnknown d \<and> dConfidence d = ConfidenceRuntime \<and>
     (dDetected d = StateDegraded \<longleftrightarrow> fault_of sf \<noteq> None) \<and>
     (dDetected d = StateConformant \<longleftrightarrow>
        fault_of sf = None \<and> \<not> list_ex (counts_as SeverityBlocking) (sResults lr)) \<and>
     (dDetected d = StateBroken \<longleftrightarrow>
        fault_of sf = None \<and> list_ex (counts_as SeverityBlocking) (sResults lr)) \<and>
     (dReconciled d \<longleftrightarrow>
        (\<exists>f. sf = Some f \<and> sfClassificationValid f \<and> sfState f \<noteq> [] \<and> sfState f \<noteq> dDetected d))"
proof -
  have "IsConformant (sClassification (Classify lr)) \<longleftrightarrow>
      \<not> list_ex (counts_as SeverityBlocking) (sResults lr)"
    by (simp add: IsConformant_Classify failing_ids_empty_iff list_ex_iff)
  then show ?thesis
    by (auto simp: Detect_lightweight IsUnknown_def recorded_of_def runtime_state_def Let_def
        split: option.splits if_splits)
qed

text \<open>
  without runtime evidence a failing suite means BROKEN whatever the file records, and a
  passing suite never leaves a recorded DEGRADED: conflicts between the suite and the file are
  resolved in favour of the suite.
\<close>

theorem Detect_suite_over_file:
  "let d = Detect \<lparr>diStateFile = sf, diSuiteResult = Some (Classify sr), diLightweightResult = None\<rparr> in
     dConfidence d = ConfidenceConformance \<and> \<not> IsUnknown d \<and>
     (if \<not> list_ex (counts_as SeverityBlocking) (sResults sr)
      then dDetected d = (if recorded_of sf \<in> {[], StateDegraded} then StateConformant else recorded_of sf)
      else dDetected d = StateBroken)"
proof -
  have "IsConformant (sClassification (Classify sr)) \<longleftrightarrow>
      \<not> list_ex (counts_as SeverityBlocking) (sResults sr)"
    by (simp add: IsConformant_Classify failing_ids_empty_iff list_ex_iff)
  then show ?thesis
    by (auto simp: Detect_eq reconcileFromSuite_def IsUnknown_def failing_ids_empty_iff list_ex_iff Let_def)
qed

text \<open>
  the suite path does not keep the model's invariant I-3 (all blocking checks pass and no
  active fault, so the state is not BROKEN): with a passing suite and no active fault a
  recorded BROKEN stays BROKEN, with no reconciliation.
\<close>

theorem Detect_suite_keeps_broken:
  assumes "\<not> list_ex (counts_as SeverityBlocking) (sResults sr)"
    and "sfState f = StateBroken" and "sfClassificationValid f"
  shows "Detect \<lparr>diStateFile = Some f, diSuiteResult = Some (Classify sr), diLightweightResult = None\<rparr> =
     \<lparr>dDetected = StateBroken, dConfidence = ConfidenceConformance, dReconciled = False,
      dPriorState = StateBroken\<rparr>"
proof -
  have "IsConformant (sClassification (Classify sr))"
    using assms(1) by (simp add: IsConformant_Classify failing_ids_empty_iff list_ex_iff)
  then show ?thesis
    using assms by (simp add: Detect_eq reconcileFromSuite_def recorded_of_def failing_ids_empty_iff list_ex_iff)
qed

theorem Detect_suite_keeps_broken_witness:
  "dDetected (Detect \<lparr>diStateFile = Some \<lparr>sfSpecVersion = SpecVersion, sfState = StateBroken,
       sfClassificationValid = True, sfActiveFault = None, sfLastValidate = None, sfLastReset = None,
       sfLastProvision = None, sfLastStatusAt = None, sfHistory = []\<rparr>,
     diSuiteResult = Some (Classify (empty_suite ''t'' 0 [])), diLightweightResult = None\<rparr>) = StateBroken"
  by (subst Detect_suite_keeps_broken) simp_all

end
