(* ===== verification/CmdStatus.thy ===== *)
theory CmdStatus
  imports Output Detect "HOL-Library.AList"
begin

text \<open>
  \<open>lab status\<close>, \<^verbatim>\<open>cmd/status.go\<close>. The maps of the result are association lists without
  duplicate keys, updated as Go updates a map.
\<close>

subsection \<open>Evidence\<close>

definition root_url :: string where
  "root_url = ''http://localhost/''"

definition health_url :: string where
  "health_url = ''http://localhost/health''"

text \<open>Step 2b: a synthetic failing E-002 when the root endpoint answers with another code than 200.\<close>

definition with_root_status :: "endpoint_status result \<Rightarrow> suite_result \<Rightarrow> suite_result" where
  "with_root_status root lw =
     (case root of
        Inl _ \<Rightarrow> lw
      | Inr st \<Rightarrow>
          if ep_status_code st = 200 then lw
          else (case (CheckByID ''E-002'' :: unit check option) of
              None \<Rightarrow> lw
            | Some e002 \<Rightarrow> Classify (lw\<lparr>sResults := sResults lw @
                [\<lparr>rCheck = meta e002, rPassed = False, rErr = None, rDependent = False\<rparr>]\<rparr>)))"

subsection \<open>Writing the state file\<close>

text \<open>Step 3b: a fresh file when the old one could not be read, written without the lock.\<close>

definition write_fresh :: "'x deps \<Rightarrow> lab_state \<Rightarrow> ('x world, state_file) state" where
  "write_fresh d detected = do {
     sf \<leftarrow> Fresh detected;
     now \<leftarrow> time_now;
     (let f = sf\<lparr>sfClassificationValid := True, sfLastStatusAt := Some now\<rparr> in do {
        e \<leftarrow> Store_Write (dStore d) f;
        _ \<leftarrow> (case e of Some err \<Rightarrow> eprint (''warning: failed to write new state file: '' @ error_text err @ [nl])
              | None \<Rightarrow> ret ());
        ret f
      })
   }"

definition needs_write :: "detection_result \<Rightarrow> state_file \<Rightarrow> bool" where
  "needs_write det sf \<longleftrightarrow> dReconciled det \<or> (\<not> sfClassificationValid sf \<and> \<not> IsUnknown det)"

definition write_or_warn :: "'x deps \<Rightarrow> string \<Rightarrow> state_file \<Rightarrow> ('x world, unit) state" where
  "write_or_warn d msg f = do {
     e \<leftarrow> Store_Write (dStore d) f;
     (case e of Some err \<Rightarrow> eprint (''warning: failed to '' @ msg @ '': '' @ error_text err @ [nl]) | None \<Rightarrow> ret ())
   }"

text \<open>Steps 4 and 4b, with the lock held; the file record is the one read before.\<close>

definition reconcile :: "'x deps \<Rightarrow> detection_result \<Rightarrow> state_file \<Rightarrow> ('x world, state_file) state" where
  "reconcile d det sf =
     (if dReconciled det then do {
        now \<leftarrow> time_now;
        (let f = sf\<lparr>sfState := dDetected det, sfClassificationValid := True, sfLastStatusAt := Some now\<rparr> in do {
           _ \<leftarrow> with_audit (dAudit d) (\<lambda>l. LogReconciliation l (dPriorState det) (dDetected det));
           _ \<leftarrow> write_or_warn d ''write reconciled state'' f;
           ret f
         })
      } else if \<not> sfClassificationValid sf \<and> \<not> IsUnknown det then do {
        now \<leftarrow> time_now;
        (let f = sf\<lparr>sfClassificationValid := True, sfLastStatusAt := Some now\<rparr> in do {
           _ \<leftarrow> write_or_warn d ''update classification validity'' f;
           ret f
         })
      } else ret sf)"

subsection \<open>The result\<close>

definition status_services :: "check_result list \<Rightarrow> (string \<times> svc_info) list" where
  "status_services rs = foldl (\<lambda>m r.
     if cID (rCheck r) = ''P-001'' then AList.update ''app.service'' \<lparr>siActive = rPassed r, siPID = 0\<rparr> m
     else if cID (rCheck r) = ''S-003'' then AList.update ''nginx'' \<lparr>siActive = rPassed r, siPID = 0\<rparr> m
     else m) [] rs"

definition status_ports :: "check_result list \<Rightarrow> port_info list" where
  "status_ports rs = map (\<lambda>_. \<lparr>piAddr = AppBindAddr, piOwner = ''app''\<rparr>)
     (filter (\<lambda>r. cID (rCheck r) = ''P-002'' \<and> rPassed r) rs)"

definition put_status :: "string \<Rightarrow> endpoint_status result \<Rightarrow> (string \<times> int) list \<Rightarrow> (string \<times> int) list" where
  "put_status url r m = (case r of Inl _ \<Rightarrow> m | Inr st \<Rightarrow> AList.update url (ep_status_code st) m)"

definition buildStatusResult ::
  "state_file option \<Rightarrow> lab_state \<Rightarrow> suite_result \<Rightarrow> 'x world observer \<Rightarrow> ('x world, status_result) state" where
  "buildStatusResult sf detected lw ob = do {
     health \<leftarrow> CheckEndpoint ob health_url False;
     root \<leftarrow> CheckEndpoint ob root_url False;
     ret \<lparr>stState = detected,
       stActiveFault = (case sf of None \<Rightarrow> None
         | Some f \<Rightarrow> map_option (\<lambda>a. \<lparr>frID = afID a, frAppliedAt = afAppliedAt a\<rparr>) (sfActiveFault f)),
       stServices = status_services (sResults lw),
       stPorts = status_ports (sResults lw) @ [\<lparr>piAddr = NginxHTTPAddr, piOwner = ''nginx''\<rparr>,
         \<lparr>piAddr = NginxHTTPSAddr, piOwner = ''nginx (TLS)''\<rparr>],
       stEndpoints = put_status root_url root (put_status health_url health []),
       stLastValidate = (case sf of None \<Rightarrow> None | Some f \<Rightarrow>
         map_option (\<lambda>v. \<lparr>vsAt = vrAt v, vsPassed = vrPassed v, vsTotal = vrTotal v\<rparr>) (sfLastValidate f)),
       stLastReset = (case sf of None \<Rightarrow> None | Some f \<Rightarrow>
         map_option (\<lambda>r. \<lparr>rsAt = rrAt r, rsTier = rrTier r\<rparr>) (sfLastReset f)),
       stReconciled = False, stUnknown = False,
       stClassificationValid = (case sf of None \<Rightarrow> False | Some f \<Rightarrow> sfClassificationValid f)\<rparr>
   }"

definition unknown_status :: status_result where
  "unknown_status = \<lparr>stState = [], stActiveFault = None, stServices = [], stPorts = [], stEndpoints = [],
     stLastValidate = None, stLastReset = None, stReconciled = False, stUnknown = True,
     stClassificationValid = False\<rparr>"

text \<open>Step 5.\<close>

definition status_result_of ::
  "'x deps \<Rightarrow> detection_result \<Rightarrow> suite_result \<Rightarrow> state_file option \<Rightarrow> ('x world, command_result) state" where
  "status_result_of d det lw sf =
     (if IsUnknown det then ret \<lparr>crValue = Some (VStatus unknown_status), crExitCode = 5, crErr = None\<rparr>
      else do {
        v \<leftarrow> buildStatusResult sf (dDetected det) lw (dObs d);
        ret (success (VStatus v))
      })"

subsection \<open>The command\<close>

text \<open>
  The lock is taken only for the reconciling write and, by \<open>defer\<close>, kept until the result is
  built; without it the result is built all the same.
\<close>

definition status_finish ::
  "'x deps \<Rightarrow> detection_result \<Rightarrow> suite_result \<Rightarrow> state_file option \<Rightarrow> ('x world, command_result outcome) state" where
  "status_finish d det lw sf =
     (case sf of
        None \<Rightarrow> do { v \<leftarrow> status_result_of d det lw None; ret (Returns v) }
      | Some f \<Rightarrow>
          if needs_write det f then do {
            a \<leftarrow> Acquire (dFrames d) NewLock;
            (case a of
               Panics s \<Rightarrow> ret (Panics s)
             | Returns (e, l) \<Rightarrow>
                 (case e of
                    Some err \<Rightarrow> do {
                      _ \<leftarrow> eprint (''warning: could not acquire lock to reconcile state: '' @ error_text err @ [nl]);
                      v \<leftarrow> status_result_of d det lw (Some f);
                      ret (Returns v)
                    }
                  | None \<Rightarrow> do {
                      f' \<leftarrow> reconcile d det f;
                      v \<leftarrow> status_result_of d det lw (Some f');
                      _ \<leftarrow> Release l;
                      ret (Returns v)
                    }))
          }
          else do { v \<leftarrow> status_result_of d det lw (Some f); ret (Returns v) })"

definition StatusCmd_Run :: "'x deps \<Rightarrow> ('x world, command_result outcome) state" where
  "StatusCmd_Run d = do {
     r \<leftarrow> Store_Read (dStore d);
     lw0 \<leftarrow> Runner_LightweightRun (dChecks d) (dObs d);
     root \<leftarrow> CheckEndpoint (dObs d) root_url False;
     (let lw = with_root_status root lw0;
          det = Detect \<lparr>diStateFile = (case r of Inl _ \<Rightarrow> None | Inr f \<Rightarrow> Some f), diSuiteResult = None,
                  diLightweightResult = Some lw\<rparr>
      in do {
        sf \<leftarrow> (case r of
            Inr f \<Rightarrow> ret (Some f)
          | Inl _ \<Rightarrow> if IsUnknown det then ret None
              else do { f \<leftarrow> write_fresh d (dDetected det); ret (Some f) });
        status_finish d det lw sf
      })
   }"

end
