(* ===== verification/CmdValidate.thy ===== *)
theory CmdValidate
  imports CmdReset
begin

text \<open>\<open>lab validate\<close>, \<^verbatim>\<open>cmd/validate.go\<close>. Its warning goes to standard output.\<close>

text \<open>The second half of the recording, from the file read: there is no lock around the two.\<close>

definition record_read :: "'x deps \<Rightarrow> suite_result \<Rightarrow> state_file result \<Rightarrow> ('x world, unit) state" where
  "record_read d sr r =
     (case r of
        Inl _ \<Rightarrow> ret ()
      | Inr sf \<Rightarrow> do {
          e \<leftarrow> Store_Write (dStore d) (sf\<lparr>sfLastValidate := Some (suite_record sr)\<rparr>);
          (case e of
             Some err \<Rightarrow> oprint (''warning: failed to record validation observation: '' @ error_text err @ [nl])
           | None \<Rightarrow> ret ())
        })"

definition recordObservation :: "'x deps \<Rightarrow> suite_result \<Rightarrow> ('x world, unit) state" where
  "recordObservation d sr = do {
     r \<leftarrow> Store_Read (dStore d);
     record_read d sr r
   }"

definition processResult :: "'x deps \<Rightarrow> suite_result \<Rightarrow> ('x world, command_result) state" where
  "processResult d sr = do {
     _ \<leftarrow> recordObservation d sr;
     _ \<leftarrow> with_audit (dAudit d) (\<lambda>l. LogOp l ''ValidateFullSuite''
           (itoa (sPassed sr) @ ''/'' @ itoa (sTotal sr) @ '' checks passed'') 0 (ExitCode sr) None);
     ret \<lparr>crValue = Some (VValidate (FromSuiteResult sr)), crExitCode = ExitCode sr, crErr = None\<rparr>
   }"

definition ValidateCmd_Run :: "'x deps \<Rightarrow> ('x world, command_result) state" where
  "ValidateCmd_Run d = do {
     sr \<leftarrow> Runner_Run (dChecks d) (dObs d);
     processResult d sr
   }"

definition ValidateCmd_RunSingle :: "'x deps \<Rightarrow> string \<Rightarrow> ('x world, command_result) state" where
  "ValidateCmd_RunSingle d checkID = do {
     r \<leftarrow> Runner_RunSingle (dChecks d) checkID (dObs d);
     (case r of
        Inl err \<Rightarrow> ret (failure 2 (Wrapf ''ErrUnknownCheckID: '' err []))
      | Inr res \<Rightarrow> do {
          now \<leftarrow> time_now;
          (let sr = Classify (empty_suite now 1 [res]) in
           ret \<lparr>crValue = Some (VValidate (FromSuiteResult sr)), crExitCode = ExitCode sr, crErr = None\<rparr>)
        })
   }"

end
