(* ===== verification/RealExec.thy ===== *)
theory RealExec
  imports Executor
begin

text \<open>
  The implementation of the Observer and Executor interfaces against the machine,
  \<^verbatim>\<open>internal/executor/real.go\<close>, with the canonical files of \<^verbatim>\<open>canonical_files.go\<close>.

  What lies outside the repository is a parameter: running a command gives its error, its
  standard output and its standard error; an HTTP GET gives the status and the first piece
  of the body; a lookup gives addresses.
\<close>

record 'w outside =
  oRun :: "string \<Rightarrow> string list \<Rightarrow> ('w, go_error option \<times> string \<times> string) state"
  oGet :: "string \<Rightarrow> bool \<Rightarrow> ('w, (int \<times> string) result) state"
  oLookup :: "string \<Rightarrow> ('w, string list result) state"

record canonicalFile =
  cfContent :: string
  cfMode :: nat
  cfOwner :: string
  cfGroup :: string

definition canonicalFiles :: "string \<Rightarrow> canonicalFile option" where
  "canonicalFiles = map_of
     [(ConfigPath, \<lparr>cfContent = EmbeddedAppConfig, cfMode = ModeConfig, cfOwner = ServiceUser, cfGroup = ServiceGroup\<rparr>),
      (UnitFilePath, \<lparr>cfContent = EmbeddedUnitFile, cfMode = ModeUnitFile, cfOwner = RootUser, cfGroup = RootGroup\<rparr>),
      (NginxConfigPath, \<lparr>cfContent = EmbeddedNginxConfig, cfMode = ModeNginxConfig, cfOwner = RootUser, cfGroup = RootGroup\<rparr>)]"

definition CanonicalFileEntry :: "string \<Rightarrow> canonicalFile option" where
  "CanonicalFileEntry path = canonicalFiles path"

text \<open>A \<open>Real\<close> for observation has no audit log and no canonical files.\<close>

record real =
  rlAudit :: "audit_logger option"
  rlCanon :: "string \<Rightarrow> canonicalFile option"

definition NewObserver :: real where
  "NewObserver = \<lparr>rlAudit = None, rlCanon = (\<lambda>_. None)\<rparr>"

definition NewExecutor :: "audit_logger \<Rightarrow> real" where
  "NewExecutor a = \<lparr>rlAudit = Some a, rlCanon = canonicalFiles\<rparr>"

subsection \<open>Commands\<close>

definition runRaw :: "'x world outside \<Rightarrow> string \<Rightarrow> string list \<Rightarrow> ('x world, string result) state" where
  "runRaw out cmd args = do {
     r \<leftarrow> oRun out cmd args;
     ret (case r of (e, sout, serr) \<Rightarrow>
       (case e of
          Some err \<Rightarrow>
            if length serr > 0 then Inl (Wrapf [] err ('': '' @ trim_space serr)) else Inl err
        | None \<Rightarrow> Inr sout))
   }"

definition runSudo :: "'x world outside \<Rightarrow> string \<Rightarrow> string list \<Rightarrow> ('x world, string result) state" where
  "runSudo out cmd args = runRaw out ''sudo'' (cmd # args)"

fun err_of :: "'a result \<Rightarrow> go_error option" where
  "err_of (Inl e) = Some e"
| "err_of (Inr _) = None"

definition only_err :: "('w, 'a result) state \<Rightarrow> ('w, go_error option) state" where
  "only_err m = do { r \<leftarrow> m; ret (err_of r) }"

subsection \<open>Observer\<close>

text \<open>\<open>fmt.Sscanf(s, "%d", &n)\<close>: an optional sign and the digits that follow; \<open>n\<close> keeps its value on failure.\<close>

definition sscan_int :: "string \<Rightarrow> int \<Rightarrow> int" where
  "sscan_int s n =
     (let t = dropWhile is_space s;
          (sgn, ds) = (case t of c # r \<Rightarrow> if c = CHR ''-'' \<or> c = CHR ''+'' then ([c], r) else ([], t) | [] \<Rightarrow> ([], []))
      in case atoi (sgn @ takeWhile is_digit ds) of Some i \<Rightarrow> i | None \<Rightarrow> n)"

definition Real_Stat :: "string \<Rightarrow> ('x world, file_info result) state" where
  "Real_Stat path = do {
     r \<leftarrow> os_Stat path;
     ret (map_sum id (\<lambda>n. \<lparr>fi_size = int (length (fcontent n)), fi_mode = fmode n, fi_isdir = fisdir n\<rparr>) r)
   }"

definition Real_CheckProcess :: "'x world outside \<Rightarrow> string \<Rightarrow> string \<Rightarrow> ('x world, process_status result) state" where
  "Real_CheckProcess out name user = do {
     r \<leftarrow> runRaw out ''pgrep'' ((if user \<noteq> [] then [''-u'', user] else []) @ [''-x'', name]);
     ret (case r of
        Inl _ \<Rightarrow> Inr \<lparr>ps_running = False, ps_pid = 0, ps_user = []\<rparr>
      | Inr s \<Rightarrow>
          (let l0 = hd (split_on nl (trim_space s));
               pid = (if l0 \<noteq> [] then sscan_int l0 0 else 0)
           in Inr \<lparr>ps_running = (pid > 0), ps_pid = pid, ps_user = user\<rparr>))
   }"

definition Real_CheckPort :: "'x world outside \<Rightarrow> string \<Rightarrow> ('x world, port_status result) state" where
  "Real_CheckPort out addr = do {
     r \<leftarrow> runRaw out ''ss'' [''-ltnp''];
     ret (case r of
        Inl err \<Rightarrow> Inl (Wrapf ''running ss: '' err [])
      | Inr s \<Rightarrow> Inr \<lparr>pt_listening = str_contains s addr, pt_addr = addr\<rparr>)
   }"

definition Real_CheckEndpoint :: "'x world outside \<Rightarrow> string \<Rightarrow> bool \<Rightarrow> ('x world, endpoint_status result) state" where
  "Real_CheckEndpoint out url skipTLSVerify = do {
     r \<leftarrow> oGet out url skipTLSVerify;
     ret (case r of
        Inl _ \<Rightarrow> Inr \<lparr>ep_status_code = 0, ep_reachable = False, ep_body = []\<rparr>
      | Inr (code, body) \<Rightarrow> Inr \<lparr>ep_status_code = code, ep_reachable = True, ep_body = take 4096 body\<rparr>)
   }"

definition quoted :: "string \<Rightarrow> string" where
  "quoted s = [CHR 0x22] @ s @ [CHR 0x22]"

definition Real_ResolveHost :: "'x world outside \<Rightarrow> string \<Rightarrow> ('x world, string result) state" where
  "Real_ResolveHost out name = do {
     r \<leftarrow> oLookup out name;
     ret (case r of
        Inl err \<Rightarrow> Inl (Wrapf (''resolving '' @ quoted name @ '': '') err [])
      | Inr [] \<Rightarrow> Inl (Errorf (''no addresses for '' @ quoted name))
      | Inr (a # _) \<Rightarrow> Inr a)
   }"

definition Real_ServiceActive :: "'x world outside \<Rightarrow> string \<Rightarrow> ('x world, bool result) state" where
  "Real_ServiceActive out unit = do {
     r \<leftarrow> runRaw out ''systemctl'' [''is-active'', ''--quiet'', unit];
     ret (Inr (err_of r = None))
   }"

definition Real_ServiceEnabled :: "'x world outside \<Rightarrow> string \<Rightarrow> ('x world, bool result) state" where
  "Real_ServiceEnabled out unit = do {
     r \<leftarrow> runRaw out ''systemctl'' [''is-enabled'', ''--quiet'', unit];
     ret (Inr (err_of r = None))
   }"

subsection \<open>Executor\<close>

text \<open>
  Every mutation has one shape: note the time, do it, and under \<open>if r.audit != nil\<close> log the
  operation with its duration, exit code and error.
\<close>

definition audited ::
  "real \<Rightarrow> string \<Rightarrow> string \<Rightarrow> ('x world, go_error option) state \<Rightarrow> ('x world, go_error option) state" where
  "audited r opn args m = do {
     start \<leftarrow> mono_now;
     err \<leftarrow> m;
     _ \<leftarrow> with_audit (rlAudit r) (\<lambda>a. do {
       now \<leftarrow> mono_now;
       LogOp a opn args (now - start) (if err \<noteq> None then 1 else 0) err
     });
     ret err
   }"

definition owner_arg :: "string \<Rightarrow> string \<Rightarrow> string" where
  "owner_arg owner grp = owner @ '':'' @ grp"

definition chown_step ::
  "'x world outside \<Rightarrow> string \<Rightarrow> string \<Rightarrow> string \<Rightarrow> ('x world, go_error option) state" where
  "chown_step out owner grp path =
     (if owner \<noteq> [] \<or> grp \<noteq> [] then only_err (runSudo out ''chown'' [owner_arg owner grp, path]) else ret None)"

definition atomicWrite ::
  "'x world outside \<Rightarrow> string \<Rightarrow> string \<Rightarrow> nat \<Rightarrow> string \<Rightarrow> string \<Rightarrow> ('x world, go_error option) state" where
  "atomicWrite out path data mode owner grp = (
     let dir = dir_of path in
     and_then (wrapping (''creating parent directory '' @ dir @ '': '') (os_MkdirAll dir (octal [0, 7, 5, 5])))
       (do {
          t \<leftarrow> os_CreateTemp dir ''.tmp-'' [];
          (case t of
             Inl err \<Rightarrow> ret (Some (Wrapf ''creating temp file: '' err []))
           | Inr tmp \<Rightarrow>
               removing_on_error tmp
                 (and_then (fill_temp ''temp file'' ''setting temp file mode: '' mode tmp data)
                 (and_then (wrapping ''setting temp file ownership: '' (chown_step out owner grp tmp))
                    (wrapping (''renaming temp file to '' @ path @ '': '') (os_Rename tmp path)))))
        }))"

definition Real_WriteFile ::
  "'x world outside \<Rightarrow> real \<Rightarrow> string \<Rightarrow> string \<Rightarrow> nat \<Rightarrow> string \<Rightarrow> string \<Rightarrow> ('x world, go_error option) state" where
  "Real_WriteFile out r path data mode owner grp =
     audited r ''WriteFile'' path (atomicWrite out path data mode owner grp)"

fun oct_str :: "nat \<Rightarrow> string" where
  "oct_str n = (if n < 8 then [digit_char n] else oct_str (n div 8) @ [digit_char (n mod 8)])"

declare oct_str.simps [simp del]

text \<open>\<open>%04o\<close>\<close>

definition mode_text :: "nat \<Rightarrow> string" where
  "mode_text m = (let s = oct_str m in replicate (4 - length s) (CHR ''0'') @ s)"

definition Real_Chmod :: "real \<Rightarrow> string \<Rightarrow> nat \<Rightarrow> ('x world, go_error option) state" where
  "Real_Chmod r path mode = audited r ''Chmod'' (path @ '' '' @ mode_text mode) (os_Chmod path mode)"

definition Real_Chown ::
  "'x world outside \<Rightarrow> real \<Rightarrow> string \<Rightarrow> string \<Rightarrow> string \<Rightarrow> ('x world, go_error option) state" where
  "Real_Chown out r path owner grp =
     audited r ''Chown'' (path @ '' '' @ owner_arg owner grp)
       (only_err (runSudo out ''chown'' [owner_arg owner grp, path]))"

definition Real_Remove :: "real \<Rightarrow> string \<Rightarrow> ('x world, go_error option) state" where
  "Real_Remove r path = audited r ''Remove'' path (os_Remove path)"

definition Real_MkdirAll ::
  "'x world outside \<Rightarrow> real \<Rightarrow> string \<Rightarrow> nat \<Rightarrow> string \<Rightarrow> string \<Rightarrow> ('x world, go_error option) state" where
  "Real_MkdirAll out r path mode owner grp =
     audited r ''MkdirAll'' path (and_then (os_MkdirAll path mode) (chown_step out owner grp path))"

definition Real_Systemctl ::
  "'x world outside \<Rightarrow> real \<Rightarrow> string \<Rightarrow> string \<Rightarrow> ('x world, go_error option) state" where
  "Real_Systemctl out r action unit = (
     let args = action # (if unit \<noteq> [] then [unit] else []) in
     audited r ''Systemctl'' (str_join '' '' args) (only_err (runSudo out ''systemctl'' args)))"

definition Real_NginxReload :: "'x world outside \<Rightarrow> real \<Rightarrow> ('x world, go_error option) state" where
  "Real_NginxReload out r = do {
     start \<leftarrow> mono_now;
     t \<leftarrow> runSudo out ''nginx'' [''-t''];
     (case t of
        Inl err \<Rightarrow> ret (Some (Wrapf ''nginx config syntax check failed: '' err []))
      | Inr _ \<Rightarrow> do {
          err \<leftarrow> only_err (runSudo out ''nginx'' [''-s'', ''reload'']);
          _ \<leftarrow> with_audit (rlAudit r) (\<lambda>a. do {
            now \<leftarrow> mono_now;
            LogOp a ''NginxReload'' [] (now - start) (if err \<noteq> None then 1 else 0) err
          });
          ret err
        })
   }"

definition Real_RestoreFile :: "'x world outside \<Rightarrow> real \<Rightarrow> string \<Rightarrow> ('x world, go_error option) state" where
  "Real_RestoreFile out r path =
     (case rlCanon r path of
        None \<Rightarrow> ret (Some (Errorf (''no canonical content for '' @ quoted path)))
      | Some c \<Rightarrow> Real_WriteFile out r path (cfContent c) (cfMode c) (cfOwner c) (cfGroup c))"

definition Real_RunMutation ::
  "'x world outside \<Rightarrow> real \<Rightarrow> string \<Rightarrow> string list \<Rightarrow> ('x world, go_error option) state" where
  "Real_RunMutation out r cmd args =
     audited r ''RunMutation'' (if length args > 0 then cmd @ '' '' @ str_join '' '' args else cmd)
       (only_err (runSudo out cmd args))"

text \<open>A \<open>Real\<close> as the interface value the commands use.\<close>

definition Real_executor :: "'x world outside \<Rightarrow> real \<Rightarrow> 'x world executor" where
  "Real_executor out r = \<lparr>
     Stat = Real_Stat, ReadFile = os_ReadFile, CheckProcess = Real_CheckProcess out,
     CheckPort = Real_CheckPort out, CheckEndpoint = Real_CheckEndpoint out,
     ResolveHost = Real_ResolveHost out, ServiceActive = Real_ServiceActive out,
     ServiceEnabled = Real_ServiceEnabled out, RunCommand = runRaw out,
     WriteFile = Real_WriteFile out r, Chmod = Real_Chmod r, Chown = Real_Chown out r,
     Remove = Real_Remove r, MkdirAll = Real_MkdirAll out r, Systemctl = Real_Systemctl out r,
     NginxReload = Real_NginxReload out r, RestoreFile = Real_RestoreFile out r,
     RunMutation = Real_RunMutation out r\<rparr>"

definition Real_observer :: "'x world outside \<Rightarrow> 'x world observer" where
  "Real_observer out = observer.truncate (Real_executor out NewObserver)"

subsection \<open>What the real executor does to a file\<close>

text \<open>
  The hypothesis on \<open>chown\<close> (run by \<open>sudo\<close>): it changes the ownership of the file it is given,
  not its content, its mode or any other file.
\<close>

definition chown_only :: "'x world outside \<Rightarrow> bool" where
  "chown_only out \<longleftrightarrow> (\<forall>arg p w q. let w' = snd (run (oRun out ''sudo'' [''chown'', arg, p]) w) in
     (q \<noteq> p \<longrightarrow> files w' q = files w q) \<and>
     map_option (\<lambda>n. (fcontent n, fmode n, fisdir n)) (files w' p) =
       map_option (\<lambda>n. (fcontent n, fmode n, fisdir n)) (files w p))"

text \<open>A file that a temporary name of \<open>atomicWrite\<close> cannot be.\<close>

definition write_target :: "string \<Rightarrow> bool" where
  "write_target path \<longleftrightarrow> has_prefix path ''/'' \<and> 1 < length path \<and>
     \<not> has_prefix path (dir_of path @ ''/'' @ ''.tmp-'')"

lemma write_target_canonical:
  "write_target ConfigPath" "write_target UnitFilePath" "write_target NginxConfigPath" "write_target ChaosEnvPath"
  by (simp_all add: write_target_def path_defs dir_of_def has_prefix_iff)

lemma chown_step_run:
  assumes "chown_only out" and "run (chown_step out owner grp p) w = (e, w')"
  shows "(q \<noteq> p \<longrightarrow> files w' q = files w q) \<and>
     map_option (\<lambda>n. (fcontent n, fmode n, fisdir n)) (files w' p) =
       map_option (\<lambda>n. (fcontent n, fmode n, fisdir n)) (files w p)"
proof (cases "owner \<noteq> [] \<or> grp \<noteq> []")
  case True
  then have "w' = snd (run (oRun out ''sudo'' [''chown'', owner_arg owner grp, p]) w)"
    using assms(2)
    by (auto simp: chown_step_def only_err_def runSudo_def runRaw_def case_prod_beta split: prod.splits)
  with assms(1) show ?thesis unfolding chown_only_def Let_def by blast
next
  case False
  with assms(2) show ?thesis by (simp add: chown_step_def)
qed

lemma atomicWrite_cases:
  assumes "chown_only out" and tgt: "write_target path"
    and run: "run (atomicWrite out path data mode owner grp) w = (e, w')"
  shows "if e = None
     then \<exists>n. files w' path = Some n \<and> fcontent n = data \<and> fmode n = mode \<and> \<not> fisdir n
     else files w' path = files w path"
proof -
  have np: "path \<notin> set (ancestors (dir_of path))" using tgt by (simp add: write_target_def not_own_ancestor)
  obtain e1 w1 where 1: "run (os_MkdirAll (dir_of path) (octal [0, 7, 5, 5])) w = (e1, w1)" by (meson surj_pair)
  obtain t w2 where 2: "run (os_CreateTemp (dir_of path) ''.tmp-'' []) w1 = (t, w2)" by (meson surj_pair)
  have f1: "files w1 path = files w path"
    using keepsD [OF keeps_MkdirAll [OF np] _ 1, of "seen path w"] by (simp add: file_is_def seen_def)
  note C = CreateTemp_cases [OF 2]
  show ?thesis
  proof (cases e1)
    case (Some x)
    with run 1 f1 show ?thesis by (auto simp: atomicWrite_def Let_def run_and_then run_wrapping)
  next
    case None
    note n1 = None
    show ?thesis
    proof (cases t)
      case (Inl x)
      with run 1 2 n1 C f1 show ?thesis by (auto simp: atomicWrite_def Let_def run_and_then run_wrapping)
    next
      case (Inr tmp)
      with C obtain r where tmp: "tmp = (dir_of path @ ''/'' @ ''.tmp-'') @ r" by auto
      have ne: "tmp \<noteq> path"
        using tgt unfolding write_target_def has_prefix_iff tmp by metis
      with C Inr have ft: "files w2 path = files w path"
        and nt: "files w2 tmp = Some \<lparr>fcontent = [], fmode = octal [0, 6, 0, 0], fowner = self_user w2,
             fgroup = self_user w2, fisdir = False\<rparr>"
        using f1 by auto
      obtain e3 w3 where 3: "run (fill_temp ''temp file'' ''setting temp file mode: '' mode tmp data) w2 = (e3, w3)"
        by (meson surj_pair)
      obtain e4 w4 where 4: "run (chown_step out owner grp tmp) w3 = (e4, w4)" by (meson surj_pair)
      obtain e5 w5 where 5: "run (os_Rename tmp path) w4 = (e5, w5)" by (meson surj_pair)
      have f3: "files w3 path = files w path"
        using keepsD [OF keeps_fill_temp [OF ne] _ 3, of "seen path w2"] ft by (simp add: file_is_def seen_def)
      have f4: "files w4 path = files w path"
        using chown_step_run [OF assms(1) 4, of path] ne f3 by auto
      have frm: "files (snd (run (os_Remove tmp) v)) path = files v path" for v :: "'a world"
        using keeps_snd [OF keeps_Remove [OF ne], of "seen path v" v] by (simp add: file_is_def seen_def)
      have w': "(e, w') = (case e3 of
          Some x \<Rightarrow> (Some x, snd (run (os_Remove tmp) w3))
        | None \<Rightarrow> (case e4 of
            Some y \<Rightarrow> (Some (Wrapf ''setting temp file ownership: '' y []), snd (run (os_Remove tmp) w4))
          | None \<Rightarrow> (case e5 of None \<Rightarrow> (None, w5)
            | Some y \<Rightarrow> (Some (Wrapf (''renaming temp file to '' @ path @ '': '') y []), snd (run (os_Remove tmp) w5)))))"
        using run 1 2 3 4 5 n1 Inr
        by (auto simp: atomicWrite_def Let_def run_and_then run_wrapping run_removing split: option.splits)
      show ?thesis
      proof (cases "e3 = None \<and> e4 = None")
        case False
        with w' frm f3 f4 show ?thesis by (auto split: option.splits)
      next
        case True
        with 3 have 3: "run (fill_temp ''temp file'' ''setting temp file mode: '' mode tmp data) w2 = (None, w3)"
          by simp
        have "files w3 tmp = Some \<lparr>fcontent = data, fmode = mode,
            fowner = self_user w2, fgroup = self_user w2, fisdir = False\<rparr>"
          using fill_temp_ok [OF 3 nt] by simp
        with chown_step_run [OF assms(1) 4, of tmp] obtain n where
          "files w4 tmp = Some n" "fcontent n = data" "fmode n = mode" "\<not> fisdir n" by auto
        with w' True Rename_cases [OF 5 ne] ne frm f4 show ?thesis by (cases e5) auto
      qed
    qed
  qed
qed

text \<open>The log entry of an operation does not touch the file the operation works on.\<close>

lemma audited_run:
  assumes "run (audited r opn args m) w = (e, w')" and "\<And>l. rlAudit r = Some l \<Longrightarrow> alPath l \<noteq> q"
  shows "\<exists>v v'. files v = files w \<and> run m v = (e, v') \<and> files w' q = files v' q"
proof -
  define v where "v = snd (run mono_now w)"
  obtain e' v' where m: "run m v = (e', v')" by (meson surj_pair)
  have k: "keeps (file_is q c) (with_audit (rlAudit r) (\<lambda>a. do {
       now \<leftarrow> mono_now; LogOp a opn args (now - t) x e'}))" for c t x
    using assms(2) by (intro keeps_with_audit keeps_rules keeps_LogOp) blast
  have "files v = files w" by (simp add: v_def mono_now_def)
  moreover have "e = e' \<and> files w' q = files v' q"
    using assms(1) m keeps_snd [OF k, of "seen q v'" v']
    by (auto simp: audited_def case_prod_beta v_def file_is_def seen_def mono_now_def)
  ultimately show ?thesis using m by blast
qed

subsection \<open>Properties\<close>

text \<open>A machine outside on which \<open>ss\<close> prints a given text and every other command does nothing.\<close>

definition quiet_outside :: "string \<Rightarrow> 'w outside" where
  "quiet_outside s = \<lparr>
     oRun = (\<lambda>cmd args. ret (None, if cmd = ''ss'' then s else [], [])),
     oGet = (\<lambda>_ _. ret (Inl (Errorf ''down''))), oLookup = (\<lambda>_. ret (Inr []))\<rparr>"

lemma chown_only_quiet: "chown_only (quiet_outside s)"
  by (simp add: chown_only_def quiet_outside_def)

text \<open>
  restoring a canonical file is atomic: for each of the files a reset restores, success
  means the file is the embedded content, complete, with the canonical mode; failure means
  the file is what it was. The only assumption is that \<open>chown\<close> changes ownership and
  nothing else.
\<close>

theorem RestoreFile_all_or_nothing:
  assumes "chown_only out" and "path \<in> set R2RestoreFiles" and "alPath a \<noteq> path"
  shows "\<exists>c. CanonicalFileEntry path = Some c \<and>
     (case run (Real_RestoreFile out (NewExecutor a) path) w of (e, w') \<Rightarrow>
        (if e = None
         then \<exists>n. files w' path = Some n \<and> fcontent n = cfContent c \<and> fmode n = cfMode c \<and> \<not> fisdir n
         else files w' path = files w path))"
proof -
  have c: "\<exists>c. canonicalFiles path = Some c" and t: "write_target path"
    using assms(2) write_target_canonical by (auto simp: R2RestoreFiles_def canonicalFiles_def)
  then obtain c where c: "canonicalFiles path = Some c" by blast
  obtain e w' where r: "run (Real_RestoreFile out (NewExecutor a) path) w = (e, w')" by (meson surj_pair)
  have "run (audited (NewExecutor a) ''WriteFile'' path
      (atomicWrite out path (cfContent c) (cfMode c) (cfOwner c) (cfGroup c))) w = (e, w')"
    using r c by (simp add: Real_RestoreFile_def Real_WriteFile_def NewExecutor_def)
  from audited_run [OF this, of path] assms(3) obtain v v' where v: "files v = files w"
    "run (atomicWrite out path (cfContent c) (cfMode c) (cfOwner c) (cfGroup c)) v = (e, v')"
    "files w' path = files v' path" by (auto simp: NewExecutor_def)
  from atomicWrite_cases [OF assms(1) t v(2)] v show ?thesis
    by (intro exI [of _ c] conjI) (auto simp: CanonicalFileEntry_def c r)
qed

theorem RestoreFile_all_or_nothing_witness:
  "\<exists>c. CanonicalFileEntry UnitFilePath = Some c \<and>
     (case run (Real_RestoreFile (quiet_outside []) (NewExecutor (NewAuditLogger ''lab reset'')) UnitFilePath)
        (demo_world [(UnitFilePath, ''old'')] [(4, EIO)]) of (e, w') \<Rightarrow>
        (if e = None
         then \<exists>n. files w' UnitFilePath = Some n \<and> fcontent n = cfContent c \<and> fmode n = cfMode c \<and> \<not> fisdir n
         else files w' UnitFilePath = files (demo_world [(UnitFilePath, ''old'')] [(4, EIO)]) UnitFilePath))"
  by (rule RestoreFile_all_or_nothing [OF chown_only_quiet])
     (simp_all add: R2RestoreFiles_def NewAuditLogger_def NewAuditLoggerAt_def path_defs)

text \<open>
  nginx is never reloaded on a configuration whose syntax check fails: the operation
  ends with the wrapped error in the world the check left, without running the reload and
  without an audit entry; otherwise its error is that of the reload.
\<close>

theorem NginxReload_checks_first:
  "run (Real_NginxReload out r) w =
     (let (start, w1) = run mono_now w; (t, w2) = run (runSudo out ''nginx'' [''-t'']) w1 in
      case t of
        Inl err \<Rightarrow> (Some (Wrapf ''nginx config syntax check failed: '' err []), w2)
      | Inr _ \<Rightarrow>
          (let (e, w3) = run (runSudo out ''nginx'' [''-s'', ''reload'']) w2 in
           (err_of e, snd (run (with_audit (rlAudit r) (\<lambda>a. do {
              now \<leftarrow> mono_now;
              LogOp a ''NginxReload'' [] (now - start) (if err_of e \<noteq> None then 1 else 0) (err_of e) })) w3))))"
  by (simp add: Real_NginxReload_def only_err_def case_prod_beta Let_def split: sum.splits)

text \<open>
  the port check looks for the address as a substring of what \<open>ss\<close> prints, so it reports
  that nginx listens on \<open>0.0.0.0:80\<close> whenever anything listens on \<open>0.0.0.0:8080\<close>, which is
  what fault F-016 makes the app do.
\<close>

theorem CheckPort_confuses_80_with_8080:
  assumes "run (oRun out ''ss'' [''-ltnp'']) w = ((None, s, x), w')" and "str_contains s ''0.0.0.0:8080''"
  shows "fst (run (Real_CheckPort out NginxHTTPAddr) w) = Inr \<lparr>pt_listening = True, pt_addr = NginxHTTPAddr\<rparr>"
proof -
  from assms(2) obtain a b where "s = a @ ''0.0.0.0:8080'' @ b" by (auto simp: str_contains_iff)
  then have "s = a @ ''0.0.0.0:80'' @ (''80'' @ b)" by simp
  then have "str_contains s NginxHTTPAddr" unfolding str_contains_iff NginxHTTPAddr_def by blast
  with assms(1) show ?thesis by (simp add: Real_CheckPort_def runRaw_def)
qed

theorem CheckPort_confuses_80_with_8080_witness:
  "fst (run (Real_CheckPort (quiet_outside ''LISTEN 0.0.0.0:8080'') NginxHTTPAddr) (demo_world [] [])) =
     Inr \<lparr>pt_listening = True, pt_addr = NginxHTTPAddr\<rparr>"
proof (rule CheckPort_confuses_80_with_8080)
  show "run (oRun (quiet_outside ''LISTEN 0.0.0.0:8080'') ''ss'' [''-ltnp'']) (demo_world [] []) =
     ((None, ''LISTEN 0.0.0.0:8080'', []), demo_world [] [])"
    by (simp add: quiet_outside_def)
  show "str_contains ''LISTEN 0.0.0.0:8080'' ''0.0.0.0:8080''" by code_simp
qed

end
