(* ===== verification/Render.thy ===== *)
theory Render
  imports Output "HOL-Library.List_Lexorder" "HOL-Library.Char_ord"
begin

text \<open>
  The renderers, \<^verbatim>\<open>internal/output/render.go\<close>: a command result as text for a reader or as JSON.
  What one rendering writes is one piece of standard output.

  Two things come from outside: how long ago a time was (\<open>time.Since\<close>, here in nanoseconds) and
  the order in which Go walks a map, which is not specified. They are fields of the renderer.
\<close>

datatype output_format = FormatHuman | FormatJSON

record renderer =
  rnFormat :: output_format
  rnQuiet :: bool
  rnSince :: "time \<Rightarrow> int"
  rnServices :: "(string \<times> svc_info) list \<Rightarrow> (string \<times> svc_info) list"
  rnEndpoints :: "(string \<times> int) list \<Rightarrow> (string \<times> int) list"

subsection \<open>Formatting\<close>

definition line :: "string \<Rightarrow> string" where
  "line s = s @ [nl]"

definition lines_text :: "string list \<Rightarrow> string" where
  "lines_text ls = concat (map line ls)"

text \<open>\<open>%-ns\<close>: padded on the right to \<open>n\<close> runes; a byte 10xxxxxx continues a rune.\<close>

definition rune_count :: "string \<Rightarrow> nat" where
  "rune_count s = length (filter (\<lambda>c. \<not> (128 \<le> (of_char c :: nat) \<and> (of_char c :: nat) < 192)) s)"

definition pad :: "nat \<Rightarrow> string \<Rightarrow> string" where
  "pad n s = s @ replicate (n - rune_count s) (CHR '' '')"

definition bool_text :: "bool \<Rightarrow> string" where
  "bool_text b = (if b then ''true'' else ''false'')"

definition sep_line :: string where
  "sep_line = concat (replicate 42 u_hbar)"

definition rule_line :: string where
  "rule_line = concat (replicate 74 u_hbar)"

text \<open>The integer part of a duration in a unit, towards zero.\<close>

definition whole :: "int \<Rightarrow> int \<Rightarrow> int" where
  "whole d unit = sgn d * (abs d div unit)"

definition second :: int where "second = 1000000000"
definition minute :: int where "minute = 60 * second"
definition hour :: int where "hour = 60 * minute"

definition humanTime :: "renderer \<Rightarrow> time \<Rightarrow> string" where
  "humanTime r t =
     (let d = rnSince r t in
      if d < minute then itoa (whole d second) @ ''s ago''
      else if d < hour then itoa (whole d minute) @ ''m ago''
      else rfc3339 t)"

subsection \<open>Text for a reader\<close>

definition service_line :: "string \<times> svc_info \<Rightarrow> string" where
  "service_line p =
     (case p of (name, svc) \<Rightarrow>
        let status = (if siActive svc then u_dot @ '' active'' else u_cross @ '' inactive'')
        in ''  '' @ pad 14 name @ '' '' @ status @
           (if 0 < siPID svc then ''  pid='' @ itoa (siPID svc) else []))"

definition endpoint_line :: "string \<times> int \<Rightarrow> string" where
  "endpoint_line p =
     (case p of (url, code) \<Rightarrow>
        ''  '' @ (if code \<noteq> 200 then u_cross else u_check) @ '' '' @ pad 36 url @ '' '' @ itoa code)"

definition renderStatus :: "renderer \<Rightarrow> status_result \<Rightarrow> string" where
  "renderStatus r v = lines_text (
     [''Lab Environment Status'', sep_line] @
     (if stUnknown v then [''State:  UNKNOWN (classification failed '' @ u_emdash @ '' run lab validate)'']
      else
       [''State:         '' @ stState v,
        (case stActiveFault v of
           Some f \<Rightarrow> ''Active fault:  '' @ frID f @ '' (applied '' @ humanTime r (frAppliedAt f) @ '')''
         | None \<Rightarrow> ''Active fault:  none'')] @
       (case stLastValidate v of None \<Rightarrow> []
        | Some l \<Rightarrow> [''Last validate: '' @ rfc3339 (vsAt l) @ '' ('' @ itoa (vsPassed l) @ ''/'' @ itoa (vsTotal l) @ '')'']) @
       (case stLastReset v of None \<Rightarrow> [] | Some l \<Rightarrow> [''Last reset:    '' @ rfc3339 (rsAt l) @ '' ('' @ rsTier l @ '')'']) @
       [[], ''Services''] @ map service_line (rnServices r (stServices v)) @
       [[], ''Ports''] @ map (\<lambda>p. ''  '' @ pad 22 (piAddr p) @ '' '' @ piOwner p) (stPorts v) @
       [[], ''Endpoints''] @ map endpoint_line (rnEndpoints r (stEndpoints v)) @
       [sep_line]))"

definition formatCheckLine :: "check_result_item \<Rightarrow> string" where
  "formatCheckLine c =
     (if ciPassed c then ''  [PASS] '' @ pad 6 (ciID c) @ '' '' @ ciAssertion c
      else if ciDependent c then ''  [SKIP] '' @ pad 6 (ciID c) @ '' '' @ ciAssertion c @ '' (dependent)''
      else ''  [FAIL] '' @ pad 6 (ciID c) @ '' '' @ ciAssertion c @ '' '' @ u_emdash @ '' '' @ ciError c)"

definition renderValidate :: "validate_result \<Rightarrow> string" where
  "renderValidate v = lines_text (
     [''Running conformance suite ('' @ itoa (vlTotal v) @ '' checks)...'', []] @
     map formatCheckLine (vlChecks v) @
     [[], vlClassification v @ ''  '' @ itoa (vlPassed v) @ ''/'' @ itoa (vlTotal v) @ '' checks passed''])"

definition fault_row :: "string \<Rightarrow> string \<Rightarrow> string \<Rightarrow> string \<Rightarrow> string" where
  "fault_row a b c d = pad 6 a @ '' '' @ pad 13 b @ '' '' @ pad 20 c @ '' '' @ d"

definition renderFaultList :: "fault_list_result \<Rightarrow> string" where
  "renderFaultList v = lines_text (
     [''Fault Catalog  ('' @ itoa (flTotal v) @ '' faults)'', rule_line,
      fault_row ''ID'' ''Layer'' ''Domain'' ''Symptom'', rule_line] @
     map (\<lambda>f. fault_row (fsID f) (fsLayer f) (str_join '', '' (fsDomain f)) (fsSymptom f)) (flFaults v) @
     [rule_line, ''Apply a fault:   lab fault apply <ID>'', ''Fault details:   lab fault info <ID>''])"

definition renderFaultInfo :: "fault_info_result \<Rightarrow> string" where
  "renderFaultInfo v = lines_text
     [''Fault '' @ fnID v @ '' '' @ u_emdash @ '' '' @ fnSymptom v,
      rule_line,
      ''Layer:      '' @ fnLayer v,
      ''Domain:     '' @ str_join '', '' (fnDomain v),
      ''Reset tier: '' @ fnResetTier v, [],
      ''Mutation:'', ''  '' @ fnMutationDisplay v, [],
      ''Symptom:'', ''  '' @ fnSymptom v, [],
      ''Authoritative signal:'', ''  '' @ fnAuthoritativeSignal v, [],
      ''Observable:'', ''  '' @ fnObservable v, [],
      ''Reset action:'', ''  '' @ fnResetAction v, [],
      ''Confirmation required: '' @ bool_text (fnRequiresConfirmation v),
      ''Reversible:           '' @ bool_text (fnIsReversible v)]"

definition renderFaultApply :: "fault_apply_result \<Rightarrow> string" where
  "renderFaultApply v =
     (if faAborted v then line (''Aborted: '' @ faAbortReason v)
      else if \<not> faApplied v then []
      else lines_text
        [''State: '' @ faFromState v @ '' '' @ u_rarrow @ '' '' @ faToState v,
         ''Active fault: '' @ faFaultID v, [], ''Reset when done:  lab reset''])"

definition renderReset :: "reset_result \<Rightarrow> string" where
  "renderReset v = lines_text (
     [''Resetting environment (tier '' @ reTier v @ '')...'', []] @
     (if reFaultCleared v \<noteq> [] then [''  Fault cleared: '' @ reFaultCleared v] else []) @
     (case reSuite v of None \<Rightarrow> []
      | Some s \<Rightarrow> [''  ['' @ itoa (sPassed s) @ ''/'' @ itoa (sTotal s) @ ''] conformance suite'', []]) @
     [''State: '' @ reFromState v @ '' '' @ u_rarrow @ '' '' @ reToState v] @
     (if reFaultCleared v \<noteq> [] then [''Active fault: none''] else []) @
     [''Reset duration: '' @ itoa (reDurationMs v) @ ''ms''])"

definition history_row :: "string \<Rightarrow> string \<Rightarrow> string \<Rightarrow> string \<Rightarrow> string" where
  "history_row a b c d = pad 21 a @ '' '' @ pad 15 b @ '' '' @ pad 15 c @ '' '' @ d"

definition renderHistory :: "history_result \<Rightarrow> string" where
  "renderHistory v = lines_text (
     [''State Transition History (last '' @ itoa (int (length (hrEntries v))) @ '')'', rule_line,
      history_row ''Timestamp'' ''From'' ''To'' ''Command'', rule_line] @
     map (\<lambda>e. history_row (rfc3339 (hiTs e)) (hiFrom e) (hiTo e) (hiCommand e)) (hrEntries v) @ [rule_line])"

subsection \<open>JSON\<close>

text \<open>Struct fields in their order; a field marked \<open>omitempty\<close> is left out when it is zero.\<close>

definition unless_zero :: "bool \<Rightarrow> string \<Rightarrow> json \<Rightarrow> (string \<times> json) list" where
  "unless_zero z k v = (if z then [] else [(k, v)])"

definition jint :: "int \<Rightarrow> json" where
  "jint i = JNum (itoa i)"

text \<open>A nil slice is \<open>null\<close>; a slice the program built with no element is nil.\<close>

definition jslice :: "json list \<Rightarrow> json" where
  "jslice xs = (if xs = [] then JNull else JArr xs)"

definition jptr :: "('a \<Rightarrow> json) \<Rightarrow> 'a option \<Rightarrow> json" where
  "jptr f p = (case p of None \<Rightarrow> JNull | Some x \<Rightarrow> f x)"

text \<open>A map is written with its keys sorted.\<close>

definition jmap :: "('a \<Rightarrow> json) \<Rightarrow> (string \<times> 'a) list \<Rightarrow> json" where
  "jmap f m = JObj (sort_key fst (map (\<lambda>(k, v). (k, f v)) m))"

definition enc_fault_ref :: "fault_ref \<Rightarrow> json" where
  "enc_fault_ref f = JObj [(''id'', JStr (frID f)), (''applied_at'', JStr (frAppliedAt f))]"

definition enc_svc :: "svc_info \<Rightarrow> json" where
  "enc_svc v = JObj ([(''active'', JBool (siActive v))] @ unless_zero (siPID v = 0) ''pid'' (jint (siPID v)))"

definition enc_port :: "port_info \<Rightarrow> json" where
  "enc_port p = JObj [(''addr'', JStr (piAddr p)), (''owner'', JStr (piOwner p))]"

definition enc_validate_summary :: "validate_summary \<Rightarrow> json" where
  "enc_validate_summary v = JObj [(''at'', JStr (vsAt v)), (''passed'', jint (vsPassed v)), (''total'', jint (vsTotal v))]"

definition enc_reset_summary :: "reset_summary \<Rightarrow> json" where
  "enc_reset_summary v = JObj [(''at'', JStr (rsAt v)), (''tier'', JStr (rsTier v))]"

definition enc_status :: "status_result \<Rightarrow> json" where
  "enc_status v = JObj (
     [(''state'', JStr (stState v)),
      (''active_fault'', jptr enc_fault_ref (stActiveFault v)),
      (''services'', if stUnknown v then JNull else jmap enc_svc (stServices v)),
      (''ports'', jslice (map enc_port (stPorts v))),
      (''endpoints'', if stUnknown v then JNull else jmap jint (stEndpoints v)),
      (''last_validate'', jptr enc_validate_summary (stLastValidate v)),
      (''last_reset'', jptr enc_reset_summary (stLastReset v))] @
     unless_zero (\<not> stReconciled v) ''reconciled'' (JBool (stReconciled v)) @
     unless_zero (\<not> stUnknown v) ''unknown'' (JBool (stUnknown v)) @
     [(''classification_valid'', JBool (stClassificationValid v))])"

definition enc_check_item :: "check_result_item \<Rightarrow> json" where
  "enc_check_item c = JObj (
     [(''id'', JStr (ciID c)), (''assertion'', JStr (ciAssertion c)), (''passed'', JBool (ciPassed c)),
      (''severity'', JStr (ciSeverity c))] @
     unless_zero (\<not> ciDependent c) ''dependent'' (JBool (ciDependent c)) @
     unless_zero (ciError c = []) ''error'' (JStr (ciError c)))"

definition enc_validate_result :: "validate_result \<Rightarrow> json" where
  "enc_validate_result v = JObj (
     [(''at'', JStr (vlAt v)), (''checks'', jslice (map enc_check_item (vlChecks v))),
      (''passed'', jint (vlPassed v)), (''total'', jint (vlTotal v)),
      (''classification'', JStr (vlClassification v))] @
     unless_zero (vlFailingChecks v = []) ''failing_checks'' (JArr (map JStr (vlFailingChecks v))))"

definition enc_fault_summary :: "fault_summary \<Rightarrow> json" where
  "enc_fault_summary f = JObj [(''id'', JStr (fsID f)), (''layer'', JStr (fsLayer f)),
     (''domain'', jslice (map JStr (fsDomain f))), (''symptom'', JStr (fsSymptom f))]"

definition enc_fault_list :: "fault_list_result \<Rightarrow> json" where
  "enc_fault_list v = JObj [(''faults'', jslice (map enc_fault_summary (flFaults v))), (''total'', jint (flTotal v))]"

definition enc_fault_info :: "fault_info_result \<Rightarrow> json" where
  "enc_fault_info v = JObj
     [(''id'', JStr (fnID v)), (''layer'', JStr (fnLayer v)), (''domain'', jslice (map JStr (fnDomain v))),
      (''reset_tier'', JStr (fnResetTier v)), (''requires_confirmation'', JBool (fnRequiresConfirmation v)),
      (''is_reversible'', JBool (fnIsReversible v)), (''mutation'', JStr (fnMutationDisplay v)),
      (''symptom'', JStr (fnSymptom v)), (''authoritative_signal'', JStr (fnAuthoritativeSignal v)),
      (''observable'', JStr (fnObservable v)), (''reset_action'', JStr (fnResetAction v))]"

definition enc_fault_apply :: "fault_apply_result \<Rightarrow> json" where
  "enc_fault_apply v = JObj (
     [(''fault_id'', JStr (faFaultID v)), (''applied'', JBool (faApplied v)),
      (''from_state'', JStr (faFromState v)), (''to_state'', JStr (faToState v))] @
     unless_zero (\<not> faForced v) ''forced'' (JBool (faForced v)) @
     unless_zero (\<not> faAborted v) ''aborted'' (JBool (faAborted v)) @
     unless_zero (faAbortReason v = []) ''abort_reason'' (JStr (faAbortReason v)))"

fun classification_number :: "classification \<Rightarrow> int" where
  "classification_number ClassConformant = 0"
| "classification_number ClassDegradedConformant = 1"
| "classification_number ClassNonConformant = 2"

text \<open>
  A suite result holds its checks and so their \<open>Execute\<close> functions, which JSON cannot hold: with
  one result or more the encoder gives up.
\<close>

definition unsupported_func :: go_error where
  "unsupported_func = Errorf ''json: unsupported type: func(conformance.Observer) error''"

definition enc_suite :: "suite_result \<Rightarrow> json result" where
  "enc_suite s =
     (if sResults s \<noteq> [] then Inl unsupported_func
      else Inr (JObj [(''At'', JStr (sAt s)), (''Results'', JNull),
        (''Classification'', jint (classification_number (sClassification s))),
        (''Passed'', jint (sPassed s)), (''Total'', jint (sTotal s)),
        (''FailingBlockingIDs'', jslice (map JStr (sFailingBlockingIDs s))),
        (''FailingDegradedIDs'', jslice (map JStr (sFailingDegradedIDs s)))]))"

definition enc_reset_result :: "reset_result \<Rightarrow> json result" where
  "enc_reset_result v =
     (let fields = (\<lambda>suite. JObj (
        [(''tier'', JStr (reTier v)), (''from_state'', JStr (reFromState v)), (''to_state'', JStr (reToState v))] @
        unless_zero (reFaultCleared v = []) ''fault_cleared'' (JStr (reFaultCleared v)) @
        [(''validation_ran'', JBool (reValidationRan v))] @ suite @
        [(''duration_ms'', jint (reDurationMs v))]))
      in case reSuite v of
           None \<Rightarrow> Inr (fields [])
         | Some s \<Rightarrow> (case enc_suite s of Inl e \<Rightarrow> Inl e | Inr j \<Rightarrow> Inr (fields [(''suite'', j)])))"

definition enc_provision_result :: "provision_result \<Rightarrow> json" where
  "enc_provision_result v = JObj [(''ToState'', JStr (poToState v)),
     (''Validation'', jptr enc_validate_summary (poValidation v)), (''DurationMs'', jint (poDurationMs v))]"

definition enc_history_item :: "history_item \<Rightarrow> json" where
  "enc_history_item e = JObj (
     [(''ts'', JStr (hiTs e)), (''from'', JStr (hiFrom e)), (''to'', JStr (hiTo e)), (''command'', JStr (hiCommand e))] @
     unless_zero (hiFault e = []) ''fault'' (JStr (hiFault e)) @
     unless_zero (\<not> hiForced e) ''forced'' (JBool (hiForced e)))"

definition enc_history_result :: "history_result \<Rightarrow> json" where
  "enc_history_result v = JObj [(''entries'', jslice (map enc_history_item (hrEntries v))), (''total'', jint (hrTotal v))]"

fun enc_value :: "result_value \<Rightarrow> json result" where
  "enc_value (VStatus v) = Inr (enc_status v)"
| "enc_value (VValidate v) = Inr (enc_validate_result v)"
| "enc_value (VFaultList v) = Inr (enc_fault_list v)"
| "enc_value (VFaultInfo v) = Inr (enc_fault_info v)"
| "enc_value (VFaultApply v) = Inr (enc_fault_apply v)"
| "enc_value (VReset v) = enc_reset_result v"
| "enc_value (VProvision v) = Inr (enc_provision_result v)"
| "enc_value (VHistory v) = Inr (enc_history_result v)"

subsection \<open>Rendering\<close>

definition renderJSON :: "result_value \<Rightarrow> ('x world, unit) state" where
  "renderJSON v =
     (case enc_value v of
        Inl err \<Rightarrow> eprint (''error encoding JSON output: '' @ error_text err @ [nl])
      | Inr j \<Rightarrow> oprint (json_marshal_indent j @ [nl]))"

fun renderHuman :: "renderer \<Rightarrow> result_value \<Rightarrow> ('x world, unit) state" where
  "renderHuman r (VStatus v) = oprint (renderStatus r v)"
| "renderHuman r (VValidate v) = oprint (renderValidate v)"
| "renderHuman r (VFaultList v) = oprint (renderFaultList v)"
| "renderHuman r (VFaultInfo v) = oprint (renderFaultInfo v)"
| "renderHuman r (VFaultApply v) = oprint (renderFaultApply v)"
| "renderHuman r (VReset v) = oprint (renderReset v)"
| "renderHuman r (VHistory v) = oprint (renderHistory v)"
| "renderHuman r (VProvision v) = renderJSON (VProvision v)"

definition Render :: "renderer \<Rightarrow> result_value \<Rightarrow> ('x world, unit) state" where
  "Render r v =
     (if rnQuiet r then ret ()
      else (case rnFormat r of FormatJSON \<Rightarrow> renderJSON v | FormatHuman \<Rightarrow> renderHuman r v))"

text \<open>\<open>Errorf\<close> of the renderer: to standard error, in every format, quiet or not.\<close>

definition render_error :: "go_error \<Rightarrow> ('x world, unit) state" where
  "render_error e = eprint (error_text e @ [nl])"

subsection \<open>Lemmas\<close>

lemma keeps_Render:
  assumes "\<And>s. keeps I (oprint s)" and "\<And>s. keeps I (eprint s)"
  shows "keeps I (Render r v)"
  unfolding Render_def renderJSON_def using assms
  by (cases v) (auto intro!: keeps_rules simp: renderJSON_def split: output_format.splits sum.splits)

lemma elems_ok_iff: "elems_ok xs \<longleftrightarrow> list_all json_ok xs"
  by (induction xs) auto

lemma members_ok_iff: "members_ok kvs \<longleftrightarrow> list_all (\<lambda>kv. json_ok (snd kv)) kvs"
  by (induction kvs) auto

lemma json_ok_parts [simp]:
  "json_ok (jint i)" "json_ok (jslice xs) \<longleftrightarrow> list_all json_ok xs"
  "(\<And>x. json_ok (f x)) \<Longrightarrow> json_ok (jptr f p)"
  "list_all (\<lambda>kv. json_ok (snd kv)) (unless_zero z k v) \<longleftrightarrow> z \<or> json_ok v"
  "(\<And>x. json_ok (f x)) \<Longrightarrow> json_ok (jmap f m)"
  by (auto simp: jint_def jslice_def jptr_def unless_zero_def jmap_def valid_num_itoa elems_ok_iff members_ok_iff
      list_all_iff split: option.splits)

lemmas enc_defs = enc_fault_ref_def enc_svc_def enc_port_def enc_validate_summary_def enc_reset_summary_def
  enc_status_def enc_check_item_def enc_validate_result_def enc_fault_summary_def enc_fault_list_def
  enc_fault_info_def enc_fault_apply_def enc_provision_result_def enc_history_item_def enc_history_result_def

lemma list_all_all [simp]: "(\<And>x. P x) \<Longrightarrow> list_all P xs"
  by (simp add: list_all_iff)

lemmas ok_simps = members_ok_iff elems_ok_iff list.pred_map comp_def

lemma enc_suite_ok: "enc_suite s = Inr j \<Longrightarrow> json_ok j"
  by (auto simp: enc_suite_def ok_simps split: if_splits)

lemma enc_reset_ok: "enc_reset_result v = Inr j \<Longrightarrow> json_ok j"
  by (auto simp: enc_reset_result_def Let_def ok_simps dest!: enc_suite_ok split: option.splits sum.splits)

lemma enc_value_ok: "enc_value v = Inr j \<Longrightarrow> json_ok j"
  by (cases v) (auto simp: enc_defs ok_simps dest: enc_reset_ok)

subsection \<open>Properties\<close>

text \<open>
  C34: what \<open>--json\<close> prints is the JSON of the result, and parsing it gives that JSON back: one
  complete value on standard output; when the value cannot be encoded nothing goes to
  standard output, one message to standard error; with \<open>--quiet\<close> nothing is printed at all.
\<close>

theorem Render_json_parses:
  fixes w :: "'x world"
  shows "let w' = snd (run (Render r v) w) in
     (if rnQuiet r then w' = w
      else if rnFormat r = FormatJSON then
        (case enc_value v of
           Inl err \<Rightarrow> stdout w' = stdout w \<and> (\<exists>s. stderr w' = stderr w @ [s])
         | Inr j \<Rightarrow> stderr w' = stderr w \<and> (\<exists>s. stdout w' = stdout w @ [s @ [nl]] \<and> parse_json s = Some j))
      else True)"
  using parse_marshal_indent [OF enc_value_ok]
  by (auto simp: Render_def renderJSON_def oprint_def eprint_def split: sum.splits)

end
