(* ===== verification/App.thy ===== *)
theory App
  imports CmdFault CmdProvision CmdStatus CmdValidate RealExec Render
begin

text \<open>
  The composition root, \<^verbatim>\<open>app.go\<close>: flag parsing, dispatch, rendering and the exit code, and
  what the interrupt handler does when its grace period is over. \<^verbatim>\<open>main.go\<close> passes the
  arguments and exits with the code.
\<close>

subsection \<open>Flags\<close>

record global_flags =
  gfJson :: bool
  gfQuiet :: bool
  gfVerbose :: bool
  gfYes :: bool

definition no_flags :: global_flags where
  "no_flags = \<lparr>gfJson = False, gfQuiet = False, gfVerbose = False, gfYes = False\<rparr>"

fun scan_globals :: "global_flags \<Rightarrow> string list \<Rightarrow> string list \<Rightarrow> global_flags \<times> string list" where
  "scan_globals f rest [] = (f, rest)"
| "scan_globals f rest (arg # args) =
     (if arg = ''--json'' then scan_globals (f\<lparr>gfJson := True\<rparr>) rest args
      else if arg = ''--quiet'' then scan_globals (f\<lparr>gfQuiet := True\<rparr>) rest args
      else if arg = ''--verbose'' then scan_globals (f\<lparr>gfVerbose := True\<rparr>) rest args
      else if arg = ''--yes'' then scan_globals (f\<lparr>gfYes := True\<rparr>) rest args
      else scan_globals f (rest @ [arg]) args)"

definition parseGlobalFlags :: "string list \<Rightarrow> (global_flags \<times> string list) result" where
  "parseGlobalFlags args =
     (case scan_globals no_flags [] args of (flags, remaining) \<Rightarrow>
        if gfJson flags \<and> gfQuiet flags then Inl (Errorf ''--json and --quiet are mutually exclusive'')
        else if gfVerbose flags \<and> gfQuiet flags then Inl (Errorf ''--verbose and --quiet are mutually exclusive'')
        else Inr (flags, remaining))"

record fault_apply_flags =
  ffForce :: bool
  ffYes :: bool

definition fault_flag :: "string \<times> fault_apply_flags \<Rightarrow> string \<Rightarrow> string \<times> fault_apply_flags" where
  "fault_flag acc arg =
     (case acc of (i, flags) \<Rightarrow>
        if arg = ''--force'' then (i, flags\<lparr>ffForce := True\<rparr>)
        else if arg = ''--yes'' then (i, flags\<lparr>ffYes := True\<rparr>)
        else if i = [] \<and> (case arg of c # _ \<Rightarrow> c \<noteq> CHR ''-'' | [] \<Rightarrow> False) then (arg, flags)
        else (i, flags))"

definition parseFaultApplyFlags :: "string list \<Rightarrow> string \<times> fault_apply_flags" where
  "parseFaultApplyFlags args = foldl fault_flag ([], \<lparr>ffForce = False, ffYes = False\<rparr>) args"

definition joinArgs :: "string list \<Rightarrow> string" where
  "joinArgs args =
     fst (foldl (\<lambda>(result, i) a. (result @ (if 0 < i then '' '' else []) @ a, Suc i)) ([], 0 :: nat) args)"

text \<open>The value of an option: of its last occurrence that something follows.\<close>

fun option_value :: "string \<Rightarrow> string option \<Rightarrow> string list \<Rightarrow> string option" where
  "option_value name v (arg # next # rest) =
     option_value name (if arg = name then Some next else v) (next # rest)"
| "option_value name v _ = v"

text \<open>
  \<open>fmt.Sscanf(s, "%d", &last)\<close>: blanks, a sign, digits; what follows is not read. On no digit, or
  a number that does not fit, the variable keeps its value.
\<close>

definition scan_int :: "string \<Rightarrow> int option" where
  "scan_int s =
     (let t = dropWhile (\<lambda>c. c = CHR '' '' \<or> c = CHR 0x09 \<or> c = CHR 0x0B \<or> c = CHR 0x0C) s;
          (sgn_text, ds) = (case t of c # r \<Rightarrow> if c = CHR ''-'' \<or> c = CHR ''+'' then ([c], r) else ([], t) | [] \<Rightarrow> ([], []))
      in atoi (sgn_text @ takeWhile is_digit ds))"

fun last_value :: "int \<Rightarrow> string list \<Rightarrow> int" where
  "last_value v (arg # next # rest) =
     last_value (if arg = ''--last'' then (case scan_int next of Some n \<Rightarrow> n | None \<Rightarrow> v) else v) (next # rest)"
| "last_value v _ = v"

subsection \<open>Dispatch\<close>

text \<open>
  What the process is started with: the machine outside, the stack room of the lock, and the
  clock and map order its renderer sees.
\<close>

record 'x process =
  pcOutside :: "'x world outside"
  pcFrames :: nat
  pcSince :: "time \<Rightarrow> int"
  pcServices :: "(string \<times> svc_info) list \<Rightarrow> (string \<times> svc_info) list"
  pcEndpoints :: "(string \<times> int) list \<Rightarrow> (string \<times> int) list"

definition app_audit :: "string list \<Rightarrow> audit_logger" where
  "app_audit remaining = NewAuditLogger (''lab '' @ joinArgs remaining)"

definition app_deps :: "'x process \<Rightarrow> string list \<Rightarrow> 'x deps" where
  "app_deps p remaining = \<lparr>dObs = Real_observer (pcOutside p), dChecks = NewRunner,
     dExec = Real_executor (pcOutside p) (NewExecutor (app_audit remaining)), dStore = StatePath,
     dAudit = Some (app_audit remaining), dFrames = pcFrames p\<rparr>"

definition app_renderer :: "'x process \<Rightarrow> global_flags \<Rightarrow> renderer" where
  "app_renderer p flags = \<lparr>rnFormat = (if gfJson flags then FormatJSON else FormatHuman), rnQuiet = gfQuiet flags,
     rnSince = pcSince p, rnServices = pcServices p, rnEndpoints = pcEndpoints p\<rparr>"

definition usage_error :: "int \<Rightarrow> string \<Rightarrow> command_result" where
  "usage_error code msg = failure code (Errorf msg)"

definition dispatchFault ::
  "'x deps \<Rightarrow> global_flags \<Rightarrow> string list \<Rightarrow> ('x world, command_result outcome) state" where
  "dispatchFault d flags args =
     (case args of
        [] \<Rightarrow> ret (Returns (usage_error 2 ''usage: lab fault [list|info|apply]''))
      | sub # subArgs \<Rightarrow>
          if sub = ''list'' then ret (Returns FaultListCmd_Run)
          else if sub = ''info'' then
            (case subArgs of
               [] \<Rightarrow> ret (Returns (usage_error 2 ''usage: lab fault info <ID>''))
             | i # _ \<Rightarrow> ret (Returns (FaultInfoCmd_Run i)))
          else if sub = ''apply'' then
            (if subArgs = [] then ret (Returns (usage_error 2 ''usage: lab fault apply <ID> [--force] [--yes]''))
             else (case parseFaultApplyFlags subArgs of (i, ff) \<Rightarrow>
               FaultApplyCmd_Run d i (ffForce ff) (ffYes ff \<or> gfYes flags)))
          else ret (Returns (usage_error 2 (''unknown fault subcommand '' @ quoted sub @ '': use list, info, or apply''))))"

definition dispatchReset :: "'x deps \<Rightarrow> string list \<Rightarrow> ('x world, command_result outcome) state" where
  "dispatchReset d args =
     ResetCmd_Run d (case option_value ''--tier'' None args of None \<Rightarrow> [] | Some t \<Rightarrow> t)"

definition dispatchProvision :: "'x deps \<Rightarrow> string list \<Rightarrow> ('x world, command_result outcome) state" where
  "dispatchProvision d args = ProvisionCmd_Run d"

definition dispatchHistory :: "'x deps \<Rightarrow> string list \<Rightarrow> ('x world, command_result outcome) state" where
  "dispatchHistory d args = do { r \<leftarrow> HistoryCmd_Run (dStore d) (last_value 20 args); ret (Returns r) }"

definition dispatchValidate :: "'x deps \<Rightarrow> string list \<Rightarrow> ('x world, command_result outcome) state" where
  "dispatchValidate d subArgs =
     (case subArgs of
        a # i # _ \<Rightarrow> if a = ''--check'' then do { r \<leftarrow> ValidateCmd_RunSingle d i; ret (Returns r) }
          else do { r \<leftarrow> ValidateCmd_Run d; ret (Returns r) }
      | _ \<Rightarrow> do { r \<leftarrow> ValidateCmd_Run d; ret (Returns r) })"

text \<open>The command a line stands for; \<open>None\<close> when the line is refused before any command runs.\<close>

definition dispatch ::
  "'x deps \<Rightarrow> global_flags \<Rightarrow> string \<Rightarrow> string list \<Rightarrow> ('x world, command_result outcome) state option" where
  "dispatch d flags command subArgs =
     (if command = ''status'' then Some (StatusCmd_Run d)
      else if command = ''validate'' then Some (dispatchValidate d subArgs)
      else if command = ''fault'' then (if subArgs = [] then None else Some (dispatchFault d flags subArgs))
      else if command = ''reset'' then Some (dispatchReset d subArgs)
      else if command = ''provision'' then Some (dispatchProvision d subArgs)
      else if command = ''history'' then Some (dispatchHistory d subArgs)
      else None)"

definition refusal :: "string \<Rightarrow> string list \<Rightarrow> ('x world, unit) state" where
  "refusal command subArgs =
     (if command = ''fault'' then
        eprint (''error: '' @ [CHR 0x27] @ ''lab fault'' @ [CHR 0x27] @ '' requires a subcommand: list, info, apply'' @ [nl])
      else do {
        _ \<leftarrow> eprint (''error: unknown command '' @ quoted command @ [nl]);
        eprint (''Run '' @ [CHR 0x27] @ ''lab --help'' @ [CHR 0x27] @ '' for usage.'' @ [nl])
      })"

definition usage_text :: string where
  "usage_text = lines_text
    [''lab '' @ u_emdash @ '' Lab Environment Control Plane'', [],
     ''Usage:'', ''  lab <command> [flags]'', [],
     ''Commands:'',
     ''  status                    Show current environment state'',
     ''  validate [--check <ID>]   Run conformance suite (observation only)'',
     ''  fault list                List all faults in the catalog'',
     ''  fault info <ID>           Show full fault entry'',
     ''  fault apply <ID>          Apply a fault (CONFORMANT '' @ u_rarrow @ '' DEGRADED)'',
     ''  reset [--tier R1|R2|R3]   Reset environment to CONFORMANT'',
     ''  provision                 Provision or re-provision the environment'',
     ''  history [--last N]        Show state transition history'', [],
     ''Global flags:'',
     ''  --json      Emit JSON output'',
     ''  --quiet     Suppress all non-error output'',
     ''  --verbose   Emit executor operation trace'',
     ''  --yes       Suppress confirmation prompts'', [],
     ''Run '' @ [CHR 0x27] @ ''lab fault list'' @ [CHR 0x27] @ '' to see available faults.'',
     ''Run '' @ [CHR 0x27] @ ''lab fault info <ID>'' @ [CHR 0x27] @ '' for fault details.'']"

definition printUsage :: "('x world, unit) state" where
  "printUsage = oprint usage_text"

definition show_result :: "renderer \<Rightarrow> command_result \<Rightarrow> ('x world, unit) state" where
  "show_result rn r =
     (case crErr r of
        Some err \<Rightarrow> render_error err
      | None \<Rightarrow> (case crValue r of Some v \<Rightarrow> Render rn v | None \<Rightarrow> ret ()))"

definition App_Run :: "'x process \<Rightarrow> string list \<Rightarrow> ('x world, int outcome) state" where
  "App_Run p args =
     (case parseGlobalFlags args of
        Inl err \<Rightarrow> do {
          _ \<leftarrow> eprint (''error: '' @ error_text err @ [nl]);
          _ \<leftarrow> eprint (''Run '' @ [CHR 0x27] @ ''lab --help'' @ [CHR 0x27] @ '' for usage.'' @ [nl]);
          ret (Returns 2)
        }
      | Inr (flags, remaining) \<Rightarrow>
          (case remaining of
             [] \<Rightarrow> do { _ \<leftarrow> printUsage; ret (Returns 0) }
           | command # subArgs \<Rightarrow>
               if command = ''--help'' \<or> command = ''-h'' then do { _ \<leftarrow> printUsage; ret (Returns 0) }
               else (case dispatch (app_deps p remaining) flags command subArgs of
                   None \<Rightarrow> do { _ \<leftarrow> refusal command subArgs; ret (Returns 2) }
                 | Some m \<Rightarrow> do {
                     r \<leftarrow> m;
                     (case r of
                        Panics s \<Rightarrow> ret (Panics s)
                      | Returns res \<Rightarrow> do {
                          _ \<leftarrow> show_result (app_renderer p flags) res;
                          ret (Returns (crExitCode res))
                        })
                   })))"

text \<open>
  The process, \<^verbatim>\<open>main.go\<close>: \<open>os.Args[1:]\<close> panics when there is not even a program name; the code that
  \<open>Run\<close> returns is the one the process exits with.
\<close>

definition lab_main :: "'x process \<Rightarrow> string list \<Rightarrow> ('x world, int outcome) state" where
  "lab_main p os_args =
     (case os_args of
        [] \<Rightarrow> ret (Panics ''runtime error: slice bounds out of range [1:0]'')
      | _ # args \<Rightarrow> App_Run p args)"

text \<open>
  The end of the interrupt handler, 30 seconds after the signal, unless the process ended
  before: it runs beside the command, without the lock, and exits with code 4.
\<close>

definition interrupt_handler :: "string list \<Rightarrow> ('x world, int) state" where
  "interrupt_handler remaining = do {
     _ \<leftarrow> Store_InvalidateClassification StatePath;
     _ \<leftarrow> LogInterrupt (app_audit remaining) ''Systemctl'' False;
     ret 4
   }"

end
