(* ===== verification/AppProps.thy ===== *)
theory AppProps
  imports App
begin

text \<open>
  The command line (\<^verbatim>\<open>app.go\<close>): what the flags parse to, and the contract between a result, its
  exit code and what is shown.
\<close>

subsection \<open>Results of a block\<close>

definition gives :: "('a \<Rightarrow> bool) \<Rightarrow> ('w, 'a) state \<Rightarrow> bool" where
  "gives P m \<longleftrightarrow> (\<forall>w. P (fst (run m w)))"

named_theorems gives_rules \<open>rules that reduce a statement on the result of a block to its last statements\<close>

lemma gives_run: "gives P m \<Longrightarrow> run m w = (a, w') \<Longrightarrow> P a"
  unfolding gives_def by (metis fst_conv)

lemma gives_bind [gives_rules]: "(\<And>a. gives P (f a)) \<Longrightarrow> gives P (m \<bind> f)"
  by (simp add: gives_def case_prod_beta)

lemma gives_ret [gives_rules]: "P a \<Longrightarrow> gives P (ret a)"
  by (simp add: gives_def)

lemma gives_if [gives_rules]: "(b \<Longrightarrow> gives P m) \<Longrightarrow> (\<not> b \<Longrightarrow> gives P n) \<Longrightarrow> gives P (if b then m else n)"
  by simp

lemma gives_option [gives_rules]:
  "(v = None \<Longrightarrow> gives P m) \<Longrightarrow> (\<And>x. v = Some x \<Longrightarrow> gives P (f x)) \<Longrightarrow> gives P (case v of None \<Rightarrow> m | Some x \<Rightarrow> f x)"
  by (cases v) simp_all

lemma gives_sum [gives_rules]:
  "(\<And>x. v = Inl x \<Longrightarrow> gives P (f x)) \<Longrightarrow> (\<And>y. v = Inr y \<Longrightarrow> gives P (g y)) \<Longrightarrow> gives P (case v of Inl x \<Rightarrow> f x | Inr y \<Rightarrow> g y)"
  by (cases v) simp_all

lemma gives_outcome [gives_rules]:
  "(\<And>x. v = Returns x \<Longrightarrow> gives P (f x)) \<Longrightarrow> (\<And>s. v = Panics s \<Longrightarrow> gives P (g s)) \<Longrightarrow>
     gives P (case v of Returns x \<Rightarrow> f x | Panics s \<Rightarrow> g s)"
  by (cases v) simp_all

lemma gives_prod [gives_rules]: "(\<And>x y. gives P (f x y)) \<Longrightarrow> gives P (case v of (x, y) \<Rightarrow> f x y)"
  by (cases v) simp

lemma gives_let [gives_rules]: "gives P (f v) \<Longrightarrow> gives P (Let v f)"
  by (simp add: Let_def)

lemma gives_under_lock [gives_rules]:
  assumes "\<And>s. P (Panics s)" and "\<And>e. gives P (refuse e)" and "gives P body"
  shows "gives P (under_lock n refuse body)"
proof -
  have "P (fst (run body w))" for w using assms(3) by (simp add: gives_def)
  moreover have "P (fst (run (refuse e) w))" for e w using assms(2) by (simp add: gives_def)
  ultimately show ?thesis
    using assms(1) unfolding gives_def under_lock_def
    by (auto simp: case_prod_beta split: outcome.splits option.splits)
qed

text \<open>The contract of a command result (\<^verbatim>\<open>CommandResult\<close> in \<^verbatim>\<open>internal/output/model.go\<close>).\<close>

definition well_coded :: "command_result \<Rightarrow> bool" where
  "well_coded r \<longleftrightarrow> 0 \<le> crExitCode r \<and> crExitCode r \<le> 5 \<and>
     (crErr r \<noteq> None \<longrightarrow> crExitCode r \<noteq> 0) \<and> (crErr r = None \<longrightarrow> crValue r \<noteq> None)"

fun well_coded_outcome :: "command_result outcome \<Rightarrow> bool" where
  "well_coded_outcome (Returns r) = well_coded r"
| "well_coded_outcome (Panics s) = True"

lemma well_coded_simps [simp]:
  "well_coded (success v)" "well_coded (failure c e) \<longleftrightarrow> 1 \<le> c \<and> c \<le> 5"
  "well_coded (usage_error c m) \<longleftrightarrow> 1 \<le> c \<and> c \<le> 5"
  "well_coded \<lparr>crValue = Some v, crExitCode = ExitCode s, crErr = None\<rparr>"
  "well_coded (reset_result_of t f sr ms)" "well_coded (provision_result_of sr ms)"
  "well_coded \<lparr>crValue = Some v, crExitCode = 5, crErr = None\<rparr>"
  by (auto simp: well_coded_def usage_error_def ExitCode_def reset_result_of_def provision_result_of_def Let_def)

lemma pre_checks_coded: "run (precondition_checks d i cs) w = (Returns (Some r), w') \<Longrightarrow> well_coded r"
  by (induction cs arbitrary: w) (auto split: option.splits outcome.splits prod.splits simp: case_prod_beta)

lemma state_pre_coded: "run (state_preconditions d i f sf) w = (Some r, w') \<Longrightarrow> well_coded r"
  by (auto simp: state_preconditions_def case_prod_beta split: if_splits option.splits)

lemma apply_and_record_coded: "gives well_coded_outcome (apply_and_record d i force f sf)"
  unfolding apply_and_record_def by (intro gives_rules) simp_all

lemma apply_locked_coded: "gives well_coded_outcome (FaultApply_locked d i force yes f)"
proof -
  have "well_coded_outcome r" if run: "run (FaultApply_locked d i force yes f) w = (r, w')" for w r w'
  proof -
    obtain q w1 where 1: "run (Store_Read (dStore d)) w = (q, w1)" by (meson surj_pair)
    show ?thesis
    proof (cases q)
      case (Inl e)
      with run 1 show ?thesis by (auto simp: FaultApply_locked_def case_prod_beta)
    next
      case (Inr sf)
      obtain pre w2 where 2: "run (if force then ret None else state_preconditions d i (fiDef f) sf) w1 = (pre, w2)"
        by (meson surj_pair)
      obtain live w3 where 3: "run (if force then ret (Returns None)
          else precondition_checks d i (fdPreconditionChecks (fiDef f))) w2 = (live, w3)" by (meson surj_pair)
      show ?thesis
      proof (cases pre)
        case (Some x)
        with run 1 2 Inr have "r = Returns x" by (simp add: FaultApply_locked_def)
        with 2 Some show ?thesis by (auto dest: state_pre_coded split: if_splits)
      next
        case None
        have tail: "run (case live of Panics s \<Rightarrow> ret (Panics s) | Returns (Some res) \<Rightarrow> ret (Returns res)
            | Returns None \<Rightarrow> if fdRequiresConfirmation (fiDef f) \<and> \<not> yes then ret (Returns (aborted_result i (fiDef f)))
                else apply_and_record d i force f sf) w3 = (r, w')"
          using run 1 2 3 Inr None by (simp add: FaultApply_locked_def)
        show ?thesis
        proof (cases live)
          case (Panics s)
          with tail show ?thesis by auto
        next
          case (Returns lo)
          with tail 3 gives_run [OF apply_and_record_coded] show ?thesis
            by (cases lo) (auto simp: aborted_result_def dest: pre_checks_coded split: if_splits)
        qed
      qed
    qed
  qed
  then show ?thesis unfolding gives_def by (metis prod.collapse)
qed

lemma fault_info_coded [simp]: "well_coded (FaultInfoCmd_Run i)" "well_coded FaultListCmd_Run"
  by (simp_all add: FaultInfoCmd_Run_def FaultListCmd_Run_def split: option.splits)

lemma commands_coded:
  "gives well_coded_outcome (FaultApplyCmd_Run d i force yes)"
  "gives well_coded_outcome (ResetCmd_Run d t)"
  "gives well_coded_outcome (ProvisionCmd_Run d)"
  "gives well_coded_outcome (StatusCmd_Run d)"
  "gives well_coded (ValidateCmd_Run d)"
  "gives well_coded (ValidateCmd_RunSingle d i)"
  "gives well_coded (HistoryCmd_Run store k)"
proof -
  show "gives well_coded_outcome (FaultApplyCmd_Run d i force yes)"
    unfolding FaultApplyCmd_Run_def by (intro gives_rules apply_locked_coded) simp_all
  have "gives well_coded_outcome (reset_and_record d s t sf)" for s t sf
    unfolding reset_and_record_def by (intro gives_rules) simp_all
  then show "gives well_coded_outcome (ResetCmd_Run d t)"
    unfolding ResetCmd_Run_def Reset_locked_def by (intro gives_rules) simp_all
  show "gives well_coded_outcome (ProvisionCmd_Run d)"
    unfolding ProvisionCmd_Run_def Provision_locked_def by (intro gives_rules) simp_all
  have s: "run (status_result_of d det lw sf) w = (v, w') \<Longrightarrow> well_coded v" for det lw sf w v w'
    by (auto simp: status_result_of_def case_prod_beta split: if_splits)
  have r: "gives well_coded_outcome (status_result_of d det lw sf \<bind> (\<lambda>v. ret (Returns v)))"
    "gives well_coded_outcome (status_result_of d det lw sf \<bind> (\<lambda>v. Release l \<bind> (\<lambda>_. ret (Returns v))))" for det lw sf l
    using s by (auto simp: gives_def case_prod_beta) (metis prod.collapse)+
  have "gives well_coded_outcome (status_finish d det lw sf)" for det lw sf
    unfolding status_finish_def by (intro gives_option gives_if r gives_bind gives_outcome gives_prod gives_ret) simp_all
  then show "gives well_coded_outcome (StatusCmd_Run d)"
    unfolding StatusCmd_Run_def Let_def by (intro gives_bind)
  show "gives well_coded (ValidateCmd_Run d)"
    unfolding ValidateCmd_Run_def processResult_def by (intro gives_rules) simp_all
  show "gives well_coded (ValidateCmd_RunSingle d i)"
    unfolding ValidateCmd_RunSingle_def by (intro gives_rules) simp_all
  show "gives well_coded (HistoryCmd_Run store k)"
    unfolding HistoryCmd_Run_def by (intro gives_rules) (simp split: sum.splits)
qed

lemma dispatch_coded:
  fixes d :: "'x deps"
  assumes "dispatch d flags command subArgs = Some m"
  shows "gives well_coded_outcome m"
proof -
  from assms have "dispatch d flags command subArgs = Some m" .
  moreover have wrapped: "gives well_coded_outcome (n \<bind> (\<lambda>r. ret (Returns r)))" if "gives well_coded n" for n :: "('x world, command_result) state"
    using that by (simp add: gives_def case_prod_beta)
  moreover have "gives well_coded_outcome (dispatchFault d flags subArgs)"
    unfolding dispatchFault_def
    by (auto intro!: gives_ret commands_coded split: list.splits prod.splits)
  moreover have "gives well_coded (HistoryCmd_Run store k :: ('x world, command_result) state)" for store k
    by (rule commands_coded)
  ultimately show ?thesis
    using commands_coded(2-4) [where d = d] commands_coded(5,6) [where d = d]
    by (auto simp: dispatch_def dispatchReset_def dispatchProvision_def dispatchHistory_def dispatchValidate_def
        split: if_splits list.splits)
qed

lemma coded_outcome: "gives well_coded_outcome m \<Longrightarrow>
    (case fst (run m w) of Returns r \<Rightarrow> well_coded r | Panics _ \<Rightarrow> True)"
  unfolding gives_def by (cases "fst (run m w)") (metis outcome.simps(5) well_coded_outcome.simps(1), simp)

fun exit_code_ok :: "int outcome \<Rightarrow> bool" where
  "exit_code_ok (Returns c) \<longleftrightarrow> 0 \<le> c \<and> c \<le> 5"
| "exit_code_ok (Panics s) \<longleftrightarrow> True"

lemma App_code:
  fixes w :: "'x world"
  shows "exit_code_ok (fst (run (App_Run p args) w))"
proof -
  have tail: "gives exit_code_ok (m \<bind> (\<lambda>r. case r of Panics s \<Rightarrow> ret (Panics s)
      | Returns res \<Rightarrow> show_result rn res \<bind> (\<lambda>_. ret (Returns (crExitCode res)))))"
    if "dispatch d flags command subArgs = Some m" for d :: "'x deps" and flags command subArgs m rn
  proof -
    have c: "well_coded x" if "fst (run m v) = Returns x" for v x
      using coded_outcome [OF dispatch_coded [OF \<open>dispatch d flags command subArgs = Some m\<close>], of v] that by simp
    have "0 \<le> crExitCode x \<and> crExitCode x \<le> 5" if "fst (run m v) = Returns x" for v x
      using c [OF that] by (simp add: well_coded_def)
    then show ?thesis by (auto simp: gives_def case_prod_beta split: outcome.splits)
  qed
  have "gives exit_code_ok (App_Run p args)"
    unfolding App_Run_def
    by (auto intro!: gives_bind gives_ret tail split: sum.splits list.splits option.splits)
  then show ?thesis by (simp add: gives_def)
qed

subsection \<open>Flags\<close>

definition global_words :: "string list" where
  "global_words = [''--json'', ''--quiet'', ''--verbose'', ''--yes'']"

lemma scan_globals_eq:
  "scan_globals f rest args =
     (\<lparr>gfJson = (gfJson f \<or> ''--json'' \<in> set args), gfQuiet = (gfQuiet f \<or> ''--quiet'' \<in> set args),
       gfVerbose = (gfVerbose f \<or> ''--verbose'' \<in> set args), gfYes = (gfYes f \<or> ''--yes'' \<in> set args)\<rparr>,
      rest @ filter (\<lambda>a. a \<notin> set global_words) args)"
  by (induction args arbitrary: f rest) (auto simp: global_words_def)

lemma fault_flags_eq:
  "foldl fault_flag (i, f) args =
     (case filter (\<lambda>a. a \<noteq> [] \<and> hd a \<noteq> CHR ''-'') args of
        [] \<Rightarrow> i | a # _ \<Rightarrow> if i = [] then a else i,
      \<lparr>ffForce = (ffForce f \<or> ''--force'' \<in> set args), ffYes = (ffYes f \<or> ''--yes'' \<in> set args)\<rparr>)"
  by (induction args arbitrary: i f) (auto simp: fault_flag_def split: list.splits)

lemma joinArgs_from: "0 < n \<Longrightarrow>
    fst (foldl (\<lambda>(result, i) a. (result @ (if 0 < i then '' '' else []) @ a, Suc i)) (s, n :: nat) args) =
      s @ concat (map (\<lambda>a. '' '' @ a) args)"
  by (induction args arbitrary: s n) auto

subsection \<open>Properties\<close>

text \<open>
  the global flags are recognised wherever they stand on the line and whatever else is on it,
  and taken out of it; the rest keeps its order. \<open>--quiet\<close> with \<open>--json\<close> or with \<open>--verbose\<close> is
  refused.
\<close>

theorem parseGlobalFlags_exact:
  "parseGlobalFlags args =
     (if ''--quiet'' \<in> set args \<and> ''--json'' \<in> set args
      then Inl (Errorf ''--json and --quiet are mutually exclusive'')
      else if ''--quiet'' \<in> set args \<and> ''--verbose'' \<in> set args
      then Inl (Errorf ''--verbose and --quiet are mutually exclusive'')
      else Inr (\<lparr>gfJson = (''--json'' \<in> set args), gfQuiet = (''--quiet'' \<in> set args),
                  gfVerbose = (''--verbose'' \<in> set args), gfYes = (''--yes'' \<in> set args)\<rparr>,
                filter (\<lambda>a. a \<notin> {''--json'', ''--quiet'', ''--verbose'', ''--yes''}) args))"
proof -
  have "set global_words = {''--json'', ''--quiet'', ''--verbose'', ''--yes''}" unfolding global_words_def by auto
  then show ?thesis
    unfolding parseGlobalFlags_def scan_globals_eq no_flags_def by (simp only: prod.case global_flags.simps simp_thms append.simps conj_commute)
qed

text \<open>
  of the arguments of \<open>lab fault apply\<close> the fault is the first that is not empty and does not
  begin with a dash, wherever the flags stand; later names are ignored, unknown flags too.
\<close>

theorem parseFaultApplyFlags_exact:
  "parseFaultApplyFlags args =
     (case filter (\<lambda>a. a \<noteq> [] \<and> hd a \<noteq> CHR ''-'') args of [] \<Rightarrow> [] | i # _ \<Rightarrow> i,
      \<lparr>ffForce = (''--force'' \<in> set args), ffYes = (''--yes'' \<in> set args)\<rparr>)"
  by (simp add: parseFaultApplyFlags_def fault_flags_eq split: list.splits)

text \<open>the command recorded in the audit log is the line with single blanks between its words.\<close>

theorem joinArgs_is_join: "joinArgs args = str_join '' '' args"
proof (cases args)
  case (Cons a as)
  have "str_join '' '' (a # as) = a @ concat (map (\<lambda>b. '' '' @ b) as)"
    by (induction as arbitrary: a) (simp_all add: str_join_Cons)
  with Cons show ?thesis by (simp add: joinArgs_def joinArgs_from)
qed (simp add: joinArgs_def)

text \<open>
  C28: whatever the line and the machine, a command that returns gives an exit code between 0 and
  5, never 0 with an error, and always an error or a value to show; so the process exits with
  a code in that range.
\<close>

theorem App_exit_codes:
  fixes w :: "'x world" and d :: "'x deps"
  shows "(case fst (run (lab_main p os_args) w) of Returns c \<Rightarrow> 0 \<le> c \<and> c \<le> 5 | Panics _ \<Rightarrow> True) \<and>
   (case dispatch d flags command subArgs of
      None \<Rightarrow> True
    | Some m \<Rightarrow> (case fst (run m w) of Returns r \<Rightarrow> well_coded r | Panics _ \<Rightarrow> True))"
proof
  show "case dispatch d flags command subArgs of None \<Rightarrow> True
     | Some m \<Rightarrow> (case fst (run m w) of Returns r \<Rightarrow> well_coded r | Panics _ \<Rightarrow> True)"
  proof (cases "dispatch d flags command subArgs")
    case (Some m)
    from coded_outcome [OF dispatch_coded [OF Some], of w] Some show ?thesis by simp
  qed simp
  have "case fst (run (App_Run p args) w) of Returns c \<Rightarrow> 0 \<le> c \<and> c \<le> 5 | Panics _ \<Rightarrow> True" for args
    using App_code [of p args w] by (cases "fst (run (App_Run p args) w)") simp_all
  then show "case fst (run (lab_main p os_args) w) of Returns c \<Rightarrow> 0 \<le> c \<and> c \<le> 5 | Panics _ \<Rightarrow> True"
    by (cases os_args) (simp_all add: lab_main_def)
qed

end
