(* ===== verification/SuiteProps.thy ===== *)
theory SuiteProps
  imports CheckCatalog
begin

text \<open>
  What a run of the conformance suite is (\<^verbatim>\<open>internal/conformance/runner.go\<close>,
  \<^verbatim>\<open>result.go\<close>), for any observer: which checks run and in which order, how failures under a
  failed S-001 are marked, and what the classification and the exit code are.
\<close>

text \<open>
  C26: the classification is what the severities say: a check that failed and is not
  dependent counts; the suite is NON-CONFORMANT and exits 1 exactly when a blocking check
  counts, otherwise it exits 0 and is degraded exactly when a degraded check counts; the
  listed identifiers are those of the counting failures in execution order, and classifying
  again changes nothing.
\<close>

theorem Classify_exact:
  "sClassification (Classify s) =
     (if list_ex (counts_as SeverityBlocking) (sResults s) then ClassNonConformant
      else if list_ex (counts_as SeverityDegraded) (sResults s) then ClassDegradedConformant
      else ClassConformant) \<and>
   ExitCode (Classify s) = (if list_ex (counts_as SeverityBlocking) (sResults s) then 1 else 0) \<and>
   sFailingBlockingIDs (Classify s) = map (\<lambda>r. cID (rCheck r)) (filter (counts_as SeverityBlocking) (sResults s)) \<and>
   sFailingDegradedIDs (Classify s) = map (\<lambda>r. cID (rCheck r)) (filter (counts_as SeverityDegraded) (sResults s)) \<and>
   sPassed (Classify s) = int (length (filter rPassed (sResults s))) \<and>
   Classify (Classify s) = Classify s"
proof -
  have ex: "failing_ids v (sResults s) \<noteq> [] \<longleftrightarrow> list_ex (counts_as v) (sResults s)" for v
    by (simp add: failing_ids_empty_iff list_ex_iff)
  have "Classify (Classify s) = Classify s"
    by (simp add: Classify_def classify_loop_eq)
  then show ?thesis
    by (simp add: Classify_classification ExitCode_def ex failing_ids_def [symmetric])
qed

text \<open>S-001 is the first check of the catalog, so every endpoint check runs after it.\<close>

lemma Catalog_head:
  fixes Cs :: "'w check list"
  assumes "Cs = Catalog"
  shows "Cs \<noteq> [] \<and> cID (hd Cs) = ''S-001'' \<and> cCategory (hd Cs) \<noteq> CategoryEndpoint"
  unfolding assms by (simp add: Catalog_def check_S001_def service_check_def)

lemma s001_before_take:
  assumes "map (\<lambda>r. cID (rCheck r)) rs = map cID (Catalog :: 'w check list)" and "0 < i" and "i \<le> length rs"
  shows "s001_before True (take i rs) \<longleftrightarrow> rPassed (hd rs)"
proof -
  obtain r rs' where rs: "rs = r # rs'" using assms(2,3) by (cases rs) auto
  have ids: "cID (rCheck r) # map (\<lambda>r. cID (rCheck r)) rs' = map cID (Catalog :: 'w check list)"
    using assms(1) rs by simp
  have hd: "cID (rCheck r) = ''S-001''"
    using arg_cong [OF ids, of hd] by (simp add: Catalog_ids)
  have "distinct (cID (rCheck r) # map (\<lambda>r. cID (rCheck r)) rs')"
    unfolding ids by (rule Catalog_distinct)
  then have no: "cID (rCheck q) \<noteq> ''S-001''" if "q \<in> set rs'" for q using hd that by (auto simp: image_iff)
  have "take i rs = r # take (i - 1) rs'" using assms(2) rs by (cases i) simp_all
  moreover have "cID (rCheck q) \<noteq> ''S-001''" if "q \<in> set (take (i - 1) rs')" for q
    using no in_set_takeD that by fast
  ultimately show ?thesis using hd by (auto simp: rs s001_before_iff)
qed

text \<open>
  C27: a run of the full suite gives the full picture whatever the observer answers and
  whichever checks panic: one result per check of the catalog, in catalog order, each passed
  exactly when it has no error; endpoint results, and only they, are marked dependent, and
  exactly when S-001 failed.
\<close>

theorem Runner_Run_full_picture:
  fixes ob :: "'x world observer" and w :: "'x world"
  shows "case run (Runner_Run NewRunner ob) w of (s, _) \<Rightarrow>
     map (\<lambda>r. cID (rCheck r)) (sResults s) = map cID (NewRunner :: 'x world check list) \<and>
     sTotal s = int (length (sResults s)) \<and>
     list_all (\<lambda>r. rPassed r = (rErr r = None) \<and>
       rDependent r = (cCategory (rCheck r) = CategoryEndpoint \<and> \<not> rPassed (hd (sResults s)))) (sResults s)"
proof -
  obtain s w' where run: "run (Runner_Run NewRunner ob) w = (s, w')" by (meson surj_pair)
  obtain t w1 rs where rs: "run (run_checks ob True NewRunner) w1 = (rs, w')"
    and s: "s = Classify (empty_suite t (int (length (NewRunner :: 'x world check list))) rs)"
    by (rule Runner_Run_eq [OF run])
  note ids = run_checks_ids [OF rs, unfolded NewRunner_def]
  have len: "length rs = length (Catalog :: 'x world check list)" using arg_cong [OF ids, of length] by simp
  have "rPassed r = (rErr r = None) \<and> rDependent r = (cCategory (rCheck r) = CategoryEndpoint \<and> \<not> rPassed (hd rs))"
    if mem: "r \<in> set rs" for r
  proof -
    from mem obtain i where i: "i < length rs" "r = rs ! i" by (metis in_set_conv_nth)
    with run_checks_results [OF rs, unfolded NewRunner_def] len
    have res: "result_of (Catalog ! i :: 'x world check) (s001_before True (take i rs)) r" by auto
    show ?thesis
    proof (cases "i = 0")
      case True
      note head = Catalog_head [of "Catalog :: 'x world check list", OF refl]
      then have "Catalog ! i = hd (Catalog :: 'x world check list)" using True by (simp add: hd_conv_nth)
      with head have "cCategory (Catalog ! i :: 'x world check) \<noteq> CategoryEndpoint" by metis
      with res show ?thesis by (auto simp: result_of_def)
    next
      case False
      with i have "s001_before True (take i rs) \<longleftrightarrow> rPassed (hd rs)" by (intro s001_before_take [OF ids]) auto
      with res show ?thesis by (auto simp: result_of_def)
    qed
  qed
  then show ?thesis using run s ids len by (simp add: list_all_iff NewRunner_def)
qed

text \<open>
  the lightweight run of \<open>lab status\<close> runs exactly P-001, P-002, S-003 and E-001, in
  catalog order whatever the order they are listed in, and marks none of them dependent, so
  that an endpoint failure counts even when the service is down.
\<close>

theorem LightweightRun_checks:
  fixes ob :: "'x world observer" and w :: "'x world"
  shows "case run (Runner_LightweightRun NewRunner ob) w of (s, _) \<Rightarrow>
     map (\<lambda>r. cID (rCheck r)) (sResults s) = [''S-003'', ''P-001'', ''P-002'', ''E-001''] \<and>
     sTotal s = 4 \<and> list_all (\<lambda>r. \<not> rDependent r) (sResults s)"
proof -
  obtain rs w1 where rs: "run (run_wanted lightweightIDs ob (NewRunner :: 'x world check list)) w = (rs, w1)"
    by (meson surj_pair)
  from run_wanted_results [OF rs] have ids: "map (\<lambda>r. cID (rCheck r)) rs = [''S-003'', ''P-001'', ''P-002'', ''E-001'']"
    and nd: "\<forall>r \<in> set rs. \<not> rDependent r"
    by (auto simp: NewRunner_def Catalog_ids lightweightIDs_def)
  have "length rs = 4" using arg_cong [OF ids, of length] by simp
  with rs ids nd show ?thesis
    by (simp add: Runner_LightweightRun_def Runner_RunIDs_def time_now_def list_all_iff)
qed

text \<open>
  a single check runs without dependent marking and changes no classification: an
  unknown identifier is an error and runs nothing, a known one gives the result of that
  check alone.
\<close>

theorem RunSingle_one_check:
  fixes ob :: "'x world observer" and w :: "'x world"
  shows "case run (Runner_RunSingle NewRunner i ob) w of
     (Inl _, w') \<Rightarrow> i \<notin> set (map cID (NewRunner :: 'x world check list)) \<and> w' = w
   | (Inr r, w') \<Rightarrow> cID (rCheck r) = i \<and> \<not> rDependent r \<and>
       (\<exists>c. CheckByID i = Some c \<and> run (runOne c ob True) w = (r, w'))"
proof (cases "List.find (\<lambda>c. cID c = i) (Catalog :: 'x world check list)")
  case None
  then have "i \<notin> set (map cID (Catalog :: 'x world check list))" by (auto simp: find_None_iff)
  with None show ?thesis by (simp add: Runner_RunSingle_def NewRunner_def)
next
  case (Some c)
  then have "cID c = i" by (auto dest: find_SomeD)
  moreover obtain r w' where "run (runOne c ob True) w = (r, w')" by (meson surj_pair)
  moreover from this have "result_of c True r" by (rule runOne_result)
  ultimately show ?thesis using Some
    by (auto simp: Runner_RunSingle_def NewRunner_def CheckByID_def result_of_def)
qed

end
