(* ===== verification/LabEnv.thy ===== *)
theory LabEnv
  imports Output RealExec
begin

text \<open>
  The environment a command runs in, as a contract: the observer, the checks, the executor
  and the audit log leave the state file alone, so that the only writes to it are those the
  commands make through the store. \<open>executes\<close> is the executor's part, the counterpart of
  \<open>observes\<close>; the locale \<open>lab_env\<close> is the whole, and \<open>real_env\<close> gives it for the real
  executor of \<^verbatim>\<open>internal/executor/real.go\<close> on the canonical paths.
\<close>

subsection \<open>One file\<close>

definition at_file :: "string \<Rightarrow> fnode option \<Rightarrow> 'x world \<Rightarrow> bool" where
  "at_file p c w \<longleftrightarrow> files w p = c"

lemma at_fileI: "(\<And>v. keeps (file_is p v) m) \<Longrightarrow> keeps (at_file p c) m"
proof (rule keepsI)
  fix w a w'
  assume k: "\<And>v. keeps (file_is p v) m" and "at_file p c w" "run m w = (a, w')"
  then show "at_file p c w'"
    using keepsD [OF k [of "seen p w"], of w a w'] by (simp add: at_file_def file_is_def seen_def)
qed

lemma at_file_run: "(\<And>c. keeps (at_file p c) m) \<Longrightarrow> run m w = (a, w') \<Longrightarrow> files w' p = files w p"
  using keepsD [of "at_file p (files w p)" m w a w'] by (simp add: at_file_def)

lemma keeps_outcome [keeps_rules]:
  "(\<And>x. keeps I (f x)) \<Longrightarrow> (\<And>s. keeps I (g s)) \<Longrightarrow> keeps I (case v of Returns x \<Rightarrow> f x | Panics s \<Rightarrow> g s)"
  by (cases v) simp_all

lemma at_file_basic [keeps_rules]:
  "keeps (at_file p c) time_now" "keeps (at_file p c) mono_now" "keeps (at_file p c) (eprint s)" "keeps (at_file p c) (oprint s)"
  "keeps (at_file p c) (os_ReadFile q)" "keeps (at_file p c) (os_Stat q)" "keeps (at_file p c) (file_Close q)"
  by (rule at_fileI, rule keeps_rules)+

lemma at_file_Store_Read [keeps_rules]: "keeps (at_file p c) (Store_Read q)"
  unfolding Store_Read_def by (intro keeps_rules)

lemma at_file_Acquire:
  "lkPath l \<noteq> p \<Longrightarrow> p \<notin> set (ancestors (dir_of LockPath)) \<Longrightarrow> keeps (at_file p c) (Acquire n l)"
  by (rule at_fileI) (rule keeps_Acquire)

lemma at_file_Release: "lkPath l \<noteq> p \<Longrightarrow> keeps (at_file p c) (Release l)"
  by (rule at_fileI) (rule keeps_Release)

lemma at_file_log:
  "alPath l \<noteq> p \<Longrightarrow> keeps (at_file p c) (LogOp l opn args t x e)"
  "alPath l \<noteq> p \<Longrightarrow> keeps (at_file p c) (LogError l n dt)"
  "alPath l \<noteq> p \<Longrightarrow> keeps (at_file p c) (LogTransition l a b f)"
  "alPath l \<noteq> p \<Longrightarrow> keeps (at_file p c) (LogReconciliation l a b)"
  "alPath l \<noteq> p \<Longrightarrow> keeps (at_file p c) (LogInterrupt l opn gr)"
  by (rule at_fileI, erule keeps_log)+

lemma Release_file:
  assumes "lkPath l \<noteq> p"
  shows "files (snd (run (Release l) w)) p = files w p"
proof (cases "run (Release l) w")
  case (Pair l' w')
  with at_file_run [OF at_file_Release [OF assms] Pair] show ?thesis by simp
qed

text \<open>The state file is no lock file and no directory above it.\<close>

lemma StatePath_apart: "StatePath \<notin> set (ancestors (dir_of LockPath))" "LockPath \<noteq> StatePath"
proof -
  show "StatePath \<notin> set (ancestors (dir_of LockPath))"
    by (rule lock_dir_no_lock) (simp add: path_defs has_prefix_iff)
qed (simp add: path_defs)

text \<open>\<open>Acquire\<close> gives back the lock it was given, with the same path.\<close>

lemma Acquire_path: "run (Acquire n l) w = (Returns (e, l'), w') \<Longrightarrow> lkPath l' = lkPath l"
  by (induction n arbitrary: w)
     (auto simp: Acquire.simps split: option.splits sum.splits if_splits prod.splits)

subsection \<open>Executors\<close>

text \<open>
  A path that does not begin with the path of the state file: working on it neither changes
  that file nor makes it a directory.
\<close>

definition executes :: "string \<Rightarrow> ('w \<Rightarrow> bool) \<Rightarrow> 'w executor \<Rightarrow> bool" where
  "executes p I x \<longleftrightarrow>
     (\<forall>q. keeps I (ReadFile x q)) \<and>
     (\<forall>q d m u g. \<not> has_prefix q p \<longrightarrow> keeps I (WriteFile x q d m u g)) \<and>
     (\<forall>q m. \<not> has_prefix q p \<longrightarrow> keeps I (Chmod x q m)) \<and>
     (\<forall>q u g. \<not> has_prefix q p \<longrightarrow> keeps I (Chown x q u g)) \<and>
     (\<forall>q. \<not> has_prefix q p \<longrightarrow> keeps I (Remove x q)) \<and>
     (\<forall>a u. keeps I (Systemctl x a u)) \<and>
     keeps I (NginxReload x) \<and>
     (\<forall>q. \<not> has_prefix q p \<longrightarrow> keeps I (RestoreFile x q)) \<and>
     (\<forall>c as. keeps I (RunMutation x c as))"

lemma executesD:
  assumes "executes p I x"
  shows "keeps I (ReadFile x q)" "\<not> has_prefix q p \<Longrightarrow> keeps I (WriteFile x q t m u g)" "\<not> has_prefix q p \<Longrightarrow> keeps I (Chmod x q m)"
    "\<not> has_prefix q p \<Longrightarrow> keeps I (Chown x q u g)" "\<not> has_prefix q p \<Longrightarrow> keeps I (Remove x q)" "keeps I (Systemctl x a un)"
    "keeps I (NginxReload x)" "\<not> has_prefix q p \<Longrightarrow> keeps I (RestoreFile x q)" "keeps I (RunMutation x c as)"
  using assms by (auto simp: executes_def)

lemma keeps_wrapping' [keeps_rules]: "keeps I m \<Longrightarrow> keeps I (wrapping msg m)"
  by (rule keeps_wrapping)

text \<open>The paths the faults work on are not the state file of the control plane.\<close>

lemma fault_paths_apart:
  "\<not> has_prefix ConfigPath StatePath" "\<not> has_prefix UnitFilePath StatePath"
  "\<not> has_prefix NginxConfigPath StatePath" "\<not> has_prefix ChaosEnvPath StatePath"
  "\<not> has_prefix LogPath StatePath" "\<not> has_prefix StateDir StatePath" "\<not> has_prefix BinaryPath StatePath"
  "\<not> has_prefix LogDir StatePath" "\<not> has_prefix (StateDir @ ''/file_'' @ s) StatePath"
  by (simp_all add: path_defs)

lemma faults_keep:
  assumes "executes StatePath I x" and "f \<in> set AllImpls"
  shows "keeps I (fiApply f x)" "keeps I (fiRecover f x)"
proof -
  note rules = keeps_rules executesD [OF assms(1)] fault_paths_apart
  have "list_all (\<lambda>f. keeps I (fiApply f x)) AllImpls"
    by (simp add: AllImpls_def fault_defs) (intro conjI; unfold apply_defs; intro rules)
  with assms(2) show "keeps I (fiApply f x)" by (simp add: list_all_iff)
  have "list_all (\<lambda>f. keeps I (fiRecover f x)) AllImpls"
    by (simp add: AllImpls_def fault_defs) (intro conjI; unfold recover_defs; intro rules)
  with assms(2) show "keeps I (fiRecover f x)" by (simp add: list_all_iff)
qed

subsection \<open>The frame of a mutation command\<close>

lemma under_lock_cases:
  assumes run: "run (under_lock n refuse body) w = (r, w')"
    and quiet: "\<And>e c. keeps (at_file StatePath c) (refuse e)"
  obtains (died) s where "r = Panics s" and "files w' StatePath = files w StatePath"
    | (refused) e v where "run (refuse e) v = (r, w')" and "files w' StatePath = files w StatePath"
    | (locked) v v' where "run body v = (r, v')" and "files v StatePath = files w StatePath"
        and "files w' StatePath = files v' StatePath"
proof -
  obtain q v where a: "run (Acquire n NewLock) w = (q, v)" by (meson surj_pair)
  have nl: "lkPath NewLock \<noteq> StatePath" using StatePath_apart(2) by (simp add: NewLock_def NewLockAt_def)
  have v: "files v StatePath = files w StatePath"
    by (rule at_file_run [OF at_file_Acquire [OF nl StatePath_apart(1)] a])
  show ?thesis
  proof (cases q)
    case (Panics s)
    with run a v show ?thesis by (intro died [of s]) (simp_all add: under_lock_def)
  next
    case (Returns el)
    obtain e l where el: "el = (e, l)" by (cases el)
    show ?thesis
    proof (cases e)
      case (Some err)
      with run a Returns el have "run (refuse err) v = (r, w')" by (simp add: under_lock_def)
      with at_file_run [OF quiet this] v show ?thesis by (intro refused [of err v]) simp_all
    next
      case None
      obtain r' v' where b: "run body v = (r', v')" by (meson surj_pair)
      have "lkPath l \<noteq> StatePath" using Acquire_path [OF a [unfolded Returns el]] nl by simp
      note rl = Release_file [OF this]
      with run a Returns el None b have "r' = r \<and> files w' StatePath = files v' StatePath"
        by (auto simp: under_lock_def case_prod_beta rl)
      with b v show ?thesis by (intro locked [of v v']) simp_all
    qed
  qed
qed

subsection \<open>What is recorded\<close>

lemma recorded_files: "files w' StatePath = files w StatePath \<Longrightarrow> recorded StatePath w' = recorded StatePath w"
  by (rule recorded_cong)

text \<open>I-2 of the state model: the recorded state is DEGRADED exactly when a fault is recorded.\<close>

definition inv_I2 :: "state_file \<Rightarrow> bool" where
  "inv_I2 f \<longleftrightarrow> (sfState f = StateDegraded \<longleftrightarrow> sfActiveFault f \<noteq> None)"

lemma inv_I2_core: "same_core g f \<Longrightarrow> inv_I2 f \<Longrightarrow> inv_I2 g"
  by (simp add: inv_I2_def same_core_def)

lemma inv_I2_updates [simp]:
  "inv_I2 (f\<lparr>sfClassificationValid := b\<rparr>) \<longleftrightarrow> inv_I2 f"
  "inv_I2 (f\<lparr>sfSpecVersion := v\<rparr>) \<longleftrightarrow> inv_I2 f"
  "inv_I2 (f\<lparr>sfLastStatusAt := t\<rparr>) \<longleftrightarrow> inv_I2 f"
  "inv_I2 (f\<lparr>sfLastValidate := l\<rparr>) \<longleftrightarrow> inv_I2 f"
  by (simp_all add: inv_I2_def)

subsection \<open>The environment\<close>

locale lab_env =
  fixes d :: "'x deps"
  assumes canonical_store: "dStore d = StatePath"
    and observer_quiet: "observes (at_file StatePath c) (dObs d)"
    and executor_quiet: "executes StatePath (at_file StatePath c) (dExec d)"
    and catalog_checks: "dChecks d = NewRunner"
    and log_apart: "dAudit d = Some l \<Longrightarrow> alPath l \<noteq> StatePath"
begin

lemma audit_quiet:
  "(\<And>l. alPath l \<noteq> StatePath \<Longrightarrow> keeps I (f l)) \<Longrightarrow> keeps I (with_audit (dAudit d) f)"
  using log_apart by (auto intro: keeps_with_audit)

lemma check_quiet: "ch \<in> set Catalog \<Longrightarrow> keeps (at_file StatePath c) (cExecute ch (dObs d))"
  using Catalog_well_behaved [of ch] observer_quiet by (simp add: well_behaved_def)

lemma found_check_quiet: "CheckByID i = Some ch \<Longrightarrow> keeps (at_file StatePath c) (cExecute ch (dObs d))"
  using CheckByID_iff [of i ch] by (auto intro: check_quiet)

lemma checks_well_behaved: "ch \<in> set (dChecks d) \<Longrightarrow> well_behaved ch"
  using catalog_checks Catalog_well_behaved by (simp add: NewRunner_def)

lemma suite_quiet: "keeps (at_file StatePath c) (Runner_Run (dChecks d) (dObs d))"
  unfolding Runner_Run_def
  by (intro keeps_rules keeps_run_checks observer_quiet checks_well_behaved)

lemma lightweight_quiet: "keeps (at_file StatePath c) (Runner_LightweightRun (dChecks d) (dObs d))"
  unfolding Runner_LightweightRun_def Runner_RunIDs_def
  by (intro keeps_rules keeps_run_wanted observer_quiet checks_well_behaved)

lemma log_error_quiet: "keeps (at_file StatePath c) (log_error d n s)"
  unfolding log_error_def by (intro audit_quiet at_file_log)

lemma faults_quiet:
  "f \<in> set AllImpls \<Longrightarrow> keeps (at_file StatePath c) (fiApply f (dExec d))"
  "f \<in> set AllImpls \<Longrightarrow> keeps (at_file StatePath c) (fiRecover f (dExec d))"
  using faults_keep [OF executor_quiet] by blast+

end

subsection \<open>The real environment\<close>

text \<open>
  What is assumed of the machine outside: the commands the program runs, its HTTP requests
  and its lookups do not change \<open>state.json\<close> (no script, unit or tool of the lab does).
\<close>

locale real_env =
  fixes out :: "'x world outside" and a :: audit_logger and frames :: nat
  assumes run_quiet: "keeps (at_file StatePath c) (oRun out cmd args)"
    and get_quiet: "keeps (at_file StatePath c) (oGet out url skip)"
    and lookup_quiet: "keeps (at_file StatePath c) (oLookup out h)"
    and audit_apart: "alPath a \<noteq> StatePath"

definition real_deps :: "'x world outside \<Rightarrow> audit_logger \<Rightarrow> nat \<Rightarrow> 'x deps" where
  "real_deps out a frames = \<lparr>dObs = Real_observer out, dChecks = NewRunner,
     dExec = Real_executor out (NewExecutor a), dStore = StatePath, dAudit = Some a, dFrames = frames\<rparr>"

lemma ancestors_prefix: "b \<in> set (ancestors p) \<Longrightarrow> has_prefix p b"
  by (auto simp: ancestors_def has_prefix_iff) (metis append_take_drop_id)

lemma dir_of_prefix: "has_prefix p (dir_of p) \<or> dir_of p = ''.''"
proof -
  define dd where "dd = dropWhile (\<lambda>c. c \<noteq> CHR ''/'') (rev p)"
  obtain t where t: "rev p = t @ dd" unfolding dd_def by (metis takeWhile_dropWhile_id)
  show ?thesis
  proof (cases dd)
    case Nil
    then show ?thesis by (simp add: dir_of_def Let_def dd_def [symmetric])
  next
    case (Cons c r)
    have "c = CHR ''/''" using Cons hd_dropWhile [of "\<lambda>c. c \<noteq> CHR ''/''" "rev p"] by (auto simp: dd_def)
    with t Cons have p: "p = rev r @ ''/'' @ rev t" by (metis append.assoc append_Cons append_Nil rev.simps(2) rev_append rev_rev_ident)
    have "dir_of p = (if r = [] then ''/'' else rev r)"
      using Cons by (simp add: dir_of_def Let_def dd_def [symmetric])
    with p show ?thesis by (auto simp: has_prefix_iff)
  qed
qed

lemma has_prefix_trans: "has_prefix a b \<Longrightarrow> has_prefix b c \<Longrightarrow> has_prefix a c"
  by (auto simp: has_prefix_iff)

lemma apart_dir: "\<not> has_prefix q StatePath \<Longrightarrow> StatePath \<notin> set (ancestors (dir_of q))"
proof
  assume a: "\<not> has_prefix q StatePath" and "StatePath \<in> set (ancestors (dir_of q))"
  then have h: "has_prefix (dir_of q) StatePath" by (blast dest: ancestors_prefix)
  with a dir_of_prefix [of q] show False
    by (auto dest: has_prefix_trans) (simp add: path_defs)
qed

lemma apart_self: "\<not> has_prefix q StatePath \<Longrightarrow> q \<noteq> StatePath"
  by (auto simp: has_prefix_iff)

lemma temp_not_StatePath: "dir @ ''/'' @ ''.tmp-'' @ r @ s \<noteq> StatePath"
proof
  assume "dir @ ''/'' @ ''.tmp-'' @ r @ s = StatePath"
  then have "str_contains StatePath ''/.tmp-''"
    unfolding str_contains_iff by (intro exI [of _ dir] exI [of _ "r @ s"]) simp
  then show False by (simp add: path_defs str_contains_def)
qed

lemma at_file_MkdirAll: "p \<notin> set (ancestors q) \<Longrightarrow> keeps (at_file p c) (os_MkdirAll q m)"
  by (rule at_fileI) (rule keeps_MkdirAll)

lemma at_file_Chmod: "q \<noteq> p \<Longrightarrow> keeps (at_file p c) (os_Chmod q m)"
  by (rule at_fileI) (rule keeps_Chmod)

lemma at_file_Remove: "q \<noteq> p \<Longrightarrow> keeps (at_file p c) (os_Remove q)"
  by (rule at_fileI) (rule keeps_Remove)

lemma at_file_Rename: "q \<noteq> p \<Longrightarrow> q' \<noteq> p \<Longrightarrow> keeps (at_file p c) (os_Rename q q')"
  by (rule at_fileI) (rule keeps_Rename)

lemma at_file_fill: "q \<noteq> p \<Longrightarrow> keeps (at_file p c) (fill_temp what msg m q t)"
  by (rule at_fileI) (rule keeps_fill_temp)

lemma at_file_removing: "q \<noteq> p \<Longrightarrow> keeps (at_file p c) m \<Longrightarrow> keeps (at_file p c) (removing_on_error q m)"
  unfolding removing_on_error_def by (intro keeps_rules at_file_Remove)

text \<open>
  An atomic write leaves every file alone that is not its target, a directory above it or a
  temporary file beside it, as far as \<open>chown\<close> of the temporary file does.
\<close>

lemma atomicWrite_elsewhere:
  assumes anc: "p \<notin> set (ancestors (dir_of q))" and ne: "q \<noteq> p"
    and tmp: "\<And>r. dir_of q @ ''/'' @ ''.tmp-'' @ r @ [] \<noteq> p"
    and ch: "\<And>tm. tm \<noteq> p \<Longrightarrow> keeps (at_file p c) (chown_step out u g tm)"
  shows "keeps (at_file p c) (atomicWrite out q t m u g)"
proof -
  have "keeps (at_file p c) (do {
      tm \<leftarrow> os_CreateTemp (dir_of q) ''.tmp-'' [];
      (case tm of Inl err \<Rightarrow> ret (Some (Wrapf ''creating temp file: '' err []))
       | Inr tmp \<Rightarrow> removing_on_error tmp
           (and_then (fill_temp ''temp file'' ''setting temp file mode: '' m tmp t)
           (and_then (wrapping ''setting temp file ownership: '' (chown_step out u g tmp))
              (wrapping (''renaming temp file to '' @ q @ '': '') (os_Rename tmp q))))) })" (is "keeps _ (_ \<bind> ?k)")
  proof (rule keepsI)
    fix w e w'
    assume at: "at_file p c w" and run: "run (os_CreateTemp (dir_of q) ''.tmp-'' [] \<bind> ?k) w = (e, w')"
    obtain t1 w1 where 1: "run (os_CreateTemp (dir_of q) ''.tmp-'' []) w = (t1, w1)" by (meson surj_pair)
    note C = CreateTemp_cases [OF 1]
    have at1: "at_file p c w1" and k: "keeps (at_file p c) (?k t1)"
    proof -
      show "at_file p c w1" using C at tmp by (cases t1) (auto simp: at_file_def)
      show "keeps (at_file p c) (?k t1)"
      proof (cases t1)
        case (Inr tm)
        with C obtain r where r: "tm = dir_of q @ ''/'' @ ''.tmp-'' @ r @ []" by auto
        have np: "tm \<noteq> p" unfolding r by (rule tmp)
        show ?thesis
          using np by (simp add: Inr) (intro at_file_removing keeps_rules at_file_fill ch at_file_Rename ne)
      qed (simp add: keeps_return)
    qed
    from run 1 have "run (?k t1) w1 = (e, w')" by simp
    from keepsD [OF k at1 this] show "at_file p c w'" .
  qed
  from keeps_and_then [OF keeps_wrapping [OF at_file_MkdirAll [OF anc]] this]
  show ?thesis unfolding atomicWrite_def Let_def .
qed

context real_env
begin

lemma raw_quiet: "keeps (at_file StatePath c) (runRaw out cmd args)"
  unfolding runRaw_def by (intro keeps_rules run_quiet)

lemma sudo_quiet: "keeps (at_file StatePath c) (only_err (runSudo out cmd args))"
  unfolding only_err_def runSudo_def by (intro keeps_rules raw_quiet)

lemma audited_quiet:
  "keeps (at_file StatePath c) m \<Longrightarrow> keeps (at_file StatePath c) (audited (NewExecutor a) opn args m)"
  unfolding audited_def NewExecutor_def with_audit_def real.simps option.case
  by (intro keeps_rules at_file_log audit_apart)

lemma atomicWrite_quiet:
  assumes "\<not> has_prefix q StatePath"
  shows "keeps (at_file StatePath c) (atomicWrite out q t m u g)"
proof (rule atomicWrite_elsewhere [OF apart_dir [OF assms] apart_self [OF assms] temp_not_StatePath])
  show "keeps (at_file StatePath c) (chown_step out u g tm)" for tm
    unfolding chown_step_def by (intro keeps_rules sudo_quiet)
qed

lemma real_observer_quiet: "observes (at_file StatePath c) (Real_observer out)"
  unfolding observes_def Real_observer_def Real_executor_def observer.truncate_def observer.simps executor.simps
    Real_Stat_def Real_CheckProcess_def Real_CheckPort_def Real_CheckEndpoint_def Real_ResolveHost_def
    Real_ServiceActive_def Real_ServiceEnabled_def
  by (intro conjI allI keeps_rules raw_quiet get_quiet lookup_quiet)

lemma real_executor_quiet: "executes StatePath (at_file StatePath c) (Real_executor out (NewExecutor a))"
proof -
  note quiet = audited_quiet atomicWrite_quiet at_file_Chmod at_file_Remove apart_self sudo_quiet
  have w: "\<not> has_prefix q StatePath \<Longrightarrow> keeps (at_file StatePath c) (Real_WriteFile out (NewExecutor a) q t m u g)"
    for q t m u g unfolding Real_WriteFile_def by (intro quiet)
  have r: "\<not> has_prefix q StatePath \<Longrightarrow> keeps (at_file StatePath c) (Real_RestoreFile out (NewExecutor a) q)" for q
    unfolding Real_RestoreFile_def by (intro keeps_rules w)
  have n: "keeps (at_file StatePath c) (Real_NginxReload out (NewExecutor a))"
    unfolding Real_NginxReload_def runSudo_def NewExecutor_def with_audit_def real.simps option.case only_err_def
    by (intro keeps_rules raw_quiet at_file_log audit_apart)
  show ?thesis
    unfolding executes_def Real_executor_def observer.simps executor.simps
      Real_Chmod_def Real_Chown_def Real_Remove_def Real_Systemctl_def Real_RunMutation_def Let_def
    by (intro conjI allI impI keeps_rules w r n quiet)
qed

end

sublocale real_env \<subseteq> lab_env "real_deps out a frames"
proof
  fix c
  show "observes (at_file StatePath c) (dObs (real_deps out a frames))"
    by (simp add: real_deps_def real_observer_quiet)
  show "executes StatePath (at_file StatePath c) (dExec (real_deps out a frames))"
    by (simp add: real_deps_def real_executor_quiet)
qed (simp_all add: real_deps_def audit_apart)

context real_env
begin

lemma is_lab_env: "lab_env (real_deps out a frames)"
  by (rule lab_env_axioms)

end

lemma real_env_quiet: "real_env (quiet_outside s) (NewAuditLogger c)"
  by unfold_locales
     (simp_all add: quiet_outside_def keeps_return NewAuditLogger_def NewAuditLoggerAt_def path_defs)

interpretation still_lab: real_env "quiet_outside s" "NewAuditLogger c" frames for s c frames
  by (rule real_env_quiet)

text \<open>A lab on a machine whose commands do nothing, with a given state recorded.\<close>

definition demo_lab :: "state_file \<Rightarrow> unit world" where
  "demo_lab f = demo_world [(StatePath, marshal_file f)] []"

definition demo_deps :: "unit deps" where
  "demo_deps = real_deps (quiet_outside []) (NewAuditLogger ''lab'') 2"

end
