(* ===== verification/ApplyProps.thy ===== *)
theory ApplyProps
  imports CmdFault LabEnv
begin

text \<open>
  What \<open>lab fault apply\<close> (\<^verbatim>\<open>cmd/fault.go\<close>) does to the recorded state, on every branch: the
  guards in their order, the mutation before the record, and the record's failure.
\<close>

subsection \<open>The applied file\<close>

lemma applied_file_simps [simp]:
  "sfState (applied_file i force now f) = StateDegraded"
  "sfActiveFault (applied_file i force now f) = Some \<lparr>afID = i, afAppliedAt = now, afForced = force\<rparr>"
  "sfClassificationValid (applied_file i force now f) = True"
  "sfLastValidate (applied_file i force now f) = sfLastValidate f"
  by (simp_all add: applied_file_def)

lemma applied_file_ok: "file_ok f \<Longrightarrow> file_ok (applied_file i force now f)"
  by (simp add: file_ok_def)

subsection \<open>The stages of the command\<close>

definition applied_result :: "string \<Rightarrow> bool \<Rightarrow> state_file \<Rightarrow> command_result" where
  "applied_result i force sf = success (VFaultApply
     \<lparr>faFaultID = i, faApplied = True, faFromState = sfState sf, faToState = StateDegraded,
      faForced = force, faAborted = False, faAbortReason = []\<rparr>)"

text \<open>The result says that the fault was applied.\<close>

definition claims_applied :: "command_result outcome \<Rightarrow> bool" where
  "claims_applied r \<longleftrightarrow> (\<exists>res v. r = Returns res \<and> crValue res = Some (VFaultApply v) \<and> faApplied v)"

lemma claims_applied_simps [simp]:
  "\<not> claims_applied (Panics s)" "\<not> claims_applied (Returns (failure c err))"
  "\<not> claims_applied (Returns (aborted_result i f))"
  by (simp_all add: claims_applied_def failure_def aborted_result_def success_def)

text \<open>What is recorded then, field by field.\<close>

definition apply_records :: "string \<Rightarrow> bool \<Rightarrow> time \<Rightarrow> state_file \<Rightarrow> state_file \<Rightarrow> bool" where
  "apply_records i force now sf g \<longleftrightarrow>
     sfState g = ''DEGRADED'' \<and> sfClassificationValid g \<and>
     sfActiveFault g = Some \<lparr>afID = i, afAppliedAt = now, afForced = force\<rparr> \<and>
     sfHistory g = last_n 50 (sfHistory sf @ [\<lparr>heTs = now, heFrom = sfState sf, heTo = ''DEGRADED'',
       heCommand = ''lab fault apply '' @ i, heFault = i, heForced = force\<rparr>]) \<and>
     sfLastValidate g = sfLastValidate sf \<and> sfLastReset g = sfLastReset sf \<and> sfLastProvision g = sfLastProvision sf"

lemma apply_records_file: "apply_records i force now sf (applied_file i force now sf\<lparr>sfSpecVersion := v\<rparr>)"
  by (simp add: apply_records_def applied_file_def sfHistory_AppendHistory HistoryMaxEntries_def StateDegraded_def)

definition guards_passed :: "bool \<Rightarrow> state_file \<Rightarrow> bool" where
  "guards_passed force f \<longleftrightarrow> force \<or> (sfState f = StateConformant \<and> sfActiveFault f = None)"

context lab_env
begin

lemma post_checks_quiet: "keeps (at_file StatePath c) (post_apply_checks d i cs)"
  by (induction cs)
     (auto intro!: keeps_rules found_check_quiet split: option.splits)

lemma pre_checks_quiet: "keeps (at_file StatePath c) (precondition_checks d i cs)"
  by (induction cs)
     (auto intro!: keeps_rules found_check_quiet log_error_quiet split: option.splits)

lemma state_pre_quiet: "keeps (at_file StatePath c) (state_preconditions d i f sf)"
  unfolding state_preconditions_def by (intro keeps_rules log_error_quiet)

lemma state_pre_result: "run (state_preconditions d i f sf) w = (Some res, w') \<Longrightarrow> \<not> claims_applied (Returns res)"
  by (auto simp: state_preconditions_def split: if_splits option.splits prod.splits)

lemma pre_checks_result:
  "run (precondition_checks d i cs) w = (Returns (Some res), w') \<Longrightarrow> \<not> claims_applied (Returns res)"
proof (induction cs arbitrary: w)
  case (Cons c cs)
  show ?case
  proof (cases "CheckByID c :: 'x world check option")
    case None
    with Cons show ?thesis by auto
  next
    case (Some check)
    obtain e w1 where "run (cExecute check (dObs d)) w = (e, w1)" by (meson surj_pair)
    with Cons Some show ?thesis by (auto split: outcome.splits option.splits prod.splits)
  qed
qed simp

lemma state_pre_guards:
  "run (state_preconditions d i f sf) w = (None, w') \<Longrightarrow> sfState sf = StateConformant \<and> sfActiveFault sf = None"
  by (auto simp: state_preconditions_def split: if_splits option.splits prod.splits)

text \<open>After the guards: nothing recorded, or recorded, or the record failed and was invalidated.\<close>

lemma apply_and_record_cases:
  assumes f: "f \<in> set AllImpls" and run: "run (apply_and_record d i force f sf) w = (r, w')"
    and rec: "recorded StatePath w = Some sf"
  shows "(recorded StatePath w' = recorded StatePath w \<and> \<not> claims_applied r) \<or>
     (\<exists>now. r = Returns (applied_result i force sf) \<and>
        recorded StatePath w' = Some (applied_file i force now sf\<lparr>sfSpecVersion := SpecVersion\<rparr>)) \<or>
     ((\<exists>err. r = Returns (failure 4 err)) \<and>
        recorded StatePath w' = Some (sf\<lparr>sfClassificationValid := False, sfSpecVersion := SpecVersion\<rparr>))"
proof -
  obtain e1 w1 where 1: "run (fiApply f (dExec d)) w = (e1, w1)" by (meson surj_pair)
  note f1 = at_file_run [OF faults_quiet(1) [OF f] 1]
  show ?thesis
  proof (cases e1)
    case (Some err)
    obtain x w2 where 2: "run (log_error d ''ErrApplyFailed'' (error_text err)) w1 = (x, w2)" by (meson surj_pair)
    have "w' = w2 \<and> \<not> claims_applied r" using run 1 2 Some by (auto simp: apply_and_record_def)
    with f1 at_file_run [OF log_error_quiet 2] have "files w' StatePath = files w StatePath" "\<not> claims_applied r" by simp_all
    with recorded_files [OF this(1)] show ?thesis by simp
  next
    case None
    obtain p w2 where 2: "run (post_apply_checks d i (pcFailingChecks (fdPostcondition (fiDef f)))) w1 = (p, w2)"
      by (meson surj_pair)
    note f2 = at_file_run [OF post_checks_quiet 2]
    show ?thesis
    proof (cases p)
      case (Panics s)
      with run 1 2 None have "w' = w2 \<and> \<not> claims_applied r" by (auto simp: apply_and_record_def)
      with f1 f2 have "files w' StatePath = files w StatePath" "\<not> claims_applied r" by simp_all
      with recorded_files [OF this(1)] show ?thesis by simp
    next
      case (Returns u)
      obtain now w3 where 3: "run time_now w2 = (now, w3)" by (meson surj_pair)
      obtain e4 w4 where 4: "run (Store_Write StatePath (applied_file i force now sf)) w3 = (e4, w4)" by (meson surj_pair)
      have f3: "files w3 StatePath = files w2 StatePath" using 3 by (auto simp: time_now_def)
      have r3: "recorded StatePath w3 = Some sf" using f1 f2 f3 rec recorded_files by metis
      have ok: "file_ok (applied_file i force now sf)" "IsValid (sfState (applied_file i force now sf))"
        using recorded_file_ok [OF rec] by (simp_all add: applied_file_ok)
      note W = canonical.write_old_or_new [OF 4 ok]
      show ?thesis
      proof (cases e4)
        case None
        obtain x w5 where 5: "run (with_audit (dAudit d) (\<lambda>l. LogTransition l (sfState sf) StateDegraded i)) w4 = (x, w5)"
          by (meson surj_pair)
        have "files w5 StatePath = files w4 StatePath"
          by (rule at_file_run [OF audit_quiet 5]) (rule at_file_log)
        moreover have "r = Returns (applied_result i force sf) \<and> w' = w5"
          using run 1 2 3 4 5 \<open>e1 = None\<close> Returns None canonical_store
          by (simp add: apply_and_record_def applied_result_def)
        ultimately show ?thesis using W None recorded_files by metis
      next
        case (Some err)
        obtain x w5 where 5: "run (log_error d ''StateRecordingFailed'' (error_text err)) w4 = (x, w5)" by (meson surj_pair)
        obtain e6 w6 where 6: "run (Store_InvalidateClassification StatePath) w5 = (e6, w6)" by (meson surj_pair)
        note f5 = at_file_run [OF log_error_quiet 5]
        have r5: "recorded StatePath w5 = Some sf" using recorded_files [OF f5] W Some r3 by simp
        have rr: "(\<exists>err. r = Returns (failure 4 err)) \<and> w' = w6"
          using run 1 2 3 4 5 6 \<open>e1 = None\<close> Returns Some canonical_store by (auto simp: apply_and_record_def)
        from canonical.Invalidate_old_or_new [OF 6] r5 rr rec show ?thesis by (auto split: if_splits)
      qed
    qed
  qed
qed

lemma apply_locked_cases:
  assumes f: "f \<in> set AllImpls" and run: "run (FaultApply_locked d i force yes f) w = (r, w')"
  shows "(recorded StatePath w' = recorded StatePath w \<and> \<not> claims_applied r) \<or>
     (\<exists>sf now. recorded StatePath w = Some sf \<and> guards_passed force sf \<and> r = Returns (applied_result i force sf) \<and>
        recorded StatePath w' = Some (applied_file i force now sf\<lparr>sfSpecVersion := SpecVersion\<rparr>)) \<or>
     (\<exists>sf err. recorded StatePath w = Some sf \<and> guards_passed force sf \<and> r = Returns (failure 4 err) \<and>
        recorded StatePath w' = Some (sf\<lparr>sfClassificationValid := False, sfSpecVersion := SpecVersion\<rparr>))"
proof -
  obtain q w1 where 1: "run (Store_Read StatePath) w = (q, w1)" by (meson surj_pair)
  have f1: "recorded StatePath w1 = recorded StatePath w" by (rule Store_Read_quiet [OF 1])
  show ?thesis
  proof (cases q)
    case (Inl err)
    obtain x w2 where 2: "run (log_error d ''ErrStateFileUnreadable'' (error_text err)) w1 = (x, w2)" by (meson surj_pair)
    have "w' = w2 \<and> \<not> claims_applied r" using run 1 2 Inl canonical_store by (auto simp: FaultApply_locked_def)
    with f1 recorded_files [OF at_file_run [OF log_error_quiet 2]] show ?thesis by simp
  next
    case (Inr sf)
    with 1 have rec: "recorded StatePath w = Some sf" by (auto dest: Store_Read_recorded)
    obtain pre w2 where 2: "run (if force then ret None else state_preconditions d i (fiDef f) sf) w1 = (pre, w2)"
      by (meson surj_pair)
    have f2: "files w2 StatePath = files w1 StatePath"
      by (rule at_file_run [OF keeps_if [OF keeps_return state_pre_quiet] 2])
    show ?thesis
    proof (cases pre)
      case (Some res)
      then have "\<not> claims_applied (Returns res)" using 2 by (auto dest: state_pre_result split: if_splits)
      with Some run 1 2 Inr f1 recorded_files [OF f2] canonical_store show ?thesis
        by (auto simp: FaultApply_locked_def)
    next
      case None
      with 2 have g: "guards_passed force sf"
        by (auto simp: guards_passed_def dest: state_pre_guards split: if_splits)
      obtain live w3 where 3: "run (if force then ret (Returns None)
          else precondition_checks d i (fdPreconditionChecks (fiDef f))) w2 = (live, w3)" by (meson surj_pair)
      have f3: "files w3 StatePath = files w2 StatePath"
        by (rule at_file_run [OF keeps_if [OF keeps_return pre_checks_quiet] 3])
      have r3: "recorded StatePath w3 = recorded StatePath w"
        using f1 f2 f3 recorded_files by metis
      have lr: "\<not> claims_applied (Returns res)" if "live = Returns (Some res)" for res
        using 3 that by (auto dest: pre_checks_result split: if_splits)
      consider (stop) "recorded StatePath w' = recorded StatePath w3" "\<not> claims_applied r"
        | (go) "run (apply_and_record d i force f sf) w3 = (r, w')"
        using run 1 2 3 Inr None canonical_store lr
        by (cases live; cases "force"; auto simp: FaultApply_locked_def split: option.splits if_splits)
      then show ?thesis
      proof cases
        case stop
        with r3 show ?thesis by simp
      next
        case go
        from apply_and_record_cases [OF f go] r3 rec g show ?thesis by auto
      qed
    qed
  qed
qed

lemma apply_cases:
  assumes run: "run (FaultApplyCmd_Run d i force yes) w = (r, w')"
  shows "(recorded StatePath w' = recorded StatePath w \<and> \<not> claims_applied r) \<or>
     (\<exists>sf now. recorded StatePath w = Some sf \<and> guards_passed force sf \<and> r = Returns (applied_result i force sf) \<and>
        recorded StatePath w' = Some (applied_file i force now sf\<lparr>sfSpecVersion := SpecVersion\<rparr>)) \<or>
     (\<exists>sf err. recorded StatePath w = Some sf \<and> guards_passed force sf \<and> r = Returns (failure 4 err) \<and>
        recorded StatePath w' = Some (sf\<lparr>sfClassificationValid := False, sfSpecVersion := SpecVersion\<rparr>))"
proof (cases "ByID i :: 'x world fault_impl option")
  case None
  obtain x w2 where 2: "run (log_error d ''ErrUnknownFaultID'' i) w = (x, w2)" by (meson surj_pair)
  have "w' = w2 \<and> \<not> claims_applied r" using run 2 None by (auto simp: FaultApplyCmd_Run_def)
  with recorded_files [OF at_file_run [OF log_error_quiet 2]] show ?thesis by simp
next
  case (Some f)
  then have mem: "f \<in> set AllImpls" by (auto simp: ByID_def ImplByID_def dest: find_SomeD)
  have refuse: "keeps (at_file StatePath c)
      (do { _ \<leftarrow> log_error d ''ErrLockHeld'' (error_text err); ret (Returns (failure 1 err)) })" for err c
    by (intro keeps_rules log_error_quiet)
  from run Some have "run (under_lock (dFrames d)
      (\<lambda>err. do { _ \<leftarrow> log_error d ''ErrLockHeld'' (error_text err); ret (Returns (failure 1 err)) })
      (FaultApply_locked d i force yes f)) w = (r, w')" by (simp add: FaultApplyCmd_Run_def)
  then show ?thesis
  proof (cases rule: under_lock_cases [OF _ refuse, consumes 1, case_names died refused locked])
    case died
    with recorded_files [OF this(2)] show ?thesis by simp
  next
    case (refused e v)
    then have "\<not> claims_applied r" by (auto split: prod.splits)
    with recorded_files [OF refused(2)] show ?thesis by simp
  next
    case (locked v v')
    from apply_locked_cases [OF mem locked(1)] show ?thesis
      unfolding recorded_files [OF locked(2)] recorded_files [OF locked(3)] .
  qed
qed

end

subsection \<open>Properties\<close>

text \<open>The three outcomes, as a relation between what is recorded before and after.\<close>

definition apply_outcome ::
  "string \<Rightarrow> bool \<Rightarrow> state_file option \<Rightarrow> command_result outcome \<Rightarrow> state_file option \<Rightarrow> bool" where
  "apply_outcome i force before r after \<longleftrightarrow>
     (after = before \<and> \<not> claims_applied r) \<or>
     (\<exists>sf now. before = Some sf \<and> guards_passed force sf \<and> r = Returns (applied_result i force sf) \<and>
        (\<exists>g. after = Some g \<and> g = applied_file i force now sf\<lparr>sfSpecVersion := SpecVersion\<rparr> \<and>
          apply_records i force now sf g)) \<or>
     (\<exists>sf err. before = Some sf \<and> guards_passed force sf \<and> r = Returns (failure 4 err) \<and>
        after = Some (sf\<lparr>sfClassificationValid := False, sfSpecVersion := SpecVersion\<rparr>))"

text \<open>
  C4: \<open>lab fault apply\<close> in the real environment, whatever fails on the way, leaves the
  recorded state in one of three conditions: untouched, and then it does not report the fault
  applied; or, when the guards hold or are
  forced, DEGRADED with this fault active and one more history entry, and then the command
  reports the fault applied; or, when the mutation was made but the record failed, the old
  state with its classification invalidated and exit code 4.
\<close>

theorem fault_apply_outcomes:
  assumes "real_env out a"
  shows "case run (FaultApplyCmd_Run (real_deps out a n) i force yes) w of
     (r, w') \<Rightarrow> apply_outcome i force (recorded StatePath w) r (recorded StatePath w')"
proof (cases "run (FaultApplyCmd_Run (real_deps out a n) i force yes) w")
  case (Pair r w')
  from lab_env.apply_cases [OF real_env.is_lab_env [OF assms] Pair] show ?thesis
    unfolding Pair apply_outcome_def using apply_records_file by fastforce
qed

theorem fault_apply_outcomes_witness:
  "case run (FaultApplyCmd_Run demo_deps ''F-018'' True True) (demo_lab (demo_file StateBroken)) of
     (r, w') \<Rightarrow> apply_outcome ''F-018'' True (recorded StatePath (demo_lab (demo_file StateBroken))) r
       (recorded StatePath w')"
  unfolding demo_deps_def by (rule fault_apply_outcomes [OF real_env_quiet])

end
