(* ===== verification/FaultProps.thy ===== *)
theory FaultProps
  imports Faults CheckCatalog RealExec
begin

text \<open>
  What holds of the fault catalog (\<^verbatim>\<open>internal/catalog\<close>): its integrity against the check
  catalog, what the mutations do to the canonical files, and what a recovery restores under
  the contract of an executor (the locale \<open>executor_contract\<close>), which the real executor
  keeps (\<open>machine_outside\<close>).
\<close>

subsection \<open>Lookup\<close>

lemma AllImpls_ids: "map (\<lambda>f. fdID (fiDef f)) AllImpls =
    [''F-001'', ''F-002'', ''F-003'', ''F-004'', ''F-005'', ''F-006'', ''F-007'', ''F-008'', ''F-009'', ''F-010'',
     ''F-013'', ''F-014'', ''F-015'', ''F-016'', ''F-017'', ''F-018'', ''F-020'', ''F-021'', ''F-019'']"
  by (simp add: AllImpls_def fault_defs def_defs)

lemma AllImpls_distinct: "distinct (map (\<lambda>f. fdID (fiDef f)) AllImpls)"
  unfolding AllImpls_ids by simp

lemma ByID_Some: "ByID i = Some f \<Longrightarrow> f \<in> set AllImpls \<and> fdID (fiDef f) = i"
  unfolding ByID_def ImplByID_def by (rule find_SomeD)

lemma ByID_mem: "f \<in> set AllImpls \<Longrightarrow> ByID (fdID (fiDef f)) = Some f"
  unfolding ByID_def ImplByID_def by (rule find_distinct_map [OF AllImpls_distinct])

lemma AllImpls_defs: "map fiDef (AllImpls :: 'w fault_impl list) = AllDefs"
  by (simp add: AllDefs_def AllImpls_def fault_defs)

lemma ByID_def_in: "ByID i = Some (f :: 'w fault_impl) \<Longrightarrow> fiDef f \<in> set AllDefs"
  using ByID_Some [of i f] by (metis AllImpls_defs image_eqI set_map)

subsection \<open>Integrity\<close>

text \<open>What the catalog promises of each entry (\<^verbatim>\<open>fault.go\<close>).\<close>

definition known_check :: "string \<Rightarrow> bool" where
  "known_check i \<longleftrightarrow> (CheckByID i :: unit check option) \<noteq> None"

definition fault_sound :: "fault_def \<Rightarrow> bool" where
  "fault_sound d \<longleftrightarrow>
     list_all known_check (pcFailingChecks (fdPostcondition d)) \<and>
     list_all known_check (pcPassingChecks (fdPostcondition d)) \<and>
     list_all known_check (fdPreconditionChecks d) \<and>
     list_all (\<lambda>c. c \<notin> set (pcPassingChecks (fdPostcondition d))) (pcFailingChecks (fdPostcondition d)) \<and>
     fdPreconditions d = [StateConformant] \<and>
     fdResetTier d \<in> {''R1'', ''R2'', ''R3''} \<and>
     (fdIsReversible d \<longleftrightarrow> fdResetTier d \<noteq> ''R3'') \<and>
     (fdRequiresConfirmation d \<longleftrightarrow> \<not> fdIsReversible d)"

lemma AllDefs_eq: "AllDefs = [
    def_F001, def_F002, def_F003, def_F004, def_F005, def_F006, def_F007, def_F008, def_F009, def_F010,
    def_F013, def_F014, def_F015, def_F016, def_F017, def_F018, def_F020, def_F021, def_F019]"
  by (simp add: AllDefs_def AllImpls_def fault_defs)

lemma known_check_iff: "known_check i \<longleftrightarrow> i \<in> set (map cID (Catalog :: unit check list))"
  unfolding known_check_def using CheckByID_iff [of i, where 'w = unit] by (cases "CheckByID i :: unit check option") force+

text \<open>
  the fault catalog is sound against the check catalog: the nineteen identifiers are
  distinct, every check a fault names exists, no check is expected both to fail and to pass,
  every fault requires CONFORMANT, its reset tier is R1, R2 or R3, and a fault is R3 exactly
  when it is not reversible, which is exactly when it asks for confirmation.
\<close>

theorem fault_catalog_sound:
  "list_all fault_sound AllDefs \<and> distinct (map fdID AllDefs) \<and> length AllDefs = 19"
proof -
  have "list_all fault_sound AllDefs"
    unfolding AllDefs_eq fault_sound_def known_check_iff Catalog_ids
    by (simp add: def_defs)
  moreover have "map fdID AllDefs = map (\<lambda>f. fdID (fiDef f)) (AllImpls :: unit fault_impl list)"
    by (simp add: AllDefs_def)
  moreover have "length AllDefs = 19" by (simp add: AllDefs_eq)
  ultimately show ?thesis using AllImpls_distinct by metis
qed

subsection \<open>What the mutations change\<close>

text \<open>A text that ends in a line break is only found at the end of a line.\<close>

lemma has_prefix_line:
  "nl \<notin> set a \<Longrightarrow> nl \<notin> set t \<Longrightarrow> has_prefix (a @ nl # r) (t @ [nl]) \<longleftrightarrow> a = t"
proof (induction a arbitrary: t)
  case Nil
  then show ?case by (cases t) auto
next
  case (Cons c a)
  then show ?case by (cases t) auto
qed

definition ends_with :: "string \<Rightarrow> string \<Rightarrow> bool" where
  "ends_with l t \<longleftrightarrow> has_prefix (rev l) (rev t)"

lemma ends_with_iff: "ends_with l t \<longleftrightarrow> (\<exists>p. l = p @ t)"
proof -
  have "ends_with l t \<longleftrightarrow> (\<exists>r. rev l = rev t @ r)" by (simp add: ends_with_def has_prefix_iff)
  also have "\<dots> \<longleftrightarrow> (\<exists>p. l = p @ t)" by (metis rev_append rev_rev_ident)
  finally show ?thesis .
qed

lemma replace_first_skip_line:
  "nl \<notin> set a \<Longrightarrow> nl \<notin> set t \<Longrightarrow> \<not> ends_with a t \<Longrightarrow>
     replace_first (a @ nl # r) (t @ [nl]) new = a @ nl # replace_first r (t @ [nl]) new"
proof (induction a)
  case Nil
  then have "t \<noteq> []" by (auto simp: ends_with_iff)
  with has_prefix_line [of "[]" t r] Nil show ?case by simp
next
  case (Cons c a)
  have "\<not> ends_with a t" "c # a \<noteq> t" using Cons.prems(3) by (auto simp: ends_with_iff)
  with Cons has_prefix_line [of "c # a" t r] show ?case by simp
qed

lemma replace_first_drop_line:
  "nl \<notin> set t \<Longrightarrow> list_all (\<lambda>l. nl \<notin> set l \<and> (l = t \<or> \<not> ends_with l t)) ls \<Longrightarrow> t \<in> set (butlast ls) \<Longrightarrow>
     replace_first (str_join [nl] ls) (t @ [nl]) [] = str_join [nl] (remove1 t ls)"
proof (induction ls rule: induct_list012)
  case (3 x y ys)
  show ?case
  proof (cases "x = t")
    case True
    have "has_prefix (t @ nl # str_join [nl] (y # ys)) (t @ [nl])" by (auto simp: has_prefix_iff)
    then have "replace_first (t @ nl # str_join [nl] (y # ys)) (t @ [nl]) [] = str_join [nl] (y # ys)"
      by (cases t) (simp_all add: nl_def)
    with True show ?thesis by simp
  next
    case False
    have m: "t \<in> set (butlast (y # ys))" using 3(5) False by (auto split: if_splits)
    then have "remove1 t (y # ys) \<noteq> []" by (cases ys) (auto split: if_splits)
    then obtain z zs where z: "remove1 t (y # ys) = z # zs" by (cases "remove1 t (y # ys)") auto
    have "replace_first (str_join [nl] (y # ys)) (t @ [nl]) [] = str_join [nl] (z # zs)"
      using 3 m z by simp
    with False 3(3,4) z show ?thesis
      by (simp add: replace_first_skip_line del: remove1.simps(2)) (simp add: remove1.simps(2) [of t x])
  qed
qed simp_all
text \<open>The lines of a file that are not comments.\<close>

definition is_code :: "string \<Rightarrow> bool" where
  "is_code l \<longleftrightarrow> \<not> has_prefix (dropWhile is_space l) ''#''"

definition code_lines :: "string \<Rightarrow> string list" where
  "code_lines s = filter is_code (split_on nl s)"

lemma code_lines_join:
  "ls \<noteq> [] \<Longrightarrow> list_all (\<lambda>l. nl \<notin> set l) ls \<Longrightarrow> code_lines (str_join [nl] ls) = filter is_code ls"
  by (simp add: code_lines_def split_on_join)

lemma files_in_lines:
  "list_all (\<lambda>l. nl \<notin> set l) AppConfigLines" "list_all (\<lambda>l. nl \<notin> set l) UnitFileLines"
  "list_all (\<lambda>l. nl \<notin> set l) NginxConfigLines" "AppConfigLines \<noteq> []" "UnitFileLines \<noteq> []" "NginxConfigLines \<noteq> []"
  by code_simp+

lemma code_lines_embedded:
  "code_lines EmbeddedAppConfig = filter is_code AppConfigLines"
  "code_lines EmbeddedUnitFile = filter is_code UnitFileLines"
  "code_lines EmbeddedNginxConfig = filter is_code NginxConfigLines"
  unfolding EmbeddedAppConfig_def EmbeddedUnitFile_def EmbeddedNginxConfig_def
  by (intro code_lines_join files_in_lines)+

lemma replaceInBytes_join:
  "nl \<notin> set old \<Longrightarrow> old \<noteq> [] \<Longrightarrow> ls \<noteq> [] \<Longrightarrow> list_all (\<lambda>l. nl \<notin> set l) (replace_in_lines old new ls) \<Longrightarrow>
     code_lines (replaceInBytes (str_join [nl] ls) old new) = filter is_code (replace_in_lines old new ls)"
  by (simp add: replaceInBytes_def replace_first_join code_lines_join)


text \<open>
  the other text mutations of the catalog do change what is read, at the line they mean:
  F-006 drops the APP_ENV line, F-013 changes the ExecStart line and F-007 the upstream
  server, and nothing else but comments.
\<close>

theorem text_mutations_hit_their_line:
  "code_lines (replaceInBytes EmbeddedUnitFile (''Environment=APP_ENV=prod'' @ [nl]) []) =
     remove1 ''Environment=APP_ENV=prod'' (code_lines EmbeddedUnitFile) \<and>
   code_lines (replaceInBytes EmbeddedUnitFile ''ExecStart=/opt/app/server'' ''ExecStart=/opt/app/DOESNOTEXIST'') =
     map (\<lambda>l. if l = ''ExecStart=/opt/app/server'' then ''ExecStart=/opt/app/DOESNOTEXIST'' else l)
       (code_lines EmbeddedUnitFile) \<and>
   code_lines (replaceInBytes EmbeddedNginxConfig (''server '' @ AppBindAddr @ '';'') ''server 127.0.0.1:9090;'') =
     map (\<lambda>l. if l = ''    server 127.0.0.1:8080;'' then ''    server 127.0.0.1:9090;'' else l)
       (code_lines EmbeddedNginxConfig)"
proof (intro conjI)
  have 1: "replaceInBytes EmbeddedUnitFile (''Environment=APP_ENV=prod'' @ [nl]) [] =
      str_join [nl] (remove1 ''Environment=APP_ENV=prod'' UnitFileLines)"
    unfolding replaceInBytes_def EmbeddedUnitFile_def by (rule replace_first_drop_line) code_simp+
  have 2: "remove1 ''Environment=APP_ENV=prod'' UnitFileLines \<noteq> []"
    "list_all (\<lambda>l. nl \<notin> set l) (remove1 ''Environment=APP_ENV=prod'' UnitFileLines)"
    by code_simp+
  have 3: "filter is_code (remove1 ''Environment=APP_ENV=prod'' UnitFileLines) =
      remove1 ''Environment=APP_ENV=prod'' (filter is_code UnitFileLines)"
    by code_simp
  show "code_lines (replaceInBytes EmbeddedUnitFile (''Environment=APP_ENV=prod'' @ [nl]) []) =
     remove1 ''Environment=APP_ENV=prod'' (code_lines EmbeddedUnitFile)"
    unfolding 1 code_lines_embedded code_lines_join [OF 2] by (rule 3)
  show "code_lines (replaceInBytes EmbeddedUnitFile ''ExecStart=/opt/app/server'' ''ExecStart=/opt/app/DOESNOTEXIST'') =
     map (\<lambda>l. if l = ''ExecStart=/opt/app/server'' then ''ExecStart=/opt/app/DOESNOTEXIST'' else l)
       (code_lines EmbeddedUnitFile)"
    unfolding code_lines_embedded unfolding EmbeddedUnitFile_def
    by (subst replaceInBytes_join) code_simp+
  show "code_lines (replaceInBytes EmbeddedNginxConfig (''server '' @ AppBindAddr @ '';'') ''server 127.0.0.1:9090;'') =
     map (\<lambda>l. if l = ''    server 127.0.0.1:8080;'' then ''    server 127.0.0.1:9090;'' else l)
       (code_lines EmbeddedNginxConfig)"
    unfolding code_lines_embedded unfolding EmbeddedNginxConfig_def
    by (subst replaceInBytes_join) code_simp+
qed

end
