(* ===== verification/ResetProps.thy ===== *)
theory ResetProps
  imports CmdProvision LabEnv FaultProps
begin

text \<open>
  What \<open>lab reset\<close> and \<open>lab provision\<close> do to the recorded state (\<^verbatim>\<open>cmd/reset.go\<close>,
  \<^verbatim>\<open>cmd/reset_provision_history.go\<close>) on every branch.
\<close>

subsection \<open>Suite results that come from a run\<close>

definition suite_ran :: "'x deps \<Rightarrow> suite_result \<Rightarrow> bool" where
  "suite_ran d sr \<longleftrightarrow> (\<exists>v. fst (run (Runner_Run (dChecks d) (dObs d)) v) = sr)"

lemma suite_ranI: "run (Runner_Run (dChecks d) (dObs d)) v = (sr, v') \<Longrightarrow> suite_ran d sr"
  unfolding suite_ran_def by (intro exI [of _ v]) simp

lemma suite_ran_eq:
  assumes "suite_ran d sr"
  obtains t rs where "sr = Classify (empty_suite t (int (length (dChecks d))) rs)" and "length rs = length (dChecks d)"
proof -
  obtain v where "fst (run (Runner_Run (dChecks d) (dObs d)) v) = sr" using assms by (auto simp: suite_ran_def)
  then obtain v' where "run (Runner_Run (dChecks d) (dObs d)) v = (sr, v')" by (metis prod.collapse)
  then obtain t w1 rs where "run (run_checks (dObs d) True (dChecks d)) w1 = (rs, v')"
    and "sr = Classify (empty_suite t (int (length (dChecks d))) rs)" by (rule Runner_Run_eq)
  with run_checks_results [OF this(1)] that show ?thesis by blast
qed

text \<open>The exit code of a suite is 0 exactly when it is conformant.\<close>

lemma suite_ran_exit: "suite_ran d sr \<Longrightarrow> ExitCode sr = (if IsConformant (sClassification sr) then 0 else 1)"
  by (erule suite_ran_eq) (simp add: ExitCode_def IsConformant_Classify)

lemma suite_state_simps [simp]:
  "IsValid (suite_state sr)" "suite_state sr \<noteq> StateDegraded" "suite_state sr \<noteq> []"
  "suite_state sr = StateConformant \<longleftrightarrow> IsConformant (sClassification sr)"
  "suite_state sr = StateBroken \<longleftrightarrow> \<not> IsConformant (sClassification sr)"
  by (simp_all add: suite_state_def)

subsection \<open>The files written\<close>

lemma reset_file_simps [simp]:
  "sfState (reset_file t now sr f) = suite_state sr" "sfActiveFault (reset_file t now sr f) = None"
  "sfClassificationValid (reset_file t now sr f) = True"
  "sfLastValidate (reset_file t now sr f) = Some (suite_record sr)"
  by (simp_all add: reset_file_def)

lemma provision_file_simps [simp]:
  "sfState (provision_file now sr f) = sfState f" "sfActiveFault (provision_file now sr f) = sfActiveFault f"
  "sfClassificationValid (provision_file now sr f) = sfClassificationValid f"
  by (simp_all add: provision_file_def)

lemma reset_inv_I2: "inv_I2 (reset_file t now sr f)"
  by (simp add: inv_I2_def)

text \<open>What \<open>Fresh\<close> makes.\<close>

definition fresh_file :: "lab_state \<Rightarrow> time \<Rightarrow> state_file" where
  "fresh_file s now = \<lparr>sfSpecVersion = SpecVersion, sfState = s, sfClassificationValid = True, sfActiveFault = None,
     sfLastValidate = None, sfLastReset = None, sfLastProvision = None, sfLastStatusAt = Some now, sfHistory = []\<rparr>"

lemma fresh_file_simps [simp]:
  "sfState (fresh_file s now) = s" "sfActiveFault (fresh_file s now) = None"
  "sfClassificationValid (fresh_file s now) = True" "sfLastValidate (fresh_file s now) = None"
  "sfHistory (fresh_file s now) = []"
  by (simp_all add: fresh_file_def)

lemma run_Fresh: "run (Fresh s) w = (fresh_file s (clock_at w (clockno w)), w\<lparr>clockno := Suc (clockno w)\<rparr>)"
  by (simp add: Fresh_def time_now_def fresh_file_def)

lemma fresh_inv_I2: "s \<noteq> StateDegraded \<Longrightarrow> inv_I2 (fresh_file s now)"
  by (simp add: inv_I2_def)

lemma run_mono: "run mono_now w = (mono_at w (clockno w), w\<lparr>clockno := Suc (clockno w)\<rparr>)"
  by (simp add: mono_now_def)

lemma clock_tick [simp]: "files (w\<lparr>clockno := n\<rparr>) = files w" "recorded p (w\<lparr>clockno := n\<rparr>) = recorded p w"
  by (simp_all add: recorded_def)

subsection \<open>The outcomes\<close>

definition known_tier :: "string \<Rightarrow> bool" where
  "known_tier t \<longleftrightarrow> t = ''R1'' \<or> t = ''R2'' \<or> t = ''R3''"

text \<open>What a command starts from: what is recorded, or a fresh BROKEN file if it could not be read.\<close>

definition starts_from :: "state_file option \<Rightarrow> state_file \<Rightarrow> bool" where
  "starts_from before sf \<longleftrightarrow> before = Some sf \<or> (\<exists>t. sf = fresh_file StateBroken t)"

text \<open>What a reset with outcome \<open>sr\<close> returns and what it records, field by field.\<close>

definition end_state :: "suite_result \<Rightarrow> lab_state" where
  "end_state sr = (if IsConformant (sClassification sr) then ''CONFORMANT'' else ''BROKEN'')"

definition reset_says :: "string \<Rightarrow> state_file \<Rightarrow> suite_result \<Rightarrow> command_result \<Rightarrow> bool" where
  "reset_says tier sf sr r \<longleftrightarrow>
     crExitCode r = (if IsConformant (sClassification sr) then 0 else 1) \<and>
     (crErr r = None \<longleftrightarrow> IsConformant (sClassification sr)) \<and>
     (\<exists>ms. crValue r = Some (VReset \<lparr>reTier = tier, reFromState = sfState sf, reToState = end_state sr,
        reFaultCleared = (case sfActiveFault sf of Some a \<Rightarrow> afID a | None \<Rightarrow> []), reValidationRan = True,
        reSuite = Some sr, reDurationMs = ms\<rparr>))"

definition reset_records :: "string \<Rightarrow> state_file \<Rightarrow> suite_result \<Rightarrow> time \<Rightarrow> state_file \<Rightarrow> bool" where
  "reset_records tier sf sr now g \<longleftrightarrow>
     sfState g = end_state sr \<and> sfClassificationValid g \<and> sfActiveFault g = None \<and>
     sfLastValidate g = Some \<lparr>vrAt = sAt sr, vrPassed = sPassed sr, vrTotal = sTotal sr, vrFailingChecks = sFailingBlockingIDs sr\<rparr> \<and>
     sfLastReset g = Some \<lparr>rrAt = now, rrTier = tier, rrFromState = sfState sf,
       rrFaultCleared = (case sfActiveFault sf of Some a \<Rightarrow> afID a | None \<Rightarrow> [])\<rparr> \<and>
     sfLastProvision g = sfLastProvision sf \<and>
     sfHistory g = last_n 50 (sfHistory sf @ [\<lparr>heTs = now, heFrom = sfState sf, heTo = end_state sr,
       heCommand = ''lab reset --tier '' @ tier,
       heFault = (case sfActiveFault sf of Some a \<Rightarrow> afID a | None \<Rightarrow> []), heForced = False\<rparr>])"

definition provision_says :: "suite_result \<Rightarrow> command_result \<Rightarrow> bool" where
  "provision_says sr r \<longleftrightarrow>
     (if IsConformant (sClassification sr)
      then crExitCode r = 0 \<and> crErr r = None \<and> (\<exists>ms. crValue r = Some (VProvision \<lparr>poToState = ''CONFORMANT'',
        poValidation = Some \<lparr>vsAt = sAt sr, vsPassed = sPassed sr, vsTotal = sTotal sr\<rparr>, poDurationMs = ms\<rparr>))
      else crExitCode r = 1 \<and> crErr r \<noteq> None \<and> crValue r = None)"

definition provision_records :: "suite_result \<Rightarrow> time \<Rightarrow> state_file \<Rightarrow> bool" where
  "provision_records sr now g \<longleftrightarrow>
     sfState g = end_state sr \<and> sfClassificationValid g \<and> sfActiveFault g = None \<and> sfLastReset g = None \<and>
     sfLastProvision g = Some \<lparr>prAt = now, prResult = end_state sr\<rparr> \<and>
     sfLastValidate g = Some \<lparr>vrAt = sAt sr, vrPassed = sPassed sr, vrTotal = sTotal sr, vrFailingChecks = []\<rparr> \<and>
     sfHistory g = [\<lparr>heTs = now, heFrom = ''UNPROVISIONED'', heTo = end_state sr, heCommand = ''lab provision'',
       heFault = [], heForced = False\<rparr>]"

lemma suite_state_end: "suite_state sr = end_state sr"
  by (simp add: suite_state_def end_state_def StateConformant_def StateBroken_def)

lemma reset_says_result: "reset_says tier sf sr (reset_result_of tier sf sr ms)"
  by (auto simp: reset_says_def reset_result_of_def reset_value_def Let_def suite_state_end cleared_fault_def success_def)

lemma reset_records_file: "reset_records tier sf sr now (reset_file tier now sr sf\<lparr>sfSpecVersion := v\<rparr>)"
  by (simp add: reset_records_def reset_file_def suite_state_end cleared_fault_def suite_record_def
      sfHistory_AppendHistory HistoryMaxEntries_def)

lemma provision_says_result: "provision_says sr (provision_result_of sr ms)"
  by (auto simp: provision_says_def provision_result_of_def suite_state_end end_state_def success_def failure_def)

lemma provision_records_file:
  "provision_records sr now (provision_file now sr (fresh_file (suite_state sr) t)\<lparr>sfSpecVersion := v\<rparr>)"
  by (simp add: provision_records_def provision_file_def suite_state_end sfHistory_AppendHistory HistoryMaxEntries_def
      fresh_file_def last_n_def StateUnprovisioned_def)

definition reset_outcome ::
  "'x deps \<Rightarrow> state_file option \<Rightarrow> command_result outcome \<Rightarrow> state_file option \<Rightarrow> bool" where
  "reset_outcome d before r after \<longleftrightarrow>
     (after = before \<and> ((\<exists>s. r = Panics s) \<or> (\<exists>err. r = Returns (failure 1 err)))) \<or>
     (\<exists>sf tier sr ms. after = before \<and> before = Some sf \<and> sfState sf = StateConformant \<and> sfActiveFault sf = None \<and>
        suite_ran d sr \<and> IsConformant (sClassification sr) \<and>
        r = Returns (success (reset_value tier StateConformant StateConformant [] sr ms))) \<or>
     (\<exists>sf tier sr now ms. starts_from before sf \<and> known_tier tier \<and> suite_ran d sr \<and>
        r = Returns (reset_result_of tier sf sr ms) \<and> reset_says tier sf sr (reset_result_of tier sf sr ms) \<and>
        (after = before \<or>
         (\<exists>g. after = Some g \<and> g = reset_file tier now sr sf\<lparr>sfSpecVersion := SpecVersion\<rparr> \<and>
           reset_records tier sf sr now g)))"

definition provision_outcome ::
  "'x deps \<Rightarrow> state_file option \<Rightarrow> command_result outcome \<Rightarrow> state_file option \<Rightarrow> bool" where
  "provision_outcome d before r after \<longleftrightarrow>
     (after = before \<and> ((\<exists>s. r = Panics s) \<or> (\<exists>err. r = Returns (failure 1 err)))) \<or>
     (\<exists>sr t now ms. suite_ran d sr \<and> r = Returns (provision_result_of sr ms) \<and>
        provision_says sr (provision_result_of sr ms) \<and>
        (after = before \<or>
         (\<exists>g. after = Some g \<and> g = provision_file now sr (fresh_file (suite_state sr) t)\<lparr>sfSpecVersion := SpecVersion\<rparr> \<and>
           provision_records sr now g)))"

lemma executeTier_known: "run (executeTier d tier sf) w = (None, w') \<Longrightarrow> known_tier tier"
  by (auto simp: executeTier_def known_tier_def run_and_then split: if_splits prod.splits option.splits)

lemma reset_paths_apart: "path \<in> set R2RestoreFiles \<Longrightarrow> \<not> has_prefix path StatePath"
  by (auto simp: R2RestoreFiles_def fault_paths_apart)

lemma reset_modes_apart: "(path, m) \<in> set R2RestoreModes \<Longrightarrow> \<not> has_prefix path StatePath"
  by (auto simp: R2RestoreModes_def fault_paths_apart)

context lab_env
begin

lemma suite_bounds: "suite_ran d sr \<Longrightarrow> int64_ok (sPassed sr) \<and> int64_ok (sTotal sr)"
proof (erule suite_ran_eq)
  fix t rs
  assume sr: "sr = Classify (empty_suite t (int (length (dChecks d))) rs)" and len: "length rs = length (dChecks d)"
  have "length (dChecks d) = 25"
    using arg_cong [OF Catalog_ids [where 'w = "'x world"], of length] by (simp add: catalog_checks NewRunner_def)
  moreover have "length (filter rPassed rs) \<le> length rs" by (rule length_filter_le)
  ultimately show ?thesis using len by (simp add: sr int64_ok_def)
qed

lemma reset_file_ok: "file_ok f \<Longrightarrow> suite_ran d sr \<Longrightarrow> file_ok (reset_file t now sr f)"
  using suite_bounds by (simp add: file_ok_def suite_record_def)

lemma provision_file_ok: "suite_ran d sr \<Longrightarrow> file_ok (provision_file now sr (fresh_file s t))"
  using suite_bounds by (simp add: file_ok_def provision_file_def)

lemma recover_quiet: "keeps (at_file StatePath c) (recover_active d sf)"
  unfolding recover_active_def
  by (auto intro!: keeps_rules faults_quiet dest: ByID_Some split: option.splits)

lemma executeTier_quiet: "keeps (at_file StatePath c) (executeTier d tier sf)"
proof -
  note ex = executesD [OF executor_quiet]
  have rr: "keeps (at_file StatePath c) (restart_and_reload d t)" for t
    unfolding restart_and_reload_def by (intro keeps_rules ex)
  have rf: "keeps (at_file StatePath c) (restore_files d)"
    unfolding restore_files_def by (intro keeps_for_each_in keeps_rules ex reset_paths_apart)
  have rm: "keeps (at_file StatePath c) (restore_modes d)"
    unfolding restore_modes_def by (rule keeps_for_each_in) (auto intro!: keeps_rules ex reset_modes_apart)
  show ?thesis unfolding executeTier_def by (intro keeps_rules recover_quiet rr rf rm ex)
qed

lemma reset_and_record_outcome:
  assumes run: "run (reset_and_record d start tier sf) w = (r, w')"
    and start: "starts_from (recorded StatePath w) sf" and ok: "file_ok sf"
  shows "reset_outcome d (recorded StatePath w) r (recorded StatePath w')"
proof -
  obtain e w1 where 1: "run (executeTier d tier sf) w = (e, w1)" by (meson surj_pair)
  note f1 = at_file_run [OF executeTier_quiet 1]
  show ?thesis
  proof (cases e)
    case (Some err)
    obtain x w2 where 2: "run (log_error d ''ErrResetOperationFailed'' (error_text err)) w1 = (x, w2)" by (meson surj_pair)
    have "files w2 StatePath = files w StatePath" using f1 at_file_run [OF log_error_quiet 2] by simp
    from recorded_files [OF this] show ?thesis
      using run 1 2 Some by (auto simp: reset_and_record_def reset_outcome_def)
  next
    case None
    obtain sr w2 where 2: "run (Runner_Run (dChecks d) (dObs d)) w1 = (sr, w2)" by (meson surj_pair)
    obtain now w3 where 3: "run time_now w2 = (now, w3)" by (meson surj_pair)
    obtain e4 w4 where 4: "run (Store_Write StatePath (reset_file tier now sr sf)) w3 = (e4, w4)" by (meson surj_pair)
    obtain x w5 where 5: "run (with_audit (dAudit d) (\<lambda>l. LogTransition l (sfState sf) (suite_state sr) (cleared_fault sf))) w4 = (x, w5)"
      by (meson surj_pair)
    note ran = suite_ranI [OF 2]
    have f3: "files w3 StatePath = files w StatePath"
      using f1 at_file_run [OF suite_quiet 2] 3 by (auto simp: time_now_def)
    have f5: "files w5 StatePath = files w4 StatePath"
      by (rule at_file_run [OF audit_quiet 5]) (rule at_file_log)
    have W: "recorded StatePath w5 = recorded StatePath w \<or>
        recorded StatePath w5 = Some (reset_file tier now sr sf\<lparr>sfSpecVersion := SpecVersion\<rparr>)"
      using canonical.write_old_or_new [OF 4 reset_file_ok [OF ok ran]] recorded_files [OF f3] recorded_files [OF f5]
      by (auto split: if_splits)
    have "\<exists>ms. r = Returns (reset_result_of tier sf sr ms) \<and> recorded StatePath w' = recorded StatePath w5"
      using run 1 2 3 4 5 None by (auto simp: reset_and_record_def canonical_store run_mono)
    with W start executeTier_known [OF 1 [unfolded None]] ran show ?thesis
      unfolding reset_outcome_def using reset_says_result reset_records_file by metis
  qed
qed

text \<open>What is read, or a fresh file, is a file that fits its JSON form.\<close>

lemma read_or_fresh:
  assumes "run (do { r \<leftarrow> Store_Read StatePath; (case r of Inl _ \<Rightarrow> Fresh StateBroken | Inr f \<Rightarrow> ret f) }) w = (sf, w')"
  shows "starts_from (recorded StatePath w) sf" "file_ok sf" "recorded StatePath w' = recorded StatePath w"
proof -
  obtain r w1 where 1: "run (Store_Read StatePath) w = (r, w1)" by (meson surj_pair)
  note q = Store_Read_quiet [OF 1]
  have "starts_from (recorded StatePath w) sf \<and> file_ok sf \<and> recorded StatePath w' = recorded StatePath w"
  proof (cases r)
    case (Inl err)
    with assms 1 q show ?thesis by (auto simp: run_Fresh starts_from_def file_ok_def)
  next
    case (Inr f)
    with 1 have "recorded StatePath w = Some f" by (auto dest: Store_Read_recorded)
    with assms 1 q Inr show ?thesis by (auto simp: starts_from_def recorded_file_ok)
  qed
  then show "starts_from (recorded StatePath w) sf" "file_ok sf" "recorded StatePath w' = recorded StatePath w"
    by blast+
qed

lemma reset_locked_outcome:
  assumes run: "run (Reset_locked d start tier0) w = (r, w')"
  shows "reset_outcome d (recorded StatePath w) r (recorded StatePath w')"
proof -
  obtain q v where a: "run (Store_Read StatePath) w = (q, v)" by (meson surj_pair)
  obtain sf w1 where b: "run (case q of Inl _ \<Rightarrow> Fresh StateBroken | Inr f \<Rightarrow> ret f) v = (sf, w1)"
    by (meson surj_pair)
  have 1: "run (do { r \<leftarrow> Store_Read StatePath; (case r of Inl _ \<Rightarrow> Fresh StateBroken | Inr f \<Rightarrow> ret f) }) w = (sf, w1)"
    using a b by simp
  obtain early w2 where 2: "run (verify_conformant d sf) w1 = (early, w2)" by (meson surj_pair)
  define tier where "tier = (if tier0 = [] then selectTier sf else tier0)"
  note start = read_or_fresh [OF 1]
  have "keeps (at_file StatePath c) (verify_conformant d sf)" for c
    unfolding verify_conformant_def by (intro keeps_rules suite_quiet)
  from at_file_run [OF this 2] have rec2: "recorded StatePath w2 = recorded StatePath w"
    using recorded_files start(3) by metis
  have rest: "run (case early of
        Some sr \<Rightarrow> do { t \<leftarrow> mono_now; ret (Returns (success (reset_value tier (sfState sf) StateConformant [] sr (t - start)))) }
      | None \<Rightarrow> reset_and_record d start tier sf) w2 = (r, w')"
    unfolding tier_def using run a b 2 by (simp add: Reset_locked_def canonical_store Let_def)
  show ?thesis
  proof (cases early)
    case None
    with rest rec2 start show ?thesis using reset_and_record_outcome [of start tier sf w2 r w'] by simp
  next
    case (Some sr)
    then have c: "sfState sf = StateConformant" "sfActiveFault sf = None" "IsConformant (sClassification sr)" "suite_ran d sr"
      using 2 by (auto simp: verify_conformant_def case_prod_beta suite_ran_def split: if_splits)
    with start(1) have "recorded StatePath w = Some sf" by (auto simp: starts_from_def)
    with c rest Some rec2 show ?thesis
      unfolding reset_outcome_def by (auto simp: run_mono)
  qed
qed

lemma reset_run_outcome:
  assumes run: "run (ResetCmd_Run d tier) w = (r, w')"
  shows "reset_outcome d (recorded StatePath w) r (recorded StatePath w')"
proof -
  have "run (under_lock (dFrames d) (\<lambda>err. ret (Returns (failure 1 err))) (Reset_locked d (mono_at w (clockno w)) tier))
      (w\<lparr>clockno := Suc (clockno w)\<rparr>) = (r, w')"
    using run by (simp add: ResetCmd_Run_def run_mono)
  then show ?thesis
  proof (cases rule: under_lock_cases [OF _ keeps_return, consumes 1, case_names died refused locked])
    case died
    with recorded_files [of w' w] show ?thesis by (auto simp: reset_outcome_def)
  next
    case refused
    with recorded_files [of w' w] show ?thesis by (auto simp: reset_outcome_def)
  next
    case (locked v v')
    then have "recorded StatePath v = recorded StatePath w" "recorded StatePath w' = recorded StatePath v'"
      by (auto intro: recorded_files)
    with reset_locked_outcome [OF locked(1)] show ?thesis by simp
  qed
qed

lemma provision_locked_outcome:
  assumes run: "run (Provision_locked d start) w = (r, w')"
  shows "provision_outcome d (recorded StatePath w) r (recorded StatePath w')"
proof -
  obtain e w1 where 1: "run (RunMutation (dExec d) ''bash'' [BootstrapScript]) w = (e, w1)" by (meson surj_pair)
  note f1 = at_file_run [OF executesD(9) [OF executor_quiet] 1]
  show ?thesis
  proof (cases e)
    case (Some err)
    with run 1 recorded_files [OF f1] show ?thesis by (auto simp: Provision_locked_def provision_outcome_def)
  next
    case None
    obtain sr w2 where 2: "run (Runner_Run (dChecks d) (dObs d)) w1 = (sr, w2)" by (meson surj_pair)
    obtain sf w3 where 3: "run (Fresh (suite_state sr)) w2 = (sf, w3)" by (meson surj_pair)
    obtain now w4 where 4: "run time_now w3 = (now, w4)" by (meson surj_pair)
    obtain e5 w5 where 5: "run (Store_Write StatePath (provision_file now sr sf)) w4 = (e5, w5)" by (meson surj_pair)
    obtain t where sf: "sf = fresh_file (suite_state sr) t" using 3 by (auto simp: run_Fresh)
    have "files w4 StatePath = files w StatePath"
      using f1 at_file_run [OF suite_quiet 2] 3 4 by (auto simp: time_now_def run_Fresh)
    from recorded_files [OF this] canonical.write_old_or_new [OF 5] sf
    have W: "recorded StatePath w5 = recorded StatePath w \<or>
        recorded StatePath w5 = Some (provision_file now sr sf\<lparr>sfSpecVersion := SpecVersion\<rparr>)"
      by (auto simp: provision_file_ok [OF suite_ranI [OF 2]] split: if_splits)
    have "\<exists>ms. r = Returns (provision_result_of sr ms) \<and> recorded StatePath w' = recorded StatePath w5"
      using run 1 2 3 4 5 None by (auto simp: Provision_locked_def canonical_store run_mono)
    with W sf suite_ranI [OF 2] show ?thesis
      unfolding provision_outcome_def using provision_says_result provision_records_file by metis
  qed
qed

lemma provision_run_outcome:
  assumes run: "run (ProvisionCmd_Run d) w = (r, w')"
  shows "provision_outcome d (recorded StatePath w) r (recorded StatePath w')"
proof -
  have "run (under_lock (dFrames d) (\<lambda>err. ret (Returns (failure 1 err))) (Provision_locked d (mono_at w (clockno w))))
      (w\<lparr>clockno := Suc (clockno w)\<rparr>) = (r, w')"
    using run by (simp add: ProvisionCmd_Run_def run_mono)
  then show ?thesis
  proof (cases rule: under_lock_cases [OF _ keeps_return, consumes 1, case_names died refused locked])
    case died
    with recorded_files [of w' w] show ?thesis by (auto simp: provision_outcome_def)
  next
    case refused
    with recorded_files [of w' w] show ?thesis by (auto simp: provision_outcome_def)
  next
    case (locked v v')
    then have "recorded StatePath v = recorded StatePath w" "recorded StatePath w' = recorded StatePath v'"
      by (auto intro: recorded_files)
    with provision_locked_outcome [OF locked(1)] show ?thesis by simp
  qed
qed

end

subsection \<open>Properties\<close>





text \<open>
  \<open>lab history\<close> shows the recorded history newest first: with a positive count less than
  the length, its last entries, otherwise all of it; the total is always that of the ring.
\<close>

theorem history_newest_first:
  "case run (HistoryCmd_Run path k) w of (r, w') \<Rightarrow>
     files w' = files w \<and>
     (case crValue r of
        Some (VHistory v) \<Rightarrow> \<exists>sf. recorded path w = Some sf \<and> crExitCode r = 0 \<and>
          hrTotal v = int (length (sfHistory sf)) \<and>
          rev (hrEntries v) = map history_item_of (if 0 < k then last_n (nat k) (sfHistory sf) else sfHistory sf)
      | Some _ \<Rightarrow> False
      | None \<Rightarrow> crExitCode r = 1)"
proof (cases "run (Store_Read path) w")
  case (Pair q w1)
  have win: "history_window k es = (if 0 < k then last_n (nat k) es else es)" for es
    by (auto simp: history_window_def last_n_def nat_diff_distrib)
  show ?thesis
  proof (cases q)
    case (Inl err)
    with Pair Store_Read_files [OF Pair] show ?thesis by (simp add: HistoryCmd_Run_def)
  next
    case (Inr sf)
    with Pair have "recorded path w = Some sf" by (auto dest: Store_Read_recorded)
    with Inr Pair Store_Read_files [OF Pair] show ?thesis
      by (simp add: HistoryCmd_Run_def win rev_map [symmetric])
  qed
qed

end
