(* ===== verification/StatusProps.thy ===== *)
theory StatusProps
  imports CmdStatus ResetProps
begin

text \<open>
  What \<open>lab status\<close> reports and what it does to the recorded state (\<^verbatim>\<open>cmd/status.go\<close>).
\<close>

subsection \<open>The result\<close>

lemma detect_status:
  fixes sf :: "state_file option"
  defines "det lw \<equiv> Detect \<lparr>diStateFile = sf, diSuiteResult = None, diLightweightResult = Some lw\<rparr>"
  shows "dDetected (det lw) = runtime_state (IsConformant (sClassification lw)) (fault_of sf \<noteq> None)"
    "dReconciled (det lw) \<longleftrightarrow> recorded_of sf \<noteq> [] \<and> recorded_of sf \<noteq> dDetected (det lw)"
    "\<not> IsUnknown (det lw)"
  by (simp_all add: det_def Detect_lightweight Let_def IsUnknown_def)

text \<open>What every status result says, given the detected state.\<close>

definition status_says :: "lab_state \<Rightarrow> state_file option \<Rightarrow> command_result \<Rightarrow> bool" where
  "status_says s sf r \<longleftrightarrow> crExitCode r = 0 \<and> crErr r = None \<and>
     (\<exists>v. crValue r = Some (VStatus v) \<and> stState v = s \<and> \<not> stUnknown v \<and> \<not> stReconciled v \<and>
        map_option frID (stActiveFault v) = map_option afID (fault_of sf) \<and>
        stClassificationValid v = (case sf of None \<Rightarrow> False | Some f \<Rightarrow> sfClassificationValid f))"

lemma status_result_says:
  assumes "run (status_result_of d det lw sf) w = (r, w')" and "\<not> IsUnknown det"
  shows "status_says (dDetected det) sf r"
  using assms
  by (auto simp: status_result_of_def buildStatusResult_def status_says_def fault_of_def option.map_comp comp_def
      case_prod_beta split: option.splits)

subsection \<open>The files written\<close>

definition reconciled_file :: "lab_state \<Rightarrow> time \<Rightarrow> state_file \<Rightarrow> state_file" where
  "reconciled_file s now f = f\<lparr>sfState := s, sfClassificationValid := True, sfLastStatusAt := Some now\<rparr>"

definition revalidated_file :: "time \<Rightarrow> state_file \<Rightarrow> state_file" where
  "revalidated_file now f = f\<lparr>sfClassificationValid := True, sfLastStatusAt := Some now\<rparr>"

lemma reconciled_file_simps [simp]:
  "sfState (reconciled_file s now f) = s" "sfActiveFault (reconciled_file s now f) = sfActiveFault f"
  "sfClassificationValid (reconciled_file s now f)" "sfHistory (reconciled_file s now f) = sfHistory f"
  "file_ok (reconciled_file s now f) = file_ok f"
  by (simp_all add: reconciled_file_def file_ok_def)

lemma revalidated_file_simps [simp]:
  "sfState (revalidated_file now f) = sfState f" "sfActiveFault (revalidated_file now f) = sfActiveFault f"
  "sfClassificationValid (revalidated_file now f)" "sfHistory (revalidated_file now f) = sfHistory f"
  "file_ok (revalidated_file now f) = file_ok f"
  by (simp_all add: revalidated_file_def file_ok_def)

text \<open>What reconciliation makes of the file it was given.\<close>

definition reconcile_to :: "detection_result \<Rightarrow> time \<Rightarrow> state_file \<Rightarrow> state_file" where
  "reconcile_to det now f =
     (if dReconciled det then reconciled_file (dDetected det) now f
      else if \<not> sfClassificationValid f then revalidated_file now f else f)"

text \<open>
  What a status run reads: the file, and the evidence, which is the lightweight suite and the
  answer of the root endpoint.
\<close>

definition file_read :: "'x deps \<Rightarrow> 'x world \<Rightarrow> state_file option" where
  "file_read d w = (case fst (run (Store_Read (dStore d)) w) of Inl _ \<Rightarrow> None | Inr f \<Rightarrow> Some f)"

definition status_evidence :: "'x deps \<Rightarrow> ('x world, suite_result) state" where
  "status_evidence d = do {
     _ \<leftarrow> Store_Read (dStore d);
     lw \<leftarrow> Runner_LightweightRun (dChecks d) (dObs d);
     root \<leftarrow> CheckEndpoint (dObs d) root_url False;
     ret (with_root_status root lw)
   }"

definition healthy_evidence :: "'x deps \<Rightarrow> 'x world \<Rightarrow> bool" where
  "healthy_evidence d w \<longleftrightarrow> IsConformant (sClassification (fst (run (status_evidence d) w)))"

text \<open>
  The outcomes of the whole command, from the file read and the evidence: what is recorded
  stays, or is the reconciliation of the file that was read, or a fresh file with the detected
  state if it could not be read.
\<close>

definition status_outcome ::
  "bool \<Rightarrow> state_file option \<Rightarrow> state_file option \<Rightarrow> command_result outcome \<Rightarrow> state_file option \<Rightarrow> bool" where
  "status_outcome healthy sf before r after \<longleftrightarrow>
     (let s = runtime_state healthy (fault_of sf \<noteq> None) in
      ((\<exists>e. r = Panics e) \<or> (\<exists>v g. r = Returns v \<and> status_says s (Some g) v \<and> sfActiveFault g = fault_of sf)) \<and>
      (after = before \<or>
       (\<exists>f now. sf = Some f \<and> sfClassificationValid f \<and> sfState f \<noteq> s \<and>
          after = Some (reconciled_file s now f\<lparr>sfSpecVersion := SpecVersion\<rparr>)) \<or>
       (\<exists>f now. sf = Some f \<and> \<not> sfClassificationValid f \<and>
          after = Some (revalidated_file now f\<lparr>sfSpecVersion := SpecVersion\<rparr>)) \<or>
       (\<exists>t. sf = None \<and> after = Some (fresh_file s t))))"

context lab_env
begin

lemma endpoint_quiet: "keeps (at_file StatePath c) (CheckEndpoint (dObs d) u b)"
  using observesD [OF observer_quiet] by blast

lemma status_result_quiet: "keeps (at_file StatePath c) (status_result_of d det lw sf)"
  unfolding status_result_of_def buildStatusResult_def by (intro keeps_rules endpoint_quiet)

lemma write_or_warn_cases:
  assumes "run (write_or_warn d msg f) w = (u, w')" and "file_ok f" and "IsValid (sfState f)"
  shows "recorded StatePath w' = recorded StatePath w \<or> recorded StatePath w' = Some (f\<lparr>sfSpecVersion := SpecVersion\<rparr>)"
proof -
  obtain e w1 where 1: "run (Store_Write StatePath f) w = (e, w1)" by (meson surj_pair)
  have "recorded StatePath w' = recorded StatePath w1"
    using assms(1) 1 by (auto simp: write_or_warn_def canonical_store eprint_def recorded_def split: option.splits)
  with canonical.write_old_or_new [OF 1 assms(2,3)] show ?thesis by (auto split: if_splits)
qed

lemma reconcile_cases:
  assumes run: "run (reconcile d det f) w = (g, w')" and "\<not> IsUnknown det"
    and ok: "file_ok f" "IsValid (sfState f)" "IsValid (dDetected det)"
  shows "\<exists>now. g = reconcile_to det now f \<and>
     (recorded StatePath w' = recorded StatePath w \<or> recorded StatePath w' = Some (g\<lparr>sfSpecVersion := SpecVersion\<rparr>))"
proof (cases "dReconciled det \<or> \<not> sfClassificationValid f")
  case False
  with run show ?thesis by (auto simp: reconcile_def reconcile_to_def)
next
  case True
  obtain now w1 where 1: "run time_now w = (now, w1)" by (meson surj_pair)
  have r1: "recorded StatePath w1 = recorded StatePath w" using 1 by (auto simp: time_now_def)
  show ?thesis
  proof (cases "dReconciled det")
    case rec: True
    let ?g = "reconciled_file (dDetected det) now f"
    obtain u w2 where 2: "run (with_audit (dAudit d) (\<lambda>l. LogReconciliation l (dPriorState det) (dDetected det))) w1 = (u, w2)"
      by (meson surj_pair)
    obtain u' w3 where 3: "run (write_or_warn d ''write reconciled state'' ?g) w2 = (u', w3)" by (meson surj_pair)
    have "files w2 StatePath = files w1 StatePath" by (rule at_file_run [OF audit_quiet 2]) (rule at_file_log)
    from recorded_files [OF this] r1 write_or_warn_cases [OF 3] ok
    have "recorded StatePath w3 = recorded StatePath w \<or> recorded StatePath w3 = Some (?g\<lparr>sfSpecVersion := SpecVersion\<rparr>)"
      by simp
    moreover have "g = ?g \<and> w' = w3"
      using run 1 2 3 rec by (simp add: reconcile_def Let_def reconciled_file_def)
    ultimately show ?thesis using rec by (auto simp: reconcile_to_def)
  next
    case rec: False
    let ?g = "revalidated_file now f"
    obtain u' w3 where 3: "run (write_or_warn d ''update classification validity'' ?g) w1 = (u', w3)" by (meson surj_pair)
    have "g = ?g \<and> w' = w3"
      using run 1 3 rec True assms(2) by (simp add: reconcile_def Let_def revalidated_file_def)
    with write_or_warn_cases [OF 3] ok r1 rec True show ?thesis by (auto simp: reconcile_to_def)
  qed
qed

text \<open>From the point where there is a file: what is reported and what is recorded.\<close>

lemma status_finish_cases:
  assumes run: "run (status_finish d det lw (Some f)) w = (r, w')" and known: "\<not> IsUnknown det"
    and ok: "file_ok f" "IsValid (sfState f)" "IsValid (dDetected det)"
  shows "((\<exists>s. r = Panics s) \<and> recorded StatePath w' = recorded StatePath w) \<or>
     (\<exists>v g now. r = Returns v \<and> status_says (dDetected det) (Some g) v \<and>
        (g = f \<and> recorded StatePath w' = recorded StatePath w \<or>
         needs_write det f \<and> g = reconcile_to det now f \<and>
          (recorded StatePath w' = recorded StatePath w \<or> recorded StatePath w' = Some (g\<lparr>sfSpecVersion := SpecVersion\<rparr>))))"
proof (cases "needs_write det f")
  case False
  obtain v w1 where 1: "run (status_result_of d det lw (Some f)) w = (v, w1)" by (meson surj_pair)
  with run False have "r = Returns v" "w' = w1" by (simp_all add: status_finish_def)
  with status_result_says [OF 1 known] recorded_files [OF at_file_run [OF status_result_quiet 1]] show ?thesis by auto
next
  case True
  obtain q w1 where 1: "run (Acquire (dFrames d) NewLock) w = (q, w1)" by (meson surj_pair)
  have nl: "lkPath NewLock \<noteq> StatePath" using StatePath_apart(2) by (simp add: NewLock_def NewLockAt_def)
  note r1 = recorded_files [OF at_file_run [OF at_file_Acquire [OF nl StatePath_apart(1)] 1]]
  show ?thesis
  proof (cases q)
    case (Panics s)
    with run 1 True have "r = Panics s" and "w' = w1" by (simp_all add: status_finish_def)
    with r1 show ?thesis by blast
  next
    case (Returns el)
    obtain e l where el: "el = (e, l)" by (cases el)
    show ?thesis
    proof (cases e)
      case (Some err)
      obtain u w2 where 2: "run (eprint (''warning: could not acquire lock to reconcile state: '' @ error_text err @ [nl])) w1 = (u, w2)"
        by (meson surj_pair)
      obtain v w3 where 3: "run (status_result_of d det lw (Some f)) w2 = (v, w3)" by (meson surj_pair)
      have "recorded StatePath w2 = recorded StatePath w1" using 2 by (auto simp: eprint_def recorded_def)
      with recorded_files [OF at_file_run [OF status_result_quiet 3]] r1 have "recorded StatePath w3 = recorded StatePath w" by simp
      moreover have "r = Returns v \<and> w' = w3" using run 1 2 3 True Returns el Some by (simp add: status_finish_def)
      ultimately show ?thesis using status_result_says [OF 3 known] by auto
    next
      case None
      obtain g w2 where 2: "run (reconcile d det f) w1 = (g, w2)" by (meson surj_pair)
      obtain v w3 where 3: "run (status_result_of d det lw (Some g)) w2 = (v, w3)" by (meson surj_pair)
      have "lkPath l \<noteq> StatePath" using Acquire_path [OF 1 [unfolded Returns el]] nl by simp
      note rl = Release_file [OF this]
      have "r = Returns v" and "files w' StatePath = files w3 StatePath"
        using run 1 2 3 True Returns el None by (auto simp: status_finish_def case_prod_beta rl)
      with recorded_files [of w' w3] recorded_files [OF at_file_run [OF status_result_quiet 3]]
        reconcile_cases [OF 2 known ok] r1 status_result_says [OF 3 known] True
      show ?thesis by auto
    qed
  qed
qed

lemma status_outcome_readI:
  assumes "s = runtime_state healthy (sfActiveFault f \<noteq> None)"
    and "(\<exists>e. r = Panics e) \<or> (\<exists>v g. r = Returns v \<and> status_says s (Some g) v \<and> sfActiveFault g = sfActiveFault f)"
    and "after = before \<or>
       (sfClassificationValid f \<and> sfState f \<noteq> s \<and> after = Some (reconciled_file s now f\<lparr>sfSpecVersion := SpecVersion\<rparr>)) \<or>
       (\<not> sfClassificationValid f \<and> after = Some (revalidated_file now f\<lparr>sfSpecVersion := SpecVersion\<rparr>))"
  shows "status_outcome healthy (Some f) before r after"
  unfolding status_outcome_def using assms by (auto simp: Let_def fault_of_def)

lemma write_fresh_cases:
  assumes "run (write_fresh d s) w = (f, w')" and "IsValid s"
  shows "\<exists>t. f = fresh_file s t \<and>
     (recorded StatePath w' = recorded StatePath w \<or> recorded StatePath w' = Some (fresh_file s t))"
proof -
  obtain sf w1 where 1: "run (Fresh s) w = (sf, w1)" by (meson surj_pair)
  obtain t w2 where 2: "run time_now w1 = (t, w2)" by (meson surj_pair)
  obtain e w3 where 3: "run (Store_Write StatePath (fresh_file s t)) w2 = (e, w3)" by (meson surj_pair)
  have sf: "sf\<lparr>sfClassificationValid := True, sfLastStatusAt := Some t\<rparr> = fresh_file s t"
    using 1 by (auto simp: run_Fresh fresh_file_def)
  have "recorded StatePath w2 = recorded StatePath w" using 1 2 by (auto simp: run_Fresh time_now_def)
  moreover have "recorded StatePath w' = recorded StatePath w3 \<and> f = fresh_file s t"
    using assms(1) 1 2 3 by (auto simp: write_fresh_def canonical_store Let_def sf eprint_def recorded_def split: option.splits)
  moreover have "fresh_file s t\<lparr>sfSpecVersion := SpecVersion\<rparr> = fresh_file s t" by (simp add: fresh_file_def)
  ultimately show ?thesis using canonical.write_old_or_new [OF 3] assms(2) by (auto simp: file_ok_def split: if_splits)
qed

lemma status_run_outcome:
  assumes run: "run (StatusCmd_Run d) w = (r, w')"
  shows "status_outcome (healthy_evidence d w) (file_read d w) (recorded StatePath w) r (recorded StatePath w')"
proof -
  obtain q w1 where 1: "run (Store_Read StatePath) w = (q, w1)" by (meson surj_pair)
  obtain lw0 v where 2: "run (Runner_LightweightRun (dChecks d) (dObs d)) w1 = (lw0, v)" by (meson surj_pair)
  obtain root w2 where ep: "run (CheckEndpoint (dObs d) root_url False) v = (root, w2)" by (meson surj_pair)
  define lw where "lw = with_root_status root lw0"
  define sf where "sf = (case q of Inl _ \<Rightarrow> None | Inr f \<Rightarrow> Some f)"
  define det where "det = Detect \<lparr>diStateFile = sf, diSuiteResult = None, diLightweightResult = Some lw\<rparr>"
  let ?healthy = "IsConformant (sClassification lw)"
  have h: "healthy_evidence d w = ?healthy"
    using 1 2 ep by (simp add: healthy_evidence_def status_evidence_def canonical_store lw_def)
  have read: "file_read d w = sf" using 1 by (simp add: file_read_def canonical_store sf_def)
  note D = detect_status [where sf = sf and lw = lw, folded det_def]
  have r2: "recorded StatePath w2 = recorded StatePath w"
    using Store_Read_quiet [OF 1] recorded_files [OF at_file_run [OF lightweight_quiet 2]]
      recorded_files [OF at_file_run [OF endpoint_quiet ep]] by simp
  obtain g w3 where 3: "run (case q of Inr f \<Rightarrow> ret (Some f)
      | Inl _ \<Rightarrow> if IsUnknown det then ret None else do { f \<leftarrow> write_fresh d (dDetected det); ret (Some f) }) w2 = (g, w3)"
    by (meson surj_pair)
  have rest: "run (status_finish d det lw g) w3 = (r, w')"
    using run 1 2 ep 3 [unfolded det_def lw_def sf_def] unfolding det_def lw_def sf_def
    by (simp add: StatusCmd_Run_def canonical_store Let_def)
  show ?thesis
  proof (cases q)
    case (Inl err)
    obtain f v where wf: "run (write_fresh d (dDetected det)) w2 = (f, v)" by (meson surj_pair)
    with 3 Inl D(3) have g: "g = Some f" "w3 = v" by auto
    from write_fresh_cases [OF wf] D(1) obtain t where t: "f = fresh_file (dDetected det) t"
      and rv: "recorded StatePath v = recorded StatePath w2 \<or> recorded StatePath v = Some (fresh_file (dDetected det) t)"
      by auto
    have "\<not> needs_write det f" using D(2) Inl t by (simp add: needs_write_def recorded_of_def sf_def)
    moreover have "file_ok f" "IsValid (sfState f)" "IsValid (dDetected det)" by (simp_all add: t D(1) file_ok_def)
    ultimately have "((\<exists>s. r = Panics s) \<or> (\<exists>v. r = Returns v \<and> status_says (dDetected det) (Some f) v)) \<and>
        recorded StatePath w' = recorded StatePath v"
      using status_finish_cases [OF rest [unfolded g] D(3)] by auto
    with rv r2 t Inl show ?thesis
      unfolding h read by (fastforce simp: status_outcome_def Let_def sf_def fault_of_def D(1))
  next
    case (Inr f)
    with 1 have before: "recorded StatePath w = Some f" by (auto dest: Store_Read_recorded)
    from 3 Inr have g: "g = Some f" "w3 = w2" by auto
    have ok: "file_ok f" "IsValid (sfState f)" "IsValid (dDetected det)"
      using recorded_file_ok [OF before] recorded_valid [OF before] D(1) by simp_all
    from Inr D(2) have rec: "dReconciled det \<longleftrightarrow> sfClassificationValid f \<and> sfState f \<noteq> dDetected det"
      using ok(2) by (auto simp: sf_def recorded_of_def)
    have same: "sfActiveFault (reconcile_to det now f) = sfActiveFault f" for now by (simp add: reconcile_to_def)
    have s: "dDetected det = runtime_state ?healthy (sfActiveFault f \<noteq> None)"
      using D(1) Inr by (simp add: sf_def fault_of_def)
    from status_finish_cases [OF rest [unfolded g] D(3) ok]
    have "status_outcome ?healthy (Some f) (recorded StatePath w) r (recorded StatePath w')"
    proof (elim disjE exE conjE)
      fix e assume "r = Panics e" and "recorded StatePath w' = recorded StatePath w2"
      with r2 show ?thesis by (intro status_outcome_readI [OF s]) simp_all
    next
      fix v h assume "r = Returns v" "status_says (dDetected det) (Some h) v" "h = f"
        "recorded StatePath w' = recorded StatePath w2"
      with r2 show ?thesis by (intro status_outcome_readI [OF s]) auto
    next
      fix v h now assume r: "r = Returns v" "status_says (dDetected det) (Some h) v"
        and h: "needs_write det f" "h = reconcile_to det now f"
        and "recorded StatePath w' = recorded StatePath w2"
      with r2 same show ?thesis by (intro status_outcome_readI [OF s]) auto
    next
      fix v h now assume r: "r = Returns v" "status_says (dDetected det) (Some h) v"
        and h: "needs_write det f" "h = reconcile_to det now f"
        and after: "recorded StatePath w' = Some (h\<lparr>sfSpecVersion := SpecVersion\<rparr>)"
      have "sfClassificationValid f \<and> sfState f \<noteq> dDetected det \<and> h = reconciled_file (dDetected det) now f \<or>
          \<not> sfClassificationValid f \<and> h = revalidated_file now f"
        using h rec by (auto simp: reconcile_to_def needs_write_def split: if_splits)
      with r after same [of now] h show ?thesis
        by (intro status_outcome_readI [OF s, where now = now]) auto
    qed
    then show ?thesis unfolding h read sf_def Inr by simp
  qed
qed

end

subsection \<open>Properties\<close>

text \<open>
  C7: \<open>lab status\<close> in the real environment reports the detected state (DEGRADED exactly when the
  file it read names a fault, otherwise CONFORMANT or BROKEN by the evidence) with exit code 0,
  never UNKNOWN and never as reconciled, whether or not it could take the lock; and what is
  recorded afterwards is what was, or the file read with the detected state if it recorded
  another, or the file read with only its classification revalidated, or a fresh file with the
  detected state if none could be read.
\<close>

theorem status_outcomes:
  assumes "real_env out a"
  shows "case run (StatusCmd_Run (real_deps out a n)) w of (r, w') \<Rightarrow>
     status_outcome (healthy_evidence (real_deps out a n) w) (file_read (real_deps out a n) w)
       (recorded StatePath w) r (recorded StatePath w')"
proof (cases "run (StatusCmd_Run (real_deps out a n)) w")
  case (Pair r w')
  from lab_env.status_run_outcome [OF real_env.is_lab_env [OF assms] Pair] show ?thesis unfolding Pair by simp
qed

theorem status_outcomes_witness:
  "case run (StatusCmd_Run demo_deps) (demo_lab (demo_file StateBroken)) of (r, w') \<Rightarrow>
     status_outcome (healthy_evidence demo_deps (demo_lab (demo_file StateBroken)))
       (file_read demo_deps (demo_lab (demo_file StateBroken)))
       (recorded StatePath (demo_lab (demo_file StateBroken))) r (recorded StatePath w')"
  unfolding demo_deps_def by (rule status_outcomes [OF real_env_quiet])



text \<open>
  the evidence a status run goes by counts a root endpoint that answers with another code
  than 200 as a blocking failure: whatever the lightweight checks say, it is unhealthy; a root
  endpoint that answers 200 or does not answer adds nothing.
\<close>

theorem root_status_is_evidence:
  "IsConformant (sClassification (with_root_status root (Classify lw))) \<longleftrightarrow>
     IsConformant (sClassification (Classify lw)) \<and>
     (case root of Inl _ \<Rightarrow> True | Inr st \<Rightarrow> ep_status_code st = 200)"
proof -
  have e: "CheckByID ''E-002'' = Some (check_E002 :: unit check)"
    by (simp add: CheckByID_iff Catalog_def check_E002_def)
  have "failing_ids SeverityBlocking (rs @ [\<lparr>rCheck = meta (check_E002 :: unit check), rPassed = False, rErr = None, rDependent = False\<rparr>]) \<noteq> []"
    for rs by (simp add: counts_as_def check_E002_def)
  then show ?thesis
    by (auto simp: with_root_status_def e IsConformant_Classify split: sum.splits)
qed

end
