(* ===== verification/ValidateProps.thy ===== *)
theory ValidateProps
  imports CmdValidate ResetProps
begin

text \<open>
  \<open>lab validate\<close> observes only (\<^verbatim>\<open>cmd/validate.go\<close>): what it records and what it may overwrite.
\<close>

context lab_env
begin

lemma record_cases:
  assumes run: "run (recordObservation d sr) w = (u, w')" and ran: "suite_ran d sr"
  shows "recorded StatePath w' = recorded StatePath w \<or>
     (\<exists>f. recorded StatePath w = Some f \<and>
        recorded StatePath w' = Some (f\<lparr>sfLastValidate := Some (suite_record sr), sfSpecVersion := SpecVersion\<rparr>))"
proof -
  obtain q w1 where 1: "run (Store_Read StatePath) w = (q, w1)" by (meson surj_pair)
  note r1 = Store_Read_quiet [OF 1]
  show ?thesis
  proof (cases q)
    case (Inl err)
    with run 1 r1 show ?thesis by (simp add: recordObservation_def record_read_def canonical_store)
  next
    case (Inr f)
    let ?g = "f\<lparr>sfLastValidate := Some (suite_record sr)\<rparr>"
    from Inr 1 have before: "recorded StatePath w = Some f" by (auto dest: Store_Read_recorded)
    obtain e w2 where 2: "run (Store_Write StatePath ?g) w1 = (e, w2)" by (meson surj_pair)
    have ok: "file_ok ?g" "IsValid (sfState ?g)"
      using recorded_file_ok [OF before] recorded_valid [OF before] suite_bounds [OF ran]
      by (simp_all add: file_ok_def suite_record_def)
    have "recorded StatePath w' = recorded StatePath w2"
      using run 1 2 Inr by (auto simp: recordObservation_def record_read_def canonical_store oprint_def recorded_def split: option.splits)
    with canonical.write_old_or_new [OF 2 ok] r1 before show ?thesis by (auto split: if_splits)
  qed
qed

lemma validate_cases:
  assumes run: "run (ValidateCmd_Run d) w = (r, w')"
  shows "\<exists>sr. suite_ran d sr \<and> crExitCode r = ExitCode sr \<and> crValue r = Some (VValidate (FromSuiteResult sr)) \<and>
     (recorded StatePath w' = recorded StatePath w \<or>
      (\<exists>f. recorded StatePath w = Some f \<and>
        recorded StatePath w' = Some (f\<lparr>sfLastValidate := Some (suite_record sr), sfSpecVersion := SpecVersion\<rparr>)))"
proof -
  obtain sr w1 where 1: "run (Runner_Run (dChecks d) (dObs d)) w = (sr, w1)" by (meson surj_pair)
  obtain u w2 where 2: "run (recordObservation d sr) w1 = (u, w2)" by (meson surj_pair)
  obtain x w3 where 3: "run (with_audit (dAudit d) (\<lambda>l. LogOp l ''ValidateFullSuite''
           (itoa (sPassed sr) @ ''/'' @ itoa (sTotal sr) @ '' checks passed'') 0 (ExitCode sr) None)) w2 = (x, w3)"
    by (meson surj_pair)
  have "files w3 StatePath = files w2 StatePath" by (rule at_file_run [OF audit_quiet 3]) (rule at_file_log)
  moreover have "w' = w3" "crExitCode r = ExitCode sr" "crValue r = Some (VValidate (FromSuiteResult sr))"
    using run 1 2 3 by (auto simp: ValidateCmd_Run_def processResult_def)
  ultimately show ?thesis
    using record_cases [OF 2 suite_ranI [OF 1]] recorded_files [OF at_file_run [OF suite_quiet 1]]
      recorded_files [of w3 w2] suite_ranI [OF 1] by auto
qed

lemma validate_single_quiet: "keeps (at_file StatePath c) (ValidateCmd_RunSingle d i)"
proof -
  have "keeps (at_file StatePath c) (Runner_RunSingle (dChecks d) i (dObs d))"
    unfolding Runner_RunSingle_def
    by (auto intro!: keeps_rules keeps_runOne observer_quiet checks_well_behaved dest: find_SomeD split: option.splits)
  then show ?thesis unfolding ValidateCmd_RunSingle_def by (intro keeps_rules)
qed

end

subsection \<open>Properties\<close>

text \<open>
  C9: \<open>lab validate\<close> is an observation: its result and exit code are those of a suite run, and the
  recorded state, its validity, the active fault and the history are never changed; at most
  the last validation is replaced by this suite's summary.
\<close>

theorem validate_observes_only:
  assumes "real_env out a"
  shows "case run (ValidateCmd_Run (real_deps out a n)) w of (r, w') \<Rightarrow>
     \<exists>sr. suite_ran (real_deps out a n) sr \<and> crExitCode r = ExitCode sr \<and>
       crValue r = Some (VValidate (FromSuiteResult sr)) \<and>
       (recorded StatePath w' = recorded StatePath w \<or>
        (\<exists>f. recorded StatePath w = Some f \<and>
          recorded StatePath w' = Some (f\<lparr>sfLastValidate := Some (suite_record sr), sfSpecVersion := SpecVersion\<rparr>)))"
proof (cases "run (ValidateCmd_Run (real_deps out a n)) w")
  case (Pair r w')
  from lab_env.validate_cases [OF real_env.is_lab_env [OF assms] Pair] show ?thesis unfolding Pair by simp
qed

theorem validate_observes_only_witness:
  "case run (ValidateCmd_Run demo_deps) (demo_lab (demo_file StateBroken)) of (r, w') \<Rightarrow>
     \<exists>sr. suite_ran demo_deps sr \<and> crExitCode r = ExitCode sr \<and>
       crValue r = Some (VValidate (FromSuiteResult sr)) \<and>
       (recorded StatePath w' = recorded StatePath (demo_lab (demo_file StateBroken)) \<or>
        (\<exists>f. recorded StatePath (demo_lab (demo_file StateBroken)) = Some f \<and>
          recorded StatePath w' = Some (f\<lparr>sfLastValidate := Some (suite_record sr), sfSpecVersion := SpecVersion\<rparr>)))"
  unfolding demo_deps_def by (rule validate_observes_only [OF real_env_quiet])


text \<open>A file that records a fault just applied, and a suite result.\<close>

definition degraded_file :: state_file where
  "degraded_file = (demo_file StateDegraded)\<lparr>sfActiveFault := Some \<lparr>afID = ''F-018'', afAppliedAt = ''t'', afForced = False\<rparr>\<rparr>"


end
