(* ===== verification/LabMachine.thy ===== *)
theory LabMachine
  imports AppProps SuiteProps ApplyProps StatusProps ValidateProps
begin

text \<open>
  The lab as a machine: its steps are whole invocations of the binary with any arguments
  (\<^verbatim>\<open>app.go\<close>), the end of an interrupted one, and whatever else happens on the machine, which
  leaves the state file alone. Two invocations at the same time are not a step of this machine;
  the lock (\<open>LockProtocol\<close>) and \<open>ValidateProps\<close> treat what they can do to each other.
\<close>

inductive lab_step :: "'x process \<Rightarrow> 'x world \<Rightarrow> 'x world \<Rightarrow> bool" for p where
  invoke: "run (App_Run p args) w = (r, w') \<Longrightarrow> lab_step p w w'"
| interrupted: "run (interrupt_handler args) w = (c, w') \<Longrightarrow> lab_step p w w'"
| elsewhere: "files w' StatePath = files w StatePath \<Longrightarrow> lab_step p w w'"

inductive lab_reach :: "'x process \<Rightarrow> 'x world \<Rightarrow> 'x world \<Rightarrow> bool" for p w where
  start: "lab_reach p w w"
| step: "lab_reach p w v \<Longrightarrow> lab_step p v v' \<Longrightarrow> lab_reach p w v'"

inductive_cases lab_stepE: "lab_step p w w'"

text \<open>
  What holds of a recorded file: I-2, a history within its bound, and one of the three states
  the commands record.
\<close>

definition inv_lab :: "state_file \<Rightarrow> bool" where
  "inv_lab f \<longleftrightarrow> inv_I2 f \<and> length (sfHistory f) \<le> HistoryMaxEntries \<and>
     (sfState f = StateConformant \<or> sfState f = StateDegraded \<or> sfState f = StateBroken)"

definition lab_moves :: "state_file option \<Rightarrow> state_file option \<Rightarrow> bool" where
  "lab_moves before after \<longleftrightarrow> after = before \<or>
     (\<exists>g. after = Some g \<and> ((\<forall>f. before = Some f \<longrightarrow> inv_lab f) \<longrightarrow> inv_lab g))"

lemma moves_same: "lab_moves b b"
  by (simp add: lab_moves_def)

lemma moves_eq: "after = before \<Longrightarrow> lab_moves before after"
  by (simp add: lab_moves_def)

lemma moves_to: "inv_lab g \<Longrightarrow> lab_moves b (Some g)"
  by (simp add: lab_moves_def)

lemma moves_from: "(inv_lab f \<Longrightarrow> inv_lab g) \<Longrightarrow> lab_moves (Some f) (Some g)"
  by (simp add: lab_moves_def)

lemma inv_lab_updates [simp]:
  "inv_lab (f\<lparr>sfClassificationValid := b\<rparr>) \<longleftrightarrow> inv_lab f" "inv_lab (f\<lparr>sfSpecVersion := v\<rparr>) \<longleftrightarrow> inv_lab f"
  "inv_lab (f\<lparr>sfLastStatusAt := t\<rparr>) \<longleftrightarrow> inv_lab f" "inv_lab (f\<lparr>sfLastValidate := l\<rparr>) \<longleftrightarrow> inv_lab f"
  by (simp_all add: inv_lab_def)

lemma history_bound [simp]: "length (sfHistory (AppendHistory e f)) \<le> HistoryMaxEntries"
  by (simp add: sfHistory_AppendHistory)

lemma applied_inv [simp]: "inv_lab (applied_file i force now f)"
  by (simp add: inv_lab_def inv_I2_def) (simp add: applied_file_def)

lemma reset_inv [simp]: "inv_lab (reset_file t now sr f)"
  by (simp add: inv_lab_def inv_I2_def) (simp add: reset_file_def)

lemma provision_inv [simp]: "inv_lab (provision_file now sr (fresh_file (suite_state sr) t))"
  by (simp add: inv_lab_def inv_I2_def) (simp add: provision_file_def)

lemma runtime_state_cases:
  "runtime_state h b = StateConformant \<or> runtime_state h b = StateDegraded \<or> runtime_state h b = StateBroken"
  by (simp add: runtime_state_def)

lemma reconciled_inv: "inv_lab f \<Longrightarrow> inv_lab (reconciled_file (runtime_state h (sfActiveFault f \<noteq> None)) now f)"
  using runtime_state_cases by (auto simp: inv_lab_def inv_I2_def)

lemma revalidated_inv [simp]: "inv_lab (revalidated_file now f) \<longleftrightarrow> inv_lab f"
  by (simp add: revalidated_file_def)

lemma fresh_inv: "inv_lab (fresh_file (runtime_state h False) t)"
  using runtime_state_cases [of h False] by (auto simp: inv_lab_def inv_I2_def)

subsection \<open>Each command\<close>

lemma apply_moves: "apply_outcome i force before r after \<Longrightarrow> lab_moves before after"
  by (auto simp: apply_outcome_def intro: moves_eq moves_to moves_from)

lemma reset_moves: "reset_outcome d before r after \<Longrightarrow> lab_moves before after"
  by (auto simp: reset_outcome_def intro: moves_eq moves_to)

lemma provision_moves: "provision_outcome d before r after \<Longrightarrow> lab_moves before after"
  by (auto simp: provision_outcome_def intro: moves_eq moves_to)

lemma status_moves:
  assumes "status_outcome h sf before r after" and "sf = None \<or> sf = before"
  shows "lab_moves before after"
  using assms reconciled_inv [of _ h] fresh_inv [of h]
  by (auto simp: status_outcome_def Let_def fault_of_def lab_moves_def)

context lab_env
begin

lemma apply_run_outcome:
  "run (FaultApplyCmd_Run d i force yes) w = (r, w') \<Longrightarrow>
     apply_outcome i force (recorded StatePath w) r (recorded StatePath w')"
  using apply_cases [of i force yes w r w'] apply_records_file unfolding apply_outcome_def by fastforce

lemma status_file_read: "file_read d w = None \<or> file_read d w = recorded StatePath w"
proof -
  obtain q w1 where 1: "run (Store_Read StatePath) w = (q, w1)" by (meson surj_pair)
  then show ?thesis
    by (cases q) (auto simp: file_read_def canonical_store dest: Store_Read_recorded)
qed

lemma validate_moves:
  "run (ValidateCmd_Run d) w = (r, w') \<Longrightarrow> lab_moves (recorded StatePath w) (recorded StatePath w')"
  by (drule validate_cases) (auto simp: lab_moves_def)

lemma dispatch_moves:
  assumes "dispatch d flags command subArgs = Some m" and run: "run m w = (r, w')"
  shows "lab_moves (recorded StatePath w) (recorded StatePath w')"
proof -
  have quiet: "lab_moves (recorded StatePath w) (recorded StatePath w')" if "\<And>c. keeps (at_file StatePath c) m"
    by (rule moves_eq [OF recorded_files [OF at_file_run [OF that run]]])
  have hist: "keeps (at_file StatePath c) (HistoryCmd_Run q k)" for c q k
    unfolding HistoryCmd_Run_def by (intro keeps_rules)
  consider "m = StatusCmd_Run d" | "m = dispatchValidate d subArgs" | "m = dispatchFault d flags subArgs"
    | "m = dispatchReset d subArgs" | "m = dispatchProvision d subArgs" | "m = dispatchHistory d subArgs"
    using assms(1) by (auto simp: dispatch_def split: if_splits)
  then show ?thesis
  proof cases
    case 1
    with run status_run_outcome [of w r w'] status_file_read [of w] show ?thesis by (auto intro: status_moves)
  next
    case 2
    then consider i where "m = do { r \<leftarrow> ValidateCmd_RunSingle d i; ret (Returns r) }"
      | "m = do { r \<leftarrow> ValidateCmd_Run d; ret (Returns r) }"
      by (auto simp: dispatchValidate_def split: list.splits if_splits)
    then show ?thesis
    proof cases
      case 1
      show ?thesis unfolding 1 by (rule quiet) (simp add: 1, intro keeps_rules validate_single_quiet)
    next
      case 2
      with run obtain v where "run (ValidateCmd_Run d) w = (v, w')" by (auto simp: case_prod_beta)
        (metis prod.collapse)
      then show ?thesis by (rule validate_moves)
    qed
  next
    case 3
    then consider c where "m = ret c" | i f y where "m = FaultApplyCmd_Run d i f y"
      by (auto simp: dispatchFault_def split: list.splits if_splits prod.splits)
    then show ?thesis using run by cases (auto intro: moves_same apply_moves [OF apply_run_outcome])
  next
    case 4
    with run show ?thesis by (auto simp: dispatchReset_def intro: reset_moves [OF reset_run_outcome])
  next
    case 5
    with run show ?thesis by (auto simp: dispatchProvision_def intro: provision_moves [OF provision_run_outcome])
  next
    case 6
    show ?thesis by (rule quiet) (simp add: 6 dispatchHistory_def, intro keeps_rules hist)
  qed
qed

end

subsection \<open>Each step\<close>

text \<open>
  The machine outside leaves the state file alone: the hypothesis of \<open>real_env\<close> on commands,
  requests and lookups, for the audit log every invocation has.
\<close>

definition leaves_state_file :: "'x process \<Rightarrow> bool" where
  "leaves_state_file p \<longleftrightarrow> real_env (pcOutside p) (NewAuditLogger [])"

lemma app_env:
  assumes "leaves_state_file p"
  shows "lab_env (app_deps p remaining)"
proof -
  have "real_env (pcOutside p) (app_audit remaining)"
    using assms by (simp add: leaves_state_file_def real_env_def app_audit_def NewAuditLogger_def NewAuditLoggerAt_def)
  from real_env.is_lab_env [OF this] show ?thesis by (simp add: real_deps_def app_deps_def)
qed

lemma at_file_show: "keeps (at_file StatePath c) (show_result rn r)"
  unfolding show_result_def render_error_def by (intro keeps_rules keeps_Render)

lemma App_moves:
  assumes env: "leaves_state_file p" and run: "run (App_Run p args) w = (r, w')"
  shows "lab_moves (recorded StatePath w) (recorded StatePath w')"
proof -
  have quiet: "lab_moves (recorded StatePath w) (recorded StatePath w')"
    if "App_Run p args = m" "\<And>c. keeps (at_file StatePath c) m" for m
    using run by (intro moves_eq recorded_files at_file_run [OF that(2)]) (simp add: that(1))
  show ?thesis
  proof (cases "\<exists>flags command subArgs m. parseGlobalFlags args = Inr (flags, command # subArgs) \<and>
      command \<noteq> ''--help'' \<and> command \<noteq> ''-h'' \<and> dispatch (app_deps p (command # subArgs)) flags command subArgs = Some m")
    case False
    show ?thesis
    proof (rule quiet [OF refl])
      show "keeps (at_file StatePath c) (App_Run p args)" for c
        using False unfolding App_Run_def printUsage_def refusal_def
        by (auto intro!: keeps_rules split: sum.splits list.splits option.splits)
    qed
  next
    case True
    then obtain flags command subArgs m where parse: "parseGlobalFlags args = Inr (flags, command # subArgs)"
      and c: "command \<noteq> ''--help''" "command \<noteq> ''-h''"
      and m: "dispatch (app_deps p (command # subArgs)) flags command subArgs = Some m" by blast
    obtain res v where 1: "run m w = (res, v)" by (meson surj_pair)
    have "files w' StatePath = files v StatePath"
    proof (cases res)
      case (Panics s)
      with run 1 parse c m show ?thesis by (simp add: App_Run_def)
    next
      case (Returns x)
      obtain u v' where 2: "run (show_result (app_renderer p flags) x) v = (u, v')" by (meson surj_pair)
      with run 1 parse c m Returns have "w' = v'" by (simp add: App_Run_def)
      with at_file_run [OF at_file_show 2] show ?thesis by simp
    qed
    from recorded_files [OF this] lab_env.dispatch_moves [OF app_env [OF env] m 1] show ?thesis by simp
  qed
qed

lemma interrupt_moves:
  assumes "run (interrupt_handler args) w = (c, w')"
  shows "lab_moves (recorded StatePath w) (recorded StatePath w')"
proof -
  obtain e v where 1: "run (Store_InvalidateClassification StatePath) w = (e, v)" by (meson surj_pair)
  obtain u v' where 2: "run (LogInterrupt (app_audit args) ''Systemctl'' False) v = (u, v')" by (meson surj_pair)
  have "alPath (app_audit args) \<noteq> StatePath"
    by (simp add: app_audit_def NewAuditLogger_def NewAuditLoggerAt_def path_defs)
  from at_file_run [OF at_file_log(5) [OF this] 2] have "recorded StatePath v' = recorded StatePath v" by (rule recorded_files)
  moreover have "w' = v'" using assms 1 2 by (simp add: interrupt_handler_def)
  ultimately show ?thesis using canonical.Invalidate_old_or_new [OF 1] by (auto simp: lab_moves_def split: if_splits)
qed

lemma step_moves: "leaves_state_file p \<Longrightarrow> lab_step p w w' \<Longrightarrow> lab_moves (recorded StatePath w) (recorded StatePath w')"
  by (erule lab_stepE) (auto intro: App_moves interrupt_moves moves_eq recorded_files)

subsection \<open>Properties\<close>

text \<open>
  C1: the invariant of the state model holds in every world the lab reaches: after any sequence of
  invocations with any arguments, of interrupts and of other events, under every pattern of
  failing system calls, the recorded state is DEGRADED exactly when a fault is recorded, the
  history has at most fifty entries, and the state is one of CONFORMANT, DEGRADED and BROKEN:
  UNPROVISIONED, PROVISIONED and RECOVERING are never recorded.
\<close>

theorem lab_invariant:
  assumes "leaves_state_file p" and "lab_reach p w w'" and "recorded_is (recorded StatePath) inv_lab w"
  shows "recorded_is (recorded StatePath) inv_lab w'"
  using assms(2)
proof induction
  case start
  show ?case by (rule assms(3))
next
  case (step v v')
  from step_moves [OF assms(1) step(2)] step.IH show ?case by (auto simp: lab_moves_def recorded_is_def)
qed

text \<open>A process on a machine whose commands do nothing, and a run of one invocation on it.\<close>

definition demo_process :: "unit process" where
  "demo_process = \<lparr>pcOutside = quiet_outside [], pcFrames = 2, pcSince = (\<lambda>_. 0), pcServices = id, pcEndpoints = id\<rparr>"

lemma demo_process_quiet: "leaves_state_file demo_process"
  by (simp add: leaves_state_file_def demo_process_def real_env_quiet)

theorem lab_invariant_witness:
  "recorded_is (recorded StatePath) inv_lab
     (snd (run (App_Run demo_process [''fault'', ''apply'', ''F-018'', ''--force'', ''--yes'']) (demo_lab (demo_file StateBroken))))"
proof -
  let ?w = "demo_lab (demo_file StateBroken)" and ?args = "[''fault'', ''apply'', ''F-018'', ''--force'', ''--yes'']"
  have 1: "recorded StatePath ?w = Some (demo_file StateBroken)" by code_simp
  have 2: "recorded_is (recorded StatePath) inv_lab ?w"
    unfolding recorded_is_def 1 by (simp add: inv_lab_def inv_I2_def demo_file_def)
  have "lab_step demo_process ?w (snd (run (App_Run demo_process ?args) ?w))"
    by (rule lab_step.invoke) (rule prod.collapse [symmetric])
  then have "lab_reach demo_process ?w (snd (run (App_Run demo_process ?args) ?w))"
    by (rule lab_reach.step [OF lab_reach.start])
  from lab_invariant [OF demo_process_quiet this 2] show ?thesis .
qed

text \<open>
  C2: a recorded state is never lost: from a world in which one is recorded every reachable world
  has one too; there is no step in which the file is missing, empty, torn or unreadable.
\<close>

theorem state_file_never_lost:
  assumes "leaves_state_file p" and "lab_reach p w w'" and "recorded StatePath w \<noteq> None"
  shows "recorded StatePath w' \<noteq> None"
  using assms(2)
proof induction
  case start
  show ?case by (rule assms(3))
next
  case (step v v')
  from step_moves [OF assms(1) step(2)] step.IH show ?case by (auto simp: lab_moves_def)
qed

theorem state_file_never_lost_witness:
  "recorded StatePath (snd (run (App_Run demo_process [''reset'']) ((demo_lab (demo_file StateBroken))\<lparr>fault_at := \<lambda>n. Some EIO\<rparr>))) \<noteq> None"
proof -
  let ?w = "(demo_lab (demo_file StateBroken))\<lparr>fault_at := \<lambda>n. Some EIO\<rparr>"
  have "recorded StatePath (demo_lab (demo_file StateBroken)) = Some (demo_file StateBroken)" by code_simp
  then have 1: "recorded StatePath ?w \<noteq> None" by (simp add: recorded_def)
  have "lab_step demo_process ?w (snd (run (App_Run demo_process [''reset'']) ?w))"
    by (rule lab_step.invoke) (rule prod.collapse [symmetric])
  then have "lab_reach demo_process ?w (snd (run (App_Run demo_process [''reset'']) ?w))"
    by (rule lab_reach.step [OF lab_reach.start])
  from state_file_never_lost [OF demo_process_quiet this 1] show ?thesis .
qed

text \<open>
  C35: \<open>lab reset --json\<close> never prints a result: the value holds the checks of the suite, which
  cannot be encoded, so standard output gets nothing, whatever the outcome and exit code.
\<close>

theorem reset_json_prints_nothing:
  fixes w :: "'x world"
  assumes "leaves_state_file p"
  shows "case fst (run (ResetCmd_Run (app_deps p remaining) tier) v) of
     Returns r \<Rightarrow> stdout (snd (run (show_result (app_renderer p (flags\<lparr>gfJson := True\<rparr>)) r) w)) = stdout w
   | Panics _ \<Rightarrow> True"
proof -
  let ?rn = "app_renderer p (flags\<lparr>gfJson := True\<rparr>)"
  have full: "sResults sr \<noteq> []" if "suite_ran (app_deps p remaining) sr" for sr
  proof -
    from that obtain t rs where "sr = Classify (empty_suite t (int (length (dChecks (app_deps p remaining)))) rs)"
      and len: "length rs = length (dChecks (app_deps p remaining))" by (rule suite_ran_eq)
    moreover have "dChecks (app_deps p remaining) \<noteq> []" by (simp add: app_deps_def NewRunner_def Catalog_def)
    ultimately show ?thesis by auto
  qed
  obtain q v' where run: "run (ResetCmd_Run (app_deps p remaining) tier) v = (q, v')" by (meson surj_pair)
  show ?thesis
  proof (cases q)
    case (Panics s)
    with run show ?thesis by simp
  next
    case (Returns r)
    have "reset_outcome (app_deps p remaining) (recorded StatePath v) (Returns r) (recorded StatePath v')"
      using lab_env.reset_run_outcome [OF app_env [OF assms] run] by (simp add: Returns)
    then have "crErr r \<noteq> None \<or> (\<exists>t a b c sr ms. crValue r = Some (reset_value t a b c sr ms) \<and> sResults sr \<noteq> [])"
      using full by (auto simp: reset_outcome_def reset_result_of_def Let_def) blast+
    moreover have "rnFormat ?rn = FormatJSON" by (simp add: app_renderer_def)
    ultimately have "stdout (snd (run (show_result ?rn r) w)) = stdout w"
      by (auto simp: show_result_def render_error_def Render_def renderJSON_def reset_value_def enc_reset_result_def
          enc_suite_def Let_def eprint_def split: option.splits)
    with run Returns show ?thesis by simp
  qed
qed

theorem reset_json_prints_nothing_witness:
  "case fst (run (ResetCmd_Run (app_deps demo_process [''reset'']) []) (demo_lab (demo_file StateBroken))) of
     Returns r \<Rightarrow> stdout (snd (run (show_result (app_renderer demo_process (no_flags\<lparr>gfJson := True\<rparr>)) r)
       (demo_lab (demo_file StateBroken)))) = []
   | Panics _ \<Rightarrow> True"
proof -
  have e: "stdout (demo_lab (demo_file StateBroken)) = []" by (simp add: demo_lab_def demo_world_def)
  from reset_json_prints_nothing [OF demo_process_quiet, where remaining = "[''reset'']" and tier = "[]" and flags = no_flags
      and v = "demo_lab (demo_file StateBroken)" and w = "demo_lab (demo_file StateBroken)"]
  show ?thesis unfolding e .
qed

end
