(* ===== verification/Recovery.thy ===== *)
theory Recovery
  imports FaultProps
begin

text \<open>
  What the recovery of a fault restores (\<^verbatim>\<open>internal/catalog/faults.go\<close>), from a contract of
  the executor: the locale \<open>executor_contract\<close> says what a client may rely on, its lemmas
  follow the shapes of the recoveries, and \<open>machine_outside\<close> gives the contract for the real
  executor (\<^verbatim>\<open>internal/executor/real.go\<close>) from what is documented of the commands it runs.
\<close>

text \<open>The text of a regular file, and the files whose text the faults edit.\<close>

definition content :: "string \<Rightarrow> 'x world \<Rightarrow> string option" where
  "content p w = (case files w p of None \<Rightarrow> None | Some n \<Rightarrow> if fisdir n then None else Some (fcontent n))"

definition watched :: "string list" where
  "watched = [ConfigPath, UnitFilePath, NginxConfigPath, ChaosEnvPath]"

lemma content_cong: "files w' p = files w p \<Longrightarrow> content p w' = content p w"
  by (simp add: content_def)

lemma frame_and_then: "frame f m \<Longrightarrow> frame f n \<Longrightarrow> frame f (and_then m n)"
  by (simp add: frame_def run_and_then case_prod_beta split: option.splits)

lemma frame_ret: "frame f (ret x)"
  by (simp add: frame_def)

locale executor_contract =
  fixes x :: "'w executor"
    and text_at :: "string \<Rightarrow> 'w \<Rightarrow> string option"
  assumes write_law: "p \<in> set watched \<Longrightarrow> run (WriteFile x p d m u g) w = (e, w') \<Longrightarrow>
       text_at p w' = (if e = None then Some d else text_at p w)"
    and restore_law: "p \<in> set watched \<Longrightarrow> CanonicalFileEntry p = Some c \<Longrightarrow> run (RestoreFile x p) w = (e, w') \<Longrightarrow>
       text_at p w' = (if e = None then Some (cfContent c) else text_at p w)"
    and systemctl_quiet: "p \<in> set watched \<Longrightarrow> frame (text_at p) (Systemctl x action unit)"
    and reload_quiet: "p \<in> set watched \<Longrightarrow> frame (text_at p) (NginxReload x)"
begin

text \<open>A recovery that puts a text in place and then restarts something.\<close>

definition put_in_place :: "string \<Rightarrow> string \<Rightarrow> ('w, go_error option) state \<Rightarrow> bool" where
  "put_in_place p t m \<longleftrightarrow> (\<forall>w. case run m w of (e, w') \<Rightarrow>
     text_at p w' = Some t \<or> (e \<noteq> None \<and> text_at p w' = text_at p w))"

lemma write_in_place: "p \<in> set watched \<Longrightarrow> put_in_place p d (wrapping msg (WriteFile x p d m u g))"
  using write_law [of p d m u g] by (auto simp: put_in_place_def run_wrapping case_prod_beta prod_eq_iff)

lemma restore_in_place: "p \<in> set watched \<Longrightarrow> CanonicalFileEntry p = Some c \<Longrightarrow>
    put_in_place p (cfContent c) (RestoreFile x p)"
  using restore_law [of p c] by (auto simp: put_in_place_def case_prod_beta prod_eq_iff)

lemma in_place_then: "put_in_place p t m \<Longrightarrow> frame (text_at p) n \<Longrightarrow> put_in_place p t (and_then m n)"
  unfolding put_in_place_def frame_def run_and_then case_prod_beta
  by (auto split: option.splits)

lemma in_place_id: "put_in_place p t m \<Longrightarrow> t' = t \<Longrightarrow> put_in_place p t' m"
  by simp

lemmas in_place = write_in_place restore_in_place in_place_then frame_and_then systemctl_quiet reload_quiet

end

subsection \<open>The recoveries\<close>

text \<open>The file a recovery puts back and its text.\<close>

definition recovery_text :: "string \<Rightarrow> (string \<times> string) option" where
  "recovery_text = map_of
     [(''F-001'', ConfigPath, EmbeddedAppConfig), (''F-002'', ConfigPath, EmbeddedAppConfig),
      (''F-006'', UnitFilePath, EmbeddedUnitFile), (''F-007'', NginxConfigPath, EmbeddedNginxConfig),
      (''F-008'', ChaosEnvPath, []), (''F-013'', UnitFilePath, EmbeddedUnitFile),
      (''F-014'', ChaosEnvPath, []), (''F-015'', NginxConfigPath, EmbeddedNginxConfig),
      (''F-016'', ConfigPath, EmbeddedAppConfig), (''F-020'', ChaosEnvPath, [])]"

lemma ByID_faults:
  "ByID ''F-001'' = Some faultF001" "ByID ''F-002'' = Some faultF002" "ByID ''F-006'' = Some faultF006"
  "ByID ''F-007'' = Some faultF007" "ByID ''F-008'' = Some faultF008" "ByID ''F-013'' = Some faultF013"
  "ByID ''F-014'' = Some faultF014" "ByID ''F-015'' = Some faultF015" "ByID ''F-016'' = Some faultF016"
  "ByID ''F-020'' = Some faultF020"
  by (simp_all add: ByID_def ImplByID_def AllImpls_def fault_defs def_defs)

lemma recover_impls:
  "fiRecover faultF001 = recover_F001" "fiRecover faultF002 = recover_F002" "fiRecover faultF006 = recover_F006"
  "fiRecover faultF007 = recover_F007" "fiRecover faultF008 = recover_F008" "fiRecover faultF013 = recover_F013"
  "fiRecover faultF014 = recover_F014" "fiRecover faultF015 = recover_F015" "fiRecover faultF016 = recover_F016"
  "fiRecover faultF020 = recover_F020"
  by (simp_all add: fault_defs)

lemma canonical_entries:
  "CanonicalFileEntry ConfigPath = Some \<lparr>cfContent = EmbeddedAppConfig, cfMode = ModeConfig, cfOwner = ServiceUser, cfGroup = ServiceGroup\<rparr>"
  "CanonicalFileEntry UnitFilePath = Some \<lparr>cfContent = EmbeddedUnitFile, cfMode = ModeUnitFile, cfOwner = RootUser, cfGroup = RootGroup\<rparr>"
  "CanonicalFileEntry NginxConfigPath = Some \<lparr>cfContent = EmbeddedNginxConfig, cfMode = ModeNginxConfig, cfOwner = RootUser, cfGroup = RootGroup\<rparr>"
  by (simp_all add: CanonicalFileEntry_def canonicalFiles_def path_defs)

context executor_contract
begin

lemma restore_each:
  "put_in_place ConfigPath EmbeddedAppConfig (RestoreFile x ConfigPath)"
  "put_in_place UnitFilePath EmbeddedUnitFile (RestoreFile x UnitFilePath)"
  "put_in_place NginxConfigPath EmbeddedNginxConfig (RestoreFile x NginxConfigPath)"
  using restore_in_place [OF _ canonical_entries(1)] restore_in_place [OF _ canonical_entries(2)]
    restore_in_place [OF _ canonical_entries(3)] by (simp_all add: watched_def)

lemma quiet_each:
  "frame (text_at ConfigPath) (Systemctl x action unit)" "frame (text_at UnitFilePath) (Systemctl x action unit)"
  "frame (text_at NginxConfigPath) (NginxReload x)" "frame (text_at ChaosEnvPath) (Systemctl x action unit)"
  "put_in_place ChaosEnvPath [] (wrapping msg (WriteFile x ChaosEnvPath [] m u g))"
  by (rule systemctl_quiet reload_quiet write_in_place, simp add: watched_def)+

lemma recover_in_place:
  assumes "ByID i = Some f" and "recovery_text i = Some (p, t)"
  shows "put_in_place p t (fiRecover f x)"
proof -
  note rules = restore_each quiet_each in_place_then frame_and_then
  have 1: "put_in_place ConfigPath EmbeddedAppConfig (recover_F001 x)"
    unfolding recover_F001_def by (intro rules)
  have 2: "put_in_place ConfigPath EmbeddedAppConfig (recover_F002 x)"
    unfolding recover_F002_def by (intro rules)
  have 3: "put_in_place UnitFilePath EmbeddedUnitFile (recover_F006 x)"
    unfolding recover_F006_def by (intro rules)
  have 4: "put_in_place NginxConfigPath EmbeddedNginxConfig (recover_F007 x)"
    unfolding recover_F007_def by (intro rules)
  have 5: "put_in_place ChaosEnvPath [] (recover_F008 x)"
    unfolding recover_F008_def by (intro rules)
  have 6: "put_in_place UnitFilePath EmbeddedUnitFile (recover_F013 x)"
    unfolding recover_F013_def by (intro rules)
  have 7: "put_in_place ChaosEnvPath [] (recover_F014 x)"
    unfolding recover_F014_def by (intro rules)
  have 8: "put_in_place NginxConfigPath EmbeddedNginxConfig (recover_F015 x)"
    unfolding recover_F015_def by (intro rules)
  have 9: "put_in_place ConfigPath EmbeddedAppConfig (recover_F016 x)"
    unfolding recover_F016_def by (intro rules)
  have 10: "put_in_place ChaosEnvPath [] (recover_F020 x)"
    unfolding recover_F020_def by (intro rules)
  from assms 1 2 3 4 5 6 7 8 9 10 show ?thesis
    by (auto simp: recovery_text_def ByID_faults recover_impls split: if_splits)
qed

end

subsection \<open>The real executor\<close>

text \<open>
  What is documented of the commands: \<open>chown\<close> changes ownership only; \<open>systemctl\<close> and \<open>nginx\<close>
  do not write the files they read their configuration from.
\<close>

locale machine_outside =
  fixes out :: "'x world outside" and a :: audit_logger
  assumes chown_only: "chown_only out"
    and commands_quiet: "p \<in> set watched \<Longrightarrow> cmd = ''systemctl'' \<or> cmd = ''nginx'' \<Longrightarrow>
       content p (snd (run (oRun out ''sudo'' (cmd # args)) w)) = content p w"
    and log_apart: "alPath a \<notin> set watched"
begin

lemma watched_target: "p \<in> set watched \<Longrightarrow> write_target p"
  using write_target_canonical by (auto simp: watched_def)

lemma sudo_quiet:
  "p \<in> set watched \<Longrightarrow> cmd = ''systemctl'' \<or> cmd = ''nginx'' \<Longrightarrow> frame (content p) (runSudo out cmd args)"
  using commands_quiet by (simp add: frame_def runSudo_def runRaw_def case_prod_beta)

lemma audited_content:
  assumes "p \<in> set watched" and "run (audited (NewExecutor a) opn args m) w = (e, w')"
  shows "\<exists>v v'. content p v = content p w \<and> run m v = (e, v') \<and> content p w' = content p v'"
proof -
  have "alPath a \<noteq> p" using assms(1) log_apart by auto
  with audited_run [OF assms(2), of p] obtain v v' where
    "files v = files w" "run m v = (e, v')" "files w' p = files v' p" by (auto simp: NewExecutor_def)
  then show ?thesis by (metis content_cong)
qed

lemma write_real:
  assumes "p \<in> set watched" and "run (Real_WriteFile out (NewExecutor a) p d m u g) w = (e, w')"
  shows "content p w' = (if e = None then Some d else content p w)"
proof -
  from audited_content [OF assms(1) assms(2) [unfolded Real_WriteFile_def]] obtain v v' where
    v: "content p v = content p w" "run (atomicWrite out p d m u g) v = (e, v')" "content p w' = content p v'"
    by blast
  from atomicWrite_cases [OF chown_only watched_target [OF assms(1)] v(2)] v show ?thesis
    by (auto simp: content_def)
qed

lemma audited_frame:
  assumes "p \<in> set watched" and "frame (content p) m"
  shows "frame (content p) (audited (NewExecutor a) opn args m)"
proof -
  have "content p w' = content p w" if "run (audited (NewExecutor a) opn args m) w = (e, w')" for w e w'
    using audited_content [OF assms(1) that] assms(2) by (auto dest: frame_run)
  then show ?thesis by (simp add: frame_def) (metis prod.collapse)
qed

lemma only_err_frame: "frame f m \<Longrightarrow> frame f (only_err m)"
  by (simp add: frame_def only_err_def case_prod_beta)

lemma systemctl_real: "p \<in> set watched \<Longrightarrow> frame (content p) (Real_Systemctl out (NewExecutor a) action unit)"
  unfolding Real_Systemctl_def Let_def by (intro audited_frame only_err_frame sudo_quiet) simp_all

lemma log_frame: "p \<in> set watched \<Longrightarrow> frame (content p) (LogOp a opn args d y e :: ('x world, unit) state)"
proof -
  assume "p \<in> set watched"
  then have "alPath a \<noteq> p" using log_apart by auto
  then have "files (snd (run (LogOp a opn args d y e) w)) p = files w p" for w :: "'x world"
    using keeps_snd [OF keeps_LogOp [of a p "seen p w" opn args d y e], of w] by (simp add: file_is_def seen_def)
  then show ?thesis by (simp add: frame_def content_def)
qed

lemma reload_real: "p \<in> set watched \<Longrightarrow> frame (content p) (Real_NginxReload out (NewExecutor a))"
proof -
  assume p: "p \<in> set watched"
  have m: "content p (snd (run mono_now w)) = content p w" for w :: "'x world" by (simp add: mono_now_def content_def)
  note s = frameD [OF sudo_quiet [OF p, of "''nginx''"]]
  show ?thesis
    by (simp add: frame_def Real_NginxReload_def case_prod_beta only_err_def with_audit_def NewExecutor_def
        m s frameD [OF log_frame [OF p]] split: sum.splits)
qed

end

sublocale machine_outside \<subseteq> executor_contract "Real_executor out (NewExecutor a)" content
proof
  fix p d m u g w e and w' :: "'x world"
  show "p \<in> set watched \<Longrightarrow> run (WriteFile (Real_executor out (NewExecutor a)) p d m u g) w = (e, w') \<Longrightarrow>
      content p w' = (if e = None then Some d else content p w)"
    by (rule write_real) (simp_all add: Real_executor_def)
next
  fix p c w e and w' :: "'x world"
  show "p \<in> set watched \<Longrightarrow> CanonicalFileEntry p = Some c \<Longrightarrow>
      run (RestoreFile (Real_executor out (NewExecutor a)) p) w = (e, w') \<Longrightarrow>
      content p w' = (if e = None then Some (cfContent c) else content p w)"
    by (rule write_real)
       (simp_all add: Real_executor_def Real_RestoreFile_def NewExecutor_def CanonicalFileEntry_def)
next
  fix p action unit
  assume "p \<in> set watched"
  then show "frame (content p) (Systemctl (Real_executor out (NewExecutor a)) action unit)"
    by (simp add: Real_executor_def systemctl_real)
next
  fix p
  assume "p \<in> set watched"
  then show "frame (content p) (NginxReload (Real_executor out (NewExecutor a)))"
    by (simp add: Real_executor_def reload_real)
qed

context machine_outside
begin

lemma contract_real: "executor_contract (Real_executor out (NewExecutor a)) content"
  by unfold_locales

lemmas recover_real = recover_in_place

end

lemma machine_outside_quiet: "machine_outside (quiet_outside s) (NewAuditLogger c)"
proof
  show "chown_only (quiet_outside s)" by (rule chown_only_quiet)
qed (simp_all add: quiet_outside_def NewAuditLogger_def NewAuditLoggerAt_def watched_def path_defs)

interpretation still: machine_outside "quiet_outside s" "NewAuditLogger c" for s c
  by (rule machine_outside_quiet)

subsection \<open>Properties\<close>



end
