(* ===== verification/TierProps.thy ===== *)
theory TierProps
  imports ResetProps Recovery
begin

text \<open>
  What the tier operations of \<open>lab reset\<close> do to the files (\<^verbatim>\<open>cmd/reset.go\<close>), from the contract
  of the executor: \<open>tier_contract\<close> adds to \<open>executor_contract\<close> that restoring one file and
  changing a mode leave the text of the others alone.
\<close>

locale tier_contract = executor_contract x text_at
  for x :: "'x world executor" and text_at :: "string \<Rightarrow> 'x world \<Rightarrow> string option" +
  assumes restore_elsewhere: "p \<in> set watched \<Longrightarrow> q \<in> set R2RestoreFiles \<Longrightarrow> p \<noteq> q \<Longrightarrow> frame (text_at p) (RestoreFile x q)"
    and chmod_keeps_text: "p \<in> set watched \<Longrightarrow> frame (text_at p) (Chmod x q m)"
begin

text \<open>What comes before and does not touch the text, comes before a text put in place.\<close>

lemma then_in_place: "frame (text_at p) m \<Longrightarrow> put_in_place p t n \<Longrightarrow> put_in_place p t (and_then m n)"
  unfolding put_in_place_def frame_def run_and_then case_prod_beta
  by (auto split: option.splits)

lemma wrapping_in_place: "put_in_place p t m \<Longrightarrow> put_in_place p t (wrapping msg m)"
  by (auto simp: put_in_place_def run_wrapping case_prod_beta)

lemma frame_wrapping: "frame f m \<Longrightarrow> frame f (wrapping msg m)"
  by (simp add: frame_def run_wrapping)

lemma frame_for_each: "(\<And>y. y \<in> set ys \<Longrightarrow> frame f (g y)) \<Longrightarrow> frame f (for_each g ys)"
  by (induction ys) (auto intro: frame_and_then frame_ret)

lemma frame_bind_const: "frame f m \<Longrightarrow> frame f n \<Longrightarrow> frame f (m \<bind> (\<lambda>_. n))"
  by (simp add: frame_def case_prod_beta)

lemma restart_frame:
  assumes "p \<in> set watched" and "dExec d = x"
  shows "frame (text_at p) (restart_and_reload d t)"
  unfolding restart_and_reload_def assms(2)
  by (intro frame_bind_const frame_and_then frame_wrapping systemctl_quiet reload_quiet assms(1))

lemma modes_frame:
  assumes "p \<in> set watched" and "dExec d = x"
  shows "frame (text_at p) (restore_modes d)"
  unfolding restore_modes_def assms(2)
  by (rule frame_for_each) (auto intro!: frame_wrapping chmod_keeps_text assms(1))

lemma daemon_frame:
  assumes "p \<in> set watched" and "dExec d = x"
  shows "frame (text_at p) (wrapping msg (Systemctl (dExec d) ''daemon-reload'' []))"
  unfolding assms(2) by (intro frame_wrapping systemctl_quiet assms(1))

lemma restore_files_in_place:
  assumes "dExec d = x"
  shows "put_in_place ConfigPath EmbeddedAppConfig (restore_files d)"
    "put_in_place UnitFilePath EmbeddedUnitFile (restore_files d)"
    "put_in_place NginxConfigPath EmbeddedNginxConfig (restore_files d)"
proof -
  note each = wrapping_in_place [OF restore_each(1)] wrapping_in_place [OF restore_each(2)]
    wrapping_in_place [OF restore_each(3)]
  have other: "frame (text_at p) (wrapping msg (RestoreFile x q))"
    if "p \<in> set watched" "q \<in> set R2RestoreFiles" "p \<noteq> q" for p q msg
    using that by (intro frame_wrapping restore_elsewhere)
  have w: "ConfigPath \<in> set watched" "UnitFilePath \<in> set watched" "NginxConfigPath \<in> set watched"
    by (simp_all add: watched_def)
  have r: "ConfigPath \<in> set R2RestoreFiles" "UnitFilePath \<in> set R2RestoreFiles" "NginxConfigPath \<in> set R2RestoreFiles"
    by (simp_all add: R2RestoreFiles_def)
  have ne: "ConfigPath \<noteq> UnitFilePath" "ConfigPath \<noteq> NginxConfigPath" "UnitFilePath \<noteq> NginxConfigPath"
    by (simp_all add: path_defs)
  note un = restore_files_def R2RestoreFiles_def for_each.simps assms
  show "put_in_place ConfigPath EmbeddedAppConfig (restore_files d)"
    unfolding un by (rule in_place_then [OF each(1)]) (intro frame_and_then other frame_ret w r ne)
  show "put_in_place UnitFilePath EmbeddedUnitFile (restore_files d)"
    unfolding un by (rule then_in_place, intro other w r ne [symmetric], rule in_place_then [OF each(2)])
      (intro frame_and_then other frame_ret w r ne)
  show "put_in_place NginxConfigPath EmbeddedNginxConfig (restore_files d)"
    unfolding un
    by (rule then_in_place, intro other w r ne [symmetric], rule then_in_place, intro other w r ne [symmetric],
        rule in_place_then [OF each(3)], rule frame_ret)
qed

lemma R2_in_place:
  assumes d: "dExec d = x" and "CanonicalFileEntry p = Some c" and "p \<in> set R2RestoreFiles"
    and run: "run (executeTier d ''R2'' sf) w = (e, w')"
  shows "text_at p w' = Some (cfContent c) \<or>
     (e \<noteq> None \<and> text_at p w' = text_at p (snd (run (recover_active d sf) w)))"
proof -
  have p: "p \<in> set watched" using assms(3) by (auto simp: R2RestoreFiles_def watched_def)
  have "put_in_place p (cfContent c) (restore_files d)"
    using assms(2,3) restore_files_in_place [OF d] by (auto simp: R2RestoreFiles_def canonical_entries)
  then have tier: "put_in_place p (cfContent c) (and_then (restore_files d) (and_then (restore_modes d)
      (and_then (wrapping ''R2 daemon-reload: '' (Systemctl (dExec d) ''daemon-reload'' []))
        (restart_and_reload d ''R2''))))"
    by (simp add: in_place_then frame_and_then modes_frame [OF p d] daemon_frame [OF p d] restart_frame [OF p d])
  obtain r v where 1: "run (recover_active d sf) w = (r, v)" by (meson surj_pair)
  show ?thesis
  proof (cases r)
    case None
    with run 1 have "run (and_then (restore_files d) (and_then (restore_modes d)
      (and_then (wrapping ''R2 daemon-reload: '' (Systemctl (dExec d) ''daemon-reload'' []))
        (restart_and_reload d ''R2'')))) v = (e, w')" by (simp add: executeTier_def run_and_then)
    with tier [unfolded put_in_place_def, rule_format, of v] show ?thesis by (simp add: 1)
  next
    case (Some err)
    with run 1 have "e = Some err" and "v = w'" by (simp_all add: executeTier_def run_and_then)
    with 1 show ?thesis by simp
  qed
qed

text \<open>A fault that is not reversible is not recovered, so R1 and R2 leave \<open>chaos.env\<close> as it is.\<close>

lemma chaos_env_stays:
  assumes d: "dExec d = x" and "sfActiveFault sf = Some af" and "afID af = ''F-008'' \<or> afID af = ''F-014''"
    and "tier = ''R1'' \<or> tier = ''R2''"
  shows "frame (text_at ChaosEnvPath) (executeTier d tier sf)"
proof -
  have w: "ChaosEnvPath \<in> set watched" by (simp add: watched_def)
  have "recover_active d sf = ret None"
    using assms(2,3) by (auto simp: recover_active_def ByID_faults fault_defs def_defs)
  moreover have "frame (text_at ChaosEnvPath) (restore_files d)"
    unfolding restore_files_def d
    by (intro frame_for_each frame_wrapping restore_elsewhere w) (auto simp: R2RestoreFiles_def path_defs)
  ultimately show ?thesis
    using assms(4) unfolding executeTier_def
    by (auto intro!: frame_and_then frame_ret modes_frame [OF w d] daemon_frame [OF w d] restart_frame [OF w d])
qed

end

subsection \<open>The real executor\<close>

context machine_outside
begin

lemma frame_at_file: "(\<And>c. keeps (at_file p c) m) \<Longrightarrow> frame (content p) m"
  unfolding frame_def
proof
  fix w
  assume k: "\<And>c. keeps (at_file p c) m"
  obtain a w' where r: "run m w = (a, w')" by (meson surj_pair)
  from at_file_run [OF k r] r show "content p (snd (run m w)) = content p w" by (simp add: content_def)
qed

lemma chown_elsewhere: "tm \<noteq> p \<Longrightarrow> keeps (at_file p c) (chown_step out u g tm)"
  using chown_step_run [OF chown_only] by (auto intro!: keepsI simp: at_file_def)

lemma Chmod_text: "frame (content p) (os_Chmod q m)"
  by (auto simp: frame_def os_Chmod_def content_def set_file_def run_syscall split: option.splits)

lemma restore_elsewhere_real:
  assumes p: "p \<in> set watched" and q: "q \<in> set R2RestoreFiles" and ne: "p \<noteq> q"
  shows "frame (content p) (Real_RestoreFile out (NewExecutor a) q)"
proof -
  have dirs: "dir_of ConfigPath = ''/etc/app''" "dir_of UnitFilePath = ''/etc/systemd/system''"
    "dir_of NginxConfigPath = ''/etc/nginx/sites-enabled''"
    by code_simp+
  have "\<not> has_prefix (dir_of q) p"
    using p q by (auto simp: watched_def R2RestoreFiles_def dirs) (simp_all add: path_defs)
  then have anc: "p \<notin> set (ancestors (dir_of q))" by (blast dest: ancestors_prefix)
  have tmp: "dir_of q @ ''/'' @ ''.tmp-'' @ r @ [] \<noteq> p" for r
    using p q by (auto simp: watched_def R2RestoreFiles_def dirs) (simp_all add: path_defs)
  have "frame (content p) (atomicWrite out q t m u g)" for t m u g
    by (intro frame_at_file atomicWrite_elsewhere anc ne [symmetric] tmp chown_elsewhere)
  then show ?thesis
    using q by (auto simp: Real_RestoreFile_def NewExecutor_def R2RestoreFiles_def frame_ret
        intro!: audited_frame [OF p, unfolded NewExecutor_def] simp: Real_WriteFile_def split: option.splits)
qed

end

sublocale machine_outside \<subseteq> tier_contract "Real_executor out (NewExecutor a)" content
proof
  fix p q m
  assume p: "p \<in> set watched"
  show "q \<in> set R2RestoreFiles \<Longrightarrow> p \<noteq> q \<Longrightarrow> frame (content p) (RestoreFile (Real_executor out (NewExecutor a)) q)"
    using restore_elsewhere_real [OF p] by (simp add: Real_executor_def)
  show "frame (content p) (Chmod (Real_executor out (NewExecutor a)) q m)"
    using audited_frame [OF p Chmod_text] by (simp add: Real_executor_def Real_Chmod_def)
qed

context machine_outside
begin

lemma tier_real: "tier_contract (Real_executor out (NewExecutor a)) content"
  by unfold_locales

end

subsection \<open>Properties\<close>

text \<open>
  C12: when the operations of tier R2 succeed with the real executor, each of the three canonical
  files has its embedded text, whatever it was before and whatever the recovery of the active
  fault did to it: the restores come after the recovery, and nothing after them touches it.
  When they fail, the file has the embedded text or the one the recovery left, never a part.
\<close>

theorem R2_restores_canonical:
  assumes "machine_outside out a" and "p \<in> set R2RestoreFiles"
  shows "\<exists>c. CanonicalFileEntry p = Some c \<and>
     (case run (executeTier (real_deps out a n) ''R2'' sf) w of (e, w') \<Rightarrow>
       content p w' = Some (cfContent c) \<or>
       (e \<noteq> None \<and> content p w' = content p (snd (run (recover_active (real_deps out a n) sf) w))))"
proof -
  obtain c where c: "CanonicalFileEntry p = Some c"
    using assms(2) canonical_entries by (auto simp: R2RestoreFiles_def)
  have x: "dExec (real_deps out a n) = Real_executor out (NewExecutor a)" by (simp add: real_deps_def)
  from tier_contract.R2_in_place [OF machine_outside.tier_real [OF assms(1)] x c assms(2)] c show ?thesis
    by (auto split: prod.splits)
qed

theorem R2_restores_canonical_witness:
  "\<exists>c. CanonicalFileEntry UnitFilePath = Some c \<and>
     (case run (executeTier demo_deps ''R2'' (demo_file StateBroken)) (demo_world [(UnitFilePath, ''broken'')] [(40, EIO)]) of
       (e, w') \<Rightarrow> content UnitFilePath w' = Some (cfContent c) \<or>
         (e \<noteq> None \<and> content UnitFilePath w' = content UnitFilePath
            (snd (run (recover_active demo_deps (demo_file StateBroken)) (demo_world [(UnitFilePath, ''broken'')] [(40, EIO)])))))"
  unfolding demo_deps_def
  by (rule R2_restores_canonical [OF machine_outside_quiet]) (simp add: R2RestoreFiles_def)

text \<open>
  C33: F-008 and F-014 write \<open>chaos.env\<close> and are declared irreversible, so a reset with tier R1 or
  R2 (given on the command line, their own tier is R3) neither recovers them nor touches that
  file: it stays as the fault wrote it, although the reset then records no active fault.
\<close>

theorem reset_leaves_chaos_env:
  assumes "machine_outside out a" and "sfActiveFault sf = Some af"
    and "afID af = ''F-008'' \<or> afID af = ''F-014''" and "tier = ''R1'' \<or> tier = ''R2''"
  shows "case run (executeTier (real_deps out a n) tier sf) w of (_, w') \<Rightarrow>
     content ChaosEnvPath w' = content ChaosEnvPath w"
proof -
  have x: "dExec (real_deps out a n) = Real_executor out (NewExecutor a)" by (simp add: real_deps_def)
  from tier_contract.chaos_env_stays [OF machine_outside.tier_real [OF assms(1)] x assms(2-4)]
  show ?thesis by (simp add: frame_def case_prod_beta)
qed

theorem reset_leaves_chaos_env_witness:
  "case run (executeTier demo_deps ''R2'' ((demo_file StateDegraded)
       \<lparr>sfActiveFault := Some \<lparr>afID = ''F-008'', afAppliedAt = ''t'', afForced = True\<rparr>\<rparr>))
     (demo_world [(ChaosEnvPath, ''CHAOS_MODE=latency'')] []) of (_, w') \<Rightarrow>
     content ChaosEnvPath w' = content ChaosEnvPath (demo_world [(ChaosEnvPath, ''CHAOS_MODE=latency'')] [])"
  unfolding demo_deps_def
  by (rule reset_leaves_chaos_env [OF machine_outside_quiet, where af = "\<lparr>afID = ''F-008'', afAppliedAt = ''t'', afForced = True\<rparr>"])
     simp_all

end
