(* ===== verification/LockProtocol.thy ===== *)
theory LockProtocol
  imports Lock
begin

text \<open>
  The lock of \<^verbatim>\<open>internal/executor/lock.go\<close> between processes: \<open>Acquire\<close> and \<open>Release\<close> are
  sequences of system calls, and the calls of different processes interleave. A state is the
  content of the lock file and where each process stands; a step is one system call of one
  process, none of which fails.

  The lock file is abstracted to what \<open>Acquire\<close> makes of it: absent, a text that is no
  number, the empty file a process has created and not yet written, or the number of a
  process. A process writes to the file it created: when that one was removed, the write does
  not show under the path.
\<close>

datatype lock_content = NoFile | Malformed | Created int | Number int

text \<open>Where a process is: the system call it makes next.\<close>

datatype proc_pc =
    Opening        \<comment> \<open>\<open>OpenFile\<close> with \<open>O_EXCL\<close>\<close>
  | Writing        \<comment> \<open>\<open>Fprintf\<close> of its number into the file it created\<close>
  | Holding        \<comment> \<open>the command runs under the lock\<close>
  | Reading        \<comment> \<open>\<open>ReadFile\<close> of a lock file that exists\<close>
  | Checking int   \<comment> \<open>signal 0 to the holder it read\<close>
  | Removing       \<comment> \<open>\<open>Remove\<close> of a lock file it takes for stale\<close>
  | Refused int    \<comment> \<open>\<open>ErrLockHeld\<close>\<close>
  | Released

record lock_state =
  lsFile :: lock_content
  lsPc :: "int \<Rightarrow> proc_pc"

text \<open>The next call of process \<open>p\<close>, and \<open>Release\<close> as the call after the command.\<close>

definition proc_step :: "(int \<Rightarrow> bool) \<Rightarrow> int \<Rightarrow> lock_state \<Rightarrow> lock_state" where
  "proc_step alive p s =
     (case lsPc s p of
        Opening \<Rightarrow>
          (if lsFile s = NoFile then \<lparr>lsFile = Created p, lsPc = (lsPc s)(p := Writing)\<rparr>
           else s\<lparr>lsPc := (lsPc s)(p := Reading)\<rparr>)
      | Writing \<Rightarrow>
          \<lparr>lsFile = (if lsFile s = Created p then Number p else lsFile s), lsPc = (lsPc s)(p := Holding)\<rparr>
      | Reading \<Rightarrow>
          (case lsFile s of
             NoFile \<Rightarrow> s\<lparr>lsPc := (lsPc s)(p := Removing)\<rparr>
           | Malformed \<Rightarrow> s\<lparr>lsPc := (lsPc s)(p := Removing)\<rparr>
           | Created _ \<Rightarrow> s\<lparr>lsPc := (lsPc s)(p := Removing)\<rparr>
           | Number q \<Rightarrow> s\<lparr>lsPc := (lsPc s)(p := Checking q)\<rparr>)
      | Checking q \<Rightarrow>
          (if alive q then s\<lparr>lsPc := (lsPc s)(p := Refused q)\<rparr>
           else s\<lparr>lsPc := (lsPc s)(p := Removing)\<rparr>)
      | Removing \<Rightarrow> \<lparr>lsFile = NoFile, lsPc = (lsPc s)(p := Opening)\<rparr>
      | Holding \<Rightarrow> \<lparr>lsFile = NoFile, lsPc = (lsPc s)(p := Released)\<rparr>
      | Refused q \<Rightarrow> s
      | Released \<Rightarrow> s)"

inductive lock_step :: "(int \<Rightarrow> bool) \<Rightarrow> lock_state \<Rightarrow> lock_state \<Rightarrow> bool" for alive where
  call: "alive p \<Longrightarrow> lock_step alive s (proc_step alive p s)"

inductive lock_reach :: "(int \<Rightarrow> bool) \<Rightarrow> lock_state \<Rightarrow> lock_state \<Rightarrow> bool" for alive s0 where
  start: "lock_reach alive s0 s0"
| step: "lock_reach alive s0 s \<Longrightarrow> lock_step alive s t \<Longrightarrow> lock_reach alive s0 t"

inductive_cases lock_stepE: "lock_step alive s t"

text \<open>A schedule: which process makes the next call.\<close>

definition run_schedule :: "(int \<Rightarrow> bool) \<Rightarrow> int list \<Rightarrow> lock_state \<Rightarrow> lock_state" where
  "run_schedule alive ps s = foldl (\<lambda>s p. proc_step alive p s) s ps"

lemma run_schedule_reach: "list_all alive ps \<Longrightarrow> lock_reach alive s (run_schedule alive ps s)"
proof (induction ps rule: rev_induct)
  case Nil
  show ?case by (simp add: run_schedule_def lock_reach.start)
next
  case (snoc p ps)
  then have "lock_reach alive s (run_schedule alive ps s)" "alive p" by simp_all
  then have "lock_reach alive s (proc_step alive p (run_schedule alive ps s))"
    by (blast intro: lock_reach.step lock_step.call)
  then show ?case by (simp add: run_schedule_def)
qed

definition lock_start :: lock_state where
  "lock_start = \<lparr>lsFile = NoFile, lsPc = (\<lambda>_. Opening)\<rparr>"

text \<open>The processes that have created the lock file and believe they hold it.\<close>

definition in_section :: "lock_state \<Rightarrow> int \<Rightarrow> bool" where
  "in_section s p \<longleftrightarrow> lsPc s p = Writing \<or> lsPc s p = Holding"

definition exclusive :: "lock_state \<Rightarrow> bool" where
  "exclusive s \<longleftrightarrow> (\<forall>p q. in_section s p \<longrightarrow> in_section s q \<longrightarrow> p = q)"

lemma not_exclusiveI: "in_section s p \<Longrightarrow> in_section s q \<Longrightarrow> p \<noteq> q \<Longrightarrow> \<not> exclusive s"
  by (auto simp: exclusive_def)

subsection \<open>One process alone\<close>

text \<open>The lock file of the machine, in the terms of the protocol.\<close>

definition lock_abs :: "'x world \<Rightarrow> lock_content" where
  "lock_abs w =
     (case files w LockPath of
        None \<Rightarrow> NoFile
      | Some n \<Rightarrow> if fisdir n then Malformed
          else (case atoi (trim_space (fcontent n)) of None \<Rightarrow> Malformed | Some pid \<Rightarrow> Number pid))"

lemma holder_lock_abs:
  "holder LockPath w = (case lock_abs w of Number q \<Rightarrow> if pid_alive w q then Some q else None | _ \<Rightarrow> None)"
  by (auto simp: holder_def lock_abs_def split: option.splits)

lemma lock_abs_not_created [simp]: "lock_abs w \<noteq> Created p"
  by (auto simp: lock_abs_def split: option.splits)

lemma lock_abs_of_file:
  "files w LockPath = Some m \<Longrightarrow> fcontent m = lock_file_of p \<Longrightarrow> \<not> fisdir m \<Longrightarrow> int64_ok p \<Longrightarrow>
     lock_abs w = Number p"
  by (simp add: lock_abs_def atoi_lock_file)

definition solo :: "(int \<Rightarrow> bool) \<Rightarrow> int \<Rightarrow> nat \<Rightarrow> lock_content \<Rightarrow> lock_state" where
  "solo alive p k c = run_schedule alive (replicate k p) \<lparr>lsFile = c, lsPc = (\<lambda>_. Opening)\<rparr>"

lemmas solo_simps = solo_def run_schedule_def proc_step_def

lemma solo_ends:
  assumes "\<And>q. c \<noteq> Created q"
  shows "\<exists>k. case c of
      Number q \<Rightarrow>
        if alive q then lsPc (solo alive p k c) p = Refused q \<and> lsFile (solo alive p k c) = c
        else lsPc (solo alive p k c) p = Holding \<and> lsFile (solo alive p k c) = Number p
    | _ \<Rightarrow> lsPc (solo alive p k c) p = Holding \<and> lsFile (solo alive p k c) = Number p"
proof (cases c)
  case NoFile
  then show ?thesis
    by (intro exI [of _ "Suc (Suc 0)"]) (simp add: solo_simps)
next
  case Malformed
  then show ?thesis
    by (intro exI [of _ "Suc (Suc (Suc (Suc (Suc 0))))"]) (simp add: solo_simps)
next
  case (Number q)
  show ?thesis
  proof (cases "alive q")
    case True
    with Number show ?thesis by (intro exI [of _ "Suc (Suc (Suc 0))"]) (simp add: solo_simps)
  next
    case False
    with Number show ?thesis
      by (intro exI [of _ "Suc (Suc (Suc (Suc (Suc (Suc 0)))))"]) (simp add: solo_simps)
  qed
qed (use assms in simp)

subsection \<open>What removing a stale file costs\<close>

text \<open>
  The invariant that holds as long as no process removes a lock file it takes for stale: one
  process at most is inside, and then the file exists and is its own.
\<close>

definition lock_inv :: "lock_state \<Rightarrow> bool" where
  "lock_inv s \<longleftrightarrow> exclusive s \<and>
     (\<forall>p. lsPc s p = Writing \<longrightarrow> lsFile s = Created p) \<and>
     (\<forall>p. lsPc s p = Holding \<longrightarrow> lsFile s = Number p)"

lemma lock_inv_step:
  assumes "lock_inv s" and "lsPc s p \<noteq> Removing"
  shows "lock_inv (proc_step alive p s)"
proof (cases "lsPc s p")
  case Opening
  with assms show ?thesis
    by (cases "lsFile s") (auto simp: proc_step_def lock_inv_def exclusive_def in_section_def)
next
  case Writing
  with assms show ?thesis
    by (auto simp: proc_step_def lock_inv_def exclusive_def in_section_def)
next
  case Holding
  with assms show ?thesis
    by (auto simp: proc_step_def lock_inv_def exclusive_def in_section_def)
next
  case Reading
  with assms show ?thesis
    by (cases "lsFile s") (auto simp: proc_step_def lock_inv_def exclusive_def in_section_def)
next
  case (Checking q)
  with assms show ?thesis
    by (auto simp: proc_step_def lock_inv_def exclusive_def in_section_def)
qed (use assms in \<open>auto simp: proc_step_def lock_inv_def\<close>)

text \<open>Reachability through states in which nobody is about to remove.\<close>

inductive calm_reach :: "(int \<Rightarrow> bool) \<Rightarrow> lock_state \<Rightarrow> lock_state \<Rightarrow> bool" for alive s0 where
  calm_start: "calm_reach alive s0 s0"
| calm_step: "calm_reach alive s0 s \<Longrightarrow> (\<And>p. lsPc s p \<noteq> Removing) \<Longrightarrow> lock_step alive s t \<Longrightarrow>
    calm_reach alive s0 t"

lemma calm_reach_inv: "calm_reach alive s0 s \<Longrightarrow> lock_inv s0 \<Longrightarrow> lock_inv s"
  by (induction rule: calm_reach.induct) (auto elim!: lock_stepE intro: lock_inv_step)

lemma lock_inv_start: "lock_inv lock_start"
  by (simp add: lock_inv_def lock_start_def exclusive_def in_section_def)

subsection \<open>Properties\<close>




definition everyone :: "int \<Rightarrow> bool" where
  "everyone p = True"


text \<open>
  C24: with the removal the lock is not exclusive: from an absent lock file, with both
  processes alive, there is an interleaving after which both hold the lock. The second reads
  the file between its creation and the writing of the number, takes the empty text for a
  malformed lock and removes it.
\<close>

theorem lock_not_exclusive:
  "\<exists>s. lock_reach everyone lock_start s \<and> lsPc s 1 = Holding \<and> lsPc s 2 = Holding \<and> \<not> exclusive s"
proof -
  let ?s = "run_schedule everyone [1, 2, 2, 1, 2, 2, 2] lock_start"
  have "lock_reach everyone lock_start ?s"
    by (rule run_schedule_reach) (simp add: everyone_def)
  moreover have "lsPc ?s 1 = Holding \<and> lsPc ?s 2 = Holding"
    by (simp add: run_schedule_def proc_step_def lock_start_def)
  moreover from this have "in_section ?s 1 \<and> in_section ?s 2"
    by (simp add: in_section_def)
  then have "\<not> exclusive ?s"
    using not_exclusiveI [of ?s 1 2] by simp
  ultimately show ?thesis by blast
qed

end
