(* ===== verification/SvcProcess.thy ===== *)
theory SvcProcess
  imports Store "HOL-Library.Word"
begin

text \<open>
  The process of the subject service (\<^verbatim>\<open>service/\<close>): what it has apart from the file system.

  \<open>svRequests\<close> and \<open>svErrors\<close> are the two shared counters (\<open>atomic.Int64\<close>: 64 bits, adding
  wraps). \<open>svEnv\<close> is the environment it was started with (\<open>os.Getenv\<close> gives the empty text for a
  missing variable), \<open>svDraws\<close> the random numbers it will draw, \<open>svSlept\<close> the sleeps so far in
  nanoseconds, \<open>svChildren\<close> the children it started and never waits for, \<open>svOOM\<close> whether the
  allocator runs. \<open>svStatfs\<close> and \<open>svFds\<close> are what \<open>statfs\<close> and the directory of open file
  descriptors answer at a call, \<open>svPrev\<close> the last CPU sample of the telemetry collector.
\<close>

record cpu_sample =
  cpAt :: int
  cpUserMs :: int
  cpSystemMs :: int

record statfs =
  sbBlocks :: "64 word"
  sbBfree :: "64 word"
  sbFiles :: "64 word"
  sbFfree :: "64 word"

record service =
  svRequests :: "64 word"
  svErrors :: "64 word"
  svEnv :: "string \<Rightarrow> string"
  svDrawNo :: nat
  svDraws :: "nat \<Rightarrow> nat"
  svSlept :: "int list"
  svChildren :: nat
  svOOM :: bool
  svStatfs :: "nat \<Rightarrow> string \<Rightarrow> statfs option"
  svFds :: "nat \<Rightarrow> nat option"
  svPrev :: "cpu_sample option"

type_synonym svc = "service world"

text \<open>A step on the process only.\<close>

definition on_process :: "(service \<Rightarrow> service) \<Rightarrow> (svc, unit) state" where
  "on_process f = modify (\<lambda>w. w\<lparr>ext := f (ext w)\<rparr>)"

text \<open>\<open>metrics.RequestsTotal.Add(1)\<close> and \<open>metrics.ErrorsTotal.Add(1)\<close>.\<close>

definition count_request :: "(svc, unit) state" where
  "count_request = on_process (\<lambda>p. p\<lparr>svRequests := svRequests p + 1\<rparr>)"

definition count_error :: "(svc, unit) state" where
  "count_error = on_process (\<lambda>p. p\<lparr>svErrors := svErrors p + 1\<rparr>)"

definition os_Getenv :: "string \<Rightarrow> (svc, string) state" where
  "os_Getenv v = gets (\<lambda>w. svEnv (ext w) v)"

text \<open>\<open>time.Sleep\<close>; \<open>rand.IntN(n)\<close> for a positive \<open>n\<close>.\<close>

definition sleep_ns :: "int \<Rightarrow> (svc, unit) state" where
  "sleep_ns d = on_process (\<lambda>p. p\<lparr>svSlept := svSlept p @ [d]\<rparr>)"

definition rand_IntN :: "nat \<Rightarrow> (svc, int) state" where
  "rand_IntN n = do {
     k \<leftarrow> gets (\<lambda>w. svDraws (ext w) (svDrawNo (ext w)) mod n);
     _ \<leftarrow> on_process (\<lambda>p. p\<lparr>svDrawNo := Suc (svDrawNo p)\<rparr>);
     ret (int k)
   }"

lemma keeps_on_process [keeps_rules]: "keeps (file_is q c) (on_process f)"
  unfolding on_process_def by (intro keeps_modify) (simp add: seen_defs)

lemma keeps_counters [keeps_rules]: "keeps (file_is q c) count_request" "keeps (file_is q c) count_error"
  unfolding count_request_def count_error_def by (intro keeps_rules)+

lemma keeps_Getenv [keeps_rules]: "keeps I (os_Getenv v)"
  unfolding os_Getenv_def by (intro keeps_rules)

lemma keeps_sleep [keeps_rules]: "keeps (file_is q c) (sleep_ns d)"
  unfolding sleep_ns_def by (intro keeps_rules)

lemma keeps_rand_IntN [keeps_rules]: "keeps (file_is q c) (rand_IntN n)"
  unfolding rand_IntN_def by (intro keeps_rules)

text \<open>The counters, and what leaves them alone: every call on files.\<close>

definition counters :: "svc \<Rightarrow> 64 word \<times> 64 word" where
  "counters w = (svRequests (ext w), svErrors (ext w))"

end
