(* ===== verification/SvcConfig.thy ===== *)
theory SvcConfig
  imports SvcProcess
begin

text \<open>
  The configuration of the service, \<^verbatim>\<open>service/config/config.go\<close>: the YAML file, its defaults, the
  chaos variables of the environment. The YAML decoder (\<^verbatim>\<open>gopkg.in/yaml.v3\<close>) is a parameter: from
  a text to the address and the environment name, empty where missing, or an error.
\<close>

definition DefaultConfigPath :: string where
  "DefaultConfigPath = ''/etc/app/config.yaml''"

record chaos_config =
  ccLatencyMS :: int
  ccDropPercent :: int
  ccOOMTrigger :: bool
  ccIgnoreSIGTERM :: bool
  ccZombieChildren :: bool

record svc_config =
  scAddr :: string
  scAppEnv :: string
  scChaos :: chaos_config

definition no_chaos :: chaos_config where
  "no_chaos = \<lparr>ccLatencyMS = 0, ccDropPercent = 0, ccOOMTrigger = False, ccIgnoreSIGTERM = False,
     ccZombieChildren = False\<rparr>"

definition IsActive :: "chaos_config \<Rightarrow> bool" where
  "IsActive c \<longleftrightarrow> 0 < ccLatencyMS c \<or> 0 < ccDropPercent c \<or> ccOOMTrigger c \<or> ccIgnoreSIGTERM c"

definition ActiveModes :: "chaos_config \<Rightarrow> string list" where
  "ActiveModes c =
     (if 0 < ccLatencyMS c then [''latency''] else []) @
     (if 0 < ccDropPercent c then [''drop''] else []) @
     (if ccOOMTrigger c then [''oom''] else []) @
     (if ccIgnoreSIGTERM c then [''nosigterm''] else [])"

definition parseBool :: "string \<Rightarrow> bool" where
  "parseBool s = (map lower_char (trim_space s) \<in> {''1'', ''true'', ''yes''})"

subsection \<open>Runes\<close>

text \<open>
  What \<open>for _, r := range s\<close> sees: the rune at the head of a non-empty text and its width in
  bytes; a byte that begins no valid UTF-8 sequence is U+FFFD of width 1.
\<close>

definition cont :: "nat \<Rightarrow> bool" where
  "cont b \<longleftrightarrow> 128 \<le> b \<and> b < 192"

definition rune2 :: "nat \<Rightarrow> nat list \<Rightarrow> nat \<times> nat" where
  "rune2 b0 r = (case r of b1 # _ \<Rightarrow> if cont b1 then ((b0 - 192) * 64 + (b1 - 128), 2) else (65533, 1)
     | _ \<Rightarrow> (65533, 1))"

definition rune3 :: "nat \<Rightarrow> nat list \<Rightarrow> nat \<times> nat" where
  "rune3 b0 r = (case r of b1 # b2 # _ \<Rightarrow>
       if (if b0 = 224 then 160 else 128) \<le> b1 \<and> b1 < (if b0 = 237 then 160 else 192) \<and> cont b2
       then ((b0 - 224) * 4096 + (b1 - 128) * 64 + (b2 - 128), 3) else (65533, 1)
     | _ \<Rightarrow> (65533, 1))"

definition rune4 :: "nat \<Rightarrow> nat list \<Rightarrow> nat \<times> nat" where
  "rune4 b0 r = (case r of b1 # b2 # b3 # _ \<Rightarrow>
       if (if b0 = 240 then 144 else 128) \<le> b1 \<and> b1 < (if b0 = 244 then 144 else 192) \<and> cont b2 \<and> cont b3
       then ((b0 - 240) * 262144 + (b1 - 128) * 4096 + (b2 - 128) * 64 + (b3 - 128), 4) else (65533, 1)
     | _ \<Rightarrow> (65533, 1))"

definition next_rune :: "nat \<Rightarrow> nat list \<Rightarrow> nat \<times> nat" where
  "next_rune b0 r =
     (if b0 < 128 then (b0, 1)
      else if 194 \<le> b0 \<and> b0 < 224 then rune2 b0 r
      else if 224 \<le> b0 \<and> b0 < 240 then rune3 b0 r
      else if 240 \<le> b0 \<and> b0 < 245 then rune4 b0 r
      else (65533, 1))"

function runes :: "nat list \<Rightarrow> nat list" where
  "runes [] = []"
| "runes (b # r) = fst (next_rune b r) # runes (drop (snd (next_rune b r) - 1) r)"
  by pat_completeness auto
termination by (relation "measure length") auto

definition bytes :: "string \<Rightarrow> nat list" where
  "bytes s = map of_char s"

definition SanitizeEnvString :: "string \<Rightarrow> string" where
  "SanitizeEnvString s = concat (map utf8 (filter (\<lambda>r. 32 \<le> r \<and> r \<noteq> 127) (runes (bytes s))))"

subsection \<open>Loading\<close>

definition chaos_latency :: "string \<Rightarrow> int" where
  "chaos_latency v = (case atoi v of Some n \<Rightarrow> if 0 < n then n else 0 | None \<Rightarrow> 0)"

definition chaos_drop :: "string \<Rightarrow> int" where
  "chaos_drop v = (case atoi v of Some n \<Rightarrow> if 0 \<le> n \<and> n \<le> 100 then n else 0 | None \<Rightarrow> 0)"

definition loadChaos :: "(svc, chaos_config) state" where
  "loadChaos = do {
     latency \<leftarrow> os_Getenv ''CHAOS_LATENCY_MS'';
     drp \<leftarrow> os_Getenv ''CHAOS_DROP_PERCENT'';
     oom \<leftarrow> os_Getenv ''CHAOS_OOM_TRIGGER'';
     nosig \<leftarrow> os_Getenv ''CHAOS_IGNORE_SIGTERM'';
     zombies \<leftarrow> os_Getenv ''CHAOS_ZOMBIE_CHILDREN'';
     ret \<lparr>ccLatencyMS = (if latency \<noteq> [] then chaos_latency latency else 0),
          ccDropPercent = (if drp \<noteq> [] then chaos_drop drp else 0),
          ccOOMTrigger = parseBool oom, ccIgnoreSIGTERM = parseBool nosig, ccZombieChildren = parseBool zombies\<rparr>
   }"

type_synonym yaml_decoder = "string \<Rightarrow> (string \<times> string) result"

definition Load :: "yaml_decoder \<Rightarrow> string \<Rightarrow> (svc, svc_config result) state" where
  "Load yaml path = do {
     r \<leftarrow> os_ReadFile path;
     (case r of
        Inl err \<Rightarrow> ret (Inl (Wrapf (''reading config '' @ path @ '': '') err []))
      | Inr text \<Rightarrow>
          (case yaml text of
             Inl err \<Rightarrow> ret (Inl (Wrapf (''parsing config '' @ path @ '': '') err []))
           | Inr (addr, env) \<Rightarrow> do {
               chaos \<leftarrow> loadChaos;
               ret (Inr \<lparr>scAddr = (if addr = [] then ''127.0.0.1:8080'' else addr),
                 scAppEnv = SanitizeEnvString (if env = [] then ''prod'' else env), scChaos = chaos\<rparr>)
             }))
   }"

lemma keeps_loadChaos [keeps_rules]: "keeps I loadChaos"
  unfolding loadChaos_def by (intro keeps_rules)

lemma keeps_Load [keeps_rules]: "keeps (file_is q c) (Load yaml path)"
  unfolding Load_def by (intro keeps_rules)

end
