(* ===== verification/SvcLogging.thy ===== *)
theory SvcLogging
  imports SvcConfig Executor "HOL-Library.AList" "HOL-Library.List_Lexorder" "HOL-Library.Char_ord"
begin

text \<open>
  The diagnostic log of the service, \<^verbatim>\<open>service/logging/logging.go\<close>: lines of JSON in a file
  opened for appending. A logger is the path it was opened under; the mutex makes each call
  one step.
\<close>

definition LogPath_svc :: string where
  "LogPath_svc = ''/var/log/app/app.log''"

record logger =
  lgPath :: string

text \<open>
  The values passed to the logger. \<open>LOther\<close> is a value of a type from outside (the error of
  the HTTP server), given by what \<open>json.Marshal\<close> makes of it and its text.
\<close>

datatype log_value =
    LStr string
  | LInt int
  | LBool bool
  | LStrs "string list"
  | LErr go_error
  | LOther "json result" string

subsection \<open>Entries\<close>

fun errno_number :: "errno \<Rightarrow> int" where
  "errno_number EPERM = 1"
| "errno_number ENOENT = 2"
| "errno_number ESRCH = 3"
| "errno_number EIO = 5"
| "errno_number EACCES = 13"
| "errno_number EEXIST = 17"
| "errno_number ENOSPC = 28"

text \<open>
  What \<open>json.Marshal\<close> makes of an \<open>error\<close> value: it looks at the struct behind it, not at its
  \<open>Error\<close> method. \<open>*fs.PathError\<close> has three exported fields, the last a number; the structs
  of \<open>fmt.Errorf\<close> and \<open>errors.New\<close> have none.
\<close>

fun enc_error :: "go_error \<Rightarrow> json" where
  "enc_error (PathError opn path n) =
     JObj [(''Op'', JStr opn), (''Path'', JStr path), (''Err'', JNum (itoa (errno_number n)))]"
| "enc_error (ErrLockHeld pid) = JObj [(''PID'', JNum (itoa pid))]"
| "enc_error (ErrStateFileNotFound p) = JObj [(''Path'', JStr p)]"
| "enc_error (ErrStateFileCorrupt p c) = JObj [(''Path'', JStr p), (''Cause'', enc_error c)]"
| "enc_error (ErrInvalidState v) = JObj [(''Value'', JStr v)]"
| "enc_error (Errorf _) = JObj []"
| "enc_error (Wrapf _ _ _) = JObj []"

fun enc_log_value :: "log_value \<Rightarrow> json result" where
  "enc_log_value (LStr s) = Inr (JStr s)"
| "enc_log_value (LInt i) = Inr (JNum (itoa i))"
| "enc_log_value (LBool b) = Inr (JBool b)"
| "enc_log_value (LStrs ss) = Inr (if ss = [] then JNull else JArr (map JStr ss))"
| "enc_log_value (LErr e) = Inr (enc_error e)"
| "enc_log_value (LOther j _) = j"

text \<open>\<open>fmt.Sprint\<close> of a key that is no string.\<close>

fun sprint :: "log_value \<Rightarrow> string" where
  "sprint (LStr s) = s"
| "sprint (LInt i) = itoa i"
| "sprint (LBool b) = (if b then ''true'' else ''false'')"
| "sprint (LStrs ss) = ''['' @ str_join '' '' ss @ '']''"
| "sprint (LErr e) = error_text e"
| "sprint (LOther _ s) = s"

type_synonym log_entry = "(string \<times> log_value) list"

fun log_pairs :: "log_value list \<Rightarrow> log_entry \<Rightarrow> log_entry" where
  "log_pairs (k # v # kvs) e = log_pairs kvs (AList.update (sprint k) v e)"
| "log_pairs [v] e = AList.update ''_unpaired'' v e"
| "log_pairs [] e = e"

definition buildEntry :: "time \<Rightarrow> string \<Rightarrow> string \<Rightarrow> log_value list \<Rightarrow> log_entry" where
  "buildEntry now level msg kvs = log_pairs kvs [(''ts'', LStr now), (''level'', LStr level), (''msg'', LStr msg)]"

text \<open>\<open>json.Marshal\<close> of a map: the keys sorted; an error in a value is an error of the whole.\<close>

fun enc_fields :: "log_entry \<Rightarrow> (string \<times> json) list result" where
  "enc_fields [] = Inr []"
| "enc_fields ((k, v) # r) =
     (case enc_log_value v of Inl e \<Rightarrow> Inl e
      | Inr j \<Rightarrow> (case enc_fields r of Inl e \<Rightarrow> Inl e | Inr js \<Rightarrow> Inr ((k, j) # js)))"

definition enc_entry :: "log_entry \<Rightarrow> json result" where
  "enc_entry e = map_sum id JObj (enc_fields (sort_key fst e))"

subsection \<open>Writing\<close>

definition log_line :: "time \<Rightarrow> log_entry \<Rightarrow> string" where
  "log_line now e =
     (case enc_entry e of
        Inr j \<Rightarrow> json_marshal j
      | Inl err \<Rightarrow> ''{'' @ quote ''ts'' @ '':'' @ quote now @ '','' @ quote ''level'' @ '':'' @ quote ''error'' @ '','' @
          quote ''msg'' @ '':'' @ quote ''log marshal failed'' @ '','' @ quote ''error'' @ '':'' @
          quote (error_text err) @ ''}'') @ [nl]"

definition New_logger :: "string \<Rightarrow> ('x world, logger result) state" where
  "New_logger path = do {
     e \<leftarrow> os_OpenAppend path (octal [0, 6, 4, 0]);
     ret (case e of
        Some err \<Rightarrow> Inl (Wrapf (''opening log file '' @ path @ '': '') err [])
      | None \<Rightarrow> Inr \<lparr>lgPath = path\<rparr>)
   }"

definition log_write :: "logger \<Rightarrow> string \<Rightarrow> string \<Rightarrow> log_value list \<Rightarrow> ('x world, unit) state" where
  "log_write l level msg kvs = do {
     now \<leftarrow> time_now;
     _ \<leftarrow> file_Write (lgPath l) (log_line now (buildEntry now level msg kvs));
     ret ()
   }"

definition log_info :: "logger \<Rightarrow> string \<Rightarrow> log_value list \<Rightarrow> ('x world, unit) state" where
  "log_info l msg kvs = log_write l ''info'' msg kvs"

definition log_warn :: "logger \<Rightarrow> string \<Rightarrow> log_value list \<Rightarrow> ('x world, unit) state" where
  "log_warn l msg kvs = log_write l ''warn'' msg kvs"

definition log_err :: "logger \<Rightarrow> string \<Rightarrow> log_value list \<Rightarrow> ('x world, unit) state" where
  "log_err l msg kvs = log_write l ''error'' msg kvs"

definition log_close :: "logger \<Rightarrow> ('x world, go_error option) state" where
  "log_close l = file_Close (lgPath l)"

definition log_Stderr :: "string \<Rightarrow> ('x world, unit) state" where
  "log_Stderr msg = eprint (msg @ [nl])"

subsection \<open>Frames\<close>

lemma keeps_log_write: "lgPath l \<noteq> q \<Longrightarrow> keeps (file_is q c) (log_write l level msg kvs)"
  unfolding log_write_def by (intro keeps_rules keeps_Write)

lemma keeps_log_calls:
  "lgPath l \<noteq> q \<Longrightarrow> keeps (file_is q c) (log_info l msg kvs)"
  "lgPath l \<noteq> q \<Longrightarrow> keeps (file_is q c) (log_warn l msg kvs)"
  "lgPath l \<noteq> q \<Longrightarrow> keeps (file_is q c) (log_err l msg kvs)"
  unfolding log_info_def log_warn_def log_err_def by (intro keeps_log_write, assumption)+

lemma keeps_log_close [keeps_rules]: "keeps (file_is q c) (log_close l)"
  unfolding log_close_def by (intro keeps_rules)

lemma keeps_log_Stderr [keeps_rules]: "keeps (file_is q c) (log_Stderr msg)"
  unfolding log_Stderr_def by (intro keeps_rules)

end
