(* ===== verification/SvcChaos.thy ===== *)
theory SvcChaos
  imports SvcLogging
begin

text \<open>
  The chaos middleware, \<^verbatim>\<open>service/chaos/chaos.go\<close>, and the requests and replies of
  \<^verbatim>\<open>net/http\<close> as far as the service uses them.

  A request is its method, the path of its URL (no percent escapes), the headers the server
  parsed, under their canonical names (\<open>Host\<close> is not among them: \<open>net/http\<close> moves it to a field
  of its own), and what hijacking its connection gives. A reply is what the handler hands to
  the server: status, headers and body; a redirect of the multiplexer; or a connection closed
  without a reply, with or without a reset.
\<close>

datatype connection = NoHijacker | HijackFails | Conn bool

record request =
  rqMethod :: string
  rqPath :: string
  rqHeaders :: "(string \<times> string) list"
  rqConn :: connection

datatype reply =
    Reply int "(string \<times> string) list" string
  | Redirect string
  | Aborted bool

type_synonym handler = "request \<Rightarrow> (svc, reply) state"

definition http_error :: "int \<Rightarrow> string \<Rightarrow> reply" where
  "http_error status msg =
     Reply status [(''Content-Type'', ''text/plain; charset=utf-8''), (''X-Content-Type-Options'', ''nosniff'')] (msg @ [nl])"

definition json_reply :: "int \<Rightarrow> string \<Rightarrow> reply" where
  "json_reply status body = Reply status [(''Content-Type'', ''application/json'')] body"

subsection \<open>The middleware\<close>

record chaos_handler =
  chLatencyMS :: int
  chDropPercent :: int
  chReqCounter :: "(svc, unit) state option"
  chErrCounter :: "(svc, unit) state option"
  chLogger :: "logger option"

definition New_chaos ::
  "int \<Rightarrow> int \<Rightarrow> (svc, unit) state option \<Rightarrow> (svc, unit) state option \<Rightarrow> logger option \<Rightarrow> chaos_handler" where
  "New_chaos latency drp req err l =
     \<lparr>chLatencyMS = latency, chDropPercent = drp, chReqCounter = req, chErrCounter = err, chLogger = l\<rparr>"

definition if_set :: "'a option \<Rightarrow> ('a \<Rightarrow> ('w, unit) state) \<Rightarrow> ('w, unit) state" where
  "if_set v f = (case v of None \<Rightarrow> ret () | Some x \<Rightarrow> f x)"

definition chaos_body :: string where
  "chaos_body = ''{'' @ quote ''status'' @ '':'' @ quote ''error'' @ '','' @ quote ''msg'' @ '':'' @ quote ''chaos drop'' @ ''}''"

text \<open>The drop decision: no random number is drawn when dropping is off or for \<open>/health\<close>.\<close>

definition drop_draw :: "chaos_handler \<Rightarrow> request \<Rightarrow> (svc, bool) state" where
  "drop_draw h rq =
     (if 0 < chDropPercent h \<and> rqPath rq \<noteq> ''/health''
      then do { k \<leftarrow> rand_IntN 100; ret (k < chDropPercent h) }
      else ret False)"

definition drop_request :: "chaos_handler \<Rightarrow> request \<Rightarrow> (svc, reply) state" where
  "drop_request h rq = do {
     _ \<leftarrow> if_set (chLogger h) (\<lambda>l. log_warn l ''chaos drop''
            [LStr ''path'', LStr (rqPath rq), LStr ''drop_percent'', LInt (chDropPercent h)]);
     _ \<leftarrow> if_set (chReqCounter h) id;
     _ \<leftarrow> if_set (chErrCounter h) id;
     ret (http_error 503 chaos_body)
   }"

text \<open>\<open>time.Duration(ms) * time.Millisecond\<close>: nanoseconds in 64 signed bits, which wrap.\<close>

definition duration_ms :: "int \<Rightarrow> int" where
  "duration_ms ms = sint (of_int (ms * 1000000) :: 64 word)"

definition chaos_ServeHTTP :: "chaos_handler \<Rightarrow> handler \<Rightarrow> handler" where
  "chaos_ServeHTTP h nxt rq = do {
     drp \<leftarrow> drop_draw h rq;
     (if drp then drop_request h rq
      else do {
        _ \<leftarrow> (if 0 < chLatencyMS h \<and> rqPath rq \<noteq> ''/health'' then sleep_ns (duration_ms (chLatencyMS h)) else ret ());
        nxt rq
      })
   }"

subsection \<open>The OOM trigger\<close>

text \<open>The \<open>sync.Once\<close> around the allocator; what the allocator does to the process is outside.\<close>

definition StartOOM :: "logger \<Rightarrow> (svc, unit) state" where
  "StartOOM l = do {
     started \<leftarrow> gets (\<lambda>w. svOOM (ext w));
     (if started then ret ()
      else do {
        _ \<leftarrow> log_warn l (''chaos oom started '' @ u_emdash @ '' process will be terminated by OOM killer'')
          [LStr ''mode'', LStr ''oom'', LStr ''action'', LStr ''allocating until OOM kill''];
        on_process (\<lambda>p. p\<lparr>svOOM := True\<rparr>)
      })
   }"

lemma keeps_if_set: "(\<And>x. v = Some x \<Longrightarrow> keeps I (f x)) \<Longrightarrow> keeps I (if_set v f)"
  by (cases v) (auto simp: if_set_def intro: keeps_rules)

lemma keeps_drop_draw [keeps_rules]: "keeps (file_is q c) (drop_draw h rq)"
  unfolding drop_draw_def by (intro keeps_rules)

lemma keeps_StartOOM: "lgPath l \<noteq> q \<Longrightarrow> keeps (file_is q c) (StartOOM l)"
  unfolding StartOOM_def by (intro keeps_rules keeps_log_calls)

end
