(* ===== verification/SvcSignals.thy ===== *)
theory SvcSignals
  imports SvcProcess
begin

text \<open>
  The signal files of the service under \<^verbatim>\<open>/run/app\<close>, \<^verbatim>\<open>service/signals/signals.go\<close>. The directory
  is the canonical one; its override is for tests.
\<close>

definition Dir :: string where
  "Dir = ''/run/app''"

definition PIDFile :: string where
  "PIDFile = Dir @ ''/app.pid''"

definition HealthyFile :: string where
  "HealthyFile = Dir @ ''/healthy''"

definition LoadingFile :: string where
  "LoadingFile = Dir @ ''/loading''"

definition StatusFile :: string where
  "StatusFile = Dir @ ''/status''"

definition StatusStarting :: string where
  "StatusStarting = ''Starting''"

definition StatusRunning :: string where
  "StatusRunning = ''Running''"

definition StatusDegraded :: string where
  "StatusDegraded = ''Degraded''"

definition StatusUnhealthy :: string where
  "StatusUnhealthy = ''Unhealthy''"

definition StatusShuttingDown :: string where
  "StatusShuttingDown = ''ShuttingDown''"

lemmas signal_paths = PIDFile_def HealthyFile_def LoadingFile_def StatusFile_def Dir_def

subsection \<open>The atomic write\<close>

definition fill_signal_temp :: "string \<Rightarrow> string \<Rightarrow> string \<Rightarrow> ('x world, go_error option) state" where
  "fill_signal_temp path tmp data =
     and_then (closing_on_error tmp (wrapping (''writing temp file for '' @ path @ '': '') (file_Write tmp data)))
    (and_then (wrapping (''closing temp file for '' @ path @ '': '') (file_Close tmp))
       (wrapping (''chmod temp file for '' @ path @ '': '') (os_Chmod tmp (octal [0, 6, 4, 4]))))"

definition writeAtomic :: "string \<Rightarrow> string \<Rightarrow> ('x world, go_error option) state" where
  "writeAtomic path data = do {
     t \<leftarrow> os_CreateTemp (dir_of path) ''.tmp-'' [];
     (case t of
        Inl err \<Rightarrow> ret (Some (Wrapf (''creating temp file for '' @ path @ '': '') err []))
      | Inr tmp \<Rightarrow> removing_on_error tmp
          (and_then (fill_signal_temp path tmp data)
             (wrapping (''renaming temp file to '' @ path @ '': '') (os_Rename tmp path))))
   }"

definition writeEmpty :: "string \<Rightarrow> ('x world, go_error option) state" where
  "writeEmpty path = writeAtomic path []"

subsection \<open>The operations\<close>

definition SetStatus :: "string \<Rightarrow> ('x world, go_error option) state" where
  "SetStatus status = writeAtomic StatusFile (status @ [nl])"

definition Init :: "(svc, go_error option) state" where
  "Init = do {
     _ \<leftarrow> os_Remove LoadingFile;
     _ \<leftarrow> os_Remove HealthyFile;
     SetStatus StatusStarting
   }"

definition CreateLoading :: "(svc, go_error option) state" where
  "CreateLoading = writeEmpty LoadingFile"

definition WritePID :: "(svc, go_error option) state" where
  "WritePID = do {
     pid \<leftarrow> os_Getpid;
     writeAtomic PIDFile (itoa pid @ [nl])
   }"

definition CreateHealthy :: "(svc, go_error option) state" where
  "CreateHealthy = writeEmpty HealthyFile"

definition RemoveLoading :: "(svc, go_error option) state" where
  "RemoveLoading = do {
     e \<leftarrow> os_Remove LoadingFile;
     ret (case e of Some err \<Rightarrow> if is_not_exist err then None else Some err | None \<Rightarrow> None)
   }"

definition BeginShutdown :: "(svc, unit) state" where
  "BeginShutdown = do {
     _ \<leftarrow> SetStatus StatusShuttingDown;
     _ \<leftarrow> os_Remove HealthyFile;
     ret ()
   }"

definition RemovePID :: "(svc, unit) state" where
  "RemovePID = do { _ \<leftarrow> os_Remove PIDFile; ret () }"

subsection \<open>Frames and effects\<close>

text \<open>A signal file: in the directory, its name not one of a temporary file.\<close>

definition tmp_prefix :: string where
  "tmp_prefix = Dir @ ''/.tmp-''"

lemma signal_dirs [simp]: "dir_of PIDFile = Dir" "dir_of HealthyFile = Dir" "dir_of LoadingFile = Dir" "dir_of StatusFile = Dir"
  by (simp_all add: signal_paths dir_of_def)

lemma keeps_CreateTemp_other:
  assumes "\<And>r. dir @ ''/'' @ pre @ r @ suf \<noteq> q"
  shows "keeps (file_is q c) (os_CreateTemp dir pre suf)"
proof (rule keepsI)
  fix w :: "'a world" and a w'
  assume c: "file_is q c w" and run: "run (os_CreateTemp dir pre suf) w = (a, w')"
  have w: "self_pid w' = self_pid w \<and> kill0 w' = kill0 w"
  proof -
    obtain q2 where q2: "\<And>r. dir @ ''/'' @ pre @ r @ suf \<noteq> q2" using assms by blast
    obtain p w2 where pick: "run (pick_temp 10000 (dir @ ''/'' @ pre) suf) (w\<lparr>sysno := Suc (sysno w)\<rparr>) = (p, w2)"
      by (meson surj_pair)
    have "self_pid w2 = self_pid w \<and> kill0 w2 = kill0 w"
      using keepsD [OF keeps_pick_temp _ pick, of q "seen q w"] by (auto simp: seen_defs)
    with run pick show ?thesis
      by (auto simp: os_CreateTemp_def run_syscall new_node_def set_file_def split: option.splits)
  qed
  from CreateTemp_cases [OF run] assms have "files w' q = files w q"
    by (cases a) auto
  with c w show "file_is q c w'" by (simp add: seen_defs)
qed

lemma keeps_CreateTemp_any:
  assumes "\<And>r. dir @ ''/'' @ pre @ r @ suf \<noteq> q" and "\<And>e. keeps (file_is q c) (f (Inl e))"
    and "\<And>tmp. tmp \<noteq> q \<Longrightarrow> keeps (file_is q c) (f (Inr tmp))"
  shows "keeps (file_is q c) (os_CreateTemp dir pre suf \<bind> f)"
proof (rule keepsI)
  fix w :: "'a world" and a w'
  assume c: "file_is q c w" and run: "run (os_CreateTemp dir pre suf \<bind> f) w = (a, w')"
  obtain t w1 where 1: "run (os_CreateTemp dir pre suf) w = (t, w1)" by (meson surj_pair)
  have c1: "file_is q c w1" using keepsD [OF keeps_CreateTemp_other [OF assms(1)] c 1] .
  from run 1 have f: "run (f t) w1 = (a, w')" by simp
  show "file_is q c w'"
  proof (cases t)
    case (Inl e)
    with keepsD [OF assms(2) c1] f show ?thesis by simp
  next
    case (Inr tmp)
    with CreateTemp_cases [OF 1] obtain r where "tmp = dir @ ''/'' @ pre @ r @ suf" by auto
    then have "tmp \<noteq> q" using assms(1) by metis
    with keepsD [OF assms(3) c1] f Inr show ?thesis by simp
  qed
qed

lemma keeps_fill_signal: "tmp \<noteq> q \<Longrightarrow> keeps (file_is q c) (fill_signal_temp path tmp data)"
  unfolding fill_signal_temp_def by (intro keeps_rules keeps_Write keeps_Chmod)

lemma keeps_writeAtomic:
  assumes "path \<noteq> q" and "\<not> has_prefix q (dir_of path @ ''/.tmp-'')"
  shows "keeps (file_is q c) (writeAtomic path data)"
proof -
  have "dir_of path @ ''/'' @ ''.tmp-'' @ r @ [] \<noteq> q" for r
    using assms(2) by (auto simp: has_prefix_iff)
  then show ?thesis
    unfolding writeAtomic_def
    by (intro keeps_CreateTemp_any)
      (auto intro!: keeps_rules keeps_removing keeps_fill_signal keeps_Rename assms(1))
qed

lemma fill_signal_ok:
  assumes "run (fill_signal_temp path tmp data) w = (None, w')" and "files w tmp = Some n"
  shows "files w' tmp = Some (n\<lparr>fcontent := fcontent n @ data, fmode := octal [0, 6, 4, 4]\<rparr>)"
proof -
  obtain e1 w1 where 1: "run (file_Write tmp data) w = (e1, w1)" by (meson surj_pair)
  obtain e3 w3 where 3: "run (file_Close tmp) w1 = (e3, w3)" by (meson surj_pair)
  obtain e4 w4 where 4: "run (os_Chmod tmp (octal [0, 6, 4, 4])) w3 = (e4, w4)" by (meson surj_pair)
  from assms(1) have "e1 = None \<and> e4 = None \<and> w' = w4"
    by (auto simp: fill_signal_temp_def run_and_then run_closing run_wrapping 1 3 4 split: option.splits)
  with 1 4 assms(2) Close_files [of tmp w1] show ?thesis
    by (auto dest!: Write_ok Chmod_ok simp: 3)
qed

text \<open>The write replaces the file as a whole or, when it fails, leaves it as it was.\<close>

lemma writeAtomic_cases:
  assumes np: "\<not> has_prefix path (dir_of path @ ''/.tmp-'')" and run: "run (writeAtomic path data) w = (e, w')"
  shows "if e = None
     then \<exists>n. files w' path = Some n \<and> fcontent n = data \<and> fmode n = octal [0, 6, 4, 4] \<and> \<not> fisdir n
     else files w' path = files w path"
proof -
  obtain t w2 where 2: "run (os_CreateTemp (dir_of path) ''.tmp-'' []) w = (t, w2)" by (meson surj_pair)
  note C = CreateTemp_cases [OF 2]
  show ?thesis
  proof (cases t)
    case (Inl x)
    with run 2 C show ?thesis by (auto simp: writeAtomic_def)
  next
    case (Inr tmp)
    with C obtain r where "tmp = dir_of path @ ''/'' @ ''.tmp-'' @ r" by auto
    then have ne: "tmp \<noteq> path" using np by (simp add: has_prefix_iff) metis
    with C Inr have ft: "files w2 path = files w path"
      and nt: "files w2 tmp = Some \<lparr>fcontent = [], fmode = octal [0, 6, 0, 0], fowner = self_user w2,
           fgroup = self_user w2, fisdir = False\<rparr>"
      by auto
    obtain e3 w3 where 3: "run (fill_signal_temp path tmp data) w2 = (e3, w3)" by (meson surj_pair)
    obtain e4 w4 where 4: "run (os_Rename tmp path) w3 = (e4, w4)" by (meson surj_pair)
    have f3: "files w3 path = files w path"
      using keepsD [OF keeps_fill_signal [OF ne] _ 3, of "seen path w2"] ft by (simp add: file_is_def seen_def)
    have frm: "files (snd (run (os_Remove tmp) v)) path = files v path" for v :: "'a world"
      using keeps_snd [OF keeps_Remove [OF ne], of "seen path v" v] by (simp add: file_is_def seen_def)
    note R = Rename_cases [OF 4 ne]
    have w': "(e, w') = (case e3 of
        Some x \<Rightarrow> (Some x, snd (run (os_Remove tmp) w3))
      | None \<Rightarrow> (case e4 of None \<Rightarrow> (None, w4)
          | Some y \<Rightarrow> (Some (Wrapf (''renaming temp file to '' @ path @ '': '') y []), snd (run (os_Remove tmp) w4))))"
      using run 2 3 4 Inr
      by (auto simp: writeAtomic_def run_and_then run_wrapping run_removing split: option.splits)
    show ?thesis
    proof (cases e3)
      case (Some x)
      with w' frm f3 show ?thesis by auto
    next
      case None
      with fill_signal_ok [OF 3 [unfolded None] nt] have "files w3 tmp = Some \<lparr>fcontent = data,
          fmode = octal [0, 6, 4, 4], fowner = self_user w2, fgroup = self_user w2, fisdir = False\<rparr>" by simp
      with None w' R frm f3 show ?thesis by (cases e4) auto
    qed
  qed
qed

text \<open>The other signal files, and everything outside the directory, stay.\<close>

lemma signal_names:
  "\<not> has_prefix PIDFile (Dir @ ''/.tmp-'')" "\<not> has_prefix HealthyFile (Dir @ ''/.tmp-'')"
  "\<not> has_prefix LoadingFile (Dir @ ''/.tmp-'')" "\<not> has_prefix StatusFile (Dir @ ''/.tmp-'')"
  by (simp_all add: signal_paths)

lemma signal_files_distinct:
  "distinct [PIDFile, HealthyFile, LoadingFile, StatusFile]"
  by (simp add: signal_paths)

lemma keeps_SetStatus:
  "q \<noteq> StatusFile \<Longrightarrow> \<not> has_prefix q (Dir @ ''/.tmp-'') \<Longrightarrow> keeps (file_is q c) (SetStatus s)"
  unfolding SetStatus_def by (intro keeps_writeAtomic) auto

end
