(* ===== verification/SvcServer.thy ===== *)
theory SvcServer
  imports SvcChaos SvcSignals
begin

text \<open>
  The HTTP handlers of the service, \<^verbatim>\<open>service/server/server.go\<close>. The multiplexer is that of
  \<^verbatim>\<open>net/http\<close> with the five patterns the server registers: a pattern for \<open>GET\<close> also takes \<open>HEAD\<close>,
  \<open>GET /\<close> takes every path no other pattern has, another method gets 405, and a path that is
  not clean is redirected to its clean form.
\<close>

definition StateTouchPath_svc :: string where
  "StateTouchPath_svc = ''/var/lib/app/state''"

definition SlowHandlerDelay :: int where
  "SlowHandlerDelay = 5 * 1000000000"

record server =
  seAppEnv :: string
  seLogger :: logger
  seZombieChildren :: bool

subsection \<open>Bodies\<close>

text \<open>A text between quotes as \<open>%s\<close> puts it there: nothing is escaped.\<close>

definition raw_quote :: "string \<Rightarrow> string" where
  "raw_quote s = [CHR 0x22] @ s @ [CHR 0x22]"

definition health_body :: "string \<Rightarrow> string" where
  "health_body env = ''{'' @ quote ''status'' @ '':'' @ quote ''ok'' @ '','' @ quote ''app_env'' @ '':'' @ raw_quote env @
     '','' @ quote ''config_loaded'' @ '':true}''"

definition root_body :: "string \<Rightarrow> string" where
  "root_body env = ''{'' @ quote ''status'' @ '':'' @ quote ''ok'' @ '','' @ quote ''path'' @ '':'' @ quote ''/'' @ '','' @
     quote ''env'' @ '':'' @ raw_quote env @ ''}''"

definition state_error_body :: string where
  "state_error_body = ''{'' @ quote ''status'' @ '':'' @ quote ''error'' @ '','' @ quote ''msg'' @ '':'' @
     quote ''state write failed'' @ ''}''"

definition slow_body :: string where
  "slow_body = ''{'' @ quote ''status'' @ '':'' @ quote ''ok'' @ '','' @ quote ''path'' @ '':'' @ quote ''/slow'' @ '','' @
     quote ''delay_seconds'' @ '':'' @ itoa (SlowHandlerDelay div 1000000000) @ ''}''"

subsection \<open>Handlers\<close>

definition handleHealth :: "server \<Rightarrow> handler" where
  "handleHealth s rq = do {
     _ \<leftarrow> count_request;
     ret (json_reply 200 (health_body (seAppEnv s)))
   }"

text \<open>\<open>O_CREATE|O_WRONLY|O_TRUNC\<close>, two bytes; the error of the deferred close is dropped.\<close>

definition touchStatePath :: "(svc, go_error option) state" where
  "touchStatePath = do {
     e \<leftarrow> os_OpenTrunc StateTouchPath_svc (octal [0, 6, 0, 0]);
     (case e of
        Some err \<Rightarrow> ret (Some err)
      | None \<Rightarrow> do {
          w \<leftarrow> file_Write StateTouchPath_svc ''ok'';
          _ \<leftarrow> file_Close StateTouchPath_svc;
          ret w
        })
   }"

definition handleRoot :: "server \<Rightarrow> handler" where
  "handleRoot s rq = do {
     _ \<leftarrow> count_request;
     _ \<leftarrow> (if seZombieChildren s then on_process (\<lambda>p. p\<lparr>svChildren := Suc (svChildren p)\<rparr>) else ret ());
     e \<leftarrow> touchStatePath;
     (case e of
        Some err \<Rightarrow> do {
          _ \<leftarrow> count_error;
          _ \<leftarrow> log_err (seLogger s) ''state write failed''
                [LStr ''path'', LStr StateTouchPath_svc, LStr ''error'', LErr err];
          _ \<leftarrow> SetStatus StatusUnhealthy;
          ret (json_reply 500 state_error_body)
        }
      | None \<Rightarrow> ret (json_reply 200 (root_body (seAppEnv s))))
   }"

definition handleSlow :: "server \<Rightarrow> handler" where
  "handleSlow s rq = do {
     _ \<leftarrow> count_request;
     _ \<leftarrow> sleep_ns SlowHandlerDelay;
     ret (json_reply 200 slow_body)
   }"

text \<open>\<open>r.Header.Get\<close> of a canonical name: its first value, empty when there is none.\<close>

definition header_get :: "request \<Rightarrow> string \<Rightarrow> string" where
  "header_get rq name = (case map_of (rqHeaders rq) name of Some v \<Rightarrow> v | None \<Rightarrow> [])"

definition echoed_headers :: "string list" where
  "echoed_headers = [''Host'', ''X-Forwarded-For'', ''X-Forwarded-Proto'', ''X-Real-IP'', ''User-Agent'']"

definition header_key :: "string \<Rightarrow> string" where
  "header_key name = (if name = ''X-Real-IP'' then ''X-Real-Ip'' else name)"

definition headers_body :: "request \<Rightarrow> string" where
  "headers_body rq = ''{'' @ str_join '','' (map (\<lambda>n. quote n @ '':'' @ raw_quote (header_get rq (header_key n))) echoed_headers) @ ''}''"

definition handleHeaders :: "server \<Rightarrow> handler" where
  "handleHeaders s rq = do {
     _ \<leftarrow> count_request;
     ret (json_reply 200 (headers_body rq))
   }"

definition handleReset :: "server \<Rightarrow> handler" where
  "handleReset s rq = do {
     _ \<leftarrow> count_request;
     ret (case rqConn rq of
        NoHijacker \<Rightarrow> http_error 500 ''server does not support hijacking''
      | HijackFails \<Rightarrow> Reply 200 [] []
      | Conn tcp \<Rightarrow> Aborted tcp)
   }"

subsection \<open>The multiplexer\<close>

fun clean_segments :: "string list \<Rightarrow> string list \<Rightarrow> string list" where
  "clean_segments acc [] = rev acc"
| "clean_segments acc (x # xs) =
     (if x = [] \<or> x = ''.'' then clean_segments acc xs
      else if x = ''..'' then clean_segments (tl acc) xs
      else clean_segments (x # acc) xs)"

definition cleanPath :: "string \<Rightarrow> string" where
  "cleanPath p =
     (let p1 = (case p of [] \<Rightarrow> ''/'' | c # _ \<Rightarrow> if c = CHR ''/'' then p else CHR ''/'' # p);
          np = ''/'' @ str_join ''/'' (clean_segments [] (split_on (CHR ''/'') p1))
      in if last p1 = CHR ''/'' \<and> np \<noteq> ''/'' then np @ ''/'' else np)"

definition not_allowed :: reply where
  "not_allowed = Reply 405 [(''Allow'', ''GET, HEAD''), (''Content-Type'', ''text/plain; charset=utf-8''),
     (''X-Content-Type-Options'', ''nosniff'')] (''Method Not Allowed'' @ [nl])"

definition mux :: "server \<Rightarrow> handler" where
  "mux s rq =
     (if rqMethod rq \<noteq> ''CONNECT'' \<and> cleanPath (rqPath rq) \<noteq> rqPath rq then ret (Redirect (cleanPath (rqPath rq)))
      else if rqMethod rq \<noteq> ''GET'' \<and> rqMethod rq \<noteq> ''HEAD'' then ret not_allowed
      else if rqPath rq = ''/health'' then handleHealth s rq
      else if rqPath rq = ''/slow'' then handleSlow s rq
      else if rqPath rq = ''/headers'' then handleHeaders s rq
      else if rqPath rq = ''/reset'' then handleReset s rq
      else handleRoot s rq)"

definition New_server :: "string \<Rightarrow> logger \<Rightarrow> bool \<Rightarrow> server" where
  "New_server appEnv l zombies = \<lparr>seAppEnv = appEnv, seLogger = l, seZombieChildren = zombies\<rparr>"

subsection \<open>Frames\<close>

lemma keeps_touch: "q \<noteq> StateTouchPath_svc \<Longrightarrow> keeps (file_is q c) touchStatePath"
  unfolding touchStatePath_def by (intro keeps_rules keeps_OpenTrunc keeps_Write) auto

text \<open>The files a request can change: the touched one, the log and the status.\<close>

lemma keeps_mux:
  assumes "q \<noteq> StateTouchPath_svc" and "q \<noteq> lgPath (seLogger s)" and "q \<noteq> StatusFile" and "\<not> has_prefix q (Dir @ ''/.tmp-'')"
  shows "keeps (file_is q c) (mux s rq)"
  unfolding mux_def handleHealth_def handleSlow_def handleHeaders_def handleReset_def handleRoot_def
  by (intro keeps_rules keeps_touch keeps_log_calls keeps_SetStatus)
    (use assms in \<open>auto intro: keeps_rules\<close>)

lemma keeps_chaos:
  assumes "\<And>l. chLogger h = Some l \<Longrightarrow> lgPath l \<noteq> q" and "chReqCounter h = Some count_request" and "chErrCounter h = Some count_error"
    and "keeps (file_is q c) (nxt rq)"
  shows "keeps (file_is q c) (chaos_ServeHTTP h nxt rq)"
  unfolding chaos_ServeHTTP_def drop_request_def
  by (intro keeps_rules keeps_if_set) (use assms in \<open>auto intro!: keeps_rules keeps_log_calls keeps_if_set\<close>)

end
