(* ===== verification/SvcMain.thy ===== *)
theory SvcMain
  imports SvcServer
begin

text \<open>
  The life of the service process, \<^verbatim>\<open>service/main.go\<close>: startup, requests, signals, shutdown. The
  telemetry goroutine only writes its own file and is apart (theory \<open>SvcTelemetry\<close>).
\<close>

definition ConfigPath_svc :: string where
  "ConfigPath_svc = ''/etc/app/config.yaml''"

definition ShutdownGrace :: int where
  "ShutdownGrace = 5 * 1000000000"

text \<open>A service that accepts requests.\<close>

record serving =
  srConfig :: svc_config
  srLogger :: logger
  srServer :: server
  srChaos :: chaos_handler

subsection \<open>Startup\<close>

text \<open>A step that must succeed: otherwise the error is reported and the process exits with 1.\<close>

definition or_exit ::
  "(svc, go_error option) state \<Rightarrow> (go_error \<Rightarrow> (svc, unit) state) \<Rightarrow> (svc, int + 'a) state \<Rightarrow> (svc, int + 'a) state" where
  "or_exit m report k = do {
     e \<leftarrow> m;
     (case e of None \<Rightarrow> k | Some err \<Rightarrow> do { _ \<leftarrow> report err; ret (Inl 1) })
   }"

definition to_stderr :: "string \<Rightarrow> go_error \<Rightarrow> (svc, unit) state" where
  "to_stderr what err = eprint (what @ error_text err @ [nl])"

definition probe_file :: string where
  "probe_file = ''/var/lib/app/.startup-probe''"

definition probeStateDir :: "logger \<Rightarrow> (svc, unit) state" where
  "probeStateDir l = do {
     e \<leftarrow> os_OpenTrunc probe_file (octal [0, 6, 0, 0]);
     (case e of
        Some err \<Rightarrow> do {
          _ \<leftarrow> log_warn l ''state directory not writable at startup''
                [LStr ''path'', LStr ''/var/lib/app'', LStr ''error'', LErr err];
          _ \<leftarrow> SetStatus StatusUnhealthy;
          ret ()
        }
      | None \<Rightarrow> do {
          _ \<leftarrow> file_Close probe_file;
          _ \<leftarrow> os_Remove probe_file;
          ret ()
        })
   }"

text \<open>What is built once the configuration and the log are there.\<close>

definition build :: "svc_config \<Rightarrow> logger \<Rightarrow> serving" where
  "build cfg l =
     \<lparr>srConfig = cfg, srLogger = l,
      srServer = New_server (scAppEnv cfg) l (ccZombieChildren (scChaos cfg)),
      srChaos = New_chaos (ccLatencyMS (scChaos cfg)) (ccDropPercent (scChaos cfg))
        (Some count_request) (Some count_error) (Some l)\<rparr>"

text \<open>After the healthy marker: the loading marker, the status, the chaos modes, the signals.\<close>

definition warn_error :: "logger \<Rightarrow> string \<Rightarrow> (svc, go_error option) state \<Rightarrow> (svc, unit) state" where
  "warn_error l msg m = do {
     e \<leftarrow> m;
     if_set e (\<lambda>err. log_warn l msg [LStr ''error'', LErr err])
   }"

definition announce_chaos :: "chaos_config \<Rightarrow> logger \<Rightarrow> (svc, unit) state" where
  "announce_chaos c l = do {
     _ \<leftarrow> (if ccOOMTrigger c then do {
        _ \<leftarrow> StartOOM l;
        log_info l (''OOM chaos triggered '' @ u_emdash @ '' process will be killed by cgroup MemoryMax'') []
      } else ret ());
     _ \<leftarrow> (if ccZombieChildren c
      then log_warn l (''Zombie children enabled '' @ u_emdash @ '' each GET / will leak a zombie process'') []
      else ret ());
     (if IsActive c then do {
        _ \<leftarrow> SetStatus StatusDegraded;
        log_warn l ''chaos modes active''
          [LStr ''modes'', LStrs (ActiveModes c), LStr ''latency_ms'', LInt (ccLatencyMS c),
           LStr ''drop_percent'', LInt (ccDropPercent c), LStr ''oom_trigger'', LBool (ccOOMTrigger c),
           LStr ''ignore_sigterm'', LBool (ccIgnoreSIGTERM c)]
      } else ret ())
   }"

definition announce :: "svc_config \<Rightarrow> logger \<Rightarrow> (svc, unit) state" where
  "announce cfg l = do {
     _ \<leftarrow> warn_error l ''removing loading marker'' RemoveLoading;
     _ \<leftarrow> warn_error l ''setting status=Running'' (SetStatus StatusRunning);
     _ \<leftarrow> announce_chaos (scChaos cfg) l;
     _ \<leftarrow> (if ccIgnoreSIGTERM (scChaos cfg)
      then log_warn l (''SIGTERM ignored (CHAOS_IGNORE_SIGTERM=1) '' @ u_emdash @ '' process will require SIGKILL'') []
      else ret ());
     log_info l ''listening'' [LStr ''addr'', LStr (scAddr cfg)]
   }"

definition start_logged :: "svc_config \<Rightarrow> logger \<Rightarrow> (svc, int + serving) state" where
  "start_logged cfg l = do {
     _ \<leftarrow> log_info l ''server started'' [LStr ''addr'', LStr (scAddr cfg), LStr ''app_env'', LStr (scAppEnv cfg),
           LStr ''chaos_active'', LBool (IsActive (scChaos cfg))];
     or_exit WritePID (\<lambda>err. log_err l ''writing PID file'' [LStr ''error'', LErr err]) (do {
       _ \<leftarrow> probeStateDir l;
       or_exit CreateHealthy (\<lambda>err. log_err l ''creating healthy marker'' [LStr ''error'', LErr err]) (do {
         _ \<leftarrow> announce cfg l;
         ret (Inr (build cfg l))
       })
     })
   }"

definition startup :: "yaml_decoder \<Rightarrow> (svc, int + serving) state" where
  "startup yaml =
     or_exit Init (to_stderr ''signals.Init failed: '')
    (or_exit CreateLoading (to_stderr ''signals.CreateLoading failed: '')
    (do {
       r \<leftarrow> Load yaml ConfigPath_svc;
       (case r of
          Inl err \<Rightarrow> do { _ \<leftarrow> to_stderr ''config.Load failed: '' err; ret (Inl 1) }
        | Inr cfg \<Rightarrow> do {
            g \<leftarrow> New_logger LogPath_svc;
            (case g of
               Inl err \<Rightarrow> do { _ \<leftarrow> log_Stderr (''opening log file failed: '' @ error_text err); ret (Inl 1) }
             | Inr l \<Rightarrow> start_logged cfg l)
          })
     }))"

subsection \<open>Requests and signals\<close>

definition serve_request :: "serving \<Rightarrow> handler" where
  "serve_request sv = chaos_ServeHTTP (srChaos sv) (mux (srServer sv))"

datatype os_signal = SIGTERM | SIGINT | SIGHUP

fun signal_text :: "os_signal \<Rightarrow> string" where
  "signal_text SIGTERM = ''terminated''"
| "signal_text SIGINT = ''interrupt''"
| "signal_text SIGHUP = ''hangup''"

text \<open>Which signals reach the channel: \<open>Ignore\<close> and \<open>Notify\<close>.\<close>

definition stops_on :: "chaos_config \<Rightarrow> os_signal \<Rightarrow> bool" where
  "stops_on c s = (case s of SIGTERM \<Rightarrow> \<not> ccIgnoreSIGTERM c | SIGINT \<Rightarrow> True | SIGHUP \<Rightarrow> False)"

subsection \<open>Shutdown\<close>

text \<open>Why the service stops: a signal, or the error of its HTTP server, of a type from outside.\<close>

datatype stop_cause = Signalled os_signal | ServerFailed log_value

definition log_cause :: "logger \<Rightarrow> stop_cause \<Rightarrow> (svc, unit) state" where
  "log_cause l c =
     (case c of
        Signalled s \<Rightarrow> log_info l ''shutdown signal received'' [LStr ''signal'', LStr (signal_text s)]
      | ServerFailed v \<Rightarrow> log_err l ''HTTP server exited unexpectedly'' [LStr ''error'', v])"

text \<open>
  While the server drains, the requests in flight are still answered. \<open>drain\<close> is the error of
  \<open>Shutdown\<close>, of a type from outside.
\<close>

definition shutdown :: "serving \<Rightarrow> stop_cause \<Rightarrow> request list \<Rightarrow> log_value option \<Rightarrow> (svc, unit) state" where
  "shutdown sv cause inflight drain = do {
     _ \<leftarrow> log_cause (srLogger sv) cause;
     _ \<leftarrow> BeginShutdown;
     _ \<leftarrow> log_info (srLogger sv) ''graceful shutdown started'' [LStr ''grace_period'', LInt ShutdownGrace];
     _ \<leftarrow> for_do (\<lambda>rq. do { _ \<leftarrow> serve_request sv rq; ret () }) inflight;
     _ \<leftarrow> if_set drain (\<lambda>v. log_warn (srLogger sv) ''shutdown did not complete cleanly'' [LStr ''error'', v]);
     _ \<leftarrow> RemovePID;
     _ \<leftarrow> log_info (srLogger sv) ''shutdown complete'' [];
     _ \<leftarrow> log_close (srLogger sv);
     ret ()
   }"

end
