(* ===== verification/GoFloat.thy ===== *)
theory GoFloat
  imports Json Complex_Main
begin

text \<open>
  Go's \<open>float64\<close>: a value is the rational number it is, and an operation is the exact one
  rounded to 53 significant bits, ties to even. The model has no infinities, no NaN and no
  subnormal numbers: what the program computes stays far from both ends of the range.
\<close>

subsection \<open>Rounding\<close>

fun bits :: "nat \<Rightarrow> nat" where
  "bits n = (if n = 0 then 0 else Suc (bits (n div 2)))"

declare bits.simps [simp del]

definition pow2 :: "int \<Rightarrow> rat" where
  "pow2 e = (if 0 \<le> e then 2 ^ nat e else 1 / 2 ^ nat (- e))"

text \<open>The exponent \<open>e\<close> with \<open>2 ^ e \<le> q < 2 ^ (e + 1)\<close>, for a positive \<open>q\<close>.\<close>

definition exponent :: "rat \<Rightarrow> int" where
  "exponent q =
     (case quotient_of q of (a, b) \<Rightarrow>
        let e = int (bits (nat a)) - int (bits (nat b)) in if pow2 e \<le> q then e else e - 1)"

definition round_even :: "rat \<Rightarrow> int" where
  "round_even x =
     (let f = \<lfloor>x\<rfloor>; d = x - of_int f in
      if d < 1 / 2 then f else if 1 / 2 < d then f + 1 else if even f then f else f + 1)"

definition round_pos :: "rat \<Rightarrow> rat" where
  "round_pos q = (let e = exponent q - 52 in of_int (round_even (q / pow2 e)) * pow2 e)"

definition f64 :: "rat \<Rightarrow> rat" where
  "f64 q = (if q = 0 then 0 else if 0 < q then round_pos q else - round_pos (- q))"

subsection \<open>Rounding is monotone\<close>

lemma bits_bounds: "0 < n \<Longrightarrow> 2 ^ (bits n - 1) \<le> n \<and> n < 2 ^ bits n \<and> 0 < bits n"
proof (induction n rule: bits.induct)
  case (1 n)
  show ?case
  proof (cases "n = 1")
    case True
    have "bits 1 = 1" by code_simp
    with True show ?thesis by simp
  next
    case False
    with 1 have ih: "2 ^ (bits (n div 2) - 1) \<le> n div 2" "n div 2 < 2 ^ bits (n div 2)" "0 < bits (n div 2)" by auto
    have b: "bits n = Suc (bits (n div 2))" using 1 by (simp add: bits.simps [of n])
    have "2 ^ bits (n div 2) = 2 * (2 :: nat) ^ (bits (n div 2) - 1)"
      using ih(3) by (metis One_nat_def Suc_pred power_Suc)
    moreover have "2 * k \<le> n \<and> n < 4 * k" if "k \<le> n div 2" "n div 2 < 2 * k" for k :: nat
      using that by presburger
    ultimately show ?thesis using ih b by simp
  qed
qed

lemma pow2_pos [simp]: "0 < pow2 e"
  by (simp add: pow2_def)

lemma pow2_powi: "pow2 e = 2 powi e"
  by (simp add: pow2_def power_int_def power_one_over inverse_eq_divide)

lemma pow2_add: "pow2 (a + b) = pow2 a * pow2 b"
  by (simp add: pow2_powi power_int_add)

lemma pow2_mono: "a \<le> b \<Longrightarrow> pow2 a \<le> pow2 b"
  by (simp add: pow2_powi power_int_increasing)

lemma pow2_less: "pow2 a < pow2 b \<Longrightarrow> a < b"
  using pow2_mono [of b a] by (meson leD leI)

lemma pow2_52: "pow2 52 = 2 ^ 52" "pow2 53 = 2 ^ 53" "pow2 1 = 2"
  by (simp_all add: pow2_def)

lemma pow2_bits: "pow2 (int (bits n)) = 2 ^ bits n"
  by (simp add: pow2_def)

lemma exponent_bounds:
  assumes "0 < q"
  shows "pow2 (exponent q) \<le> q \<and> q < pow2 (exponent q + 1)"
proof -
  obtain a b where ab: "quotient_of q = (a, b)" by (meson surj_pair)
  have q: "q = of_int a / of_int b" and b: "0 < b"
    using quotient_of_div [OF ab] quotient_of_denom_pos [OF ab] by auto
  with assms have a: "0 < a" by (simp add: zero_less_divide_iff)
  define m n where "m = bits (nat a)" and "n = bits (nat b)"
  have A: "2 ^ (m - 1) \<le> nat a" "nat a < 2 ^ m" "0 < m" and B: "2 ^ (n - 1) \<le> nat b" "nat b < 2 ^ n" "0 < n"
    using bits_bounds [of "nat a"] bits_bounds [of "nat b"] a b by (auto simp: m_def n_def)
  have A': "pow2 (int m - 1) \<le> of_int a" "of_int a < pow2 (int m)"
  proof -
    have "(2 :: int) ^ (m - 1) \<le> a" using A(1) a by (metis nat_le_iff of_nat_numeral of_nat_power zle_int nat_0_le order.strict_implies_order)
    then have "of_int ((2 :: int) ^ (m - 1)) \<le> (of_int a :: rat)" by (simp only: of_int_le_iff)
    then show "pow2 (int m - 1) \<le> of_int a" using A(3) by (simp add: pow2_def nat_diff_distrib)
    have "a < (2 :: int) ^ m" using A(2) a by (metis nat_less_iff of_nat_numeral of_nat_power order.strict_implies_order)
    then have "(of_int a :: rat) < of_int (2 ^ m)" by (simp only: of_int_less_iff)
    then show "of_int a < pow2 (int m)" by (simp add: pow2_def)
  qed
  have B': "pow2 (int n - 1) \<le> of_int b" "of_int b < pow2 (int n)"
  proof -
    have "(2 :: int) ^ (n - 1) \<le> b" using B(1) b by (metis nat_le_iff of_nat_numeral of_nat_power zle_int nat_0_le order.strict_implies_order)
    then have "of_int ((2 :: int) ^ (n - 1)) \<le> (of_int b :: rat)" by (simp only: of_int_le_iff)
    then show "pow2 (int n - 1) \<le> of_int b" using B(3) by (simp add: pow2_def nat_diff_distrib)
    have "b < (2 :: int) ^ n" using B(2) b by (metis nat_less_iff of_nat_numeral of_nat_power order.strict_implies_order)
    then have "(of_int b :: rat) < of_int (2 ^ n)" by (simp only: of_int_less_iff)
    then show "of_int b < pow2 (int n)" by (simp add: pow2_def)
  qed
  have bp: "0 < (of_int b :: rat)" using b by simp
  have hi: "q < pow2 (int m - int n + 1)"
  proof -
    have "pow2 (int m) = pow2 (int m - int n + 1) * pow2 (int n - 1)" by (simp flip: pow2_add)
    also have "\<dots> \<le> pow2 (int m - int n + 1) * of_int b" using B'(1) by simp
    finally show ?thesis using A'(2) bp by (simp add: q field_simps)
  qed
  have lo: "pow2 (int m - int n - 1) \<le> q"
  proof -
    have "pow2 (int m - int n - 1) * of_int b \<le> pow2 (int m - int n - 1) * pow2 (int n)" using B'(2) by simp
    also have "\<dots> = pow2 (int m - 1)" by (simp flip: pow2_add)
    finally show ?thesis using A'(1) bp by (simp add: q field_simps)
  qed
  show ?thesis
    unfolding exponent_def ab prod.case Let_def m_def [symmetric] n_def [symmetric]
    using hi lo by auto
qed

lemma round_even_bounds: "\<lfloor>x\<rfloor> \<le> round_even x \<and> round_even x \<le> \<lfloor>x\<rfloor> + 1"
  by (simp add: round_even_def Let_def)

lemma round_even_of_int [simp]: "round_even (of_int i) = i"
  by (simp add: round_even_def)

lemma round_even_mono: "x \<le> y \<Longrightarrow> round_even x \<le> round_even y"
proof -
  assume le: "x \<le> y"
  show ?thesis
  proof (cases "\<lfloor>x\<rfloor> = \<lfloor>y\<rfloor>")
    case True
    with le show ?thesis by (auto simp: round_even_def Let_def)
  next
    case False
    with le have "\<lfloor>x\<rfloor> + 1 \<le> \<lfloor>y\<rfloor>" using floor_mono [OF le] by linarith
    with round_even_bounds [of x] round_even_bounds [of y] show ?thesis by linarith
  qed
qed

lemma round_pos_bounds:
  assumes "0 < q"
  shows "pow2 (exponent q) \<le> round_pos q \<and> round_pos q \<le> pow2 (exponent q + 1)"
proof -
  define e where "e = exponent q"
  note E = exponent_bounds [OF assms, folded e_def]
  have s: "pow2 e = pow2 52 * pow2 (e - 52)" "pow2 (e + 1) = pow2 53 * pow2 (e - 52)"
    by (simp_all add: add.commute flip: pow2_add)
  have "of_int (2 ^ 52) \<le> q / pow2 (e - 52)" "q / pow2 (e - 52) \<le> of_int (2 ^ 53)"
    using E s by (simp_all add: pos_le_divide_eq pos_divide_le_eq pow2_52)
  then have "2 ^ 52 \<le> round_even (q / pow2 (e - 52))" "round_even (q / pow2 (e - 52)) \<le> 2 ^ 53"
    using round_even_mono [of "of_int (2 ^ 52)"] round_even_mono [of _ "of_int (2 ^ 53)"] by (metis round_even_of_int)+
  then have "of_int (2 ^ 52) \<le> (of_int (round_even (q / pow2 (e - 52))) :: rat)"
    "(of_int (round_even (q / pow2 (e - 52))) :: rat) \<le> of_int (2 ^ 53)"
    by (simp_all only: of_int_le_iff)
  then show ?thesis
    unfolding round_pos_def Let_def e_def [symmetric] s by (simp add: pow2_52)
qed

lemma round_pos_mono:
  assumes "0 < x" and "x \<le> y"
  shows "round_pos x \<le> round_pos y"
proof -
  note X = exponent_bounds [OF assms(1)] and Y = exponent_bounds [OF less_le_trans [OF assms]]
  have "pow2 (exponent x) < pow2 (exponent y + 1)" using X Y assms by linarith
  then have le: "exponent x \<le> exponent y" using pow2_less by fastforce
  show ?thesis
  proof (cases "exponent x = exponent y")
    case True
    have "round_even (x / pow2 (exponent y - 52)) \<le> round_even (y / pow2 (exponent y - 52))"
      using assms by (intro round_even_mono divide_right_mono) (simp_all add: less_imp_le)
    then show ?thesis unfolding round_pos_def True Let_def by simp
  next
    case False
    with le have "exponent x + 1 \<le> exponent y" by simp
    then have "pow2 (exponent x + 1) \<le> pow2 (exponent y)" by (rule pow2_mono)
    with round_pos_bounds [OF assms(1)] round_pos_bounds [OF less_le_trans [OF assms]] show ?thesis by linarith
  qed
qed

lemma round_pos_nonneg: "0 < q \<Longrightarrow> 0 < round_pos q"
  using round_pos_bounds [of q] pow2_pos [of "exponent q"] by linarith

lemma f64_mono: "x \<le> y \<Longrightarrow> f64 x \<le> f64 y"
  using round_pos_mono [of x y] round_pos_mono [of "- y" "- x"] round_pos_nonneg [of y] round_pos_nonneg [of "- x"]
  by (auto simp: f64_def)

lemma f64_nonneg: "0 \<le> x \<Longrightarrow> 0 \<le> f64 x"
  using f64_mono [of 0 x] by (simp add: f64_def)

lemma f64_1_100 [simp]: "f64 0 = 0" "f64 1 = 1" "f64 100 = 100"
  by (simp add: f64_def) code_simp+

subsection \<open>Text\<close>

text \<open>
  \<open>strconv.AppendFloat(b, f, _, -1, 64)\<close>: the shortest decimal that rounds to the value, the
  nearest one if there are several; without an exponent from 1e-6 up to 1e21, as
  \<open>encoding/json\<close> prints a \<open>float64\<close>. \<open>scale10 p q\<close> is \<open>q * 10 ^ p\<close>.
\<close>

definition scale10 :: "int \<Rightarrow> rat \<Rightarrow> rat" where
  "scale10 p q = (if 0 \<le> p then q * 10 ^ nat p else q / 10 ^ nat (- p))"

text \<open>The exponent \<open>e\<close> with \<open>10 ^ e \<le> q < 10 ^ (e + 1)\<close>, for a positive \<open>q\<close>.\<close>

definition exponent10 :: "rat \<Rightarrow> int" where
  "exponent10 q =
     (if 1 \<le> q then int (length (nat_str (nat \<lfloor>q\<rfloor>))) - 1
      else - int (length (nat_str (nat (\<lceil>1 / q\<rceil> - 1)))))"

text \<open>The digits of \<open>q\<close> to \<open>p\<close> decimal places that round to \<open>q\<close>, if there are any.\<close>

definition decimal_at :: "rat \<Rightarrow> int \<Rightarrow> int option" where
  "decimal_at q p =
     (let c = \<lfloor>scale10 p q\<rfloor>;
          ok = (\<lambda>d. f64 (scale10 (- p) (of_int d)) = q)
      in if ok c \<and> (\<not> ok (c + 1) \<or> scale10 p q - of_int c \<le> 1 / 2) then Some c
         else if ok (c + 1) then Some (c + 1) else None)"

text \<open>
  With one significant digit, with two, \<dots>; seventeen always suffice. A value just below a power
  of ten rounds up to it at once, and then has a zero too many.
\<close>

fun shortest_from :: "nat \<Rightarrow> rat \<Rightarrow> int \<Rightarrow> int \<times> int" where
  "shortest_from 0 q p = (\<lfloor>scale10 p q\<rfloor>, p)"
| "shortest_from (Suc k) q p = (case decimal_at q p of Some c \<Rightarrow> (c, p) | None \<Rightarrow> shortest_from k q (p + 1))"

definition shortest :: "rat \<Rightarrow> int \<times> int" where
  "shortest q = (case shortest_from 17 q (- exponent10 q) of (c, p) \<Rightarrow>
     if c mod 10 = 0 then (c div 10, p - 1) else (c, p))"

text \<open>The value \<open>c / 10 ^ p\<close> in digits, with a point if \<open>p\<close> is positive.\<close>

definition fixed_text :: "nat \<Rightarrow> int \<Rightarrow> string" where
  "fixed_text c p =
     (if p \<le> 0 then nat_str (c * 10 ^ nat (- p))
      else let f = nat_str (c mod 10 ^ nat p)
           in nat_str (c div 10 ^ nat p) @ ''.'' @ replicate (nat p - length f) (CHR ''0'') @ f)"

text \<open>With an exponent: one digit, the others after a point, the exponent of the first.\<close>

definition exp_text :: "nat \<Rightarrow> int \<Rightarrow> string" where
  "exp_text c p =
     (let ds = nat_str c; e = int (length ds) - 1 - p in
      take 1 ds @ (if drop 1 ds = [] then [] else ''.'' @ drop 1 ds) @
      ''e'' @ (if e < 0 then ''-'' else ''+'') @ nat_str (nat (abs e)))"

definition float_text :: "rat \<Rightarrow> string" where
  "float_text q =
     (if q = 0 then ''0''
      else (case shortest (abs q) of (c, p) \<Rightarrow>
        (if q < 0 then ''-'' else []) @
        (if abs q < 1 / 1000000 \<or> 1000000000000000000000 \<le> abs q then exp_text (nat c) p
         else fixed_text (nat c) p)))"

end
