(* ===== verification/SvcTelemetry.thy ===== *)
theory SvcTelemetry
  imports SvcLogging GoFloat
begin

text \<open>
  The telemetry file of the service, \<^verbatim>\<open>service/telemetry/telemetry.go\<close>: a snapshot every two
  seconds, written by replacing the file. The files under \<^verbatim>\<open>/proc/self\<close> are read as files, the
  answers of \<open>statfs\<close> and of the directory of descriptors are the machine's. Times are readings
  of the monotonic clock in milliseconds.
\<close>

definition TelemetryFile :: string where
  "TelemetryFile = ''/run/app/telemetry.json''"

definition StatePath_svc :: string where
  "StatePath_svc = ''/var/lib/app''"

record snapshot =
  snTs :: string
  snPID :: int
  snUptimeSeconds :: int
  snCPUPercent :: rat
  snMemoryRSSMB :: rat
  snOpenFDs :: int
  snDiskUsagePercent :: rat
  snInodeUsagePercent :: rat
  snRequestsTotal :: int
  snErrorsTotal :: int
  snChaosActive :: bool
  snChaosModes :: "string list"

record collector =
  clStart :: int
  clPid :: int
  clChaosActive :: bool
  clChaosModes :: "string list"
  clLogger :: "logger option"

text \<open>The callbacks close over the loaded configuration, so they always give the same.\<close>

definition New_collector :: "bool \<Rightarrow> string list \<Rightarrow> logger option \<Rightarrow> (svc, collector) state" where
  "New_collector active modes l = do {
     t \<leftarrow> mono_now;
     pid \<leftarrow> os_Getpid;
     ret \<lparr>clStart = t, clPid = pid, clChaosActive = active, clChaosModes = modes, clLogger = l\<rparr>
   }"

subsection \<open>Samples\<close>

text \<open>\<open>strings.Fields\<close>: the maximal runs of characters that are no white space.\<close>

fun fields_of :: "string \<Rightarrow> string \<Rightarrow> string list" where
  "fields_of acc [] = (if acc = [] then [] else [rev acc])"
| "fields_of acc (c # s) =
     (if is_space c then (if acc = [] then fields_of [] s else rev acc # fields_of [] s)
      else fields_of (c # acc) s)"

definition str_fields :: "string \<Rightarrow> string list" where
  "str_fields s = fields_of [] s"

text \<open>What follows the last closing parenthesis, if there is one.\<close>

definition after_last_paren :: "string \<Rightarrow> string option" where
  "after_last_paren s =
     (if CHR '')'' \<in> set s then Some (rev (takeWhile (\<lambda>c. c \<noteq> CHR '')'') (rev s))) else None)"

text \<open>Clock ticks to milliseconds in 64 bits: the product wraps, the quotient goes towards zero.\<close>

definition quot :: "int \<Rightarrow> int \<Rightarrow> int" where
  "quot a b = sgn a * (abs a div b)"

definition ticks_ms :: "int \<Rightarrow> int" where
  "ticks_ms t = quot (sint (of_int (t * 1000) :: 64 word)) 100"

definition parse_stat :: "int \<Rightarrow> string \<Rightarrow> cpu_sample option" where
  "parse_stat now data =
     (case after_last_paren data of
        None \<Rightarrow> None
      | Some rest \<Rightarrow>
          let fs = str_fields rest in
          if length fs < 13 then None
          else (case atoi (fs ! 11) of None \<Rightarrow> None
            | Some u \<Rightarrow> (case atoi (fs ! 12) of None \<Rightarrow> None
                | Some s \<Rightarrow> Some \<lparr>cpAt = now, cpUserMs = ticks_ms u, cpSystemMs = ticks_ms s\<rparr>)))"

definition readCPUSample :: "int \<Rightarrow> (svc, cpu_sample option) state" where
  "readCPUSample now = do {
     r \<leftarrow> os_ReadFile ''/proc/self/stat'';
     ret (case r of Inl _ \<Rightarrow> None | Inr data \<Rightarrow> parse_stat now data)
   }"

definition cpu_usage :: "cpu_sample option \<Rightarrow> cpu_sample \<Rightarrow> rat" where
  "cpu_usage prev cur =
     (case prev of
        None \<Rightarrow> 0
      | Some p \<Rightarrow>
          let elapsed = cpAt cur - cpAt p;
              ms = (cpUserMs cur - cpUserMs p) + (cpSystemMs cur - cpSystemMs p)
          in if elapsed \<le> 0 then 0 else f64 (f64 (f64 (of_int ms) / f64 (of_int elapsed)) * 100))"

definition cpuPercent :: "int \<Rightarrow> (svc, rat) state" where
  "cpuPercent now = do {
     r \<leftarrow> readCPUSample now;
     (case r of
        None \<Rightarrow> ret 0
      | Some cur \<Rightarrow> do {
          prev \<leftarrow> gets (\<lambda>w. svPrev (ext w));
          _ \<leftarrow> on_process (\<lambda>p. p\<lparr>svPrev := Some cur\<rparr>);
          ret (cpu_usage prev cur)
        })
   }"

text \<open>
  \<open>strconv.ParseFloat\<close> of digits with an optional sign and fraction, the form in which the
  kernel writes a size; other forms are not modelled and count as an error.
\<close>

definition parse_float :: "string \<Rightarrow> rat option" where
  "parse_float s =
     (let (neg, t) = (case s of c # r \<Rightarrow> if c = CHR ''-'' then (True, r) else if c = CHR ''+'' then (False, r) else (False, s)
            | [] \<Rightarrow> (False, []));
          i = takeWhile is_digit t;
          r = dropWhile is_digit t;
          f = (case r of c # fr \<Rightarrow> if c = CHR ''.'' then fr else r | [] \<Rightarrow> [])
      in if i @ f \<noteq> [] \<and> list_all is_digit f \<and> (r = [] \<or> hd r = CHR ''.'')
         then (let v = f64 (of_nat (nat_of_digits (i @ f)) / 10 ^ length f) in Some (if neg then - v else v))
         else None)"

text \<open>The first \<open>VmRSS:\<close> line whose second field is a number.\<close>

fun rss_of_lines :: "string list \<Rightarrow> rat" where
  "rss_of_lines [] = 0"
| "rss_of_lines (l # ls) =
     (if has_prefix l ''VmRSS:'' \<and> 2 \<le> length (str_fields l)
      then (case parse_float (str_fields l ! 1) of Some kb \<Rightarrow> f64 (kb / 1024) | None \<Rightarrow> rss_of_lines ls)
      else rss_of_lines ls)"

definition memoryRSSMB :: "(svc, rat) state" where
  "memoryRSSMB = do {
     r \<leftarrow> os_ReadFile ''/proc/self/status'';
     ret (case r of Inl _ \<Rightarrow> 0 | Inr data \<Rightarrow> rss_of_lines (split_on nl data))
   }"

definition openFDCount :: "(svc, int) state" where
  "openFDCount = do {
     n \<leftarrow> gets (\<lambda>w. svFds (ext w) (sysno w));
     f \<leftarrow> syscall;
     ret (case f of Some _ \<Rightarrow> 0 | None \<Rightarrow> (case n of None \<Rightarrow> 0 | Some k \<Rightarrow> int k))
   }"

text \<open>\<open>uint64\<close> counts: the difference wraps.\<close>

definition usage_percent :: "64 word \<Rightarrow> 64 word \<Rightarrow> rat" where
  "usage_percent tot free =
     (if 0 < tot
      then f64 (f64 (f64 (of_nat (unat (tot - free))) / f64 (of_nat (unat tot))) * 100)
      else 0)"

definition filesystemUsage :: "string \<Rightarrow> (svc, rat \<times> rat) state" where
  "filesystemUsage path = do {
     st \<leftarrow> gets (\<lambda>w. svStatfs (ext w) (sysno w) path);
     f \<leftarrow> syscall;
     ret (case (f, st) of
        (None, Some s) \<Rightarrow> (usage_percent (sbBlocks s) (sbBfree s), usage_percent (sbFiles s) (sbFfree s))
      | _ \<Rightarrow> (0, 0))
   }"

subsection \<open>The snapshot\<close>

definition jfloat :: "rat \<Rightarrow> json" where
  "jfloat q = JNum (float_text q)"

definition enc_snapshot :: "snapshot \<Rightarrow> json" where
  "enc_snapshot s = JObj
     [(''ts'', JStr (snTs s)), (''pid'', JNum (itoa (snPID s))), (''uptime_seconds'', JNum (itoa (snUptimeSeconds s))),
      (''cpu_percent'', jfloat (snCPUPercent s)), (''memory_rss_mb'', jfloat (snMemoryRSSMB s)),
      (''open_fds'', JNum (itoa (snOpenFDs s))), (''disk_usage_percent'', jfloat (snDiskUsagePercent s)),
      (''inode_usage_percent'', jfloat (snInodeUsagePercent s)),
      (''requests_total'', JNum (itoa (snRequestsTotal s))), (''errors_total'', JNum (itoa (snErrorsTotal s))),
      (''chaos_active'', JBool (snChaosActive s)), (''chaos_modes'', JArr (map JStr (snChaosModes s)))]"

definition telemetry_writeAtomic :: "string \<Rightarrow> string \<Rightarrow> (svc, unit) state" where
  "telemetry_writeAtomic path data = do {
     t \<leftarrow> os_CreateTemp (dir_of path) ''.tmp-'' [];
     (case t of
        Inl _ \<Rightarrow> ret ()
      | Inr tmp \<Rightarrow> do {
          e \<leftarrow> removing_on_error tmp
            (and_then (closing_on_error tmp (file_Write tmp data))
            (and_then (file_Close tmp) (os_Chmod tmp (octal [0, 6, 4, 4]))));
          (case e of
             Some _ \<Rightarrow> ret ()
           | None \<Rightarrow> do { _ \<leftarrow> os_Rename tmp path; ret () })
        })
   }"

text \<open>One reading of the clock gives the time of day and the monotonic time.\<close>

definition now_both :: "(svc, time \<times> int) state" where
  "now_both = State (\<lambda>w. ((clock_at w (clockno w), mono_at w (clockno w)), w\<lparr>clockno := Suc (clockno w)\<rparr>))"

definition take_snapshot :: "collector \<Rightarrow> (svc, snapshot) state" where
  "take_snapshot c = do {
     (wall, now) \<leftarrow> now_both;
     cpu \<leftarrow> cpuPercent now;
     mem \<leftarrow> memoryRSSMB;
     fds \<leftarrow> openFDCount;
     (req, err) \<leftarrow> gets counters;
     (disk, inode) \<leftarrow> filesystemUsage StatePath_svc;
     ret \<lparr>snTs = rfc3339 wall, snPID = clPid c, snUptimeSeconds = quot (now - clStart c) 1000,
          snCPUPercent = cpu, snMemoryRSSMB = mem, snOpenFDs = fds, snDiskUsagePercent = disk,
          snInodeUsagePercent = inode, snRequestsTotal = sint req, snErrorsTotal = sint err,
          snChaosActive = clChaosActive c, snChaosModes = clChaosModes c\<rparr>
   }"

definition telemetry_write :: "collector \<Rightarrow> (svc, unit outcome) state" where
  "telemetry_write c = do {
     s \<leftarrow> take_snapshot c;
     _ \<leftarrow> telemetry_writeAtomic TelemetryFile (json_marshal (enc_snapshot s));
     ret (Returns ())
   }"

definition recovering :: "logger option \<Rightarrow> (svc, unit outcome) state \<Rightarrow> (svc, unit) state" where
  "recovering l m = do {
     r \<leftarrow> m;
     (case r of
        Returns _ \<Rightarrow> ret ()
      | Panics s \<Rightarrow> (case l of
            Some lg \<Rightarrow> log_err lg (''telemetry write panic: '' @ s) []
          | None \<Rightarrow> eprint (''telemetry write panic: '' @ s @ [nl])))
   }"

definition safeWrite :: "collector \<Rightarrow> (svc, unit) state" where
  "safeWrite c = recovering (clLogger c) (telemetry_write c)"

text \<open>The loop: at once, then at each tick, until the context is cancelled after \<open>ticks\<close> of them.\<close>

definition collector_Run :: "collector \<Rightarrow> nat \<Rightarrow> (svc, unit) state" where
  "collector_Run c ticks = do {
     _ \<leftarrow> safeWrite c;
     for_do (\<lambda>_. safeWrite c) [0..<ticks]
   }"

end
