(* ===== verification/SvcDataProps.thy ===== *)
theory SvcDataProps
  imports SvcTelemetry
begin

text \<open>
  The texts the service writes: the log lines are JSON lines, the telemetry file is JSON with its
  percentages in range, and the environment name is stripped of what would break either.
\<close>

subsection \<open>What the JSON printer writes has no line break\<close>

definition printable :: "string \<Rightarrow> bool" where
  "printable s \<longleftrightarrow> list_all (\<lambda>c. 32 \<le> (of_char c :: nat)) s"

lemma printable_append [simp]: "printable (a @ b) \<longleftrightarrow> printable a \<and> printable b"
  by (simp add: printable_def)

lemma printable_Cons [simp]: "printable (c # s) \<longleftrightarrow> 32 \<le> (of_char c :: nat) \<and> printable s"
  by (simp add: printable_def)

lemma printable_Nil [simp]: "printable []"
  by (simp add: printable_def)

lemma printable_no_nl: "printable s \<Longrightarrow> nl \<notin> set s"
  by (auto simp: printable_def list_all_iff nl_def)

lemma printable_hex: "d < 16 \<Longrightarrow> 32 \<le> (of_char (hex_digit d) :: nat)"
  by (auto simp: hex_digit_def)

lemma printable_escape: "printable (escape_char c)"
  using printable_hex [of "of_char c div 16"] printable_hex [of "of_char c mod 16"] nat_of_char_lt [of c]
  by (auto simp: escape_char_def Let_def)

lemma printable_quote: "printable (quote s)"
  by (induction s) (use printable_escape in \<open>auto simp: quote_def\<close>)

lemma printable_num: "valid_num s \<Longrightarrow> printable s"
  using valid_num_chars [of s] by (auto simp: printable_def list_all_iff num_char_def is_digit_def)

lemma printable_json:
  "json_ok j \<Longrightarrow> printable (print_json (\<lambda>_. []) '':'' d j)"
  "elems_ok js \<Longrightarrow> printable (print_elems (\<lambda>_. []) '':'' d js)"
  "members_ok kvs \<Longrightarrow> printable (print_members (\<lambda>_. []) '':'' d kvs)"
  by (induction "\<lambda>_::nat. []::string" "'':''" d j and "\<lambda>_::nat. []::string" "'':''" d js
      and "\<lambda>_::nat. []::string" "'':''" d kvs rule: print_json_print_elems_print_members.induct)
    (auto simp: printable_num printable_quote)

lemma marshal_no_nl: "json_ok j \<Longrightarrow> nl \<notin> set (json_marshal j)"
  unfolding json_marshal_def by (intro printable_no_nl printable_json)

subsection \<open>Log lines\<close>

text \<open>The keys a call adds, and the values whose JSON is known to exist.\<close>

fun log_keys :: "log_value list \<Rightarrow> string list" where
  "log_keys (k # v # kvs) = sprint k # log_keys kvs"
| "log_keys [v] = [''_unpaired'']"
| "log_keys [] = []"

fun value_ok :: "log_value \<Rightarrow> bool" where
  "value_ok (LOther (Inr j) _) = json_ok j"
| "value_ok (LOther (Inl _) _) = False"
| "value_ok _ = True"

lemma enc_error_ok [simp]: "json_ok (enc_error e)"
  by (induction e) auto

lemma enc_log_value_ok: "value_ok v \<Longrightarrow> \<exists>j. enc_log_value v = Inr j \<and> json_ok j"
  by (cases v rule: value_ok.cases) (auto simp: elems_ok_map)

lemma enc_fields_ok:
  "list_all (\<lambda>p. value_ok (snd p)) e \<Longrightarrow>
     \<exists>js. enc_fields e = Inr js \<and> members_ok js \<and> map fst js = map fst e \<and>
       list_all2 (\<lambda>p q. enc_log_value (snd p) = Inr (snd q)) e js"
proof (induction e)
  case (Cons p e)
  obtain k v where p: "p = (k, v)" by (cases p)
  from Cons p obtain j js where "enc_log_value v = Inr j" "json_ok j" "enc_fields e = Inr js" "members_ok js"
    "map fst js = map fst e" "list_all2 (\<lambda>p q. enc_log_value (snd p) = Inr (snd q)) e js"
    using enc_log_value_ok [of v] by auto
  with p show ?case by simp
qed simp

lemma values_update:
  "list_all (\<lambda>p. P (snd p)) e \<Longrightarrow> P v \<Longrightarrow> list_all (\<lambda>p. P (snd p)) (AList.update k v e)"
  by (induction e) auto

lemma log_pairs_props:
  assumes "list_all value_ok kvs"
  shows "list_all (\<lambda>p. value_ok (snd p)) e \<Longrightarrow> distinct (map fst e) \<Longrightarrow>
     list_all (\<lambda>p. value_ok (snd p)) (log_pairs kvs e) \<and> distinct (map fst (log_pairs kvs e)) \<and>
     (\<forall>k. k \<notin> set (log_keys kvs) \<longrightarrow> map_of (log_pairs kvs e) k = map_of e k)"
  using assms
proof (induction kvs e rule: log_pairs.induct)
  case (1 k v kvs e)
  then show ?case
    using values_update [of value_ok e v "sprint k"] AList.distinct_update [of e "sprint k" v]
    by (simp add: AList.update_conv')
next
  case (2 v e)
  then show ?case
    using values_update [of value_ok e v "''_unpaired''"] AList.distinct_update [of e "''_unpaired''" v]
    by (simp add: AList.update_conv')
qed simp

text \<open>The line without its break: JSON, and each field is that of the last key that gave it.\<close>

lemma enc_entry_fields:
  assumes "list_all (\<lambda>p. value_ok (snd p)) e" and "distinct (map fst e)"
  shows "\<exists>js. enc_entry e = Inr (JObj js) \<and> json_ok (JObj js) \<and>
     (\<forall>k v. map_of e k = Some v \<longrightarrow> (\<exists>j. map_of js k = Some j \<and> enc_log_value v = Inr j))"
proof -
  let ?e = "sort_key fst e"
  have "list_all (\<lambda>p. value_ok (snd p)) ?e" using assms(1) by (simp add: list_all_iff)
  from enc_fields_ok [OF this] obtain js where js: "enc_fields ?e = Inr js" "members_ok js" "map fst js = map fst ?e"
    "list_all2 (\<lambda>p q. enc_log_value (snd p) = Inr (snd q)) ?e js" by blast
  have d: "distinct (map fst ?e)"
    using assms(2) by (simp add: distinct_map)
  have "\<exists>j. map_of js k = Some j \<and> enc_log_value v = Inr j" if "map_of e k = Some v" for k v
  proof -
    from that have "(k, v) \<in> set ?e" by (auto dest: map_of_SomeD)
    then obtain i where i: "i < length ?e" "?e ! i = (k, v)" by (metis in_set_conv_nth)
    have len: "length js = length ?e" using js(3) by (metis length_map)
    with i js(4) have "enc_log_value v = Inr (snd (js ! i))" by (auto dest: list_all2_nthD)
    moreover have "fst (js ! i) = k" using i len js(3) by (metis fst_conv nth_map)
    moreover have "js ! i \<in> set js" using i len by simp
    moreover have "distinct (map fst js)" using d js(3) by simp
    ultimately show ?thesis by (metis map_of_is_SomeI prod.collapse)
  qed
  with js(1,2) show ?thesis by (intro exI [of _ js]) (simp add: enc_entry_def)
qed

lemma log_line_fields:
  assumes "list_all value_ok kvs"
  shows "\<exists>line js. log_line now (buildEntry now level msg kvs) = line @ [nl] \<and> nl \<notin> set line \<and>
     parse_json line = Some (JObj js) \<and>
     (\<forall>k\<in>{(''ts'', now), (''level'', level), (''msg'', msg)}. fst k \<notin> set (log_keys kvs) \<longrightarrow>
        map_of js (fst k) = Some (JStr (snd k)))"
proof -
  let ?e0 = "[(''ts'', LStr now), (''level'', LStr level), (''msg'', LStr msg)]"
  note P = log_pairs_props [OF assms, of ?e0, folded buildEntry_def]
  then obtain js where js: "enc_entry (buildEntry now level msg kvs) = Inr (JObj js)" "json_ok (JObj js)"
    "\<forall>k v. map_of (buildEntry now level msg kvs) k = Some v \<longrightarrow> (\<exists>j. map_of js k = Some j \<and> enc_log_value v = Inr j)"
    using enc_entry_fields [of "buildEntry now level msg kvs"] by auto
  show ?thesis
  proof (intro exI conjI ballI impI)
    show "log_line now (buildEntry now level msg kvs) = json_marshal (JObj js) @ [nl]"
      by (simp add: log_line_def js(1))
    show "nl \<notin> set (json_marshal (JObj js))" by (rule marshal_no_nl [OF js(2)])
    show "parse_json (json_marshal (JObj js)) = Some (JObj js)" by (rule parse_marshal [OF js(2)])
  next
    fix k assume "k \<in> {(''ts'', now), (''level'', level), (''msg'', msg)}" and "fst k \<notin> set (log_keys kvs)"
    then have "map_of (buildEntry now level msg kvs) (fst k) = Some (LStr (snd k))" using P by auto
    with js(3) show "map_of js (fst k) = Some (JStr (snd k))" by fastforce
  qed
qed



subsection \<open>Numbers of the telemetry file\<close>

lemma valid_num_parts:
  assumes "list_all is_digit ds" "ds \<noteq> []" "hd ds = CHR ''0'' \<Longrightarrow> length ds = 1" "valid_frac r" "r = [] \<or> \<not> is_digit (hd r)"
  shows "valid_num (ds @ r) \<and> valid_num (CHR ''-'' # ds @ r)"
proof -
  obtain c s where c: "ds = c # s" using assms(2) by (cases ds) auto
  with assms(1) not_digit_sign have "c \<noteq> CHR ''-''" by auto
  moreover have "digits_span (ds @ r) = (ds, r)"
    using assms(1,5) takeWhile_stop [of is_digit ds r] by (cases r) (auto simp: digits_span_def)
  ultimately show ?thesis using assms c by (auto simp: valid_num_def)
qed

lemma leading_zero: "hd (nat_str n) = CHR ''0'' \<Longrightarrow> length (nat_str n) = 1"
  using nat_str_no_leading_zero [of n] by (cases "n = 0") (simp_all add: nat_str.simps [of 0])

lemma valid_frac_point: "list_all is_digit ds \<Longrightarrow> ds \<noteq> [] \<Longrightarrow> valid_frac (CHR ''.'' # ds)"
  using digits_span_all [of ds] by (simp add: valid_frac_def valid_exp_def)

lemma valid_exp_text: "valid_exp (CHR ''e'' # (if b then ''-'' else ''+'') @ nat_str n)"
  using nat_str_digits [of n] by (simp add: valid_exp_def)

lemma valid_fixed: "valid_num (fixed_text c p) \<and> valid_num (CHR ''-'' # fixed_text c p)"
proof (cases "p \<le> 0")
  case True
  then show ?thesis using valid_num_nat_str by (simp add: fixed_text_def)
next
  case False
  let ?f = "nat_str (c mod 10 ^ nat p)"
  have "list_all is_digit (replicate (nat p - length ?f) (CHR ''0'') @ ?f)"
    using nat_str_digits [of "c mod 10 ^ nat p"] by (auto simp: list_all_iff is_digit_def)
  from valid_frac_point [OF this] show ?thesis
    using False valid_num_parts [OF nat_str_digits nat_str_nonempty leading_zero, of "c div 10 ^ nat p"] not_digit_sign
    by (simp add: fixed_text_def Let_def is_digit_def)
qed

lemma valid_exp_form: "valid_num (exp_text c p) \<and> valid_num (CHR ''-'' # exp_text c p)"
proof -
  obtain d ds where d: "nat_str c = d # ds" by (cases "nat_str c") auto
  with nat_str_digits [of c] have dig: "is_digit d" "list_all is_digit ds" by simp_all
  let ?e = "CHR ''e'' # (if int (length (nat_str c)) - 1 - p < 0 then ''-'' else ''+'') @
    nat_str (nat (abs (int (length (nat_str c)) - 1 - p)))"
  have not_e: "\<not> is_digit (CHR ''e'')" "\<not> is_digit (CHR ''.'')" by (simp_all add: is_digit_def)
  have e: "valid_exp ?e" by (rule valid_exp_text)
  have "valid_frac ((if ds = [] then [] else CHR ''.'' # ds) @ ?e)"
  proof (cases "ds = []")
    case True
    with e show ?thesis by (simp add: valid_frac_def)
  next
    case False
    have "digits_span (ds @ ?e) = (ds, ?e)"
      using takeWhile_stop [of is_digit ds ?e] dig not_e by (simp add: digits_span_def)
    with False e show ?thesis by (simp add: valid_frac_def)
  qed
  from valid_num_parts [OF _ _ _ this, of "[d]"] dig not_e show ?thesis
    by (auto simp: exp_text_def Let_def d)
qed

lemma valid_float_text [simp]: "valid_num (float_text q)"
proof -
  have "valid_num ''0''" by code_simp
  with valid_fixed valid_exp_form show ?thesis by (auto simp: float_text_def split: prod.splits)
qed

lemma enc_snapshot_ok: "json_ok (enc_snapshot s)"
  by (simp add: enc_snapshot_def jfloat_def elems_ok_map)

subsection \<open>Percentages\<close>

lemma usage_percent_bounds:
  assumes "free \<le> tot"
  shows "0 \<le> usage_percent tot free \<and> usage_percent tot free \<le> 100"
proof (cases "0 < tot")
  case True
  let ?u = "of_nat (unat (tot - free)) :: rat" and ?t = "of_nat (unat tot) :: rat"
  have "unat (tot - free) \<le> unat tot"
    using assms by (simp add: unat_sub)
  then have le: "f64 ?u \<le> f64 ?t" by (intro f64_mono of_nat_mono)
  have "0 < unat tot" using True by (simp add: unat_gt_0 word_neq_0_conv)
  then have "(of_nat 1 :: rat) \<le> ?t" by (intro of_nat_mono) simp
  from f64_mono [OF this] have pos: "1 \<le> f64 ?t" by simp
  have nn: "0 \<le> f64 ?u" by (rule f64_nonneg, rule of_nat_0_le_iff)
  define x where "x = f64 (f64 ?u / f64 ?t)"
  have "0 \<le> f64 ?u / f64 ?t" "f64 ?u / f64 ?t \<le> 1" using le pos nn by (auto simp: divide_le_eq_1)
  then have x: "0 \<le> x" "x \<le> 1" using f64_mono [of _ 1] by (auto simp: x_def intro: f64_nonneg)
  then have "0 \<le> f64 (x * 100)" "f64 (x * 100) \<le> 100" using f64_mono [of "x * 100" 100] by (auto intro: f64_nonneg)
  with True show ?thesis by (simp add: usage_percent_def x_def)
qed (simp add: usage_percent_def)

subsection \<open>The telemetry file\<close>

lemma telemetry_write_cases:
  assumes np: "\<not> has_prefix path (dir_of path @ ''/.tmp-'')" and run: "run (telemetry_writeAtomic path data) w = (u, w')"
  shows "files w' path = files w path \<or> (\<exists>n. files w' path = Some n \<and> fcontent n = data)"
proof -
  obtain t w2 where 2: "run (os_CreateTemp (dir_of path) ''.tmp-'' []) w = (t, w2)" by (meson surj_pair)
  note C = CreateTemp_cases [OF 2]
  show ?thesis
  proof (cases t)
    case (Inl x)
    with run 2 C show ?thesis by (auto simp: telemetry_writeAtomic_def)
  next
    case (Inr tmp)
    with C obtain r where "tmp = dir_of path @ ''/'' @ ''.tmp-'' @ r" by auto
    then have ne: "tmp \<noteq> path" using np by (simp add: has_prefix_iff) metis
    with C Inr have ft: "files w2 path = files w path" and nt: "\<exists>n. files w2 tmp = Some n \<and> fcontent n = []" by auto
    let ?fill = "removing_on_error tmp (and_then (closing_on_error tmp (file_Write tmp data))
      (and_then (file_Close tmp) (os_Chmod tmp (octal [0, 6, 4, 4]))))"
    obtain e3 w3 where 3: "run ?fill w2 = (e3, w3)" by (meson surj_pair)
    have "keeps (file_is path c) ?fill" for c
      by (intro keeps_rules keeps_removing keeps_Write keeps_Chmod ne)
    from keepsD [OF this _ 3, of "seen path w2"] ft have f3: "files w3 path = files w path"
      by (simp add: file_is_def seen_def)
    show ?thesis
    proof (cases e3)
      case (Some x)
      with run 2 3 Inr f3 show ?thesis by (simp add: telemetry_writeAtomic_def)
    next
      case None
      obtain e4 w4 where 4: "run (os_Rename tmp path) w3 = (e4, w4)" by (meson surj_pair)
      obtain a1 v1 where a1: "run (file_Write tmp data) w2 = (a1, v1)" by (meson surj_pair)
      obtain a2 v2 where a2: "run (file_Close tmp) v1 = (a2, v2)" by (meson surj_pair)
      obtain a3 v3 where a3: "run (os_Chmod tmp (octal [0, 6, 4, 4])) v2 = (a3, v3)" by (meson surj_pair)
      have "a1 = None \<and> a3 = None \<and> w3 = v3"
        using 3 None by (auto simp: run_removing run_and_then run_closing a1 a2 a3 split: option.splits prod.splits)
      with nt a1 a3 Close_files [of tmp v1] a2 have "\<exists>n. files w3 tmp = Some n \<and> fcontent n = data"
        by (auto dest!: Write_ok Chmod_ok)
      moreover have "w' = w4" using run 2 3 4 Inr None by (simp add: telemetry_writeAtomic_def)
      ultimately show ?thesis using Rename_cases [OF 4 ne] f3 by (cases e4) auto
    qed
  qed
qed

text \<open>What a snapshot shows of the process, in terms of the world it is taken in.\<close>

lemma syscall_ext: "run syscall w = (f, w') \<Longrightarrow> ext w' = ext w"
  by (auto simp: run_syscall)

lemma ReadFile_ext: "run (os_ReadFile p) w = (r, w') \<Longrightarrow> ext w' = ext w \<and> files w' = files w"
  by (auto simp: run_ReadFile)

lemma cpuPercent_ext:
  "run (cpuPercent now) w = (r, w') \<Longrightarrow> (\<exists>p. ext w' = (ext w)\<lparr>svPrev := p\<rparr>) \<and> files w' = files w"
proof -
  assume run: "run (cpuPercent now) w = (r, w')"
  obtain s w1 where 1: "run (readCPUSample now) w = (s, w1)" by (meson surj_pair)
  have e: "ext w1 = ext w" "files w1 = files w" using 1 by (auto simp: readCPUSample_def run_ReadFile)
  show ?thesis
  proof (cases s)
    case None
    with run 1 e show ?thesis by (auto simp: cpuPercent_def intro: exI [of _ "svPrev (ext w)"])
  next
    case (Some cur)
    with run 1 e show ?thesis by (auto simp: cpuPercent_def on_process_def)
  qed
qed

definition sane_statfs :: "svc \<Rightarrow> bool" where
  "sane_statfs w \<longleftrightarrow> (\<forall>k p st. svStatfs (ext w) k p = Some st \<longrightarrow> sbBfree st \<le> sbBlocks st \<and> sbFfree st \<le> sbFiles st)"

definition percent :: "rat \<Rightarrow> bool" where
  "percent q \<longleftrightarrow> 0 \<le> q \<and> q \<le> 100"

lemma filesystemUsage_bounds:
  assumes "run (filesystemUsage p) w = ((d, i), w')" and "sane_statfs w"
  shows "percent d \<and> percent i \<and> ext w' = ext w \<and> files w' = files w"
  using assms usage_percent_bounds
  by (auto simp: filesystemUsage_def run_syscall sane_statfs_def percent_def split: option.splits)

lemma snapshot_shows:
  assumes "run (take_snapshot c) w = (s, w')" and "sane_statfs w"
  shows "files w' = files w" "snPID s = clPid c" "snRequestsTotal s = sint (svRequests (ext w))"
    "snErrorsTotal s = sint (svErrors (ext w))" "snChaosActive s = clChaosActive c" "snChaosModes s = clChaosModes c"
    "percent (snDiskUsagePercent s)" "percent (snInodeUsagePercent s)"
proof -
  define w0 where "w0 = w\<lparr>clockno := Suc (clockno w)\<rparr>"
  define now where "now = mono_at w (clockno w)"
  obtain cpu w1 where 1: "run (cpuPercent now) w0 = (cpu, w1)" by (meson surj_pair)
  obtain mem w2 where 2: "run memoryRSSMB w1 = (mem, w2)" by (meson surj_pair)
  obtain fds w3 where 3: "run openFDCount w2 = (fds, w3)" by (meson surj_pair)
  obtain d i w4 where 4: "run (filesystemUsage StatePath_svc) w3 = ((d, i), w4)" by (metis surj_pair)
  from cpuPercent_ext [OF 1] obtain p where x1: "ext w1 = (ext w)\<lparr>svPrev := p\<rparr>" "files w1 = files w"
    by (auto simp: w0_def)
  have x2: "ext w2 = ext w1" "files w2 = files w1" using 2 by (auto simp: memoryRSSMB_def run_ReadFile)
  have x3: "ext w3 = ext w2" "files w3 = files w2" using 3 by (auto simp: openFDCount_def run_syscall)
  have "sane_statfs w3" using assms(2) by (simp add: sane_statfs_def x1 x2 x3)
  note F = filesystemUsage_bounds [OF 4 this]
  have s: "s = \<lparr>snTs = rfc3339 (clock_at w (clockno w)), snPID = clPid c, snUptimeSeconds = quot (now - clStart c) 1000,
      snCPUPercent = cpu, snMemoryRSSMB = mem, snOpenFDs = fds, snDiskUsagePercent = d, snInodeUsagePercent = i,
      snRequestsTotal = sint (svRequests (ext w)), snErrorsTotal = sint (svErrors (ext w)),
      snChaosActive = clChaosActive c, snChaosModes = clChaosModes c\<rparr>" and w': "w' = w4"
    using assms(1) 1 2 3 4 x1 x2 x3
    by (auto simp: take_snapshot_def now_both_def w0_def now_def counters_def)
  show "files w' = files w" "snPID s = clPid c" "snRequestsTotal s = sint (svRequests (ext w))"
    "snErrorsTotal s = sint (svErrors (ext w))" "snChaosActive s = clChaosActive c" "snChaosModes s = clChaosModes c"
    "percent (snDiskUsagePercent s)" "percent (snInodeUsagePercent s)"
    using F x1 x2 x3 by (simp_all add: s w')
qed

text \<open>
  C37: after a telemetry write, whatever fails, the file is the one before or a complete JSON object
  that parses: the twelve fields of a snapshot with this process, its counters at that moment,
  its chaos modes as an array, and disk and inode usage between 0 and 100 percent, rounding
  included, if the machine never counts more free blocks than blocks.
\<close>

theorem telemetry_file_complete:
  assumes "sane_statfs w"
  shows "case run (safeWrite c) w of (_, w') \<Rightarrow>
     files w' TelemetryFile = files w TelemetryFile \<or>
     (\<exists>n s. files w' TelemetryFile = Some n \<and> parse_json (fcontent n) = Some (enc_snapshot s) \<and>
        snPID s = clPid c \<and> snRequestsTotal s = sint (svRequests (ext w)) \<and> snErrorsTotal s = sint (svErrors (ext w)) \<and>
        snChaosActive s = clChaosActive c \<and> snChaosModes s = clChaosModes c \<and>
        percent (snDiskUsagePercent s) \<and> percent (snInodeUsagePercent s))"
proof -
  obtain s w1 where 1: "run (take_snapshot c) w = (s, w1)" by (meson surj_pair)
  obtain u w2 where 2: "run (telemetry_writeAtomic TelemetryFile (json_marshal (enc_snapshot s))) w1 = (u, w2)" by (meson surj_pair)
  have "run (safeWrite c) w = ((), w2)"
    using 1 2 by (simp add: safeWrite_def recovering_def telemetry_write_def)
  moreover have np: "\<not> has_prefix TelemetryFile (dir_of TelemetryFile @ ''/.tmp-'')"
    by (simp add: TelemetryFile_def dir_of_def)
  ultimately show ?thesis
    using telemetry_write_cases [OF np 2] snapshot_shows [OF 1 assms] parse_marshal [OF enc_snapshot_ok [of s]] by auto
qed

definition demo_service :: service where
  "demo_service = \<lparr>svRequests = 41, svErrors = 1,
     svEnv = (\<lambda>v. if v = ''CHAOS_LATENCY_MS'' then ''400'' else if v = ''CHAOS_DROP_PERCENT'' then ''30'' else []),
     svDrawNo = 0, svDraws = (\<lambda>_. 50), svSlept = [], svChildren = 0, svOOM = False,
     svStatfs = (\<lambda>_ _. Some \<lparr>sbBlocks = 1000, sbBfree = 250, sbFiles = 64, sbFfree = 32\<rparr>),
     svFds = (\<lambda>_. Some 9), svPrev = None\<rparr>"

definition demo_svc :: "(string \<times> string) list \<Rightarrow> (nat \<times> errno) list \<Rightarrow> svc" where
  "demo_svc fs es = \<lparr>files = files (demo_world fs es), ext = demo_service, sysno = 0, fault_at = map_of es,
     short_at = (\<lambda>_. 1), randno = 0, rand_at = (\<lambda>n. itoa (int n)), clockno = 0, clock_at = (\<lambda>n. ''t'' @ itoa (int n)),
     mono_at = int, self_pid = 100, self_user = ''appuser'', kill0 = (\<lambda>_. None), stderr = [], stdout = []\<rparr>"

theorem telemetry_file_complete_witness:
  "case run (safeWrite \<lparr>clStart = 0, clPid = 100, clChaosActive = True, clChaosModes = [''latency''], clLogger = None\<rparr>)
     (demo_svc [] []) of (_, w') \<Rightarrow>
     files w' TelemetryFile = None \<or>
     (\<exists>n s. files w' TelemetryFile = Some n \<and> parse_json (fcontent n) = Some (enc_snapshot s) \<and>
        snPID s = 100 \<and> snRequestsTotal s = 41 \<and> snErrorsTotal s = 1 \<and> snChaosModes s = [''latency''] \<and>
        percent (snDiskUsagePercent s) \<and> percent (snInodeUsagePercent s))"
proof -
  have "sane_statfs (demo_svc [] [])" by (simp add: sane_statfs_def demo_svc_def demo_service_def)
  from telemetry_file_complete [OF this, of "\<lparr>clStart = 0, clPid = 100, clChaosActive = True,
      clChaosModes = [''latency''], clLogger = None\<rparr>"]
  show ?thesis by (auto simp: case_prod_beta demo_svc_def demo_world_def demo_service_def)
qed

end
