(* ===== verification/SvcReqProps.thy ===== *)
theory SvcReqProps
  imports SvcMain SvcDataProps
begin

text \<open>Properties of the handlers and of the middleware around them.\<close>

subsection \<open>File operations leave the process alone\<close>

text \<open>
  What a projection \<open>g\<close> shows of the process, with the pattern of failing calls, which nothing
  changes.
\<close>

definition ctx_is :: "('x \<Rightarrow> 'b) \<Rightarrow> 'b \<times> (nat \<Rightarrow> errno option) \<Rightarrow> 'x world \<Rightarrow> bool" where
  "ctx_is g c w \<longleftrightarrow> (g (ext w), fault_at w) = c"

named_theorems ext_rules \<open>operations that leave the process as it is\<close>

lemma ext_syscall [ext_rules]: "keeps (ctx_is g c) syscall"
  by (simp add: keeps_def hoare_def syscall_def ctx_is_def)

lemma ext_clock [ext_rules]: "keeps (ctx_is g c) time_now"
  by (simp add: keeps_def hoare_def time_now_def ctx_is_def)

lemma ext_modify: "(\<And>w. ext (f w) = ext w \<and> fault_at (f w) = fault_at w) \<Longrightarrow> keeps (ctx_is g c) (modify f)"
  by (intro keeps_modify) (simp add: ctx_is_def)

lemma ext_set_file [ext_rules]: "keeps (ctx_is g c) (set_file p n)"
  unfolding set_file_def by (rule ext_modify) simp

lemma ext_append [ext_rules]: "keeps (ctx_is g c) (append_content p s)"
  unfolding append_content_def by (rule ext_modify) (simp split: option.splits)

lemma ext_rand [ext_rules]: "keeps (ctx_is g c) (State (\<lambda>w. (rand_at w (randno w), w\<lparr>randno := Suc (randno w)\<rparr>)))"
  by (simp add: keeps_def hoare_def ctx_is_def)

lemma ext_pick [ext_rules]: "keeps (ctx_is g c) (pick_temp n pre suf)"
  by (induction n) (auto intro!: keeps_rules ext_rules)

lemma ext_files [ext_rules]:
  "keeps (ctx_is g c) (os_Remove p)" "keeps (ctx_is g c) (os_Rename p q)" "keeps (ctx_is g c) (os_Chmod p m)"
  "keeps (ctx_is g c) (os_CreateTemp d pre suf)" "keeps (ctx_is g c) (file_Write p s)" "keeps (ctx_is g c) (file_Close p)"
  "keeps (ctx_is g c) (os_OpenTrunc p m)" "keeps (ctx_is g c) (os_OpenAppend p m)" "keeps (ctx_is g c) (os_ReadFile p)"
  unfolding os_Remove_def os_Rename_def os_Chmod_def os_CreateTemp_def file_Write_def file_Close_def os_OpenTrunc_def
    os_OpenAppend_def os_ReadFile_def
  by (intro keeps_rules ext_rules)+

lemma ext_writeAtomic [ext_rules]: "keeps (ctx_is g c) (writeAtomic p s)"
proof -
  have c: "keeps (ctx_is g c) (closing_on_error t m)" if "keeps (ctx_is g c) m" for t and m :: "('a world, go_error option) state"
    unfolding closing_on_error_def by (intro keeps_rules ext_rules that)
  have r: "keeps (ctx_is g c) (removing_on_error t m)" if "keeps (ctx_is g c) m" for t and m :: "('a world, go_error option) state"
    unfolding removing_on_error_def by (intro keeps_rules ext_rules that)
  show ?thesis unfolding writeAtomic_def fill_signal_temp_def by (intro keeps_rules ext_rules c r)
qed

lemma ext_service [ext_rules]:
  "keeps (ctx_is g c) (SetStatus s)" "keeps (ctx_is g c) (log_write l level msg kvs)" "keeps (ctx_is g c) touchStatePath"
  "keeps (ctx_is g c) (log_info l msg kvs)" "keeps (ctx_is g c) (log_warn l msg kvs)" "keeps (ctx_is g c) (log_err l msg kvs)"
  unfolding SetStatus_def log_write_def touchStatePath_def log_info_def log_warn_def log_err_def
  by (intro keeps_rules ext_rules)+

lemma ctx_run:
  "keeps (ctx_is g (g (ext w), fault_at w)) m \<Longrightarrow> run m w = (r, w') \<Longrightarrow> g (ext w') = g (ext w) \<and> fault_at w' = fault_at w"
  using keepsD [of "ctx_is g (g (ext w), fault_at w)" m w r w'] by (simp add: ctx_is_def)

lemma ext_run: "keeps (ctx_is id (ext w, fault_at w)) m \<Longrightarrow> run m w = (r, w') \<Longrightarrow> ext w' = ext w"
  using ctx_run [of id w m r w'] by simp

lemma ctx_on_process: "(\<And>p. g (f p) = g p) \<Longrightarrow> keeps (ctx_is g c) (on_process f)"
  unfolding on_process_def by (intro keeps_modify) (simp add: ctx_is_def)

lemma seen_run: "keeps (file_is q (seen q w)) m \<Longrightarrow> run m w = (r, w') \<Longrightarrow> files w' q = files w q"
  using keepsD [of "file_is q (seen q w)" m w r w'] by (simp add: file_is_def seen_def)

lemma run_on_process: "run (on_process f) w = ((), w\<lparr>ext := f (ext w)\<rparr>)"
  by (simp add: on_process_def)

subsection \<open>The health endpoint\<close>

lemma clean_health: "cleanPath ''/health'' = ''/health''"
  by code_simp

lemma health_answer:
  assumes "rqPath rq = ''/health''" and "rqMethod rq = ''GET'' \<or> rqMethod rq = ''HEAD''"
  shows "run (serve_request sv rq) w =
     (json_reply 200 (health_body (seAppEnv (srServer sv))),
      w\<lparr>ext := (ext w)\<lparr>svRequests := svRequests (ext w) + 1\<rparr>\<rparr>)"
  using assms
  by (auto simp: serve_request_def chaos_ServeHTTP_def drop_draw_def mux_def clean_health handleHealth_def
      count_request_def run_on_process)

text \<open>
  the health endpoint survives every fault of the program: whatever the chaos settings, the
  state of the files and the system calls that fail, a GET of \<open>/health\<close> is answered 200 with the
  same body, at once, without a system call, a log line or a change to any file; only the
  request counter moves.
\<close>

theorem health_survives:
  assumes "rqPath rq = ''/health''" and "rqMethod rq = ''GET'' \<or> rqMethod rq = ''HEAD''"
  shows "run (serve_request sv rq) w =
     (json_reply 200 (health_body (seAppEnv (srServer sv))),
      w\<lparr>ext := (ext w)\<lparr>svRequests := svRequests (ext w) + 1\<rparr>\<rparr>)"
  by (rule health_answer [OF assms])

theorem health_survives_witness:
  "fst (run (serve_request (build \<lparr>scAddr = ''127.0.0.1:8080'', scAppEnv = ''prod'', scChaos = \<lparr>ccLatencyMS = 400,
       ccDropPercent = 100, ccOOMTrigger = False, ccIgnoreSIGTERM = False, ccZombieChildren = True\<rparr>\<rparr> \<lparr>lgPath = LogPath_svc\<rparr>)
     \<lparr>rqMethod = ''GET'', rqPath = ''/health'', rqHeaders = [], rqConn = NoHijacker\<rparr>) (demo_svc [] [(0, EACCES)])) =
   json_reply 200 (health_body ''prod'')"
  using health_survives [of "\<lparr>rqMethod = ''GET'', rqPath = ''/health'', rqHeaders = [], rqConn = NoHijacker\<rparr>"]
  by (simp add: build_def New_server_def)

text \<open>
  the environment name goes into the body of \<open>/health\<close> unescaped: the body is the JSON it
  should be when no character of the name needs an escape, but a quotation mark, which the
  sanitising keeps, makes it invalid.
\<close>

theorem health_body_json:
  "(if list_all (\<lambda>c. escape_char c = [c]) env
    then parse_json (health_body env) = Some (JObj [(''status'', JStr ''ok''), (''app_env'', JStr env), (''config_loaded'', JBool True)])
    else True) \<and>
   SanitizeEnvString [CHR 0x22] = [CHR 0x22] \<and> parse_json (health_body [CHR 0x22]) = None"
proof (intro conjI)
  have "concat (map escape_char env) = env" if "list_all (\<lambda>c. escape_char c = [c]) env"
    using that by (induction env) auto
  then have "health_body env = json_marshal (JObj [(''status'', JStr ''ok''), (''app_env'', JStr env), (''config_loaded'', JBool True)])"
    if "list_all (\<lambda>c. escape_char c = [c]) env"
    using that by (simp add: health_body_def json_marshal_def raw_quote_def quote_def [of env])
  moreover have "json_ok (JObj [(''status'', JStr ''ok''), (''app_env'', JStr env), (''config_loaded'', JBool True)])" by simp
  note parse_marshal [OF this]
  ultimately show "if list_all (\<lambda>c. escape_char c = [c]) env
    then parse_json (health_body env) = Some (JObj [(''status'', JStr ''ok''), (''app_env'', JStr env), (''config_loaded'', JBool True)])
    else True"
    by presburger
  show "SanitizeEnvString [CHR 0x22] = [CHR 0x22]" by code_simp
  show "parse_json (health_body [CHR 0x22]) = None" by code_simp
qed

subsection \<open>The root endpoint\<close>

lemma OpenTrunc_run:
  "run (os_OpenTrunc p m) w = (e, w') \<Longrightarrow>
     (if e = None then \<exists>n. files w' = (files w)(p \<mapsto> n) \<and> fcontent n = [] else files w' = files w)"
  by (auto simp: os_OpenTrunc_def set_file_def new_node_def run_syscall split: option.splits)

lemma touch_ok:
  assumes "run touchStatePath w = (None, w')"
  shows "\<exists>n. files w' = (files w)(StateTouchPath_svc \<mapsto> n) \<and> fcontent n = ''ok''"
proof -
  let ?p = StateTouchPath_svc
  obtain e1 w1 where 1: "run (os_OpenTrunc ?p (octal [0, 6, 0, 0])) w = (e1, w1)" by (meson surj_pair)
  obtain e2 w2 where 2: "run (file_Write ?p ''ok'') w1 = (e2, w2)" by (meson surj_pair)
  have n: "e1 = None" "e2 = None" "files w' = files w2"
    using assms 1 2 Close_files [of ?p w2] by (auto simp: touchStatePath_def case_prod_beta split: option.splits)
  from OpenTrunc_run [OF 1] n obtain m where m: "files w1 = (files w)(?p \<mapsto> m)" "fcontent m = []" by auto
  from n(2) 2 have "files w2 = (files w1)(?p \<mapsto> m\<lparr>fcontent := fcontent m @ ''ok''\<rparr>)"
    using m by (auto simp: file_Write_def append_content_def run_syscall split: option.splits)
  with m n(3) show ?thesis by (intro exI [of _ "m\<lparr>fcontent := fcontent m @ ''ok''\<rparr>"]) simp
qed

text \<open>The paths the handlers touch are apart.\<close>

lemma svc_paths_apart:
  "StateTouchPath_svc \<noteq> StatusFile" "LogPath_svc \<noteq> StatusFile" "LogPath_svc \<noteq> StateTouchPath_svc"
  "\<not> has_prefix StatusFile (Dir @ ''/.tmp-'')" "\<not> has_prefix StateTouchPath_svc (Dir @ ''/.tmp-'')"
  "\<not> has_prefix LogPath_svc (Dir @ ''/.tmp-'')"
  by (simp_all add: StateTouchPath_svc_def LogPath_svc_def signal_paths)

definition log_svc :: logger where
  "log_svc = \<lparr>lgPath = LogPath_svc\<rparr>"

lemma handleRoot_run:
  assumes run: "run (handleRoot (New_server env log_svc zombies) rq) w = (r, w')"
  shows "svRequests (ext w') = svRequests (ext w) + 1 \<and>
    (if r = json_reply 200 (root_body env)
     then svErrors (ext w') = svErrors (ext w) \<and>
       (\<exists>n. files w' = (files w)(StateTouchPath_svc \<mapsto> n) \<and> fcontent n = ''ok'')
     else r = json_reply 500 state_error_body \<and> svErrors (ext w') = svErrors (ext w) + 1 \<and>
       (files w' StatusFile = files w StatusFile \<or>
        (\<exists>n. files w' StatusFile = Some n \<and> fcontent n = ''Unhealthy'' @ [nl])))"
proof -
  let ?p = "ext w"
  define p1 where "p1 = ?p\<lparr>svRequests := svRequests ?p + 1, svChildren := svChildren ?p + (if zombies then 1 else 0)\<rparr>"
  define w1 where "w1 = w\<lparr>ext := p1\<rparr>"
  have p1: "svRequests p1 = svRequests ?p + 1" "svErrors p1 = svErrors ?p" by (simp_all add: p1_def)
  obtain e w2 where 2: "run touchStatePath w1 = (e, w2)" by (meson surj_pair)
  have x2: "ext w2 = p1" using ext_run [OF ext_service(3) 2] by (simp add: w1_def)
  have s2: "files w2 StatusFile = files w StatusFile"
    using seen_run [OF keeps_touch [of StatusFile] 2] svc_paths_apart by (simp add: w1_def)
  have start: "run (handleRoot (New_server env log_svc zombies) rq) w =
      run (case e of Some err \<Rightarrow> do {
          _ \<leftarrow> count_error;
          _ \<leftarrow> log_err log_svc ''state write failed'' [LStr ''path'', LStr StateTouchPath_svc, LStr ''error'', LErr err];
          _ \<leftarrow> SetStatus StatusUnhealthy;
          ret (json_reply 500 state_error_body)
        } | None \<Rightarrow> ret (json_reply 200 (root_body env))) w2"
    using 2 by (auto simp: handleRoot_def New_server_def count_request_def run_on_process w1_def p1_def)
  show ?thesis
  proof (cases e)
    case None
    with 2 touch_ok have "\<exists>n. files w2 = (files w1)(StateTouchPath_svc \<mapsto> n) \<and> fcontent n = ''ok''" by blast
    with start run None x2 p1 show ?thesis by (auto simp: w1_def)
  next
    case (Some err)
    define w3 where "w3 = w2\<lparr>ext := p1\<lparr>svErrors := svErrors p1 + 1\<rparr>\<rparr>"
    obtain u4 w4 where 4: "run (log_err log_svc ''state write failed''
        [LStr ''path'', LStr StateTouchPath_svc, LStr ''error'', LErr err]) w3 = (u4, w4)" by (meson surj_pair)
    obtain e5 w5 where 5: "run (SetStatus StatusUnhealthy) w4 = (e5, w5)" by (meson surj_pair)
    have r: "r = json_reply 500 state_error_body" and w': "w' = w5"
      using run start Some 4 5 x2 by (auto simp: count_error_def run_on_process w3_def)
    have x5: "ext w5 = p1\<lparr>svErrors := svErrors p1 + 1\<rparr>"
      using ext_run [OF ext_service(6) 4] ext_run [OF ext_service(1) 5] by (simp add: w3_def)
    have s4: "files w4 StatusFile = files w StatusFile"
      using seen_run [OF keeps_log_calls(3) 4, of StatusFile] svc_paths_apart s2 by (simp add: w3_def log_svc_def)
    have "files w5 StatusFile = files w StatusFile \<or> (\<exists>n. files w5 StatusFile = Some n \<and> fcontent n = ''Unhealthy'' @ [nl])"
      using writeAtomic_cases [OF _ 5 [unfolded SetStatus_def]] svc_paths_apart(4) s4
      by (auto simp: StatusUnhealthy_def split: if_splits)
    then show ?thesis using r w' x5 p1 by (simp add: json_reply_def)
  qed
qed

text \<open>
  a GET of the root endpoint is answered 200 only after the state file was rewritten, and then
  nothing else changed: the status stays what it was, so an Unhealthy from an earlier failure
  is never taken back. Otherwise it is answered 500, counted as an error, and the status is
  Unhealthy or, if even that could not be written, as before.
\<close>

theorem root_reports_touch:
  "case run (handleRoot (New_server env log_svc zombies) rq) w of (r, w') \<Rightarrow>
     svRequests (ext w') = svRequests (ext w) + 1 \<and>
     (if r = json_reply 200 (root_body env)
      then svErrors (ext w') = svErrors (ext w) \<and>
        (\<exists>n. files w' = (files w)(StateTouchPath_svc \<mapsto> n) \<and> fcontent n = ''ok'')
      else r = json_reply 500 state_error_body \<and> svErrors (ext w') = svErrors (ext w) + 1 \<and>
        (files w' StatusFile = files w StatusFile \<or>
         (\<exists>n. files w' StatusFile = Some n \<and> fcontent n = ''Unhealthy'' @ [nl])))"
proof -
  obtain r w' where run: "run (handleRoot (New_server env log_svc zombies) rq) w = (r, w')" by (meson surj_pair)
  show ?thesis unfolding run prod.case by (rule handleRoot_run [OF run])
qed

subsection \<open>Accounting\<close>

text \<open>A request the multiplexer gives to a handler.\<close>

definition routed :: "request \<Rightarrow> bool" where
  "routed rq \<longleftrightarrow> (rqMethod rq = ''GET'' \<or> rqMethod rq = ''HEAD'') \<and> cleanPath (rqPath rq) = rqPath rq"

definition dropped_reply :: reply where
  "dropped_reply = http_error 503 chaos_body"

definition failed_reply :: reply where
  "failed_reply = json_reply 500 state_error_body"

lemma mux_counts:
  assumes "run (mux (New_server env log_svc zombies) rq) w = (r, w')"
  shows "svRequests (ext w') = svRequests (ext w) + (if routed rq then 1 else 0) \<and>
     svErrors (ext w') = svErrors (ext w) + (if r = failed_reply then 1 else 0) \<and> r \<noteq> dropped_reply"
proof -
  let ?s = "New_server env log_svc zombies"
  have root: "run (handleRoot ?s rq) w = (r, w') \<Longrightarrow>
      svRequests (ext w') = svRequests (ext w) + 1 \<and> svErrors (ext w') = svErrors (ext w) + (if r = failed_reply then 1 else 0) \<and>
      r \<noteq> dropped_reply"
    using handleRoot_run [of env zombies rq w r w']
    by (auto simp: failed_reply_def dropped_reply_def json_reply_def http_error_def split: if_splits)
  have quiet: "run (handleHealth ?s rq) w = (r, w') \<or> run (handleSlow ?s rq) w = (r, w') \<or>
      run (handleHeaders ?s rq) w = (r, w') \<or> run (handleReset ?s rq) w = (r, w') \<Longrightarrow>
      svRequests (ext w') = svRequests (ext w) + 1 \<and> svErrors (ext w') = svErrors (ext w) \<and> r \<noteq> failed_reply \<and> r \<noteq> dropped_reply"
    by (auto simp: handleHealth_def handleSlow_def handleHeaders_def handleReset_def count_request_def sleep_ns_def
        run_on_process failed_reply_def dropped_reply_def json_reply_def http_error_def split: connection.splits)
  show ?thesis
    using assms root quiet
    by (auto simp: mux_def routed_def not_allowed_def failed_reply_def dropped_reply_def json_reply_def http_error_def
        split: if_splits)
qed

lemma srServer_build: "srServer (build cfg l) = New_server (scAppEnv cfg) l (ccZombieChildren (scChaos cfg))"
  by (simp add: build_def)

lemma serve_counts:
  "case run (serve_request (build cfg log_svc) rq) w of (r, w') \<Rightarrow>
     svRequests (ext w') = svRequests (ext w) + (if r = dropped_reply \<or> routed rq then 1 else 0) \<and>
     svErrors (ext w') = svErrors (ext w) + (if r = dropped_reply \<or> r = failed_reply then 1 else 0)"
proof -
  let ?h = "srChaos (build cfg log_svc)"
  obtain r w' where run: "run (serve_request (build cfg log_svc) rq) w = (r, w')" by (meson surj_pair)
  obtain d w1 where 1: "run (drop_draw ?h rq) w = (d, w1)" by (meson surj_pair)
  have c1: "counters w1 = counters w"
    using 1 by (auto simp: drop_draw_def rand_IntN_def run_on_process counters_def split: if_splits)
  show ?thesis
  proof (cases d)
    case True
    obtain u w2 where 2: "run (log_warn log_svc ''chaos drop'' [LStr ''path'', LStr (rqPath rq), LStr ''drop_percent'',
        LInt (chDropPercent ?h)]) w1 = (u, w2)" by (meson surj_pair)
    have "counters w2 = counters w" using ext_run [OF ext_service(5) 2] c1 by (simp add: counters_def)
    with run 1 2 True show ?thesis
      by (auto simp: serve_request_def chaos_ServeHTTP_def drop_request_def if_set_def build_def New_chaos_def
          count_request_def count_error_def run_on_process counters_def dropped_reply_def)
  next
    case False
    let ?pause = "if 0 < chLatencyMS ?h \<and> rqPath rq \<noteq> ''/health'' then sleep_ns (duration_ms (chLatencyMS ?h)) else ret ()"
    obtain u w2 where 2: "run ?pause w1 = (u, w2)" by (meson surj_pair)
    have c2: "counters w2 = counters w"
      using 2 c1 by (auto simp: sleep_ns_def run_on_process counters_def split: if_splits)
    have m: "run (mux (New_server (scAppEnv cfg) log_svc (ccZombieChildren (scChaos cfg))) rq) w2 = (r, w')"
      using run 1 2 False by (simp add: serve_request_def chaos_ServeHTTP_def srServer_build)
    from mux_counts [OF m] c2 run show ?thesis by (auto simp: counters_def)
  qed
qed

text \<open>
  every request that reaches the service is counted once, dropped or served: the request
  counter goes up by one for a dropped request and for one the multiplexer gives to a handler,
  and not at all for a redirect or a refused method; the error counter goes up exactly for a
  drop and for a failed state write.
\<close>

theorem request_accounting:
  "case run (serve_request (build cfg log_svc) rq) w of (r, w') \<Rightarrow>
     svRequests (ext w') = svRequests (ext w) + (if r = dropped_reply \<or> routed rq then 1 else 0) \<and>
     svErrors (ext w') = svErrors (ext w) + (if r = dropped_reply \<or> r = failed_reply then 1 else 0)"
  by (rule serve_counts)

end
