(* ===== verification/SvcCalm.thy ===== *)
theory SvcCalm
  imports SvcReqProps
begin

text \<open>
  The signal files as an abstract state, and the runs in which no system call fails: every
  operation on the files is then the operation of that abstract state.
\<close>

subsection \<open>The abstract state\<close>

record signals =
  sgPID :: "string option"
  sgHealthy :: bool
  sgLoading :: bool
  sgStatus :: "string option"

definition text_at :: "'x world \<Rightarrow> string \<Rightarrow> string option" where
  "text_at w p = map_option fcontent (files w p)"

definition signals_of :: "'x world \<Rightarrow> signals" where
  "signals_of w = \<lparr>sgPID = text_at w PIDFile, sgHealthy = (files w HealthyFile \<noteq> None),
     sgLoading = (files w LoadingFile \<noteq> None), sgStatus = text_at w StatusFile\<rparr>"

text \<open>From here on no call fails, and no temporary file is in the directory.\<close>

definition calm :: "'x world \<Rightarrow> bool" where
  "calm w \<longleftrightarrow> (\<forall>n \<ge> sysno w. fault_at w n = None) \<and> (\<forall>r. files w (tmp_prefix @ r) = None)"

lemma calm_at: "calm w \<Longrightarrow> sysno w \<le> n \<Longrightarrow> fault_at w n = None"
  by (simp add: calm_def)

lemma calm_tmp: "calm w \<Longrightarrow> files w (tmp_prefix @ r) = None"
  by (simp add: calm_def)

lemma tmp_prefix_eq: "Dir @ ''/'' @ ''.tmp-'' @ r = tmp_prefix @ r"
  by (simp add: tmp_prefix_def)

subsection \<open>What the calls do\<close>

text \<open>The world after some calls: only what is named has changed.\<close>

definition after_calls :: "'x world \<Rightarrow> (string \<Rightarrow> fnode option) \<Rightarrow> 'x world \<Rightarrow> bool" where
  "after_calls w fs w' \<longleftrightarrow> calm w' \<and> files w' = fs \<and> ext w' = ext w \<and> self_pid w' = self_pid w"

lemma writeAtomic_calm:
  assumes "calm w" and "dir_of path = Dir" and "\<not> has_prefix path tmp_prefix"
    and run: "run (writeAtomic path data) w = (e, w')"
  shows "e = None \<and> (\<exists>n. fcontent n = data \<and> after_calls w ((files w)(path \<mapsto> n)) w')"
proof -
  let ?r = "rand_at w (randno w)"
  have t: "files w (tmp_prefix @ ?r) = None" by (rule calm_tmp [OF assms(1)])
  have ne: "tmp_prefix @ ?r \<noteq> path" using assms(3) by (auto simp: has_prefix_iff)
  have p: "run (pick_temp 10000 (Dir @ ''/.tmp-'') []) (w\<lparr>sysno := Suc (sysno w)\<rparr>) =
    (Some (tmp_prefix @ ?r), w\<lparr>sysno := Suc (sysno w), randno := Suc (randno w)\<rparr>)"
    using t unfolding pick_temp.simps(2) [of 9999, simplified] by (simp add: tmp_prefix_def)
  have id: "(files w)(tmp_prefix @ ?r := None) = files w" using t by (simp add: fun_upd_idem)
  define n where "n = \<lparr>fcontent = data, fmode = octal [0, 6, 4, 4], fowner = self_user w, fgroup = self_user w, fisdir = False\<rparr>"
  have "\<forall>r. path \<noteq> tmp_prefix @ r" using assms(3) by (auto simp: has_prefix_iff)
  then have "e = None \<and> after_calls w ((files w)(path \<mapsto> n)) w'"
    using run assms(1) ne t
    by (auto simp: writeAtomic_def assms(2) os_CreateTemp_def run_syscall p calm_at new_node_def set_file_def
       fill_signal_temp_def removing_on_error_def closing_on_error_def wrapping_def and_then_def file_Write_def
       append_content_def file_Close_def os_Chmod_def os_Rename_def after_calls_def id n_def calm_def)
  then show ?thesis by (intro conjI exI [of _ n]) (simp_all add: n_def)
qed

lemma Remove_calm:
  assumes "calm w" and "run (os_Remove p) w = (e, w')"
  shows "after_calls w ((files w)(p := None)) w' \<and> (case e of None \<Rightarrow> True | Some x \<Rightarrow> is_not_exist x)"
  using assms
  by (auto simp: os_Remove_def run_syscall calm_def set_file_def after_calls_def fun_upd_idem split: option.splits)

subsection \<open>The signals under the operations\<close>

text \<open>A calm world whose signals are \<open>a\<close>, under the process \<open>p\<close>.\<close>

definition sits :: "signals \<Rightarrow> int \<Rightarrow> 'x world \<Rightarrow> bool" where
  "sits a p w \<longleftrightarrow> calm w \<and> signals_of w = a \<and> self_pid w = p"

lemma signal_files_ne:
  "PIDFile \<noteq> HealthyFile" "PIDFile \<noteq> LoadingFile" "PIDFile \<noteq> StatusFile" "HealthyFile \<noteq> LoadingFile"
  "HealthyFile \<noteq> StatusFile" "LoadingFile \<noteq> StatusFile"
  using signal_files_distinct by auto

lemma not_temp: "\<not> has_prefix PIDFile tmp_prefix" "\<not> has_prefix HealthyFile tmp_prefix"
  "\<not> has_prefix LoadingFile tmp_prefix" "\<not> has_prefix StatusFile tmp_prefix"
  using signal_names by (simp_all add: tmp_prefix_def)

lemmas signals_simps = signals_of_def text_at_def after_calls_def signal_files_ne signal_files_ne [symmetric]

lemma put_sits:
  assumes "dir_of path = Dir" and "\<not> has_prefix path tmp_prefix"
    and "\<And>(w :: 'x world) n. signals_of w = a \<Longrightarrow> fcontent n = data \<Longrightarrow> signals_of (w\<lparr>files := (files w)(path \<mapsto> n)\<rparr>) = b"
  shows "hoare (sits a p) (writeAtomic path data) (\<lambda>e (w :: 'x world). e = None \<and> sits b p w)"
proof (rule hoareI)
  fix w :: "'x world" and e w'
  assume s: "sits a p w" and run: "run (writeAtomic path data) w = (e, w')"
  from writeAtomic_calm [OF _ assms(1,2) run] s obtain n where n: "e = None" "fcontent n = data"
    "after_calls w ((files w)(path \<mapsto> n)) w'" by (auto simp: sits_def)
  have "signals_of w' = signals_of (w\<lparr>files := (files w)(path \<mapsto> n)\<rparr>)"
    using n(3) by (simp add: signals_of_def text_at_def after_calls_def)
  with assms(3) [of w n] s n show "e = None \<and> sits b p w'" by (simp add: sits_def after_calls_def)
qed

lemma SetStatus_sits: "hoare (sits a p) (SetStatus s) (\<lambda>e w. e = None \<and> sits (a\<lparr>sgStatus := Some (s @ [nl])\<rparr>) p w)"
  unfolding SetStatus_def by (rule put_sits) (auto simp: not_temp signals_simps)

lemma CreateLoading_sits: "hoare (sits a p) CreateLoading (\<lambda>e w. e = None \<and> sits (a\<lparr>sgLoading := True\<rparr>) p w)"
  unfolding CreateLoading_def writeEmpty_def by (rule put_sits) (auto simp: not_temp signals_simps)

lemma CreateHealthy_sits: "hoare (sits a p) CreateHealthy (\<lambda>e w. e = None \<and> sits (a\<lparr>sgHealthy := True\<rparr>) p w)"
  unfolding CreateHealthy_def writeEmpty_def by (rule put_sits) (auto simp: not_temp signals_simps)

lemma WritePID_sits: "hoare (sits a p) WritePID (\<lambda>e w. e = None \<and> sits (a\<lparr>sgPID := Some (itoa p @ [nl])\<rparr>) p w)"
proof -
  have "hoare (sits a p) (writeAtomic PIDFile (itoa p @ [nl])) (\<lambda>e w. e = None \<and> sits (a\<lparr>sgPID := Some (itoa p @ [nl])\<rparr>) p w)"
    by (rule put_sits) (auto simp: not_temp signals_simps)
  then show ?thesis by (auto simp: hoare_def WritePID_def os_Getpid_def sits_def)
qed

lemma drop_sits:
  assumes "\<And>w :: 'x world. signals_of w = a \<Longrightarrow> signals_of (w\<lparr>files := (files w)(path := None)\<rparr>) = b"
  shows "hoare (sits a p) (os_Remove path) (\<lambda>e (w :: 'x world). (case e of None \<Rightarrow> True | Some x \<Rightarrow> is_not_exist x) \<and> sits b p w)"
proof (rule hoareI)
  fix w :: "'x world" and e w'
  assume s: "sits a p w" and run: "run (os_Remove path) w = (e, w')"
  have r: "after_calls w ((files w)(path := None)) w' \<and> (case e of None \<Rightarrow> True | Some x \<Rightarrow> is_not_exist x)"
    using Remove_calm [OF _ run] s by (simp add: sits_def)
  have "signals_of w' = signals_of (w\<lparr>files := (files w)(path := None)\<rparr>)"
    using r by (simp add: signals_of_def text_at_def after_calls_def)
  with assms [of w] s r show "(case e of None \<Rightarrow> True | Some x \<Rightarrow> is_not_exist x) \<and> sits b p w'"
    by (simp add: sits_def after_calls_def)
qed

lemma remove_sits:
  "hoare (sits a p) (os_Remove HealthyFile) (\<lambda>_. sits (a\<lparr>sgHealthy := False\<rparr>) p)"
  "hoare (sits a p) (os_Remove LoadingFile) (\<lambda>_. sits (a\<lparr>sgLoading := False\<rparr>) p)"
  "hoare (sits a p) (os_Remove PIDFile) (\<lambda>_. sits (a\<lparr>sgPID := None\<rparr>) p)"
  by (rule hoare_drop [OF drop_sits]; auto simp: signals_simps)+

lemma RemoveLoading_sits:
  "hoare (sits a p) RemoveLoading (\<lambda>e w. e = None \<and> sits (a\<lparr>sgLoading := False\<rparr>) p w)"
  unfolding RemoveLoading_def
  by (rule hoare_bind [OF drop_sits [where b = "a\<lparr>sgLoading := False\<rparr>"]])
     (auto simp: signals_simps hoare_def split: option.splits)

lemma Init_sits:
  "hoare (sits a p) Init (\<lambda>e w. e = None \<and>
     sits (a\<lparr>sgLoading := False, sgHealthy := False, sgStatus := Some (StatusStarting @ [nl])\<rparr>) p w)"
  unfolding Init_def
  by (rule hoare_bind [OF remove_sits(2)], rule hoare_bind [OF remove_sits(1)], rule hoare_weaken [OF SetStatus_sits]) auto

lemma RemovePID_sits: "hoare (sits a p) RemovePID (\<lambda>_. sits (a\<lparr>sgPID := None\<rparr>) p)"
  unfolding RemovePID_def by (rule hoare_bind [OF remove_sits(3)]) (simp add: hoare_return)

lemma BeginShutdown_sits:
  "hoare (sits a p) BeginShutdown (\<lambda>_. sits (a\<lparr>sgStatus := Some (StatusShuttingDown @ [nl]), sgHealthy := False\<rparr>) p)"
  unfolding BeginShutdown_def
  by (rule hoare_bind [OF hoare_drop [OF SetStatus_sits]], rule hoare_bind [OF remove_sits(1)]) (simp add: hoare_return)

subsection \<open>What leaves the signals alone\<close>

definition elsewhere :: "string \<Rightarrow> bool" where
  "elsewhere q \<longleftrightarrow> q \<notin> {PIDFile, HealthyFile, LoadingFile, StatusFile} \<and> \<not> has_prefix q tmp_prefix"

named_theorems sits_rules \<open>operations that leave the signal files alone\<close>

lemma sits_modify:
  "(\<And>w. calm w \<Longrightarrow> calm (f w) \<and> signals_of (f w) = signals_of w \<and> self_pid (f w) = self_pid w) \<Longrightarrow> keeps (sits a p) (modify f)"
  by (intro keeps_modify) (auto simp: sits_def)

lemma sits_syscall [sits_rules]: "keeps (sits a p) syscall"
  by (auto simp: keeps_def hoare_def syscall_def sits_def calm_def signals_of_def text_at_def)

lemma sits_clock [sits_rules]: "keeps (sits a p) time_now"
  by (auto simp: keeps_def hoare_def time_now_def sits_def calm_def signals_of_def text_at_def)

lemma sits_process [sits_rules]: "keeps (sits a p) (on_process f)"
  unfolding on_process_def by (rule sits_modify) (simp add: calm_def signals_of_def text_at_def)

lemma sits_set_file [sits_rules]: "elsewhere q \<Longrightarrow> keeps (sits a p) (set_file q n)"
  unfolding set_file_def
  by (rule sits_modify) (auto simp: calm_def signals_of_def text_at_def elsewhere_def has_prefix_iff)

lemma sits_append [sits_rules]: "elsewhere q \<Longrightarrow> keeps (sits a p) (append_content q s)"
  unfolding append_content_def
  by (rule sits_modify) (auto simp: calm_def signals_of_def text_at_def elsewhere_def has_prefix_iff split: option.splits)

lemma sits_read [sits_rules]: "keeps (sits a p) (os_ReadFile q)" "keeps (sits a p) (file_Close q)"
  unfolding os_ReadFile_def file_Close_def by (intro keeps_rules sits_rules)+

lemma sits_write [sits_rules]:
  assumes "elsewhere q"
  shows "keeps (sits a p) (file_Write q s)" "keeps (sits a p) (os_OpenTrunc q m)" "keeps (sits a p) (os_OpenAppend q m)"
    "keeps (sits a p) (os_Remove q)"
  unfolding file_Write_def os_OpenTrunc_def os_OpenAppend_def os_Remove_def by (intro keeps_rules sits_rules assms)+

lemma elsewhere_paths: "elsewhere LogPath_svc" "elsewhere StateTouchPath_svc" "elsewhere probe_file"
  by (simp_all add: elsewhere_def signal_paths tmp_prefix_def LogPath_svc_def StateTouchPath_svc_def probe_file_def)

lemma sits_log [sits_rules]:
  "keeps (sits a p) (log_info log_svc msg kvs)" "keeps (sits a p) (log_warn log_svc msg kvs)"
  "keeps (sits a p) (log_err log_svc msg kvs)"
  unfolding log_info_def log_warn_def log_err_def log_write_def
  by (intro keeps_rules sits_rules; simp add: log_svc_def elsewhere_paths)+

lemma sits_if_set: "(\<And>x. v = Some x \<Longrightarrow> keeps (sits a p) (f x)) \<Longrightarrow> keeps (sits a p) (if_set v f)"
  by (rule keeps_if_set)

lemma sits_process_ops [sits_rules]:
  "keeps (sits a p) count_request" "keeps (sits a p) count_error" "keeps (sits a p) (sleep_ns d)" "keeps (sits a p) (rand_IntN n)"
  "keeps (sits a p) (StartOOM log_svc)"
  unfolding count_request_def count_error_def sleep_ns_def rand_IntN_def StartOOM_def by (intro keeps_rules sits_rules)+

text \<open>In the calm the state directory can be written: no request fails, no probe.\<close>

lemma OpenTrunc_calm: "hoare (sits a p) (os_OpenTrunc q m) (\<lambda>e _. e = None)"
  by (auto simp: hoare_def os_OpenTrunc_def run_syscall sits_def calm_at split: prod.splits option.splits)

lemma OpenAppend_calm: "hoare (sits a p) (os_OpenAppend q m) (\<lambda>e _. e = None)"
  by (auto simp: hoare_def os_OpenAppend_def run_syscall sits_def calm_at split: prod.splits option.splits)

lemma Write_calm: "hoare (sits a p) (file_Write q s) (\<lambda>e _. e = None)"
  by (auto simp: hoare_def file_Write_def run_syscall sits_def calm_at split: prod.splits)

lemma touch_calm: "hoare (sits a p) touchStatePath (\<lambda>e w. e = None \<and> sits a p w)"
proof -
  note t = elsewhere_paths(2)
  have c: "hoare (sits a p) (file_Close StateTouchPath_svc) (\<lambda>_. sits a p)" using sits_read(2) by (simp add: keeps_def)
  show ?thesis
    unfolding touchStatePath_def
    by (rule hoare_known [OF hoare_keeps [OF OpenTrunc_calm sits_write(2) [OF t]]], simp only: option.case,
        rule hoare_known [OF hoare_keeps [OF Write_calm sits_write(1) [OF t]]], rule hoare_bind [OF c]) (simp add: hoare_return)
qed

lemma probe_calm: "keeps (sits a p) (probeStateDir log_svc)"
proof -
  note t = elsewhere_paths(3)
  have "keeps (sits a p) (do { _ \<leftarrow> file_Close probe_file; _ \<leftarrow> os_Remove probe_file; ret () })"
    by (intro keeps_rules sits_rules t)
  then show ?thesis
    unfolding probeStateDir_def keeps_def
    by (intro hoare_known [OF hoare_keeps [OF OpenTrunc_calm sits_write(2) [OF t]]]) simp
qed

lemma handleRoot_calm: "seLogger s = log_svc \<Longrightarrow> keeps (sits a p) (handleRoot s rq)"
  unfolding handleRoot_def keeps_def
  by (rule hoare_bind [OF sits_process_ops(1) [unfolded keeps_def]],
      rule hoare_bind [OF keeps_if [OF sits_process keeps_return, unfolded keeps_def]], rule hoare_known [OF touch_calm])
     (simp add: hoare_return)

lemma serve_calm: "keeps (sits a p) (serve_request (build cfg log_svc) rq)"
proof -
  have "keeps (sits a p) (mux (srServer (build cfg log_svc)) rq)"
    unfolding mux_def handleHealth_def handleSlow_def handleHeaders_def handleReset_def
    by (intro keeps_rules sits_rules handleRoot_calm) (simp add: build_def New_server_def)
  then show ?thesis
    unfolding serve_request_def chaos_ServeHTTP_def drop_draw_def drop_request_def build_def New_chaos_def
    by (auto intro!: keeps_rules sits_rules keeps_if_set simp: if_set_def)
qed

subsection \<open>The stages\<close>

text \<open>The status a started service announces.\<close>

definition announced_status :: "chaos_config \<Rightarrow> string" where
  "announced_status c = (if IsActive c then StatusDegraded else StatusRunning)"

lemma warn_error_calm:
  assumes "hoare P m (\<lambda>e w. e = None \<and> Q w)"
  shows "hoare P (warn_error l msg m) (\<lambda>_. Q)"
  unfolding warn_error_def by (rule hoare_known [OF assms]) (simp add: if_set_def hoare_return)

lemma hoare_then: "keeps (sits a p) m \<Longrightarrow> (\<And>x. hoare (sits a p) (f x) Q) \<Longrightarrow> hoare (sits a p) (m \<bind> f) Q"
  unfolding keeps_def by (rule hoare_bind)

lemma announce_chaos_calm:
  "hoare (sits a p) (announce_chaos c log_svc)
     (\<lambda>_. sits (if IsActive c then a\<lparr>sgStatus := Some (StatusDegraded @ [nl])\<rparr> else a) p)"
proof -
  have "hoare (sits a p) (do { _ \<leftarrow> SetStatus StatusDegraded; log_warn log_svc msg kvs } :: (svc, unit) state)
    (\<lambda>_. sits (a\<lparr>sgStatus := Some (StatusDegraded @ [nl])\<rparr>) p)" for msg kvs
    by (rule hoare_bind [OF hoare_drop [OF SetStatus_sits]]) (use sits_log(2) in \<open>simp add: keeps_def\<close>)
  then show ?thesis
    unfolding announce_chaos_def
    by (intro hoare_then keeps_if keeps_bind sits_rules keeps_return) (simp_all add: hoare_return)
qed

lemma announce_calm:
  "hoare (sits a p) (announce cfg log_svc)
     (\<lambda>_. sits (a\<lparr>sgLoading := False, sgStatus := Some (announced_status (scChaos cfg) @ [nl])\<rparr>) p)"
  unfolding announce_def
  apply (rule hoare_bind [OF warn_error_calm [OF RemoveLoading_sits]])
  apply (rule hoare_bind [OF warn_error_calm [OF SetStatus_sits]])
  apply (rule hoare_bind [OF announce_chaos_calm])
  apply (rule hoare_then)
   apply (intro keeps_rules sits_rules)
  by (use sits_log(1) in \<open>auto simp: keeps_def announced_status_def elim!: hoare_weaken\<close>)

lemma or_exit_calm:
  "hoare P m (\<lambda>e w. e = None \<and> R w) \<Longrightarrow> hoare R k Q \<Longrightarrow> hoare P (or_exit m rep k) Q"
  unfolding or_exit_def by (erule hoare_known) simp

text \<open>The signals of a service that is up.\<close>

definition up :: "chaos_config \<Rightarrow> int \<Rightarrow> signals" where
  "up c p = \<lparr>sgPID = Some (itoa p @ [nl]), sgHealthy = True, sgLoading = False, sgStatus = Some (announced_status c @ [nl])\<rparr>"

lemma start_logged_calm:
  "hoare (sits a p) (start_logged cfg log_svc) (\<lambda>r w. r = Inr (build cfg log_svc) \<and> sits (up (scChaos cfg) p) p w)"
proof -
  have e: "a\<lparr>sgPID := Some (itoa p @ [nl]), sgHealthy := True, sgLoading := False,
      sgStatus := Some (announced_status (scChaos cfg) @ [nl])\<rparr> = up (scChaos cfg) p"
    by (simp add: up_def)
  show ?thesis
    unfolding start_logged_def
    apply (rule hoare_then [OF sits_log(1)])
    apply (rule or_exit_calm [OF WritePID_sits])
    apply (rule hoare_then [OF probe_calm])
    apply (rule or_exit_calm [OF CreateHealthy_sits])
    apply (rule hoare_bind [OF announce_calm])
    apply (rule hoare_return)
    using e by simp
qed

lemma shutdown_calm:
  "hoare (sits a p) (shutdown (build cfg log_svc) cause inflight drain)
     (\<lambda>_. sits (a\<lparr>sgStatus := Some (StatusShuttingDown @ [nl]), sgHealthy := False, sgPID := None\<rparr>) p)"
proof -
  have l: "srLogger (build cfg log_svc) = log_svc" by (simp add: build_def)
  show ?thesis
    unfolding shutdown_def l log_cause_def
    apply (rule hoare_then)
     apply (cases cause; simp add: sits_rules)
    apply (rule hoare_bind [OF BeginShutdown_sits])
    apply (rule hoare_then [OF sits_log(1)])
    apply (rule hoare_then)
     apply (intro keeps_rules serve_calm)
    apply (rule hoare_then)
     apply (intro keeps_if_set sits_rules)
    apply (rule hoare_bind [OF RemovePID_sits])
    apply (rule hoare_then [OF sits_log(1)])
    unfolding log_close_def
    apply (rule hoare_then [OF sits_read(2)])
    by (simp add: hoare_return)
qed

text \<open>What \<open>Load\<close> makes of a decoded file and the environment.\<close>

definition loaded :: "string \<Rightarrow> string \<Rightarrow> chaos_config \<Rightarrow> svc_config" where
  "loaded addr env c = \<lparr>scAddr = (if addr = [] then ''127.0.0.1:8080'' else addr),
     scAppEnv = SanitizeEnvString (if env = [] then ''prod'' else env), scChaos = c\<rparr>"

lemma run_loadChaos: "ext w' = ext w \<Longrightarrow> run loadChaos w' = (fst (run loadChaos w), w')"
  by (simp add: loadChaos_def os_Getenv_def)

lemma Load_calm:
  assumes "calm w" "files w path = Some n" "\<not> fisdir n" "yaml (fcontent n) = Inr (addr, env)"
  shows "run (Load yaml path) w = (Inr (loaded addr env (fst (run loadChaos w))), w\<lparr>sysno := Suc (sysno w)\<rparr>)"
  using assms run_loadChaos [of "w\<lparr>sysno := Suc (sysno w)\<rparr>" w]
  by (simp add: Load_def os_ReadFile_def run_syscall calm_at loaded_def)

lemma config_elsewhere: "ConfigPath_svc \<noteq> StatusFile" "ConfigPath_svc \<noteq> LoadingFile" "ConfigPath_svc \<noteq> HealthyFile"
  "\<not> has_prefix ConfigPath_svc (Dir @ ''/.tmp-'')"
  by (simp_all add: ConfigPath_svc_def signal_paths)

lemma startup_calm:
  assumes "calm w" "files w ConfigPath_svc = Some n" "\<not> fisdir n" "yaml (fcontent n) = Inr (addr, env)"
  shows "\<exists>w'. run (startup yaml) w = (Inr (build (loaded addr env (fst (run loadChaos w))) log_svc), w') \<and>
     sits (up (scChaos (loaded addr env (fst (run loadChaos w)))) (self_pid w)) (self_pid w) w'"
proof -
  let ?cfg = "loaded addr env (fst (run loadChaos w))"
  have s0: "sits (signals_of w) (self_pid w) w" using assms(1) by (simp add: sits_def)
  obtain e1 w1 where 1: "run Init w = (e1, w1)" by (meson surj_pair)
  obtain e2 w2 where 2: "run CreateLoading w1 = (e2, w2)" by (meson surj_pair)
  from hoareD [OF Init_sits s0 1] obtain a1 where e1: "e1 = None" and s1: "sits a1 (self_pid w) w1" by blast
  from hoareD [OF CreateLoading_sits s1 2] obtain a2 where e2: "e2 = None" and s2: "sits a2 (self_pid w) w2" by blast
  have "keeps (file_is ConfigPath_svc c) Init" "keeps (file_is ConfigPath_svc c) CreateLoading" for c
    unfolding Init_def CreateLoading_def writeEmpty_def using config_elsewhere
    by (auto intro!: keeps_rules keeps_Remove keeps_SetStatus keeps_writeAtomic)
  then have f2: "files w2 ConfigPath_svc = Some n"
    using seen_run [OF _ 1, of ConfigPath_svc] seen_run [OF _ 2, of ConfigPath_svc] assms(2) by simp
  have "keeps (ctx_is id c) Init" "keeps (ctx_is id c) CreateLoading" for c
    unfolding Init_def CreateLoading_def writeEmpty_def by (intro keeps_rules ext_rules)+
  then have x2: "ext w2 = ext w" using ext_run [OF _ 1] ext_run [OF _ 2] by simp
  define w3 where "w3 = w2\<lparr>sysno := Suc (sysno w2)\<rparr>"
  have 3: "run (Load yaml ConfigPath_svc) w2 = (Inr ?cfg, w3)"
    using Load_calm [of w2 ConfigPath_svc n yaml addr env] f2 assms(3,4) s2 run_loadChaos [OF x2] by (simp add: sits_def w3_def)
  have s3: "sits a2 (self_pid w) w3" using s2
    by (simp add: sits_def w3_def calm_def signals_of_def text_at_def)
  obtain g w4 where 4: "run (New_logger LogPath_svc) w3 = (g, w4)" by (meson surj_pair)
  have "hoare (sits a2 (self_pid w)) (New_logger LogPath_svc) (\<lambda>r w'. r = Inr log_svc \<and> sits a2 (self_pid w) w')"
    unfolding New_logger_def
    by (rule hoare_known [OF hoare_keeps [OF OpenAppend_calm sits_write(3) [OF elsewhere_paths(1)]]])
       (simp add: log_svc_def hoare_return)
  from hoareD [OF this s3 4] have g: "g = Inr log_svc" and s4: "sits a2 (self_pid w) w4" by auto
  obtain r w5 where 5: "run (start_logged ?cfg log_svc) w4 = (r, w5)" by (meson surj_pair)
  from hoareD [OF start_logged_calm s4 5] have "r = Inr (build ?cfg log_svc)" "sits (up (scChaos ?cfg) (self_pid w)) (self_pid w) w5"
    by auto
  moreover have "run (startup yaml) w = run (start_logged ?cfg log_svc) w4"
    by (simp add: startup_def or_exit_def 1 2 e1 e2 3 4 g)
  ultimately show ?thesis using 5 by auto
qed

subsection \<open>The signal protocol\<close>

text \<open>The operations of the package as operations of the abstract state.\<close>

datatype signal_op = OpInit | OpLoading | OpPID | OpHealthy | OpLoaded | OpStatus string | OpBeginShutdown | OpRemovePID

fun perform :: "signal_op \<Rightarrow> (svc, go_error option) state" where
  "perform OpInit = Init"
| "perform OpLoading = CreateLoading"
| "perform OpPID = WritePID"
| "perform OpHealthy = CreateHealthy"
| "perform OpLoaded = RemoveLoading"
| "perform (OpStatus s) = SetStatus s"
| "perform OpBeginShutdown = do { _ \<leftarrow> BeginShutdown; ret None }"
| "perform OpRemovePID = do { _ \<leftarrow> RemovePID; ret None }"

fun signal_effect :: "int \<Rightarrow> signal_op \<Rightarrow> signals \<Rightarrow> signals" where
  "signal_effect p OpInit a = a\<lparr>sgLoading := False, sgHealthy := False, sgStatus := Some (StatusStarting @ [nl])\<rparr>"
| "signal_effect p OpLoading a = a\<lparr>sgLoading := True\<rparr>"
| "signal_effect p OpPID a = a\<lparr>sgPID := Some (itoa p @ [nl])\<rparr>"
| "signal_effect p OpHealthy a = a\<lparr>sgHealthy := True\<rparr>"
| "signal_effect p OpLoaded a = a\<lparr>sgLoading := False\<rparr>"
| "signal_effect p (OpStatus s) a = a\<lparr>sgStatus := Some (s @ [nl])\<rparr>"
| "signal_effect p OpBeginShutdown a = a\<lparr>sgStatus := Some (StatusShuttingDown @ [nl]), sgHealthy := False\<rparr>"
| "signal_effect p OpRemovePID a = a\<lparr>sgPID := None\<rparr>"

lemma perform_sits: "hoare (sits a p) (perform opn) (\<lambda>e w. e = None \<and> sits (signal_effect p opn a) p w)"
proof (cases opn)
  case OpBeginShutdown
  then show ?thesis by (simp add: hoare_bind [OF BeginShutdown_sits] hoare_return)
next
  case OpRemovePID
  then show ?thesis by (simp add: hoare_bind [OF RemovePID_sits] hoare_return)
qed (simp_all add: Init_sits CreateLoading_sits WritePID_sits CreateHealthy_sits RemoveLoading_sits SetStatus_sits)

text \<open>
  The protocol as an interface: operations that do to the files, seen through \<open>view\<close>, what they do
  to the abstract state; then so does every sequence of them.
\<close>

locale signal_protocol =
  fixes oper :: "signal_op \<Rightarrow> ('w, 'e option) state" and view :: "signals \<Rightarrow> int \<Rightarrow> 'w \<Rightarrow> bool"
  assumes oper_view: "hoare (view a p) (oper opn) (\<lambda>e w. e = None \<and> view (signal_effect p opn a) p w)"
begin

lemma opers_view:
  "hoare (view a p) (for_each oper ops) (\<lambda>e w. e = None \<and> view (fold (signal_effect p) ops a) p w)"
proof (induction ops arbitrary: a)
  case Nil
  then show ?case by (simp add: hoare_return)
next
  case (Cons opn ops)
  show ?case
    unfolding for_each.simps and_then_def by (rule hoare_known [OF oper_view]) (simp add: Cons)
qed

text \<open>Performed in the order of startup, the operations announce a service that is up.\<close>

lemma startup_order:
  "hoare (view a p) (for_each oper [OpInit, OpLoading, OpPID, OpHealthy, OpLoaded, OpStatus (announced_status c)])
     (\<lambda>e w. e = None \<and> view (up c p) p w)"
proof -
  have "fold (signal_effect p) [OpInit, OpLoading, OpPID, OpHealthy, OpLoaded, OpStatus (announced_status c)] a = up c p"
    by (simp add: up_def)
  with opers_view show ?thesis by metis
qed

end

interpretation sig: signal_protocol perform sits
  by unfold_locales (rule perform_sits)

end
