(* ===== verification/SvcLife.thy ===== *)
theory SvcLife
  imports SvcCalm
begin

text \<open>
  The life of the service as a step machine: it starts, answers requests, writes telemetry,
  receives signals, stops or is killed, and starts again; between the steps anything outside may
  happen to the other files. The invariant and the outcomes of startup and shutdown.
\<close>

subsection \<open>The machine\<close>

datatype phase = Down | Serving serving

text \<open>What happens outside leaves the two markers and the identity of the process alone.\<close>

definition outside_step :: "svc \<Rightarrow> svc \<Rightarrow> bool" where
  "outside_step w w' \<longleftrightarrow> files w' HealthyFile = files w HealthyFile \<and> files w' PIDFile = files w PIDFile \<and> self_pid w' = self_pid w"

definition may_stop :: "serving \<Rightarrow> stop_cause \<Rightarrow> bool" where
  "may_stop sv c = (case c of Signalled s \<Rightarrow> stops_on (scChaos (srConfig sv)) s | ServerFailed _ \<Rightarrow> True)"

inductive svc_step :: "yaml_decoder \<Rightarrow> phase \<times> svc \<Rightarrow> phase \<times> svc \<Rightarrow> bool" for yaml where
  start: "files w0 = files w \<Longrightarrow> run (startup yaml) w0 = (Inr sv, w') \<Longrightarrow> svc_step yaml (Down, w) (Serving sv, w')"
| start_failed: "files w0 = files w \<Longrightarrow> run (startup yaml) w0 = (Inl c, w') \<Longrightarrow> svc_step yaml (Down, w) (Down, w')"
| request: "run (serve_request sv rq) w = (r, w') \<Longrightarrow> svc_step yaml (Serving sv, w) (Serving sv, w')"
| telemetry: "clLogger c = Some (srLogger sv) \<Longrightarrow> run (safeWrite c) w = (u, w') \<Longrightarrow>
    svc_step yaml (Serving sv, w) (Serving sv, w')"
| ignored: "\<not> may_stop sv (Signalled s) \<Longrightarrow> svc_step yaml (Serving sv, w) (Serving sv, w)"
| stop: "may_stop sv c \<Longrightarrow> run (shutdown sv c inflight drain) w = (u, w') \<Longrightarrow> svc_step yaml (Serving sv, w) (Down, w')"
| killed: "svc_step yaml (Serving sv, w) (Down, w)"
| others: "outside_step w w' \<Longrightarrow> svc_step yaml (ph, w) (ph, w')"

inductive svc_reach :: "yaml_decoder \<Rightarrow> phase \<times> svc \<Rightarrow> phase \<times> svc \<Rightarrow> bool" for yaml s where
  here: "svc_reach yaml s s"
| next_step: "svc_reach yaml s t \<Longrightarrow> svc_step yaml t u \<Longrightarrow> svc_reach yaml s u"

inductive_cases svc_stepE: "svc_step yaml s t"

subsection \<open>Frames of the stages\<close>

definition not_tmp :: "string \<Rightarrow> bool" where
  "not_tmp q \<longleftrightarrow> \<not> has_prefix q (Dir @ ''/.tmp-'')"

lemma not_tmp_files: "not_tmp PIDFile" "not_tmp HealthyFile" "not_tmp LoadingFile" "not_tmp StatusFile"
  using signal_names by (simp_all add: not_tmp_def)

lemma keeps_signal:
  "not_tmp q \<Longrightarrow> q \<noteq> StatusFile \<Longrightarrow> keeps (file_is q c) (SetStatus s)"
  "not_tmp q \<Longrightarrow> q \<noteq> HealthyFile \<Longrightarrow> keeps (file_is q c) CreateHealthy"
  "q \<noteq> LoadingFile \<Longrightarrow> keeps (file_is q c) RemoveLoading"
  unfolding SetStatus_def CreateHealthy_def writeEmpty_def RemoveLoading_def not_tmp_def
  by (auto intro!: keeps_writeAtomic keeps_rules keeps_Remove)

lemma keeps_logs: "q \<noteq> LogPath_svc \<Longrightarrow> keeps (file_is q c) (log_info log_svc msg kvs)"
  "q \<noteq> LogPath_svc \<Longrightarrow> keeps (file_is q c) (log_warn log_svc msg kvs)"
  "q \<noteq> LogPath_svc \<Longrightarrow> keeps (file_is q c) (log_err log_svc msg kvs)"
  by (auto intro!: keeps_log_calls simp: log_svc_def)

lemma keeps_probe:
  "not_tmp q \<Longrightarrow> q \<noteq> StatusFile \<Longrightarrow> q \<noteq> probe_file \<Longrightarrow> q \<noteq> LogPath_svc \<Longrightarrow> keeps (file_is q c) (probeStateDir log_svc)"
  unfolding probeStateDir_def by (auto intro!: keeps_rules keeps_OpenTrunc keeps_Remove keeps_signal keeps_logs)

lemma keeps_OOM: "q \<noteq> LogPath_svc \<Longrightarrow> keeps (file_is q c) (StartOOM log_svc)"
  by (intro keeps_StartOOM) (simp add: log_svc_def)

lemma keeps_warn_error:
  assumes "keeps (file_is q c) m" and "q \<noteq> LogPath_svc"
  shows "keeps (file_is q c) (warn_error log_svc msg m)"
  unfolding warn_error_def by (intro keeps_rules keeps_if_set keeps_logs assms)

lemma keeps_announce:
  assumes "not_tmp q" "q \<noteq> StatusFile" "q \<noteq> LoadingFile" "q \<noteq> LogPath_svc"
  shows "keeps (file_is q c) (announce cfg log_svc)"
  unfolding announce_def announce_chaos_def
  by (intro keeps_rules keeps_warn_error keeps_signal keeps_logs keeps_OOM assms)

lemma keeps_serving:
  assumes "not_tmp q" "q \<noteq> StatusFile" "q \<noteq> LogPath_svc" "q \<noteq> StateTouchPath_svc"
  shows "keeps (file_is q c) (serve_request (build cfg log_svc) rq)"
proof -
  have "keeps (file_is q c) (mux (srServer (build cfg log_svc)) rq)"
    by (intro keeps_mux) (use assms in \<open>auto simp: build_def New_server_def log_svc_def not_tmp_def\<close>)
  then show ?thesis
    unfolding serve_request_def
    by (intro keeps_chaos) (use assms in \<open>auto simp: build_def New_chaos_def log_svc_def\<close>)
qed

lemma keeps_telemetry:
  assumes "not_tmp q" "q \<noteq> TelemetryFile" "clLogger c = Some log_svc" "q \<noteq> LogPath_svc"
  shows "keeps (file_is q x) (safeWrite c)"
proof -
  have tmp: "TelemetryFile = Dir @ ''/telemetry.json''" "dir_of TelemetryFile = Dir"
    by (simp_all add: TelemetryFile_def Dir_def dir_of_def)
  have w: "keeps (file_is q x) (telemetry_writeAtomic TelemetryFile data)" for data
    unfolding telemetry_writeAtomic_def tmp(2)
    by (intro keeps_CreateTemp_any)
       (use assms in \<open>auto simp: not_tmp_def has_prefix_iff
          intro!: keeps_rules keeps_removing keeps_Write keeps_Chmod keeps_Rename\<close>)
  have n: "keeps (file_is q x) now_both"
    by (simp add: keeps_def hoare_def now_both_def seen_defs)
  have s: "keeps (file_is q x) (take_snapshot c)"
    unfolding take_snapshot_def cpuPercent_def readCPUSample_def memoryRSSMB_def openFDCount_def filesystemUsage_def
    by (intro keeps_rules n)
  show ?thesis
    unfolding safeWrite_def recovering_def telemetry_write_def
    by (intro keeps_rules s w) (use assms in \<open>auto intro!: keeps_rules keeps_logs split: outcome.splits\<close>)
qed

lemma marker_paths:
  "HealthyFile \<noteq> StatusFile" "HealthyFile \<noteq> LoadingFile" "HealthyFile \<noteq> PIDFile" "PIDFile \<noteq> StatusFile" "PIDFile \<noteq> LoadingFile"
  "PIDFile \<noteq> HealthyFile"
  "q \<in> {HealthyFile, PIDFile} \<Longrightarrow> q \<noteq> LogPath_svc \<and> q \<noteq> StateTouchPath_svc \<and> q \<noteq> probe_file \<and> q \<noteq> TelemetryFile"
  by (auto simp: signal_paths LogPath_svc_def StateTouchPath_svc_def probe_file_def TelemetryFile_def)

subsection \<open>Startup\<close>

lemma or_exit_Inr:
  "run (or_exit m rep k) w = (Inr x, w') \<longleftrightarrow> (\<exists>w1. run m w = (None, w1) \<and> run k w1 = (Inr x, w'))"
  by (auto simp: or_exit_def case_prod_beta split: option.splits) (metis prod.collapse)+

lemma or_exit_E:
  assumes "run (or_exit m rep k) w = (Inr x, w')"
  obtains w1 where "run m w = (None, w1)" "run k w1 = (Inr x, w')"
  using assms unfolding or_exit_Inr by blast

definition announced :: "svc \<Rightarrow> bool" where
  "announced w \<longleftrightarrow> files w HealthyFile \<noteq> None \<and> map_option fcontent (files w PIDFile) = Some (itoa (self_pid w) @ [nl])"

lemma WritePID_ok:
  assumes "run WritePID w = (None, w')"
  shows "map_option fcontent (files w' PIDFile) = Some (itoa (self_pid w') @ [nl])"
proof -
  have 1: "run (writeAtomic PIDFile (itoa (self_pid w) @ [nl])) w = (None, w')"
    using assms by (simp add: WritePID_def os_Getpid_def)
  have "self_pid w' = self_pid w"
  proof -
    have "keeps (file_is StatusFile (seen StatusFile w)) (writeAtomic PIDFile (itoa (self_pid w) @ [nl]))"
      using marker_paths(4) not_tmp_files(4) by (intro keeps_writeAtomic) (simp_all add: not_tmp_def)
    from keepsD [OF this _ 1] show ?thesis by (simp add: seen_defs)
  qed
  with writeAtomic_cases [OF _ 1] signal_names(1) show ?thesis by auto
qed

lemma seen_keeps: "(\<And>c. keeps (file_is q c) m) \<Longrightarrow> run m w = (r, w') \<Longrightarrow> files w' q = files w q \<and> self_pid w' = self_pid w"
  using keepsD [of "file_is q (seen q w)" m w r w'] by (simp add: seen_defs)

lemma start_logged_serving:
  assumes "run (start_logged cfg log_svc) w = (Inr sv, w')"
  shows "sv = build cfg log_svc \<and> announced w'"
proof -
  from assms obtain w1 where "run (or_exit WritePID (\<lambda>err. log_err log_svc ''writing PID file'' [LStr ''error'', LErr err]) (do {
       _ \<leftarrow> probeStateDir log_svc;
       or_exit CreateHealthy (\<lambda>err. log_err log_svc ''creating healthy marker'' [LStr ''error'', LErr err]) (do {
         _ \<leftarrow> announce cfg log_svc;
         ret (Inr (build cfg log_svc))
       })
     })) w1 = (Inr sv, w')"
    by (auto simp: start_logged_def split: prod.splits)
  then obtain w2 where 2: "run WritePID w1 = (None, w2)" and rest: "run (do {
       _ \<leftarrow> probeStateDir log_svc;
       or_exit CreateHealthy (\<lambda>err. log_err log_svc ''creating healthy marker'' [LStr ''error'', LErr err]) (do {
         _ \<leftarrow> announce cfg log_svc;
         ret (Inr (build cfg log_svc))
       })
     }) w2 = (Inr sv, w')" by (rule or_exit_E) (rule that)
  obtain u3 w3 where 3: "run (probeStateDir log_svc) w2 = (u3, w3)" by (meson surj_pair)
  have "run (or_exit CreateHealthy (\<lambda>err. log_err log_svc ''creating healthy marker'' [LStr ''error'', LErr err]) (do {
         _ \<leftarrow> announce cfg log_svc;
         ret (Inr (build cfg log_svc))
       })) w3 = (Inr sv, w')"
    using rest unfolding run_state_bind 3 Let_def prod.case .
  then obtain w4 where 4: "run CreateHealthy w3 = (None, w4)"
    and 5: "run (do { _ \<leftarrow> announce cfg log_svc; ret (Inr (build cfg log_svc)) } :: (svc, int + serving) state) w4 = (Inr sv, w')"
    by (rule or_exit_E) (rule that)
  obtain u5 w5 where 6: "run (announce cfg log_svc) w4 = (u5, w5)" by (meson surj_pair)
  have w5: "w' = w5" "sv = build cfg log_svc"
    using 5 unfolding run_state_bind 6 prod.case run_state_return by simp_all
  note m = marker_paths not_tmp_files
  have "map_option fcontent (files w2 PIDFile) = Some (itoa (self_pid w2) @ [nl])" by (rule WritePID_ok [OF 2])
  moreover have "files w3 PIDFile = files w2 PIDFile \<and> self_pid w3 = self_pid w2"
    using m by (intro seen_keeps [OF keeps_probe 3]) auto
  moreover have "files w4 PIDFile = files w3 PIDFile \<and> self_pid w4 = self_pid w3"
    using m by (intro seen_keeps [OF keeps_signal(2) 4]) auto
  moreover have "files w5 PIDFile = files w4 PIDFile \<and> self_pid w5 = self_pid w4"
    using m by (intro seen_keeps [OF keeps_announce 6]) auto
  moreover have "files w5 HealthyFile = files w4 HealthyFile"
    using m by (intro conjunct1 [OF seen_keeps [OF keeps_announce 6]]) auto
  moreover have "files w4 HealthyFile \<noteq> None"
    using writeAtomic_cases [OF _ 4 [unfolded CreateHealthy_def writeEmpty_def]] signal_names(2) by auto
  ultimately show ?thesis by (simp add: announced_def w5)
qed

lemma startup_serving:
  assumes "run (startup yaml) w = (Inr sv, w')"
  shows "\<exists>cfg. sv = build cfg log_svc \<and> announced w'"
proof -
  from assms obtain v where "run (do {
       r \<leftarrow> Load yaml ConfigPath_svc;
       (case r of
          Inl err \<Rightarrow> do { _ \<leftarrow> to_stderr ''config.Load failed: '' err; ret (Inl 1) }
        | Inr cfg \<Rightarrow> do {
            g \<leftarrow> New_logger LogPath_svc;
            (case g of
               Inl err \<Rightarrow> do { _ \<leftarrow> log_Stderr (''opening log file failed: '' @ error_text err); ret (Inl 1) }
             | Inr l \<Rightarrow> start_logged cfg l)
          })
     }) v = (Inr sv, w')" unfolding startup_def by (elim or_exit_E)
  then obtain cfg l v1 where "run (start_logged cfg l) v1 = (Inr sv, w')" "l = log_svc"
    by (auto simp: New_logger_def log_svc_def split: sum.splits prod.splits option.splits)
  with start_logged_serving show ?thesis by blast
qed

subsection \<open>The invariant\<close>

definition phase_ok :: "phase \<times> svc \<Rightarrow> bool" where
  "phase_ok s = (case s of (Serving sv, w) \<Rightarrow> (\<exists>cfg. sv = build cfg log_svc) \<and> announced w | (Down, _) \<Rightarrow> True)"

lemma announced_frame:
  assumes "announced w" and "\<And>q c. q \<in> {HealthyFile, PIDFile} \<Longrightarrow> keeps (file_is q c) m" and "run m w = (r, w')"
  shows "announced w'"
  using assms(1) seen_keeps [OF assms(2,3), of HealthyFile] seen_keeps [OF assms(2,3), of PIDFile]
  by (simp add: announced_def)

lemma svc_step_ok: "svc_step yaml s t \<Longrightarrow> phase_ok s \<Longrightarrow> phase_ok t"
proof (induction rule: svc_step.induct)
  case (start w0 w sv w')
  with startup_serving show ?case by (auto simp: phase_ok_def)
next
  case (request sv rq w r w')
  then obtain cfg where sv: "sv = build cfg log_svc" and a: "announced w" by (auto simp: phase_ok_def)
  have "announced w'"
    by (rule announced_frame [OF a _ request(1)]) (use marker_paths not_tmp_files sv in \<open>auto intro!: keeps_serving\<close>)
  with sv show ?case by (auto simp: phase_ok_def)
next
  case (telemetry c sv w u w')
  then obtain cfg where sv: "sv = build cfg log_svc" and a: "announced w" by (auto simp: phase_ok_def)
  have l: "clLogger c = Some log_svc" using telemetry sv by (simp add: build_def)
  have "announced w'"
    by (rule announced_frame [OF a _ telemetry(2)]) (use marker_paths not_tmp_files l in \<open>auto intro!: keeps_telemetry\<close>)
  with sv show ?case by (auto simp: phase_ok_def)
next
  case (others w w' ph)
  then show ?case by (auto simp: phase_ok_def announced_def outside_step_def split: phase.splits)
qed (simp_all add: phase_ok_def)

lemma svc_reach_ok: "svc_reach yaml s t \<Longrightarrow> phase_ok s \<Longrightarrow> phase_ok t"
  by (induction rule: svc_reach.induct) (use svc_step_ok in blast)+

subsection \<open>Properties\<close>

definition demo_yaml :: yaml_decoder where
  "demo_yaml text = (if text = ''ok'' then Inr (''127.0.0.1:8080'', ''prod'') else Inl (Errorf ''yaml''))"

definition demo_installed :: svc where
  "demo_installed = demo_svc [(ConfigPath_svc, ''ok'')] []"

lemma demo_calm: "calm demo_installed"
  by (auto simp: calm_def demo_installed_def demo_svc_def demo_world_def tmp_prefix_def ConfigPath_svc_def Dir_def)

lemma demo_config: "files demo_installed ConfigPath_svc =
    Some \<lparr>fcontent = ''ok'', fmode = 420, fowner = ''root'', fgroup = ''root'', fisdir = False\<rparr>"
  by (simp add: demo_installed_def demo_svc_def demo_world_def)



text \<open>
  C14: when no system call fails and the configuration decodes, startup succeeds: the service
  has the configuration of the file and the environment, the healthy marker and the PID file
  are there, the loading marker is gone, and the status is Running, or Degraded when a chaos
  mode is active.
\<close>

theorem startup_serves:
  assumes "calm w" and "files w ConfigPath_svc = Some n" and "\<not> fisdir n" and "yaml (fcontent n) = Inr (addr, env)"
  shows "case run (startup yaml) w of (Inl _, _) \<Rightarrow> False
    | (Inr sv, w') \<Rightarrow> srConfig sv = loaded addr env (fst (run loadChaos w)) \<and>
        signals_of w' = \<lparr>sgPID = Some (itoa (self_pid w) @ [nl]), sgHealthy = True, sgLoading = False,
          sgStatus = Some ((if IsActive (scChaos (srConfig sv)) then StatusDegraded else StatusRunning) @ [nl])\<rparr>"
  using startup_calm [of w n yaml addr env] assms by (auto simp: sits_def up_def announced_status_def build_def)

theorem startup_serves_witness:
  "case run (startup demo_yaml) demo_installed of (Inl _, _) \<Rightarrow> False
    | (Inr sv, w') \<Rightarrow> ccLatencyMS (scChaos (srConfig sv)) = 400 \<and> sgStatus (signals_of w') = Some (''Degraded'' @ [nl])"
proof -
  have c: "fst (run loadChaos demo_installed) = \<lparr>ccLatencyMS = 400, ccDropPercent = 30, ccOOMTrigger = False,
      ccIgnoreSIGTERM = False, ccZombieChildren = False\<rparr>"
    by code_simp
  show ?thesis
    using startup_serves [OF demo_calm demo_config, of demo_yaml]
    by (auto simp: demo_yaml_def c loaded_def IsActive_def StatusDegraded_def split: prod.splits sum.splits)
qed

text \<open>
  C15: a shutdown in which no system call fails leaves the status ShuttingDown and neither the
  healthy marker nor the PID file, whatever stopped the service, however many requests were
  in flight and whether or not they drained in time.
\<close>

theorem shutdown_clean:
  assumes "calm w"
  shows "case run (shutdown (build cfg log_svc) cause inflight drain) w of (_, w') \<Rightarrow>
     signals_of w' = (signals_of w)\<lparr>sgStatus := Some (StatusShuttingDown @ [nl]), sgHealthy := False, sgPID := None\<rparr>"
proof -
  have "sits (signals_of w) (self_pid w) w" using assms by (simp add: sits_def)
  from hoareD [OF shutdown_calm this] show ?thesis by (auto simp: sits_def split: prod.splits)
qed

theorem shutdown_clean_witness:
  "case run (shutdown (build (loaded [] [] no_chaos) log_svc) (Signalled SIGTERM)
      [\<lparr>rqMethod = ''GET'', rqPath = ''/'', rqHeaders = [], rqConn = NoHijacker\<rparr>] None) demo_installed of (_, w') \<Rightarrow>
     signals_of w' = \<lparr>sgPID = None, sgHealthy = False, sgLoading = False, sgStatus = Some (''ShuttingDown'' @ [nl])\<rparr>"
proof -
  have "signals_of demo_installed = \<lparr>sgPID = None, sgHealthy = False, sgLoading = False, sgStatus = None\<rparr>" by code_simp
  with shutdown_clean [OF demo_calm, of "loaded [] [] no_chaos" "Signalled SIGTERM"
      "[\<lparr>rqMethod = ''GET'', rqPath = ''/'', rqHeaders = [], rqConn = NoHijacker\<rparr>]" None]
  show ?thesis by (simp add: StatusShuttingDown_def)
qed

text \<open>
  C38: the verdict of the startup probe is lost. When the state directory cannot be written,
  the probe sets the status to Unhealthy; the announcement that follows sets it to Running or
  Degraded all the same.
\<close>

theorem probe_verdict_lost:
  assumes "calm (w\<lparr>sysno := Suc (sysno w)\<rparr>)" and "fault_at w (sysno w) = Some e"
  shows "case run (probeStateDir log_svc) w of (_, w1) \<Rightarrow>
     sgStatus (signals_of w1) = Some (StatusUnhealthy @ [nl]) \<and>
     (case run (do { _ \<leftarrow> CreateHealthy; announce cfg log_svc }) w1 of (_, w2) \<Rightarrow>
        sgStatus (signals_of w2) = Some (announced_status (scChaos cfg) @ [nl]) \<and>
        sgStatus (signals_of w2) \<noteq> Some (StatusUnhealthy @ [nl]))"
proof -
  let ?v = "w\<lparr>sysno := Suc (sysno w)\<rparr>" and ?p = "self_pid w"
  have s0: "sits (signals_of ?v) ?p ?v" using assms(1) by (simp add: sits_def)
  define rest where "rest = (do { _ \<leftarrow> log_warn log_svc ''state directory not writable at startup''
      [LStr ''path'', LStr ''/var/lib/app'', LStr ''error'', LErr (PathError ''open'' probe_file e)];
      _ \<leftarrow> SetStatus StatusUnhealthy; ret () } :: (svc, unit) state)"
  have 1: "run (probeStateDir log_svc) w = run rest ?v"
    using assms(2) by (simp add: probeStateDir_def rest_def os_OpenTrunc_def run_syscall)
  obtain u w1 where 2: "run rest ?v = (u, w1)" by (meson surj_pair)
  have "hoare (sits (signals_of ?v) ?p) rest (\<lambda>_. sits ((signals_of ?v)\<lparr>sgStatus := Some (StatusUnhealthy @ [nl])\<rparr>) ?p)"
    unfolding rest_def
    by (rule hoare_then [OF sits_log(2)], rule hoare_bind [OF hoare_drop [OF SetStatus_sits]]) (simp add: hoare_return)
  from hoareD [OF this s0 2] have s1: "sits ((signals_of ?v)\<lparr>sgStatus := Some (StatusUnhealthy @ [nl])\<rparr>) ?p w1" .
  obtain x w2 where 3: "run (do { _ \<leftarrow> CreateHealthy; announce cfg log_svc }) w1 = (x, w2)" by (meson surj_pair)
  have "hoare (sits a ?p) (do { _ \<leftarrow> CreateHealthy; announce cfg log_svc })
     (\<lambda>_. sits (a\<lparr>sgHealthy := True, sgLoading := False, sgStatus := Some (announced_status (scChaos cfg) @ [nl])\<rparr>) ?p)" for a
    by (rule hoare_bind [OF hoare_drop [OF CreateHealthy_sits]]) (rule announce_calm)
  from hoareD [OF this s1 3] s1 show ?thesis
    unfolding 1 2 3 prod.case
    by (simp add: sits_def announced_status_def StatusDegraded_def StatusRunning_def StatusUnhealthy_def)
qed

theorem probe_verdict_lost_witness:
  "case run (probeStateDir log_svc) (demo_svc [(LogPath_svc, [])] [(0, EACCES)]) of (_, w1) \<Rightarrow>
     sgStatus (signals_of w1) = Some (''Unhealthy'' @ [nl]) \<and>
     (case run (do { _ \<leftarrow> CreateHealthy; announce (loaded [] [] no_chaos) log_svc }) w1 of (_, w2) \<Rightarrow>
        sgStatus (signals_of w2) = Some (''Running'' @ [nl]))"
proof -
  let ?w = "demo_svc [(LogPath_svc, [])] [(0, EACCES)]"
  have "calm (?w\<lparr>sysno := Suc (sysno ?w)\<rparr>)" "fault_at ?w (sysno ?w) = Some EACCES"
    by (auto simp: calm_def demo_svc_def demo_world_def tmp_prefix_def LogPath_svc_def Dir_def)
  from probe_verdict_lost [OF this, of "loaded [] [] no_chaos"] show ?thesis
    by (simp add: case_prod_beta announced_status_def loaded_def no_chaos_def IsActive_def StatusRunning_def StatusUnhealthy_def)
qed

text \<open>
  C18: the operations on the signal files, performed in any order while no system call fails,
  succeed and do to the files what they do to the abstract state of PID, markers and status.
\<close>

theorem signals_refine:
  assumes "calm w"
  shows "case run (for_each perform ops) w of (e, w') \<Rightarrow>
     e = None \<and> calm w' \<and> signals_of w' = fold (signal_effect (self_pid w)) ops (signals_of w)"
proof -
  have "sits (signals_of w) (self_pid w) w" using assms by (simp add: sits_def)
  from hoareD [OF sig.opers_view this] show ?thesis by (auto simp: sits_def split: prod.splits)
qed

theorem signals_refine_witness:
  "case run (for_each perform [OpInit, OpLoading, OpPID, OpHealthy, OpLoaded, OpStatus StatusRunning]) demo_installed of (e, w') \<Rightarrow>
     signals_of w' = \<lparr>sgPID = Some (''100'' @ [nl]), sgHealthy = True, sgLoading = False, sgStatus = Some (''Running'' @ [nl])\<rparr>"
proof -
  have "fold (signal_effect (self_pid demo_installed)) [OpInit, OpLoading, OpPID, OpHealthy, OpLoaded, OpStatus StatusRunning]
      (signals_of demo_installed) =
    \<lparr>sgPID = Some (''100'' @ [nl]), sgHealthy = True, sgLoading = False, sgStatus = Some (''Running'' @ [nl])\<rparr>"
    by code_simp
  with signals_refine [OF demo_calm, of "[OpInit, OpLoading, OpPID, OpHealthy, OpLoaded, OpStatus StatusRunning]"]
  show ?thesis by (simp add: case_prod_beta)
qed

end
