(* ===== verification/SvcChecks.thy ===== *)
theory SvcChecks
  imports SvcLife CheckCatalog RealExec
begin

text \<open>
  The two programs together: what the conformance checks of the control plane find on the files
  and answers of the service.
\<close>

subsection \<open>The log as the checks see it\<close>

text \<open>The last line is JSON, and there is a startup entry.\<close>

definition json_line :: "string \<Rightarrow> bool" where
  "json_line s \<longleftrightarrow> nl \<notin> set s \<and> parse_json s \<noteq> None"

definition line_end :: "string \<Rightarrow> bool" where
  "line_end s \<longleftrightarrow> s = [] \<or> last s = nl"

definition sound_log :: "string \<Rightarrow> bool" where
  "sound_log s \<longleftrightarrow> str_contains s startup_entry \<and> (\<exists>p line. s = p @ line @ [nl] \<and> line_end p \<and> json_line line)"

lemma contains_append: "str_contains s sub \<Longrightarrow> str_contains (s @ r) sub"
  unfolding str_contains_iff by (metis append.assoc)

lemma sound_log_append:
  assumes "sound_log s" and "json_line line"
  shows "sound_log (s @ line @ [nl])"
proof -
  have "line_end s" using assms(1) by (auto simp: sound_log_def line_end_def)
  with assms contains_append [of s startup_entry "line @ [nl]"] show ?thesis
    unfolding sound_log_def by blast
qed

lemma split_on_two: "split_on d (a @ d # r) = split_on d a @ split_on d r"
  by (induction a) (auto split: list.splits)

lemma parse_json_nothing: "parse_json [] = None"
  by code_simp

lemma json_line_nonempty: "json_line line \<Longrightarrow> line \<noteq> []"
  by (cases "line = []") (simp_all add: json_line_def parse_json_nothing)

lemma trim_line: "nl \<notin> set line \<Longrightarrow> line \<noteq> [] \<Longrightarrow> trim_right_nl (p @ line @ [nl]) = p @ line"
  by (cases line rule: rev_cases) (auto simp: trim_right_nl_def trim_right_by_def)

lemma last_line:
  assumes "sound_log s"
  shows "\<exists>line. last (split_on nl (trim_right_nl s)) = line \<and> line \<noteq> [] \<and> parse_json line \<noteq> None"
proof -
  obtain p line where s: "s = p @ line @ [nl]" "line_end p" "json_line line" using assms by (auto simp: sound_log_def)
  have l: "nl \<notin> set line" "line \<noteq> []" "parse_json line \<noteq> None"
    using s(3) json_line_nonempty by (auto simp: json_line_def)
  have "last (split_on nl (p @ line)) = line"
  proof (cases "p = []")
    case True
    with l show ?thesis by (simp add: split_on_single)
  next
    case False
    with s(2) obtain q where "p = q @ [nl]" by (metis append_butlast_last_id line_end_def)
    with l show ?thesis by (simp add: split_on_two split_on_single)
  qed
  with l show ?thesis by (simp add: s(1) trim_line)
qed

subsection \<open>The startup entry\<close>

lemma member_printed: "(k, JStr v) \<in> set js \<Longrightarrow> str_contains (json_marshal (JObj js)) (quote k @ '':'' @ quote v)"
proof -
  assume m: "(k, JStr v) \<in> set js"
  have "\<exists>a b. print_members (\<lambda>_. []) '':'' d js = a @ (quote k @ '':'' @ quote v) @ b" for d
    using m
  proof (induction js)
    case (Cons x js)
    obtain k' v' where x: "x = (k', v')" by (cases x)
    show ?case
    proof (cases "x = (k, JStr v)")
      case True
      then show ?thesis by (intro exI [of _ "[]"] exI [of _ "if js = [] then [] else '','' @ print_members (\<lambda>_. []) '':'' d js"]) auto
    next
      case False
      with Cons.prems have "(k, JStr v) \<in> set js" "js \<noteq> []" by auto
      with Cons.IH obtain a b where "print_members (\<lambda>_. []) '':'' d js = a @ (quote k @ '':'' @ quote v) @ b" "js \<noteq> []" by blast
      with x show ?thesis
        by (intro exI [of _ "quote k' @ '':'' @ print_json (\<lambda>_. []) '':'' d v' @ '','' @ a"] exI [of _ b]) simp
    qed
  qed simp
  then obtain a b where "print_members (\<lambda>_. []) '':'' (Suc 0) js = a @ (quote k @ '':'' @ quote v) @ b" by blast
  then show ?thesis
    using m unfolding str_contains_iff json_marshal_def
    by (intro exI [of _ "''{'' @ a"] exI [of _ "b @ ''}''"]) auto
qed

lemma line_has_message:
  assumes "list_all value_ok kvs" and "''msg'' \<notin> set (log_keys kvs)"
  shows "\<exists>line. log_line now (buildEntry now level msg kvs) = line @ [nl] \<and> json_line line \<and>
     str_contains line (quote ''msg'' @ '':'' @ quote msg)"
proof -
  let ?e0 = "[(''ts'', LStr now), (''level'', LStr level), (''msg'', LStr msg)]"
  note P = log_pairs_props [OF assms(1), of ?e0, folded buildEntry_def]
  then obtain js where js: "enc_entry (buildEntry now level msg kvs) = Inr (JObj js)" "json_ok (JObj js)"
    "\<forall>k v. map_of (buildEntry now level msg kvs) k = Some v \<longrightarrow> (\<exists>j. map_of js k = Some j \<and> enc_log_value v = Inr j)"
    using enc_entry_fields [of "buildEntry now level msg kvs"] by auto
  have "map_of (buildEntry now level msg kvs) ''msg'' = Some (LStr msg)" using P assms(2) by auto
  with js(3) have "map_of js ''msg'' = Some (JStr msg)" by fastforce
  then have "(''msg'', JStr msg) \<in> set js" by (rule map_of_SomeD)
  from member_printed [OF this] have "str_contains (json_marshal (JObj js)) (quote ''msg'' @ '':'' @ quote msg)" .
  moreover have "json_line (json_marshal (JObj js))"
    using marshal_no_nl [OF js(2)] parse_marshal [OF js(2)] by (simp add: json_line_def)
  ultimately show ?thesis by (intro exI [of _ "json_marshal (JObj js)"]) (simp add: log_line_def js(1))
qed

lemma startup_entry_quoted: "startup_entry = quote ''msg'' @ '':'' @ quote ''server started''"
  by (simp add: startup_entry_def quote_def escape_char_def)

subsection \<open>Every step after the first keeps the log sound\<close>

text \<open>From now on no call fails, and the log is a regular file with this text.\<close>

definition logs :: "(string \<Rightarrow> bool) \<Rightarrow> svc \<Rightarrow> bool" where
  "logs P w \<longleftrightarrow> calm w \<and> (\<exists>n. files w LogPath_svc = Some n \<and> \<not> fisdir n \<and> P (fcontent n))"

lemma log_write_logs:
  assumes "list_all value_ok kvs" and "''msg'' \<notin> set (log_keys kvs)"
    and "\<And>c line. P c \<Longrightarrow> json_line line \<Longrightarrow> str_contains line (quote ''msg'' @ '':'' @ quote msg) \<Longrightarrow> Q (c @ line @ [nl])"
  shows "hoare (logs P) (log_write log_svc level msg kvs) (\<lambda>_. logs Q)"
proof (rule hoareI)
  fix w u w'
  assume l: "logs P w" and run: "run (log_write log_svc level msg kvs) w = (u, w')"
  from l obtain n where n: "calm w" "files w LogPath_svc = Some n" "\<not> fisdir n" "P (fcontent n)" by (auto simp: logs_def)
  from line_has_message [OF assms(1,2), of "clock_at w (clockno w)" level msg] obtain line where
    line: "log_line (clock_at w (clockno w)) (buildEntry (clock_at w (clockno w)) level msg kvs) = line @ [nl]"
    "json_line line" "str_contains line (quote ''msg'' @ '':'' @ quote msg)" by blast
  have "\<forall>r. tmp_prefix @ r \<noteq> LogPath_svc" using elsewhere_paths(1) by (metis elsewhere_def has_prefix_append)
  then have "calm w' \<and> files w' LogPath_svc = Some (n\<lparr>fcontent := fcontent n @ line @ [nl]\<rparr>)"
    using run n line(1)
    by (auto simp: log_write_def time_now_def file_Write_def syscall_def append_content_def log_svc_def calm_at calm_def)
  moreover have "Q (fcontent n @ line @ [nl])" using assms(3) n(4) line(2,3) by blast
  ultimately show "logs Q w'" using n(3) by (simp add: logs_def)
qed

named_theorems logs_rules \<open>operations after which the log is still sound\<close>

lemma logs_log [logs_rules]:
  assumes "list_all value_ok kvs" and "''msg'' \<notin> set (log_keys kvs)"
  shows "keeps (logs sound_log) (log_info log_svc msg kvs)" "keeps (logs sound_log) (log_warn log_svc msg kvs)"
    "keeps (logs sound_log) (log_err log_svc msg kvs)"
  unfolding keeps_def log_info_def log_warn_def log_err_def
  by (rule log_write_logs [OF assms]; rule sound_log_append; assumption)+

lemma logs_first:
  assumes "list_all value_ok kvs" and "''msg'' \<notin> set (log_keys kvs)"
  shows "hoare (logs line_end) (log_info log_svc ''server started'' kvs) (\<lambda>_. logs sound_log)"
  unfolding log_info_def
proof (rule log_write_logs [OF assms])
  fix c line
  assume "line_end c" "json_line line" "str_contains line (quote ''msg'' @ '':'' @ quote ''server started'')"
  then show "sound_log (c @ line @ [nl])"
    unfolding sound_log_def startup_entry_quoted str_contains_iff by (metis append.assoc)
qed

lemma logs_frame:
  assumes "\<And>a p. \<exists>b. hoare (sits a p) m (\<lambda>_. sits b p)" and "\<And>c. keeps (file_is LogPath_svc c) m"
  shows "keeps (logs P) m"
proof (rule keepsI)
  fix w r w'
  assume l: "logs P w" and run: "run m w = (r, w')"
  then have s: "sits (signals_of w) (self_pid w) w" by (auto simp: logs_def sits_def)
  obtain b where "hoare (sits (signals_of w) (self_pid w)) m (\<lambda>_. sits b (self_pid w))" using assms(1) by blast
  from hoareD [OF this s run] have "calm w'" by (simp add: sits_def)
  moreover have "files w' LogPath_svc = files w LogPath_svc" by (rule seen_run [OF assms(2) run])
  ultimately show "logs P w'" using l by (simp add: logs_def)
qed

lemma logs_signals [logs_rules]:
  "keeps (logs P) WritePID" "keeps (logs P) CreateHealthy" "keeps (logs P) RemoveLoading" "keeps (logs P) (SetStatus s)"
proof -
  have n: "\<not> has_prefix LogPath_svc (Dir @ ''/.tmp-'')" "LogPath_svc \<noteq> PIDFile" "LogPath_svc \<noteq> HealthyFile"
    "LogPath_svc \<noteq> LoadingFile" "LogPath_svc \<noteq> StatusFile"
    by (simp_all add: LogPath_svc_def signal_paths)
  have k: "keeps (file_is LogPath_svc c) WritePID" "keeps (file_is LogPath_svc c) CreateHealthy"
    "keeps (file_is LogPath_svc c) RemoveLoading" "keeps (file_is LogPath_svc c) (SetStatus s)" for c
    unfolding WritePID_def CreateHealthy_def writeEmpty_def RemoveLoading_def SetStatus_def
    using n by (auto intro!: keeps_rules keeps_writeAtomic keeps_Remove)
  show "keeps (logs P) WritePID" by (rule logs_frame) (use hoare_drop [OF WritePID_sits] k in blast)+
  show "keeps (logs P) CreateHealthy" by (rule logs_frame) (use hoare_drop [OF CreateHealthy_sits] k in blast)+
  show "keeps (logs P) RemoveLoading" by (rule logs_frame) (use hoare_drop [OF RemoveLoading_sits] k in blast)+
  show "keeps (logs P) (SetStatus s)" by (rule logs_frame) (use hoare_drop [OF SetStatus_sits] k in blast)+
qed

text \<open>What leaves both the signals and the log alone.\<close>

lemma logs_neutral:
  assumes "\<And>a p. keeps (sits a p) m" and "\<And>c. keeps (file_is LogPath_svc c) m"
  shows "keeps (logs P) m"
  by (rule logs_frame) (use assms in \<open>auto simp: keeps_def\<close>)

lemma logs_calls [logs_rules]:
  "keeps (logs P) (file_Close q)" "keeps (logs P) count_request" "keeps (logs P) count_error" "keeps (logs P) (sleep_ns d)"
  "keeps (logs P) (rand_IntN k)" "keeps (logs P) (on_process f)"
  by (rule logs_neutral; (rule sits_rules | intro keeps_rules))+

lemma logs_other_files [logs_rules]:
  assumes "elsewhere q" and "q \<noteq> LogPath_svc"
  shows "keeps (logs P) (os_OpenTrunc q m)" "keeps (logs P) (os_Remove q)" "keeps (logs P) (file_Write q s)"
  by (rule logs_neutral; (rule sits_write [OF assms(1)] | use assms(2) in \<open>auto intro: keeps_OpenTrunc keeps_Remove keeps_Write\<close>))+

subsection \<open>Startup and requests\<close>

lemma logs_if_set: "(\<And>x. v = Some x \<Longrightarrow> keeps (logs P) (f x)) \<Longrightarrow> keeps (logs P) (if_set v f)"
  by (rule keeps_if_set)

lemma logs_probe: "keeps (logs sound_log) (probeStateDir log_svc)"
proof -
  have "probe_file \<noteq> LogPath_svc" by (simp add: probe_file_def LogPath_svc_def)
  with elsewhere_paths(3) show ?thesis unfolding probeStateDir_def by (intro keeps_rules logs_rules) simp_all
qed

lemma logs_announce: "keeps (logs sound_log) (announce cfg log_svc)"
  unfolding announce_def announce_chaos_def warn_error_def StartOOM_def
  by (intro keeps_rules keeps_if_set logs_rules) simp_all

lemma logs_tail:
  "keeps (logs sound_log) (or_exit WritePID (\<lambda>err. log_err log_svc ''writing PID file'' [LStr ''error'', LErr err]) (do {
       _ \<leftarrow> probeStateDir log_svc;
       or_exit CreateHealthy (\<lambda>err. log_err log_svc ''creating healthy marker'' [LStr ''error'', LErr err]) (do {
         _ \<leftarrow> announce cfg log_svc;
         ret (Inr (build cfg log_svc))
       })
     }))"
  unfolding or_exit_def by (intro keeps_rules logs_rules logs_probe logs_announce) simp_all

lemma logs_serve: "keeps (logs sound_log) (serve_request (build cfg log_svc) rq)"
proof -
  have t: "elsewhere StateTouchPath_svc" "StateTouchPath_svc \<noteq> LogPath_svc"
    by (rule elsewhere_paths(2)) (simp add: StateTouchPath_svc_def LogPath_svc_def)
  have "keeps (logs sound_log) (mux (srServer (build cfg log_svc)) rq)"
    unfolding mux_def handleHealth_def handleSlow_def handleHeaders_def handleReset_def handleRoot_def touchStatePath_def
      build_def New_server_def
    using t by (auto intro!: keeps_rules logs_rules)
  then show ?thesis
    unfolding serve_request_def chaos_ServeHTTP_def drop_draw_def drop_request_def build_def New_chaos_def
    by (auto intro!: keeps_rules logs_rules simp: if_set_def)
qed

text \<open>A log the service can go on with: none, or whole lines.\<close>

definition log_ready :: "svc \<Rightarrow> bool" where
  "log_ready w \<longleftrightarrow> (case files w LogPath_svc of None \<Rightarrow> True | Some n \<Rightarrow> \<not> fisdir n \<and> line_end (fcontent n))"

lemma start_logged_logs:
  assumes "logs line_end w" and "run (start_logged cfg log_svc) w = (r, w')"
  shows "logs sound_log w'"
proof -
  have "hoare (logs line_end) (start_logged cfg log_svc) (\<lambda>_. logs sound_log)"
    unfolding start_logged_def by (rule hoare_bind [OF logs_first]) (simp_all add: logs_tail [unfolded keeps_def])
  from hoareD [OF this assms] show ?thesis .
qed

lemma ready_frame:
  assumes "\<And>a p. \<exists>b. hoare (sits a p) m (\<lambda>_. sits b p)" and "\<And>c. keeps (file_is LogPath_svc c) m"
  shows "keeps (\<lambda>w. calm w \<and> log_ready w) m"
proof (rule keepsI)
  fix w r w'
  assume w: "calm w \<and> log_ready w" and run: "run m w = (r, w')"
  then have s: "sits (signals_of w) (self_pid w) w" by (simp add: sits_def)
  obtain b where "hoare (sits (signals_of w) (self_pid w)) m (\<lambda>_. sits b (self_pid w))" using assms(1) by blast
  from hoareD [OF this s run] have "calm w'" by (simp add: sits_def)
  moreover have "files w' LogPath_svc = files w LogPath_svc" by (rule seen_run [OF assms(2) run])
  ultimately show "calm w' \<and> log_ready w'" using w by (simp add: log_ready_def)
qed

lemma ready_stages:
  "keeps (\<lambda>w. calm w \<and> log_ready w) Init" "keeps (\<lambda>w. calm w \<and> log_ready w) CreateLoading"
  "keeps (\<lambda>w. calm w \<and> log_ready w) (Load yaml path)"
proof -
  have n: "\<not> has_prefix LogPath_svc (Dir @ ''/.tmp-'')" "LogPath_svc \<noteq> HealthyFile" "LogPath_svc \<noteq> LoadingFile"
    "LogPath_svc \<noteq> StatusFile" by (simp_all add: LogPath_svc_def signal_paths)
  have i: "keeps (file_is LogPath_svc c) Init" "keeps (file_is LogPath_svc c) CreateLoading" for c
    unfolding Init_def CreateLoading_def writeEmpty_def
    using n by (auto intro!: keeps_rules keeps_Remove keeps_SetStatus keeps_writeAtomic)
  show "keeps (\<lambda>w. calm w \<and> log_ready w) Init" by (rule ready_frame) (use hoare_drop [OF Init_sits] i in blast)+
  show "keeps (\<lambda>w. calm w \<and> log_ready w) CreateLoading" by (rule ready_frame) (use hoare_drop [OF CreateLoading_sits] i in blast)+
  have "keeps (sits a p) (Load yaml path)" for a p unfolding Load_def by (intro keeps_rules sits_rules)
  then show "keeps (\<lambda>w. calm w \<and> log_ready w) (Load yaml path)"
    by (intro ready_frame keeps_Load) (auto simp: keeps_def)
qed

lemma New_logger_logs:
  assumes "calm w \<and> log_ready w" and "run (New_logger LogPath_svc) w = (g, w')"
  shows "g = Inr log_svc \<and> logs line_end w'"
proof -
  have "\<forall>r. tmp_prefix @ r \<noteq> LogPath_svc" using elsewhere_paths(1) by (metis elsewhere_def has_prefix_append)
  with assms show ?thesis
    by (auto simp: New_logger_def os_OpenAppend_def syscall_def new_node_def set_file_def calm_at logs_def log_ready_def
        log_svc_def line_end_def calm_def split: option.splits)
qed

lemma startup_logs:
  assumes "calm w" "log_ready w" "run (startup yaml) w = (Inr sv, w')"
  shows "logs sound_log w'"
proof -
  obtain e1 w1 where 1: "run Init w = (e1, w1)" by (meson surj_pair)
  obtain e2 w2 where 2: "run CreateLoading w1 = (e2, w2)" by (meson surj_pair)
  obtain c w3 where 3: "run (Load yaml ConfigPath_svc) w2 = (c, w3)" by (meson surj_pair)
  obtain g w4 where 4: "run (New_logger LogPath_svc) w3 = (g, w4)" by (meson surj_pair)
  have "calm w3 \<and> log_ready w3"
    using assms(1,2) keepsD [OF ready_stages(1) _ 1] keepsD [OF ready_stages(2) _ 2] keepsD [OF ready_stages(3) _ 3] by blast
  from New_logger_logs [OF this 4] have g: "g = Inr log_svc" "logs line_end w4" by auto
  have "\<exists>cfg. run (start_logged cfg log_svc) w4 = (Inr sv, w')"
    using assms(3) by (auto simp: startup_def or_exit_def 1 2 3 4 g(1) split: option.splits prod.splits sum.splits)
  with start_logged_logs [OF g(2)] show ?thesis by blast
qed

subsection \<open>The checks\<close>

lemma log_checks_pass:
  assumes "logs sound_log w"
  shows "list_all (\<lambda>k. fst (run (cExecute k (Real_observer out)) w) = Returns None) [check_L001, check_L002, check_L003]"
proof -
  obtain n where n: "calm w" "files w LogPath_svc = Some n" "\<not> fisdir n" "sound_log (fcontent n)"
    using assms by (auto simp: logs_def)
  have p: "LogPath = LogPath_svc" by (simp add: LogPath_def LogPath_svc_def)
  have c: "str_contains (fcontent n) startup_entry" "fcontent n \<noteq> []" using n(4) by (auto simp: sound_log_def)
  from last_line [OF n(4)] obtain v where l: "last (split_on nl (trim_right_nl (fcontent n))) \<noteq> []"
    "parse_json (last (split_on nl (trim_right_nl (fcontent n)))) = Some v" by auto
  show ?thesis
    using n c l
    by (simp add: check_L001_def check_L002_def check_L003_def Real_observer_def Real_executor_def observer.truncate_def
        Real_Stat_def os_ReadFile_def os_Stat_def syscall_def calm_at p Let_def)
qed

subsection \<open>Properties\<close>

text \<open>
  C19: a service that started while no system call failed, and then answered any requests,
  passes the log checks of the conformance suite, whatever chaos modes are on: its log is not
  empty, has the startup entry, and its last line is JSON.
\<close>

theorem service_passes_log_checks:
  assumes "calm w" and "log_ready w"
    and "files w ConfigPath_svc = Some n" and "\<not> fisdir n" and "yaml (fcontent n) = Inr (addr, env)"
  shows "case run (startup yaml) w of (Inl _, _) \<Rightarrow> False
    | (Inr sv, w1) \<Rightarrow>
       (case run (for_do (\<lambda>rq. do { _ \<leftarrow> serve_request sv rq; ret () }) rqs) w1 of (_, w2) \<Rightarrow>
          list_all (\<lambda>k. fst (run (cExecute k (Real_observer out)) w2) = Returns None) [check_L001, check_L002, check_L003])"
proof -
  obtain w1 where 1: "run (startup yaml) w = (Inr (build (loaded addr env (fst (run loadChaos w))) log_svc), w1)"
    using startup_calm [of w n yaml addr env] assms by auto
  let ?sv = "build (loaded addr env (fst (run loadChaos w))) log_svc"
  obtain u w2 where 2: "run (for_do (\<lambda>rq. do { _ \<leftarrow> serve_request ?sv rq; ret () }) rqs) w1 = (u, w2)" by (meson surj_pair)
  have "keeps (logs sound_log) (for_do (\<lambda>rq. do { _ \<leftarrow> serve_request ?sv rq; ret () }) rqs)"
    by (intro keeps_rules logs_serve)
  from keepsD [OF this startup_logs [OF assms(1,2) 1] 2] have "logs sound_log w2" .
  from log_checks_pass [OF this] show ?thesis by (simp only: 1 2 prod.case sum.case)
qed

theorem service_passes_log_checks_witness:
  "case run (startup demo_yaml) demo_installed of (Inl _, _) \<Rightarrow> False
    | (Inr sv, w1) \<Rightarrow>
       (case run (for_do (\<lambda>rq. do { _ \<leftarrow> serve_request sv rq; ret () })
            [\<lparr>rqMethod = ''GET'', rqPath = ''/'', rqHeaders = [], rqConn = NoHijacker\<rparr>]) w1 of (_, w2) \<Rightarrow>
          list_all (\<lambda>k. fst (run (cExecute k (Real_observer (quiet_outside []))) w2) = Returns None)
            [check_L001, check_L002, check_L003])"
proof -
  have "log_ready demo_installed"
    by (simp add: log_ready_def demo_installed_def demo_svc_def demo_world_def ConfigPath_svc_def LogPath_svc_def)
  from service_passes_log_checks [OF demo_calm this demo_config, of demo_yaml "''127.0.0.1:8080''" "''prod''"]
  show ?thesis by (simp add: demo_yaml_def)
qed

text \<open>An answer of the service as the observer reports it.\<close>

definition endpoint_of :: "reply \<Rightarrow> endpoint_status result" where
  "endpoint_of r = (case r of
     Reply code _ body \<Rightarrow> Inr \<lparr>ep_status_code = code, ep_reachable = True, ep_body = body\<rparr>
   | _ \<Rightarrow> Inl (Errorf ''no answer''))"



subsection \<open>The root page\<close>

definition root_request :: "(string \<times> string) list \<Rightarrow> connection \<Rightarrow> request" where
  "root_request hs cn = \<lparr>rqMethod = ''GET'', rqPath = ''/'', rqHeaders = hs, rqConn = cn\<rparr>"

lemma mux_root: "mux s (root_request hs cn) = handleRoot s (root_request hs cn)"
proof -
  have "cleanPath ''/'' = ''/''" by code_simp
  then show ?thesis by (simp add: mux_def root_request_def)
qed

text \<open>An answer to a request of the root page: dropped, failed, or the page with the file touched.\<close>

lemma serve_root:
  assumes "run (serve_request (build cfg log_svc) (root_request hs cn)) w = (r, w')"
  shows "r = dropped_reply \<or> r = failed_reply \<or>
     r = json_reply 200 (root_body (scAppEnv cfg)) \<and> (\<exists>n. files w' StateTouchPath_svc = Some n \<and> fcontent n = ''ok'')"
proof -
  let ?h = "srChaos (build cfg log_svc)" and ?rq = "root_request hs cn"
  obtain d w1 where 1: "run (drop_draw ?h ?rq) w = (d, w1)" by (meson surj_pair)
  show ?thesis
  proof (cases d)
    case True
    with assms 1 show ?thesis
      by (auto simp: serve_request_def chaos_ServeHTTP_def drop_request_def dropped_reply_def split: prod.splits)
  next
    case False
    obtain u w2 where 2: "run (if 0 < chLatencyMS ?h \<and> rqPath ?rq \<noteq> ''/health'' then sleep_ns (duration_ms (chLatencyMS ?h)) else ret ()) w1 = (u, w2)"
      by (meson surj_pair)
    have "run (handleRoot (New_server (scAppEnv cfg) log_svc (ccZombieChildren (scChaos cfg))) ?rq) w2 = (r, w')"
      using assms 1 2 False by (simp add: serve_request_def chaos_ServeHTTP_def srServer_build mux_root)
    from handleRoot_run [OF this] show ?thesis by (auto simp: failed_reply_def split: if_splits)
  qed
qed

lemma root_calm:
  assumes "ccDropPercent (scChaos cfg) = 0"
  shows "hoare (sits a p) (serve_request (build cfg log_svc) (root_request hs cn)) (\<lambda>r _. r = json_reply 200 (root_body (scAppEnv cfg)))"
proof -
  let ?s = "New_server (scAppEnv cfg) log_svc (ccZombieChildren (scChaos cfg))" and ?rq = "root_request hs cn"
  have h: "hoare (sits a p) (handleRoot ?s ?rq) (\<lambda>r _. r = json_reply 200 (root_body (scAppEnv cfg)))"
    unfolding handleRoot_def
    by (rule hoare_then [OF sits_process_ops(1)], rule hoare_then [OF keeps_if [OF sits_process keeps_return]],
        rule hoare_known [OF touch_calm]) (simp add: hoare_return New_server_def)
  have pause: "hoare (sits a p) (do { _ \<leftarrow> (if b then sleep_ns d else ret ()); handleRoot ?s ?rq })
      (\<lambda>r _. r = json_reply 200 (root_body (scAppEnv cfg)))" for b d
    by (rule hoare_then [OF keeps_if [OF sits_process_ops(3) keeps_return]]) (rule h)
  have "serve_request (build cfg log_svc) ?rq = (do {
      _ \<leftarrow> (if 0 < chLatencyMS (srChaos (build cfg log_svc)) \<and> rqPath ?rq \<noteq> ''/health''
         then sleep_ns (duration_ms (chLatencyMS (srChaos (build cfg log_svc)))) else ret ());
      handleRoot ?s ?rq })"
    using assms by (simp add: serve_request_def chaos_ServeHTTP_def drop_draw_def srServer_build mux_root) (simp add: build_def New_chaos_def)
  with pause show ?thesis by simp
qed

lemma root_always_dropped:
  assumes "ccDropPercent (scChaos cfg) = 100" and "run (serve_request (build cfg log_svc) (root_request hs cn)) w = (r, w')"
  shows "r = dropped_reply"
proof -
  have "int (k mod 100) < 100" for k :: nat by simp
  with assms show ?thesis
    by (auto simp: serve_request_def chaos_ServeHTTP_def drop_draw_def rand_IntN_def build_def New_chaos_def
        root_request_def drop_request_def dropped_reply_def split: prod.splits)
qed



end
