(* ===== verification/SvcCrash.thy ===== *)
theory SvcCrash
  imports SvcLife
begin

text \<open>
  What a service that is killed leaves behind. The machine of theory \<open>SvcLife\<close> kills it between
  two operations; here it dies in the middle of one. A process killed at a system call is a run in
  which that call and every later one fail: the files at the end are those at that moment (only
  the write it was killed in may be partial). So a property of all such runs is a property of
  every moment between two system calls.
\<close>

subsection \<open>Killed runs\<close>

definition killable :: "'x world \<Rightarrow> bool" where
  "killable w \<longleftrightarrow> (\<forall>m n. m \<le> n \<longrightarrow> fault_at w m \<noteq> None \<longrightarrow> fault_at w n \<noteq> None)"

definition dead :: "'x world \<Rightarrow> bool" where
  "dead w \<longleftrightarrow> (\<forall>n \<ge> sysno w. fault_at w n \<noteq> None)"

definition no_temps :: "'x world \<Rightarrow> bool" where
  "no_temps w \<longleftrightarrow> (\<forall>r. files w (tmp_prefix @ r) = None)"

lemma killed_by: "killable w \<Longrightarrow> fault_at w n \<noteq> None \<Longrightarrow> n \<le> sysno w \<Longrightarrow> dead w"
  unfolding killable_def dead_def by (meson le_trans)

text \<open>
  The signals have only been in the states \<open>A\<close> so far, and while the process is alive they are
  in one of the states \<open>L\<close>: a process that is dead for sure has \<open>L = {}\<close>.
\<close>

definition passing :: "signals set \<Rightarrow> signals set \<Rightarrow> int \<Rightarrow> 'x world \<Rightarrow> bool" where
  "passing A L p w \<longleftrightarrow> killable w \<and> self_pid w = p \<and> signals_of w \<in> A \<and> (dead w \<or> signals_of w \<in> L \<and> no_temps w)"

subsection \<open>The atomic write\<close>

lemma pick_free:
  assumes "no_temps w"
  shows "run (pick_temp 10000 (Dir @ ''/.tmp-'') []) (w\<lparr>sysno := Suc (sysno w)\<rparr>) =
    (Some (tmp_prefix @ rand_at w (randno w)), w\<lparr>sysno := Suc (sysno w), randno := Suc (randno w)\<rparr>)"
  using assms unfolding pick_temp.simps(2) [of 9999, simplified] by (simp add: tmp_prefix_def no_temps_def)

lemmas atomic_defs = os_CreateTemp_def run_syscall new_node_def set_file_def
  fill_signal_temp_def removing_on_error_def closing_on_error_def wrapping_def and_then_def file_Write_def
  append_content_def file_Close_def os_Chmod_def os_Rename_def os_Remove_def

text \<open>It fails only when a call failed; otherwise the file is the new one and nothing else has changed.\<close>

lemma writeAtomic_alive:
  assumes "no_temps w" and "dir_of path = Dir" and "run (writeAtomic path data) w = (e, w')"
  shows "(if e = None then \<exists>n. files w' = (files w)(path \<mapsto> n) \<and> fcontent n = data
     else \<exists>n. n < sysno w' \<and> fault_at w n \<noteq> None) \<and> sysno w \<le> sysno w' \<and> fault_at w' = fault_at w \<and> self_pid w' = self_pid w"
proof -
  let ?r = "rand_at w (randno w)"
  have t: "files w (tmp_prefix @ ?r) = None" using assms(1) by (simp add: no_temps_def)
  then have id: "(files w)(tmp_prefix @ ?r := None) = files w" by (simp add: fun_upd_idem)
  show ?thesis
    using assms(3) t
    by (auto simp: writeAtomic_def assms(2) pick_free [OF assms(1)] atomic_defs Ex_less_Suc id
        split: option.splits prod.splits if_splits)
qed

lemma writeAtomic_dead:
  assumes "dead w" and "dir_of path = Dir" and "run (writeAtomic path data) w = (e, w')"
  shows "e \<noteq> None \<and> w' = w\<lparr>sysno := Suc (sysno w)\<rparr>"
proof -
  obtain x where "fault_at w (sysno w) = Some x" using assms(1) by (auto simp: dead_def)
  with assms(3) show ?thesis by (auto simp: writeAtomic_def assms(2) os_CreateTemp_def run_syscall)
qed

lemma signals_cong:
  "\<forall>q\<in>{PIDFile, HealthyFile, LoadingFile, StatusFile}. files w' q = files w q \<Longrightarrow> signals_of w' = signals_of w"
  by (simp add: signals_of_def text_at_def)

lemma writeAtomic_failed_signals:
  assumes "dir_of path = Dir" "\<not> has_prefix path tmp_prefix" "run (writeAtomic path data) w = (Some e, w')"
  shows "signals_of w' = signals_of w"
proof (rule signals_cong, rule ballI)
  fix q assume q: "q \<in> {PIDFile, HealthyFile, LoadingFile, StatusFile}"
  have np: "\<not> has_prefix path (dir_of path @ ''/.tmp-'')" using assms(1,2) by (simp add: tmp_prefix_def)
  have nq: "\<not> has_prefix q (dir_of path @ ''/.tmp-'')" using q not_temp assms(1) by (auto simp: tmp_prefix_def)
  show "files w' q = files w q"
  proof (cases "q = path")
    case True
    with writeAtomic_cases [OF np assms(3)] show ?thesis by simp
  next
    case False
    then show ?thesis by (intro seen_run [OF keeps_writeAtomic assms(3)]) (use nq in auto)
  qed
qed

text \<open>A write or a removal takes the signals on by \<open>f\<close>, or the process is dead.\<close>

lemma put_passing:
  assumes "dir_of path = Dir" and "\<not> has_prefix path tmp_prefix"
    and "\<And>(w :: 'x world) n. fcontent n = data \<Longrightarrow> signals_of (w\<lparr>files := (files w)(path \<mapsto> n)\<rparr>) = f (signals_of w)"
  shows "hoare (passing A L p) (writeAtomic path data) (\<lambda>e (w :: 'x world). (e = None \<or> dead w) \<and> passing (A \<union> f ` L) (f ` L) p w)"
proof (rule hoareI)
  fix w :: "'x world" and e w'
  assume w: "passing A L p w" and run: "run (writeAtomic path data) w = (e, w')"
  show "(e = None \<or> dead w') \<and> passing (A \<union> f ` L) (f ` L) p w'"
  proof (cases "dead w")
    case True
    from writeAtomic_dead [OF this assms(1) run] True w show ?thesis
      by (auto simp: passing_def killable_def dead_def signals_of_def text_at_def)
  next
    case False
    with w have a: "signals_of w \<in> L" "no_temps w" "killable w" "self_pid w = p" "signals_of w \<in> A" by (auto simp: passing_def)
    note al = writeAtomic_alive [OF a(2) assms(1) run]
    then have k: "killable w'" "self_pid w' = p" using a by (auto simp: killable_def)
    show ?thesis
    proof (cases e)
      case None
      with al obtain n where n: "files w' = (files w)(path \<mapsto> n)" "fcontent n = data" by auto
      have "signals_of w' = signals_of (w\<lparr>files := (files w)(path \<mapsto> n)\<rparr>)" by (simp add: signals_of_def text_at_def n)
      moreover have "no_temps w'" using a(2) n assms(2) by (auto simp: no_temps_def)
      ultimately show ?thesis using None assms(3) [OF n(2)] k a(1) by (simp add: passing_def)
    next
      case (Some x)
      with al obtain n where "n < sysno w'" "fault_at w' n \<noteq> None" by auto
      then have "dead w'" using killed_by [OF k(1)] by simp
      moreover have "signals_of w' = signals_of w"
        using writeAtomic_failed_signals [OF assms(1,2), of data w x w'] run Some by simp
      ultimately show ?thesis using k a(5) by (simp add: passing_def)
    qed
  qed
qed

lemma drop_passing:
  assumes "\<And>w :: 'x world. signals_of (w\<lparr>files := (files w)(path := None)\<rparr>) = f (signals_of w)"
  shows "hoare (passing A L p) (os_Remove path)
    (\<lambda>e (w :: 'x world). (case e of None \<Rightarrow> True | Some x \<Rightarrow> is_not_exist x \<or> dead w) \<and> passing (A \<union> f ` L) (f ` L) p w)"
proof (rule hoareI)
  fix w :: "'x world" and e w'
  assume w: "passing A L p w" and run: "run (os_Remove path) w = (e, w')"
  show "(case e of None \<Rightarrow> True | Some x \<Rightarrow> is_not_exist x \<or> dead w') \<and> passing (A \<union> f ` L) (f ` L) p w'"
  proof (cases "fault_at w (sysno w)")
    case None
    then have "\<not> dead w" by (auto simp: dead_def)
    with w have a: "signals_of w \<in> L" "no_temps w" "killable w" "self_pid w = p" by (auto simp: passing_def)
    have f: "files w' = (files w)(path := None)" "killable w'" "self_pid w' = p" "case e of None \<Rightarrow> True | Some x \<Rightarrow> is_not_exist x"
      using run None a by (auto simp: os_Remove_def run_syscall set_file_def killable_def fun_upd_idem split: option.splits)
    have "signals_of w' = signals_of (w\<lparr>files := (files w)(path := None)\<rparr>)" by (simp add: signals_of_def text_at_def f)
    moreover have "no_temps w'" using a(2) f by (auto simp: no_temps_def)
    ultimately show ?thesis using assms [of w] a(1) f by (auto simp: passing_def split: option.splits)
  next
    case (Some x)
    then have e: "e \<noteq> None" and w': "w' = w\<lparr>sysno := Suc (sysno w)\<rparr>" using run by (auto simp: os_Remove_def run_syscall)
    have "killable w" using w by (simp add: passing_def)
    then have "killable w'" "dead w'" using Some killed_by [of w' "sysno w"] by (auto simp: w' killable_def)
    with w show ?thesis by (auto simp: passing_def w' signals_of_def text_at_def split: option.splits)
  qed
qed

subsection \<open>The atomic changes of the signals\<close>

datatype signal_write = PutStatus string | PutPID | PutHealthy | PutLoading | DropHealthy | DropLoading | DropPID

fun write_effect :: "int \<Rightarrow> signal_write \<Rightarrow> signals \<Rightarrow> signals" where
  "write_effect p (PutStatus s) a = a\<lparr>sgStatus := Some (s @ [nl])\<rparr>"
| "write_effect p PutPID a = a\<lparr>sgPID := Some (itoa p @ [nl])\<rparr>"
| "write_effect p PutHealthy a = a\<lparr>sgHealthy := True\<rparr>"
| "write_effect p PutLoading a = a\<lparr>sgLoading := True\<rparr>"
| "write_effect p DropHealthy a = a\<lparr>sgHealthy := False\<rparr>"
| "write_effect p DropLoading a = a\<lparr>sgLoading := False\<rparr>"
| "write_effect p DropPID a = a\<lparr>sgPID := None\<rparr>"

text \<open>Every state on the way, the first and the last included.\<close>

fun visited :: "int \<Rightarrow> signal_write list \<Rightarrow> signals \<Rightarrow> signals list" where
  "visited p [] a = [a]"
| "visited p (x # xs) a = a # visited p xs (write_effect p x a)"

lemma visited_last: "set (visited p (xs @ [x]) a) = set (visited p xs a) \<union> {write_effect p x (fold (write_effect p) xs a)}"
  by (induction xs arbitrary: a) auto

lemma visited_mono: "set (visited p xs a) \<subseteq> set (visited p (xs @ ys) a)"
  by (induction xs arbitrary: a) (cases ys; auto)+

text \<open>The operations of the package as steps: the error is there only when the process is dead.\<close>

abbreviation moves :: "signal_write \<Rightarrow> signals set \<Rightarrow> signals set \<Rightarrow> int \<Rightarrow> 'x world \<Rightarrow> bool" where
  "moves x A L p \<equiv> passing (A \<union> write_effect p x ` L) (write_effect p x ` L) p"

definition err_dead :: "'e option \<Rightarrow> 'x world \<Rightarrow> bool" where
  "err_dead e w \<longleftrightarrow> e = None \<or> dead w"

lemma SetStatus_passing: "hoare (passing A L p) (SetStatus s) (\<lambda>e w. err_dead e w \<and> moves (PutStatus s) A L p w)"
  unfolding SetStatus_def err_dead_def by (rule put_passing) (auto simp: not_temp signals_simps)

lemma CreateLoading_passing: "hoare (passing A L p) CreateLoading (\<lambda>e w. err_dead e w \<and> moves PutLoading A L p w)"
  unfolding CreateLoading_def writeEmpty_def err_dead_def by (rule put_passing) (auto simp: not_temp signals_simps)

lemma CreateHealthy_passing: "hoare (passing A L p) CreateHealthy (\<lambda>e w. err_dead e w \<and> moves PutHealthy A L p w)"
  unfolding CreateHealthy_def writeEmpty_def err_dead_def by (rule put_passing) (auto simp: not_temp signals_simps)

lemma WritePID_passing: "hoare (passing A L p) WritePID (\<lambda>e w. err_dead e w \<and> moves PutPID A L p w)"
proof -
  have "hoare (passing A L p) (writeAtomic PIDFile (itoa p @ [nl])) (\<lambda>e (w :: svc). err_dead e w \<and> moves PutPID A L p w)"
    unfolding err_dead_def by (rule put_passing) (auto simp: not_temp signals_simps)
  then show ?thesis by (auto simp: hoare_def WritePID_def os_Getpid_def passing_def)
qed

lemma remove_passing:
  "hoare (passing A L p) (os_Remove HealthyFile) (\<lambda>_. moves DropHealthy A L p)"
  "hoare (passing A L p) (os_Remove LoadingFile) (\<lambda>_. moves DropLoading A L p)"
  "hoare (passing A L p) (os_Remove PIDFile) (\<lambda>_. moves DropPID A L p)"
  by (rule hoare_drop [OF drop_passing]; auto simp: signals_simps)+

lemma RemoveLoading_passing: "hoare (passing A L p) RemoveLoading (\<lambda>e w. err_dead e w \<and> moves DropLoading A L p w)"
  unfolding RemoveLoading_def err_dead_def
  by (rule hoare_bind [OF drop_passing [where f = "write_effect p DropLoading"]])
     (auto simp: signals_simps hoare_def split: option.splits)

text \<open>After the changes \<open>xs\<close>, from the signals \<open>a\<close>.\<close>

definition went :: "int \<Rightarrow> signals \<Rightarrow> signal_write list \<Rightarrow> 'x world \<Rightarrow> bool" where
  "went p a xs = passing (set (visited p xs a)) {fold (write_effect p) xs a} p"

lemma op_went:
  assumes "\<And>A L. hoare (passing A L p) m (\<lambda>e w. E e w \<and> moves x A L p w)"
  shows "hoare (went p a xs) m (\<lambda>e w. E e w \<and> went p a (xs @ [x]) w)"
  using assms [of "set (visited p xs a)" "{fold (write_effect p) xs a}"] by (simp add: went_def visited_last)

lemma drop_went:
  assumes "\<And>A L. hoare (passing A L p) m (\<lambda>_. moves x A L p)"
  shows "hoare (went p a xs) m (\<lambda>_. went p a (xs @ [x]))"
  using assms [of "set (visited p xs a)" "{fold (write_effect p) xs a}"] by (simp add: went_def visited_last)

subsection \<open>What leaves the signals alone\<close>

named_theorems passing_rules \<open>operations that leave the signal files alone, also when the process is killed\<close>

lemma passing_modify:
  assumes "\<And>w. signals_of (f w) = signals_of w" "\<And>w. no_temps w \<Longrightarrow> no_temps (f w)" "\<And>w. self_pid (f w) = self_pid w"
    "\<And>w. fault_at (f w) = fault_at w" "\<And>w. sysno w \<le> sysno (f w)"
  shows "keeps (passing A L p) (modify f)"
  using assms by (intro keeps_modify) (auto simp: passing_def killable_def dead_def intro: le_trans)

lemmas at_rest = signals_of_def text_at_def no_temps_def

lemma passing_syscall [passing_rules]: "keeps (passing A L p) syscall"
  by (auto simp: keeps_def hoare_def syscall_def passing_def killable_def dead_def at_rest)

lemma passing_clock [passing_rules]: "keeps (passing A L p) time_now"
  by (auto simp: keeps_def hoare_def time_now_def passing_def killable_def dead_def at_rest)

lemma passing_process [passing_rules]: "keeps (passing A L p) (on_process f)"
  unfolding on_process_def by (rule passing_modify) (simp_all add: at_rest)

lemma passing_eprint [passing_rules]: "keeps (passing A L p) (eprint s)"
  unfolding eprint_def by (rule passing_modify) (simp_all add: at_rest)

lemma passing_set_file [passing_rules]: "elsewhere q \<Longrightarrow> keeps (passing A L p) (set_file q n)"
  unfolding set_file_def
  by (rule passing_modify) (auto simp: at_rest elsewhere_def has_prefix_iff)

lemma passing_append [passing_rules]: "elsewhere q \<Longrightarrow> keeps (passing A L p) (append_content q s)"
  unfolding append_content_def
  by (rule passing_modify) (auto simp: at_rest elsewhere_def has_prefix_iff split: option.splits)

lemma passing_read [passing_rules]: "keeps (passing A L p) (os_ReadFile q)" "keeps (passing A L p) (file_Close q)"
  unfolding os_ReadFile_def file_Close_def by (intro keeps_rules passing_rules)+

lemma passing_file [passing_rules]:
  assumes "elsewhere q"
  shows "keeps (passing A L p) (file_Write q s)" "keeps (passing A L p) (os_OpenTrunc q m)" "keeps (passing A L p) (os_OpenAppend q m)"
    "keeps (passing A L p) (os_Remove q)"
  unfolding file_Write_def os_OpenTrunc_def os_OpenAppend_def os_Remove_def by (intro keeps_rules passing_rules assms)+

lemma passing_log [passing_rules]:
  "keeps (passing A L p) (log_info log_svc msg kvs)" "keeps (passing A L p) (log_warn log_svc msg kvs)"
  "keeps (passing A L p) (log_err log_svc msg kvs)"
  unfolding log_info_def log_warn_def log_err_def log_write_def
  by (intro keeps_rules passing_rules; simp add: log_svc_def elsewhere_paths)+

lemma passing_process_ops [passing_rules]:
  "keeps (passing A L p) count_request" "keeps (passing A L p) count_error" "keeps (passing A L p) (sleep_ns d)"
  "keeps (passing A L p) (rand_IntN n)" "keeps (passing A L p) (StartOOM log_svc)"
  unfolding count_request_def count_error_def sleep_ns_def rand_IntN_def StartOOM_def by (intro keeps_rules passing_rules)+

text \<open>A file operation elsewhere fails only when the process dies.\<close>

lemma passing_dead: "passing A L p w \<Longrightarrow> dead w \<Longrightarrow> passing A {} p w"
  by (simp add: passing_def)

lemma passing_any: "passing A {} p w \<Longrightarrow> passing A L p w"
  by (simp add: passing_def)

lemma fails_dead:
  assumes "keeps (passing A L p) m"
    and "\<And>w e w'. run m w = (Some e, w') \<Longrightarrow> fault_at w (sysno w) \<noteq> None \<and> fault_at w' = fault_at w \<and> sysno w' = Suc (sysno w)"
  shows "hoare (passing A L p) m (\<lambda>e. passing A (if e = None then L else {}) p)"
proof (rule hoareI)
  fix w e w' assume w: "passing A L p w" and run: "run m w = (e, w')"
  have k: "passing A L p w'" using keepsD [OF assms(1) w run] .
  show "passing A (if e = None then L else {}) p w'"
  proof (cases e)
    case (Some x)
    with assms(2) run have f: "fault_at w (sysno w) \<noteq> None" "fault_at w' = fault_at w" "sysno w' = Suc (sysno w)" by auto
    moreover have "killable w'" using k by (simp add: passing_def)
    ultimately have "dead w'" by (intro killed_by [of w' "sysno w"]) auto
    with passing_dead [OF k] Some show ?thesis by simp
  qed (use k in simp)
qed

lemma open_dead:
  assumes "elsewhere q"
  shows "hoare (passing A L p) (os_OpenTrunc q m) (\<lambda>e. passing A (if e = None then L else {}) p)"
    "hoare (passing A L p) (os_OpenAppend q m) (\<lambda>e. passing A (if e = None then L else {}) p)"
    "hoare (passing A L p) (file_Write q s) (\<lambda>e. passing A (if e = None then L else {}) p)"
  by (rule fails_dead [OF passing_file(2) [OF assms]] fails_dead [OF passing_file(3) [OF assms]] fails_dead [OF passing_file(1) [OF assms]];
      auto simp: os_OpenTrunc_def os_OpenAppend_def file_Write_def run_syscall append_content_def set_file_def new_node_def
        split: option.splits if_splits)+

lemma dead_status: "keeps (passing A {} p) (SetStatus s)"
proof -
  have "hoare (passing A {} p) (SetStatus s) (\<lambda>_. moves (PutStatus s) A {} p)" by (rule hoare_drop [OF SetStatus_passing])
  then show ?thesis by (simp add: keeps_def)
qed

subsection \<open>The stages\<close>

lemma go_on: "keeps (passing A L p) m \<Longrightarrow> (\<And>x. hoare (passing A L p) (f x) Q) \<Longrightarrow> hoare (passing A L p) (m \<bind> f) Q"
  unfolding keeps_def by (rule hoare_bind)

lemma passing_if: "passing A (if b then L else L') p = (if b then passing A L p else passing A L' p)"
  by simp

lemma touch_dead: "hoare (passing A L p) touchStatePath (\<lambda>e. passing A (if e = None then L else {}) p)"
proof -
  note t = elsewhere_paths(2)
  have good: "hoare (passing A L p) (do { w \<leftarrow> file_Write StateTouchPath_svc ''ok''; _ \<leftarrow> file_Close StateTouchPath_svc; ret w })
      (\<lambda>e. passing A (if e = None then L else {}) p)"
    by (rule hoare_bind [OF open_dead(3) [OF t]], rule go_on [OF passing_read(2)]) (simp add: hoare_return)
  show ?thesis
    unfolding touchStatePath_def
  proof (rule hoare_bind [OF open_dead(1) [OF t]], goal_cases)
    case (1 e)
    show ?case by (cases e) (simp_all add: good hoare_return)
  qed
qed

lemma probe_passing: "keeps (passing A L p) (probeStateDir log_svc)"
proof -
  have bad: "hoare (passing A {} p) (do { _ \<leftarrow> log_warn log_svc msg kvs; _ \<leftarrow> SetStatus StatusUnhealthy; ret () }) (\<lambda>_. passing A L p)" for msg kvs
    by (rule go_on [OF passing_log(2)], rule go_on [OF dead_status]) (simp add: hoare_return passing_any)
  have good: "hoare (passing A L p) (do { _ \<leftarrow> file_Close probe_file; _ \<leftarrow> os_Remove probe_file; ret () }) (\<lambda>_. passing A L p)"
    unfolding keeps_def [symmetric] by (intro keeps_rules passing_rules elsewhere_paths(3))
  show ?thesis
    unfolding probeStateDir_def keeps_def
  proof (rule hoare_bind [OF open_dead(1) [OF elsewhere_paths(3)]], unfold passing_if, goal_cases)
    case (1 e)
    show ?case by (cases e) (simp_all add: good bad)
  qed
qed

lemma handleRoot_passing:
  assumes "seLogger s = log_svc"
  shows "keeps (passing A L p) (handleRoot s rq)"
proof -
  have bad: "hoare (passing A {} p) (do { _ \<leftarrow> count_error; _ \<leftarrow> log_err log_svc msg kvs; _ \<leftarrow> SetStatus StatusUnhealthy; ret rp })
      (\<lambda>_. passing A L p)" for msg kvs rp
    by (rule go_on [OF passing_process_ops(2)], rule go_on [OF passing_log(3)], rule go_on [OF dead_status])
       (simp add: hoare_return passing_any)
  have "hoare (passing A L p) (handleRoot s rq) (\<lambda>_. passing A L p)"
    unfolding handleRoot_def assms
  proof (rule go_on [OF passing_process_ops(1)], rule go_on [OF keeps_if [OF passing_process keeps_return]],
      rule hoare_bind [OF touch_dead], goal_cases)
    case (1 _ _ e)
    show ?case by (cases e) (simp_all add: bad hoare_return)
  qed
  then show ?thesis by (simp add: keeps_def)
qed

lemma serve_passing: "keeps (passing A L p) (serve_request (build cfg log_svc) rq)"
proof -
  have "keeps (passing A L p) (mux (srServer (build cfg log_svc)) rq)"
    unfolding mux_def handleHealth_def handleSlow_def handleHeaders_def handleReset_def
    by (intro keeps_rules passing_rules handleRoot_passing) (simp add: build_def New_server_def)
  then show ?thesis
    unfolding serve_request_def chaos_ServeHTTP_def drop_draw_def drop_request_def build_def New_chaos_def
    by (auto intro!: keeps_rules passing_rules keeps_if_set simp: if_set_def)
qed

lemma went_keeps: "(\<And>A L. keeps (passing A L p) m) \<Longrightarrow> (\<And>x. hoare (went p a xs) (f x) Q) \<Longrightarrow> hoare (went p a xs) (m \<bind> f) Q"
  unfolding went_def by (rule go_on)

lemma went_goes:
  "(\<And>A L. hoare (passing A L p) m (\<lambda>_. moves y A L p)) \<Longrightarrow> (\<And>x. hoare (went p a (xs @ [y])) (f x) Q) \<Longrightarrow>
    hoare (went p a xs) (m \<bind> f) Q"
  by (rule hoare_bind [OF drop_went])

lemma BeginShutdown_went: "hoare (went p a xs) BeginShutdown (\<lambda>_. went p a (xs @ [PutStatus StatusShuttingDown, DropHealthy]))"
  unfolding BeginShutdown_def
  by (rule went_goes [OF hoare_drop [OF SetStatus_passing]], rule went_goes [OF remove_passing(1)]) (simp add: hoare_return)

lemma shutdown_went:
  "hoare (went p a []) (shutdown (build cfg log_svc) cause inflight drain)
     (\<lambda>_. went p a [PutStatus StatusShuttingDown, DropHealthy, DropPID])"
proof -
  have l: "srLogger (build cfg log_svc) = log_svc" by (simp add: build_def)
  have rp: "hoare (went p a xs) RemovePID (\<lambda>_. went p a (xs @ [DropPID]))" for xs
    unfolding RemovePID_def by (rule went_goes [OF remove_passing(3)]) (simp add: hoare_return)
  show ?thesis
    unfolding shutdown_def l log_cause_def log_close_def
    apply (rule went_keeps)
     apply (cases cause; simp add: passing_rules)
    apply (rule hoare_bind [OF BeginShutdown_went])
    apply (rule went_keeps [OF passing_log(1)])
    apply (rule went_keeps)
     apply (intro keeps_rules serve_passing)
    apply (rule went_keeps)
     apply (intro keeps_if_set passing_rules)
    apply (rule hoare_bind [OF rp])
    apply (rule went_keeps [OF passing_log(1)])
    apply (rule went_keeps [OF passing_read(2)])
    by (simp add: hoare_return)
qed

lemma started_went: "killable w \<Longrightarrow> no_temps w \<Longrightarrow> went (self_pid w) (signals_of w) [] w"
  by (simp add: went_def passing_def)

subsection \<open>Startup\<close>

text \<open>What startup writes, in its order.\<close>

definition startup_writes :: "signal_write list" where
  "startup_writes = [DropLoading, DropHealthy, PutStatus StatusStarting, PutLoading, PutPID, PutHealthy, DropLoading,
     PutStatus StatusRunning, PutStatus StatusDegraded]"

definition along :: "int \<Rightarrow> signals \<Rightarrow> 'x world \<Rightarrow> bool" where
  "along p a w \<longleftrightarrow> signals_of w \<in> set (visited p startup_writes a)"

lemma went_along: "startup_writes = xs @ ys \<Longrightarrow> went p a xs w \<Longrightarrow> along p a w"
  using visited_mono [of p xs a ys] by (auto simp: went_def passing_def along_def)

lemma keeps_along: "startup_writes = xs @ ys \<Longrightarrow> (\<And>A L. keeps (passing A L p) m) \<Longrightarrow> hoare (went p a xs) m (\<lambda>_. along p a)"
  by (rule hoare_weaken [of "went p a xs" _ "\<lambda>_. went p a xs"]) (auto simp: keeps_def went_def [of p a xs] intro: went_along)

text \<open>A step that must succeed: it moves on, or its error is reported and nothing more is done.\<close>

lemma or_exit_along:
  assumes "hoare (went p a xs) m (\<lambda>_. went p a (xs @ zs))" and "startup_writes = (xs @ zs) @ ys"
    and "\<And>e A L. keeps (passing A L p) (rep e)" and "hoare (went p a (xs @ zs)) k (\<lambda>_. along p a)"
  shows "hoare (went p a xs) (or_exit m rep k) (\<lambda>_. along p a)"
  unfolding or_exit_def
proof (rule hoare_bind [OF assms(1)])
  fix e
  have "hoare (went p a (xs @ zs)) (do { _ \<leftarrow> rep x; ret (Inl 1) }) (\<lambda>_. along p a)" for x
    by (intro keeps_along [OF assms(2)] keeps_rules assms(3))
  then show "hoare (went p a (xs @ zs)) (case e of None \<Rightarrow> k | Some err \<Rightarrow> do { _ \<leftarrow> rep err; ret (Inl 1) }) (\<lambda>_. along p a)"
    using assms(4) by (cases e) simp_all
qed

lemma op_writes:
  assumes "\<And>A L. hoare (passing A L p) m (\<lambda>e w. E e w \<and> moves x A L p w)"
  shows "hoare (went p a xs) m (\<lambda>_. went p a (xs @ [x]))"
  by (rule drop_went) (rule hoare_drop [OF assms])

lemma Init_went: "hoare (went p a xs) Init (\<lambda>_. went p a (xs @ [DropLoading, DropHealthy, PutStatus StatusStarting]))"
  unfolding Init_def
  by (rule went_goes [OF remove_passing(2)], rule went_goes [OF remove_passing(1)],
      rule hoare_weaken [OF op_writes [OF SetStatus_passing]]) auto

lemma warn_error_went:
  assumes "\<And>A L. hoare (passing A L p) m (\<lambda>e w. E e w \<and> moves x A L p w)"
  shows "hoare (went p a xs) (warn_error log_svc msg m) (\<lambda>_. went p a (xs @ [x]))"
proof -
  have "keeps (went p a (xs @ [x])) (if_set e (\<lambda>err. log_warn log_svc msg [LStr ''error'', LErr err]))" for e
    unfolding went_def by (intro keeps_if_set passing_log)
  then show ?thesis
    unfolding warn_error_def by (intro hoare_bind [OF op_writes [OF assms]]) (simp add: keeps_def)
qed

definition degrades :: "chaos_config \<Rightarrow> signal_write list" where
  "degrades c = (if IsActive c then [PutStatus StatusDegraded] else [])"

lemma announce_chaos_went: "hoare (went p a xs) (announce_chaos c log_svc) (\<lambda>_. went p a (xs @ degrades c))"
proof -
  have "hoare (went p a xs) (do { _ \<leftarrow> SetStatus StatusDegraded; log_warn log_svc msg kvs } :: (svc, unit) state)
    (\<lambda>_. went p a (xs @ [PutStatus StatusDegraded]))" for msg kvs
    by (rule went_goes [OF hoare_drop [OF SetStatus_passing]])
       (use passing_log(2) in \<open>simp add: keeps_def went_def\<close>)
  then show ?thesis
    unfolding announce_chaos_def degrades_def
    by (intro went_keeps keeps_if keeps_bind passing_rules keeps_return) (simp_all add: hoare_return)
qed

lemma announce_went:
  "hoare (went p a xs) (announce cfg log_svc)
     (\<lambda>_. went p a (xs @ [DropLoading, PutStatus StatusRunning] @ degrades (scChaos cfg)))"
  unfolding announce_def
  apply (rule hoare_bind [OF warn_error_went [OF RemoveLoading_passing]])
  apply (rule hoare_bind [OF warn_error_went [OF SetStatus_passing]])
  apply (rule hoare_bind [OF announce_chaos_went])
  apply (rule went_keeps)
   apply (intro keeps_rules passing_rules)
  using passing_log(1) by (simp add: keeps_def went_def)

lemma start_logged_along:
  "hoare (went p a [DropLoading, DropHealthy, PutStatus StatusStarting, PutLoading]) (start_logged cfg log_svc) (\<lambda>_. along p a)"
proof -
  have pl: "keeps (passing A L p) (log_err log_svc msg kvs)" for A L msg kvs by (rule passing_log)
  show ?thesis
    unfolding start_logged_def
    apply (rule went_keeps [OF passing_log(1)])
    apply (rule or_exit_along [OF op_writes [OF WritePID_passing] _ pl])
     apply (simp add: startup_writes_def)
    apply (rule went_keeps [OF probe_passing])
    apply (rule or_exit_along [OF op_writes [OF CreateHealthy_passing] _ pl])
     apply (simp add: startup_writes_def)
    apply (rule hoare_bind [OF announce_went])
    apply (rule hoare_return)
    by (erule went_along [rotated, where ys = "if IsActive (scChaos cfg) then [] else [PutStatus StatusDegraded]"])
       (simp add: startup_writes_def degrades_def)
qed

lemma startup_along: "hoare (went p a []) (startup yaml) (\<lambda>_. along p a)"
proof -
  have er: "keeps (passing A L p) (to_stderr what e)" for A L what e
    unfolding to_stderr_def by (rule passing_eprint)
  let ?xs = "[DropLoading, DropHealthy, PutStatus StatusStarting, PutLoading]"
  have xs: "([] @ [DropLoading, DropHealthy, PutStatus StatusStarting]) @ [PutLoading] = ?xs" by simp
  have load: "keeps (passing A L p) (Load yaml path)" for A L path
    unfolding Load_def by (intro keeps_rules passing_rules)
  have lg: "hoare (went p a ?xs) (New_logger LogPath_svc) (\<lambda>r w. (case r of Inr l \<Rightarrow> l = log_svc | Inl _ \<Rightarrow> True) \<and> went p a ?xs w)"
    unfolding New_logger_def log_svc_def
    by (rule went_keeps [OF passing_file(3) [OF elsewhere_paths(1)]]) (auto simp: hoare_return split: option.splits)
  have stop: "hoare (went p a ?xs) (do { _ \<leftarrow> m; ret (Inl 1) }) (\<lambda>_. along p a)" if "\<And>A L. keeps (passing A L p) m"
    for m :: "(svc, unit) state"
    by (rule keeps_along [of _ "[PutPID, PutHealthy, DropLoading, PutStatus StatusRunning, PutStatus StatusDegraded]"])
       (use that in \<open>auto simp: startup_writes_def intro!: keeps_rules\<close>)
  show ?thesis
    unfolding startup_def
    apply (rule or_exit_along [OF Init_went _ er])
     apply (simp add: startup_writes_def)
    apply (rule or_exit_along [OF op_writes [OF CreateLoading_passing] _ er])
     apply (simp add: startup_writes_def)
    apply (unfold xs)
    apply (rule went_keeps [OF load])
    subgoal for r
    proof (cases r)
      case (Inl e)
      then show ?thesis unfolding Inl sum.case by (intro stop er)
    next
      case (Inr cfg)
      have "hoare (went p a ?xs) (do {
            g \<leftarrow> New_logger LogPath_svc;
            (case g of
               Inl err \<Rightarrow> do { _ \<leftarrow> log_Stderr (''opening log file failed: '' @ error_text err); ret (Inl 1) }
             | Inr l \<Rightarrow> start_logged cfg l)
          }) (\<lambda>_. along p a)"
      proof (rule hoare_bind [OF lg], rule hoare_when)
        fix g :: "logger result" assume "case g of Inr l \<Rightarrow> l = log_svc | Inl _ \<Rightarrow> True"
        then show "hoare (went p a ?xs) (case g of
               Inl err \<Rightarrow> do { _ \<leftarrow> log_Stderr (''opening log file failed: '' @ error_text err); ret (Inl 1) }
             | Inr l \<Rightarrow> start_logged cfg l) (\<lambda>_. along p a)"
          using stop [OF passing_eprint] start_logged_along by (auto simp: log_Stderr_def split: sum.splits)
      qed
      then show ?thesis unfolding Inr sum.case .
    qed
    done
qed

subsection \<open>Properties\<close>

text \<open>
  C16: a service killed at any moment of its shutdown, even in the middle of a write, leaves its
  signal files in one of four states: as they were; then the status ShuttingDown; then the
  healthy marker gone; then the PID file gone. The marker never disappears under another
  status, whatever requests are drained meanwhile.
\<close>

theorem shutdown_killed:
  assumes "killable w" and "no_temps w"
  shows "case run (shutdown (build cfg log_svc) cause inflight drain) w of (_, w') \<Rightarrow>
     signals_of w' \<in> {signals_of w,
       (signals_of w)\<lparr>sgStatus := Some (StatusShuttingDown @ [nl])\<rparr>,
       (signals_of w)\<lparr>sgStatus := Some (StatusShuttingDown @ [nl]), sgHealthy := False\<rparr>,
       (signals_of w)\<lparr>sgStatus := Some (StatusShuttingDown @ [nl]), sgHealthy := False, sgPID := None\<rparr>}"
  using hoareD [OF shutdown_went started_went [OF assms], of cfg cause inflight drain]
  by (auto simp: went_def passing_def split: prod.splits)

definition killed_after :: "nat \<Rightarrow> 'x world \<Rightarrow> 'x world" where
  "killed_after k w = w\<lparr>fault_at := (\<lambda>n. if sysno w + k \<le> n then Some EIO else None)\<rparr>"

lemma killed_after_basic [simp]:
  "killable (killed_after k w)" "no_temps (killed_after k w) = no_temps w" "signals_of (killed_after k w) = signals_of w"
  "self_pid (killed_after k w) = self_pid w"
  by (auto simp: killable_def killed_after_def at_rest)

lemma demo_no_temps: "no_temps demo_installed"
  using demo_calm by (simp add: calm_def no_temps_def)

theorem shutdown_killed_witness:
  "list_all (\<lambda>k. case run (shutdown (build (loaded [] [] no_chaos) log_svc) (Signalled SIGTERM)
      [\<lparr>rqMethod = ''GET'', rqPath = ''/'', rqHeaders = [], rqConn = NoHijacker\<rparr>] None) (killed_after k demo_installed) of (_, w') \<Rightarrow>
     sgStatus (signals_of w') \<in> {None, Some (''ShuttingDown'' @ [nl])}) [0..<20]"
proof -
  have "sgStatus (signals_of demo_installed) = None" by code_simp
  then have "case run (shutdown (build (loaded [] [] no_chaos) log_svc) (Signalled SIGTERM)
      [\<lparr>rqMethod = ''GET'', rqPath = ''/'', rqHeaders = [], rqConn = NoHijacker\<rparr>] None) (killed_after k demo_installed) of (_, w') \<Rightarrow>
     sgStatus (signals_of w') \<in> {None, Some (''ShuttingDown'' @ [nl])}" for k
    using shutdown_killed [of "killed_after k demo_installed" "loaded [] [] no_chaos" "Signalled SIGTERM"
      "[\<lparr>rqMethod = ''GET'', rqPath = ''/'', rqHeaders = [], rqConn = NoHijacker\<rparr>]" None]
    by (auto simp: demo_no_temps StatusShuttingDown_def)
  then show ?thesis by (simp add: list_all_iff)
qed

text \<open>
  C17: a service killed at any moment of its startup, or giving up there, leaves its signal files
  in one of the states of its protocol, in order: stale markers removed, status Starting,
  loading marker, PID file, healthy marker, loading marker removed, status Running, then
  Degraded. So a healthy marker is never beside a PID file of another process, except the
  stale one of an earlier process that the removal has not reached yet.
\<close>

theorem startup_killed:
  assumes "killable w" and "no_temps w"
  shows "case run (startup yaml) w of (_, w') \<Rightarrow>
     signals_of w' \<in> set (visited (self_pid w) [DropLoading, DropHealthy, PutStatus StatusStarting, PutLoading, PutPID, PutHealthy,
       DropLoading, PutStatus StatusRunning, PutStatus StatusDegraded] (signals_of w)) \<and>
     (sgHealthy (signals_of w') \<longrightarrow> sgPID (signals_of w') = Some (itoa (self_pid w) @ [nl]) \<or>
        signals_of w' = signals_of w \<or> signals_of w' = (signals_of w)\<lparr>sgLoading := False\<rparr>)"
proof -
  obtain r w' where run: "run (startup yaml) w = (r, w')" by (meson surj_pair)
  from hoareD [OF startup_along started_went [OF assms] run] show ?thesis
    unfolding run prod.case along_def startup_writes_def
    by (intro conjI; auto)
qed

theorem startup_killed_witness:
  "list_all (\<lambda>k. case run (startup demo_yaml) (killed_after k demo_installed) of (_, w') \<Rightarrow>
     if sgHealthy (signals_of w') then sgPID (signals_of w') = Some (''100'' @ [nl]) else True) [0..<60]"
proof -
  have "itoa (self_pid demo_installed) = ''100''" "\<not> sgHealthy (signals_of demo_installed)" by code_simp+
  then have "case run (startup demo_yaml) (killed_after k demo_installed) of (_, w') \<Rightarrow>
     if sgHealthy (signals_of w') then sgPID (signals_of w') = Some (''100'' @ [nl]) else True" for k
    using startup_killed [of "killed_after k demo_installed" demo_yaml] by (auto simp: demo_no_temps)
  then show ?thesis by (simp add: list_all_iff)
qed

text \<open>
  when the one call that creates the temporary file of the status fails and nothing else
  does, the beginning of a shutdown still removes the healthy marker and leaves the status it
  found: the marker is gone under, say, Running, the picture of a crash.
\<close>

theorem shutdown_false_crash:
  assumes "calm (w\<lparr>sysno := Suc (sysno w)\<rparr>)" and "fault_at w (sysno w) = Some e"
  shows "case run BeginShutdown w of (_, w') \<Rightarrow> signals_of w' = (signals_of w)\<lparr>sgHealthy := False\<rparr>"
proof -
  let ?v = "w\<lparr>sysno := Suc (sysno w)\<rparr>"
  have s: "sits (signals_of w) (self_pid w) ?v" using assms(1) by (simp add: sits_def at_rest)
  have 1: "run (SetStatus StatusShuttingDown) w =
      (Some (Wrapf (''creating temp file for '' @ StatusFile @ '': '') (PathError ''open'' (Dir @ ''/.tmp-'') e) []), ?v)"
    using assms(2) by (simp add: SetStatus_def writeAtomic_def os_CreateTemp_def run_syscall)
  obtain u v2 where 2: "run (os_Remove HealthyFile) ?v = (u, v2)" by (meson surj_pair)
  from hoareD [OF remove_sits(1) s 2] show ?thesis by (simp add: BeginShutdown_def 1 2 sits_def)
qed

theorem shutdown_false_crash_witness:
  "case run BeginShutdown (demo_svc [(StatusFile, ''Running'' @ [nl]), (HealthyFile, [])] [(0, ENOSPC)]) of (_, w') \<Rightarrow>
     sgStatus (signals_of w') = Some (''Running'' @ [nl]) \<and> \<not> sgHealthy (signals_of w')"
proof -
  let ?w = "demo_svc [(StatusFile, ''Running'' @ [nl]), (HealthyFile, [])] [(0, ENOSPC)]"
  have "calm (?w\<lparr>sysno := Suc (sysno ?w)\<rparr>)" "fault_at ?w (sysno ?w) = Some ENOSPC"
    by (auto simp: calm_def demo_svc_def demo_world_def tmp_prefix_def signal_paths)
  from shutdown_false_crash [OF this] have "case run BeginShutdown ?w of (_, w') \<Rightarrow> signals_of w' = (signals_of ?w)\<lparr>sgHealthy := False\<rparr>" .
  moreover have "sgStatus (signals_of ?w) = Some (''Running'' @ [nl])" by code_simp
  ultimately show ?thesis by (auto split: prod.splits)
qed

end
