(* ===== verification/SvcConfigProps.thy ===== *)
theory SvcConfigProps
  imports SvcConfig
begin

text \<open>
  Properties of the configuration: runes and their encoding, the sanitised environment name, the
  range of the chaos settings.
\<close>

subsection \<open>UTF-8\<close>

definition scalar :: "nat \<Rightarrow> bool" where
  "scalar u \<longleftrightarrow> u < 1114112 \<and> \<not> (55296 \<le> u \<and> u < 57344)"

lemma bytes_append [simp]: "bytes (a @ b) = bytes a @ bytes b"
  by (simp add: bytes_def)

lemma bytes_simps [simp]: "bytes [] = []" "bytes (c # s) = of_char c # bytes s"
  by (simp_all add: bytes_def)

lemma of_char_of: "n < 256 \<Longrightarrow> (of_char (char_of n :: char) :: nat) = n"
  by simp

text \<open>The four lengths of an encoding, as lists of bytes.\<close>

lemma bytes_utf8:
  assumes "u < 1114112"
  shows "bytes (utf8 u) =
    (if u < 128 then [u]
     else if u < 2048 then [192 + u div 64, 128 + u mod 64]
     else if u < 65536 then [224 + u div 4096, 128 + u div 64 mod 64, 128 + u mod 64]
     else [240 + u div 262144, 128 + u div 4096 mod 64, 128 + u div 64 mod 64, 128 + u mod 64])"
proof -
  have a: "128 + u mod 64 < 256" "128 + u div 64 mod 64 < 256" "128 + u div 4096 mod 64 < 256" by auto
  consider "u < 128" | "128 \<le> u" "u < 2048" | "2048 \<le> u" "u < 65536" | "65536 \<le> u" by linarith
  then show ?thesis
  proof cases
    case 1
    then show ?thesis by (simp add: utf8_def)
  next
    case 2
    then have "192 + u div 64 < 256" by auto
    with a 2 show ?thesis by (simp add: utf8_def)
  next
    case 3
    then have "224 + u div 4096 < 256" by auto
    with a 3 show ?thesis by (simp add: utf8_def)
  next
    case 4
    with assms have "240 + u div 262144 < 256" by auto
    with a 4 show ?thesis by (simp add: utf8_def)
  qed
qed

lemma rune_digits:
  "y < 64 \<Longrightarrow> rune2 (192 + x) ((128 + y) # t) = (x * 64 + y, 2)"
  "y < 64 \<Longrightarrow> z < 64 \<Longrightarrow> (x = 0 \<Longrightarrow> 32 \<le> y) \<Longrightarrow> (x = 13 \<Longrightarrow> y < 32) \<Longrightarrow>
     rune3 (224 + x) ((128 + y) # (128 + z) # t) = (x * 4096 + y * 64 + z, 3)"
  "y < 64 \<Longrightarrow> z < 64 \<Longrightarrow> v < 64 \<Longrightarrow> (x = 0 \<Longrightarrow> 16 \<le> y) \<Longrightarrow> (x = 4 \<Longrightarrow> y < 16) \<Longrightarrow>
     rune4 (240 + x) ((128 + y) # (128 + z) # (128 + v) # t) = (x * 262144 + y * 4096 + z * 64 + v, 4)"
  by (auto simp: rune2_def rune3_def rune4_def cont_def)

lemma next_rune_range:
  "194 \<le> b \<Longrightarrow> b < 224 \<Longrightarrow> next_rune b r = rune2 b r"
  "224 \<le> b \<Longrightarrow> b < 240 \<Longrightarrow> next_rune b r = rune3 b r"
  "240 \<le> b \<Longrightarrow> b < 245 \<Longrightarrow> next_rune b r = rune4 b r"
  by (simp_all add: next_rune_def)

lemma div_digits: "(u :: nat) div 4096 = u div 64 div 64" "u div 262144 = u div 4096 div 64"
  using div_mult2_eq [of u 64 64] div_mult2_eq [of u 4096 64] by simp_all

lemma digits_64: "u div 4096 * 4096 + u div 64 mod 64 * 64 + u mod 64 = (u :: nat)"
  "u div 262144 * 262144 + u div 4096 mod 64 * 4096 + u div 64 mod 64 * 64 + u mod 64 = u"
proof -
  show *: "u div 4096 * 4096 + u div 64 mod 64 * 64 + u mod 64 = u"
    using div_mult_mod_eq [of u 64] div_mult_mod_eq [of "u div 64" 64] unfolding div_digits(1) by linarith
  show "u div 262144 * 262144 + u div 4096 mod 64 * 4096 + u div 64 mod 64 * 64 + u mod 64 = u"
    using * div_mult_mod_eq [of "u div 4096" 64] unfolding div_digits(2) by linarith
qed

lemma surrogate_digit: "(u :: nat) div 4096 = 13 \<Longrightarrow> u < 55296 \<Longrightarrow> u div 64 mod 64 < 32"
proof -
  assume "u div 4096 = 13" "u < 55296"
  then have "u div 64 div 64 = 13" "u div 64 < 864" by (simp_all add: div_digits(1) less_mult_imp_div_less)
  with div_mult_mod_eq [of "u div 64" 64] show ?thesis by linarith
qed

lemma last_plane_digit: "(u :: nat) div 262144 = 4 \<Longrightarrow> u < 1114112 \<Longrightarrow> u div 4096 mod 64 < 16"
proof -
  assume "u div 262144 = 4" "u < 1114112"
  then have "u div 4096 div 64 = 4" "u div 4096 < 272" by (simp_all add: div_digits(2) less_mult_imp_div_less)
  with div_mult_mod_eq [of "u div 4096" 64] show ?thesis by linarith
qed

lemma next_rune_utf8:
  assumes "scalar u" and "bytes (utf8 u) @ t = b # r"
  shows "next_rune b r = (u, length (utf8 u))"
proof -
  have u: "u < 1114112" using assms(1) by (simp add: scalar_def)
  have len: "length (utf8 u) = length (bytes (utf8 u))" by (simp add: bytes_def)
  consider "u < 128" | "128 \<le> u" "u < 2048" | "2048 \<le> u" "u < 65536" | "65536 \<le> u" by linarith
  then show ?thesis
  proof cases
    case 1
    with assms(2) len show ?thesis by (auto simp: bytes_utf8 next_rune_def)
  next
    case 2
    then have b: "b = 192 + u div 64" and r: "r = (128 + u mod 64) # t" using assms(2) by (auto simp: bytes_utf8)
    have "194 \<le> b" "b < 224" using 2 b by auto
    moreover have "u div 64 * 64 + u mod 64 = u" by simp
    ultimately have "next_rune b r = (u, 2)" using rune_digits(1) [of "u mod 64" "u div 64" t] by (simp add: b r next_rune_range)
    with 2 len show ?thesis by (simp add: bytes_utf8)
  next
    case 3
    then have b: "b = 224 + u div 4096" and r: "r = (128 + u div 64 mod 64) # (128 + u mod 64) # t"
      using assms(2) by (auto simp: bytes_utf8)
    have "224 \<le> b" "b < 240" using 3 b by auto
    moreover have "32 \<le> u div 64 mod 64" if "u div 4096 = 0" using 3 that by auto
    moreover have "u div 64 mod 64 < 32" if "u div 4096 = 13"
      using surrogate_digit [OF that] that assms(1) by (auto simp: scalar_def)
    ultimately have "next_rune b r = (u, 3)"
      using rune_digits(2) [of "u div 64 mod 64" "u mod 64" "u div 4096" t] by (simp add: b r next_rune_range digits_64)
    with 3 len u show ?thesis by (simp add: bytes_utf8)
  next
    case 4
    then have b: "b = 240 + u div 262144"
      and r: "r = (128 + u div 4096 mod 64) # (128 + u div 64 mod 64) # (128 + u mod 64) # t"
      using assms(2) u by (auto simp: bytes_utf8)
    have "240 \<le> b" "b < 245" using u b by auto
    moreover have "16 \<le> u div 4096 mod 64" if "u div 262144 = 0" using 4 that by auto
    moreover have "u div 4096 mod 64 < 16" if "u div 262144 = 4" using last_plane_digit [OF that u] .
    ultimately have "next_rune b r = (u, 4)"
      using rune_digits(3) [of "u div 4096 mod 64" "u div 64 mod 64" "u mod 64" "u div 262144" t]
      by (simp add: b r next_rune_range digits_64)
    with 4 len u show ?thesis by (simp add: bytes_utf8)
  qed
qed

lemma utf8_nonempty: "utf8 u \<noteq> []"
  by (simp add: utf8_def)

lemma runes_utf8: "scalar u \<Longrightarrow> runes (bytes (utf8 u) @ t) = u # runes t"
proof -
  assume s: "scalar u"
  obtain c cs where c: "utf8 u = c # cs" using utf8_nonempty by (cases "utf8 u") auto
  let ?b = "of_char c :: nat" and ?r = "bytes cs @ t"
  have e: "bytes (utf8 u) @ t = ?b # ?r" by (simp add: c)
  from next_rune_utf8 [OF s e] have "next_rune ?b ?r = (u, Suc (length cs))" by (simp add: c)
  then show ?thesis unfolding e by (simp add: bytes_def)
qed

lemma runes_encode: "list_all scalar us \<Longrightarrow> runes (bytes (concat (map utf8 us))) = us"
  by (induction us) (simp_all add: runes_utf8)

lemma next_rune_scalar: "b < 256 \<Longrightarrow> list_all (\<lambda>x. x < 256) r \<Longrightarrow> scalar (fst (next_rune b r))"
proof -
  have a: "scalar (fst (65533, 1 :: nat))" by (simp add: scalar_def)
  have r2: "scalar (fst (rune2 b r))" if "194 \<le> b" "b < 224"
    using that by (auto simp: rune2_def cont_def scalar_def split: list.splits)
  have r3: "scalar (fst (rune3 b r))" if b: "224 \<le> b" "b < 240"
  proof -
    have "scalar ((b - 224) * 4096 + (b1 - 128) * 64 + (b2 - 128))"
      if "(if b = 224 then 160 else 128) \<le> b1" "b1 < (if b = 237 then 160 else 192)" "cont b2" for b1 b2
    proof -
      define x y z where "x = b - 224" and "y = b1 - 128" and "z = b2 - 128"
      have "x < 16" "y < 64" "z < 64" "x = 0 \<Longrightarrow> 32 \<le> y" "x = 13 \<Longrightarrow> y < 32"
        using b that by (auto simp: x_def y_def z_def cont_def split: if_splits)
      then show ?thesis unfolding x_def [symmetric] y_def [symmetric] z_def [symmetric] scalar_def
        by (cases "x \<le> 12"; cases "x = 13") auto
    qed
    with a show ?thesis by (auto simp: rune3_def split: list.splits)
  qed
  have r4: "scalar (fst (rune4 b r))" if b: "240 \<le> b" "b < 245"
  proof -
    have "scalar ((b - 240) * 262144 + (b1 - 128) * 4096 + (b2 - 128) * 64 + (b3 - 128))"
      if "(if b = 240 then 144 else 128) \<le> b1" "b1 < (if b = 244 then 144 else 192)" "cont b2" "cont b3" for b1 b2 b3
    proof -
      define x y z v where "x = b - 240" and "y = b1 - 128" and "z = b2 - 128" and "v = b3 - 128"
      have "x < 5" "y < 64" "z < 64" "v < 64" "x = 0 \<Longrightarrow> 16 \<le> y" "x = 4 \<Longrightarrow> y < 16"
        using b that by (auto simp: x_def y_def z_def v_def cont_def split: if_splits)
      then show ?thesis unfolding x_def [symmetric] y_def [symmetric] z_def [symmetric] v_def [symmetric] scalar_def
        by (cases "x = 0"; cases "x = 4") auto
    qed
    with a show ?thesis by (auto simp: rune4_def split: list.splits)
  qed
  have "scalar b" if "b < 128" using that by (simp add: scalar_def)
  with a r2 r3 r4 show ?thesis by (auto simp: next_rune_def)
qed

lemma runes_scalar: "list_all (\<lambda>x. x < 256) bs \<Longrightarrow> list_all scalar (runes bs)"
proof (induction bs rule: runes.induct)
  case (2 b r)
  have "list_all (\<lambda>x. x < 256) (drop k r)" for k
    using 2(2) by (auto simp: list_all_iff dest: in_set_dropD)
  with 2 next_rune_scalar [of b r] show ?case by simp
qed simp

lemma bytes_small: "list_all (\<lambda>x. x < 256) (bytes s)"
  by (simp add: bytes_def list_all_iff nat_of_char_lt)

lemma runes_ascii: "list_all (\<lambda>c. of_char c < (128::nat)) s \<Longrightarrow> runes (bytes s) = bytes s"
  by (induction s) (simp_all add: next_rune_def)

subsection \<open>Properties\<close>

definition control :: "char \<Rightarrow> bool" where
  "control c \<longleftrightarrow> (of_char c :: nat) < 32 \<or> of_char c = (127 :: nat)"

lemma utf8_no_control: "32 \<le> u \<Longrightarrow> u \<noteq> 127 \<Longrightarrow> u < 1114112 \<Longrightarrow> list_all (\<lambda>b. \<not> (b < 32 \<or> b = 127)) (bytes (utf8 u))"
  by (auto simp: bytes_utf8)

text \<open>
  the sanitised environment name has no control byte left, whatever bytes the configuration
  file holds, valid UTF-8 or not; sanitising again changes nothing; and of an ASCII text exactly
  the control characters go.
\<close>

theorem SanitizeEnvString_clean:
  "list_all (\<lambda>c. \<not> control c) (SanitizeEnvString s) \<and>
   SanitizeEnvString (SanitizeEnvString s) = SanitizeEnvString s \<and>
   (if list_all (\<lambda>c. of_char c < (128::nat)) s then SanitizeEnvString s = filter (\<lambda>c. \<not> control c) s else True)"
proof (intro conjI)
  define us where "us = filter (\<lambda>r. 32 \<le> r \<and> r \<noteq> 127) (runes (bytes s))"
  have sc: "list_all scalar us" using runes_scalar [OF bytes_small, of s] by (auto simp: us_def list_all_iff)
  have S: "SanitizeEnvString s = concat (map utf8 us)" by (simp add: SanitizeEnvString_def us_def)
  have "list_all (\<lambda>b. \<not> (b < 32 \<or> b = 127)) (bytes (concat (map utf8 us)))"
    using sc utf8_no_control by (auto simp: us_def list_all_iff scalar_def bytes_def)
  then show "list_all (\<lambda>c. \<not> control c) (SanitizeEnvString s)"
    by (simp add: S control_def bytes_def list_all_iff)
  have "filter (\<lambda>r. 32 \<le> r \<and> r \<noteq> 127) us = us" by (simp add: us_def)
  then show "SanitizeEnvString (SanitizeEnvString s) = SanitizeEnvString s"
    unfolding S by (simp add: SanitizeEnvString_def runes_encode [OF sc])
  have "concat (map utf8 (filter (\<lambda>r. 32 \<le> r \<and> r \<noteq> 127) (bytes s))) = filter (\<lambda>c. \<not> control c) s"
    if "list_all (\<lambda>c. of_char c < (128::nat)) s"
    using that by (induction s) (auto simp: control_def utf8_def)
  then show "if list_all (\<lambda>c. of_char c < (128::nat)) s then SanitizeEnvString s = filter (\<lambda>c. \<not> control c) s else True"
    by (simp add: SanitizeEnvString_def runes_ascii)
qed

text \<open>
  whatever the environment holds, the loaded chaos settings are in range: a latency that is
  not negative, a drop rate between 0 and 100; and the list of active modes is empty exactly
  when chaos counts as inactive. The mode of zombie children counts in neither.
\<close>

theorem loadChaos_in_range:
  "case run loadChaos w of (c, w') \<Rightarrow>
     w' = w \<and> 0 \<le> ccLatencyMS c \<and> 0 \<le> ccDropPercent c \<and> ccDropPercent c \<le> 100 \<and>
     (ActiveModes c = [] \<longleftrightarrow> \<not> IsActive c) \<and> IsActive (c\<lparr>ccZombieChildren := z\<rparr>) = IsActive c"
  by (auto simp: loadChaos_def os_Getenv_def chaos_latency_def chaos_drop_def IsActive_def ActiveModes_def
      split: option.splits)

end
