(* ===== verification/SpecIndex.thy ===== *)
theory SpecIndex
  imports LabConfig
begin

text \<open>
  \<^verbatim>\<open>internal/invariants/spec_index.go\<close> with its driver \<^verbatim>\<open>cmd/generate_spec_index/main.go\<close>: the table
  that maps the sections of the specification documents to the files that implement them, its
  rendering in Markdown, and the rewriting of the generated section of the reference document.
  The root of the module, which the program takes from its own source path, is a parameter.
\<close>

subsection \<open>The table\<close>

datatype spec_section = SpecSection (spDoc: string) (spSection: string) (spTitle: string)

record spec_mapping =
  smSpec :: spec_section
  smImplFiles :: "string list"
  smTestFiles :: "string list"
  smTestOnly :: bool
  smCrossRef :: bool
  smConstraints :: string
  smNote :: string

text \<open>Fields that a literal leaves out are empty.\<close>

definition no_mapping :: spec_mapping where
  "no_mapping = \<lparr>smSpec = SpecSection [] [] [], smImplFiles = [], smTestFiles = [], smTestOnly = False, smCrossRef = False,
     smConstraints = [], smNote = []\<rparr>"

definition index_conformance :: "spec_mapping list" where
  "index_conformance = [
     no_mapping\<lparr>smSpec := SpecSection ''conformance-model.md'' (u_section @ ''3'') ''Check Catalog'',
       smImplFiles := [''internal/conformance/check.go'', ''internal/conformance/catalog.go''],
       smTestFiles := [''internal/conformance/runner_test.go'', ''internal/catalog/catalog_test.go'']\<rparr>,
     no_mapping\<lparr>smSpec := SpecSection ''conformance-model.md'' (u_section @ ''4'') ''Validation Semantics'',
       smImplFiles := [''internal/conformance/result.go'', ''internal/conformance/runner.go''],
       smTestFiles := [''internal/conformance/runner_test.go'', ''internal/conformance/runner_edge_cases_test.go'']\<rparr>,
     no_mapping\<lparr>smSpec := SpecSection ''conformance-model.md'' (u_section @ ''4.7'') ''Validation Output Schema'',
       smImplFiles := [''internal/output/model.go'', ''internal/output/render.go''],
       smTestFiles := [''internal/output/golden_test.go'', ''internal/output/render_test.go'']\<rparr>,
     no_mapping\<lparr>smSpec := SpecSection ''conformance-model.md'' (u_section @ ''5'') ''Model Completeness Condition'',
       smTestFiles := [''internal/invariants/invariants_test.go''],
       smTestOnly := True\<rparr>]"

definition index_system_state :: "spec_mapping list" where
  "index_system_state = [
     no_mapping\<lparr>smSpec := SpecSection ''system-state-model.md'' (u_section @ ''2'') ''State Definitions'',
       smImplFiles := [''internal/state/state.go''],
       smTestFiles := [''internal/state/state_test.go'']\<rparr>,
     no_mapping\<lparr>smSpec := SpecSection ''system-state-model.md'' (u_section @ ''3'') ''Transition Model'',
       smImplFiles := [''cmd/fault.go'', ''cmd/reset.go'', ''internal/state/store.go'', ''internal/state/state.go''],
       smTestFiles := [''cmd/fault_test.go'', ''cmd/interrupt_test.go'', ''internal/state/state_test.go'']\<rparr>,
     no_mapping\<lparr>smSpec := SpecSection ''system-state-model.md'' (u_section @ ''4'') ''State Detection'',
       smImplFiles := [''internal/state/detect.go'', ''cmd/status.go''],
       smTestFiles := [''internal/state/detect_test.go'', ''internal/state/store_test.go'', ''cmd/status_test.go'']\<rparr>,
     no_mapping\<lparr>smSpec := SpecSection ''system-state-model.md'' (u_section @ ''5'') ''Constraint Graph'',
       smImplFiles := [''internal/state/state.go'', ''internal/state/store.go''],
       smTestFiles := [''internal/state/state_test.go'', ''internal/state/store_test.go'',
         ''internal/invariants/invariants_test.go'']\<rparr>]"

definition index_fault_model :: "spec_mapping list" where
  "index_fault_model = [
     no_mapping\<lparr>smSpec := SpecSection ''fault-model.md'' (u_section @ ''3'') ''Fault Schema'',
       smImplFiles := [''internal/catalog/fault.go''],
       smTestFiles := [''internal/catalog/catalog_test.go'', ''internal/catalog/content_integrity_test.go'']\<rparr>,
     no_mapping\<lparr>smSpec := SpecSection ''fault-model.md'' (u_section @ ''4'') ''Mutation Rules'',
       smImplFiles := [''cmd/fault.go'', ''internal/catalog/faults.go'', ''internal/executor/executor.go''],
       smTestFiles := [''cmd/fault_test.go'', ''internal/executor/trace_test.go'', ''internal/executor/embed_test.go'']\<rparr>,
     no_mapping\<lparr>smSpec := SpecSection ''fault-model.md'' (u_section @ ''5'') ''Pre/Post Conditions'',
       smImplFiles := [''cmd/fault.go'', ''internal/conformance/catalog.go''],
       smTestFiles := [''cmd/fault_test.go'', ''internal/invariants/invariants_test.go'']\<rparr>,
     no_mapping\<lparr>smSpec := SpecSection ''fault-model.md'' (u_section @ ''6'') ''Reversibility Semantics'',
       smImplFiles := [''internal/catalog/faults.go'', ''cmd/reset.go''],
       smTestFiles := [''internal/catalog/catalog_test.go'', ''internal/catalog/content_integrity_test.go'']\<rparr>,
     no_mapping\<lparr>smSpec := SpecSection ''fault-model.md'' (u_section @ ''7'') ''Fault Catalog'',
       smImplFiles := [''internal/catalog/faults.go''],
       smTestFiles := [''internal/catalog/catalog_test.go'', ''internal/catalog/content_integrity_test.go'',
         ''internal/invariants/invariants_test.go'']\<rparr>,
     no_mapping\<lparr>smSpec := SpecSection ''fault-model.md'' (u_section @ ''10'') ''Baseline Network Behaviours'',
       smTestFiles := [''internal/invariants/invariants_test.go''],
       smTestOnly := True\<rparr>]"

definition index_control_plane :: "spec_mapping list" where
  "index_control_plane = [
     no_mapping\<lparr>smSpec := SpecSection ''control-plane-contract.md'' (u_section @ ''3'') ''Global Contract'',
       smImplFiles := [''app.go'', ''internal/output/render.go'', ''internal/executor/lock.go''],
       smTestFiles := [''internal/executor/lock_test.go'', ''internal/executor/lock_stale_system_process_test.go'',
         ''internal/output/render_test.go'']\<rparr>,
     no_mapping\<lparr>smSpec := SpecSection ''control-plane-contract.md'' (u_section @ ''4.1'') ''lab status'',
       smImplFiles := [''cmd/status.go''],
       smTestFiles := [''cmd/status_test.go'']\<rparr>,
     no_mapping\<lparr>smSpec := SpecSection ''control-plane-contract.md'' (u_section @ ''4.2'') ''lab validate'',
       smImplFiles := [''cmd/validate.go''],
       smTestFiles := [''cmd/validate_test.go'']\<rparr>,
     no_mapping\<lparr>smSpec := SpecSection ''control-plane-contract.md'' (u_section @ ''4.3'') ''lab fault list'',
       smImplFiles := [''cmd/fault.go''],
       smTestFiles := [''cmd/fault_test.go'']\<rparr>,
     no_mapping\<lparr>smSpec := SpecSection ''control-plane-contract.md'' (u_section @ ''4.4'') ''lab fault info'',
       smImplFiles := [''cmd/fault.go''],
       smTestFiles := [''cmd/fault_test.go'']\<rparr>,
     no_mapping\<lparr>smSpec := SpecSection ''control-plane-contract.md'' (u_section @ ''4.5'') ''lab fault apply'',
       smImplFiles := [''cmd/fault.go''],
       smTestFiles := [''cmd/fault_test.go'', ''cmd/interrupt_test.go'', ''cmd/live_fault_matrix_test.go'']\<rparr>,
     no_mapping\<lparr>smSpec := SpecSection ''control-plane-contract.md'' (u_section @ ''4.6'') ''lab reset'',
       smImplFiles := [''cmd/reset.go''],
       smTestFiles := [''cmd/live_fault_matrix_test.go'']\<rparr>,
     no_mapping\<lparr>smSpec := SpecSection ''control-plane-contract.md'' (u_section @ ''4.7'') ''lab provision'',
       smImplFiles := [''cmd/reset_provision_history.go''],
       smTestFiles := []\<rparr>,
     no_mapping\<lparr>smSpec := SpecSection ''control-plane-contract.md'' (u_section @ ''4.8'') ''lab history'',
       smImplFiles := [''cmd/reset_provision_history.go''],
       smTestFiles := []\<rparr>,
     no_mapping\<lparr>smSpec := SpecSection ''control-plane-contract.md'' (u_section @ ''5'') ''Executor Behavioral Contract'',
       smImplFiles := [''internal/executor/executor.go'', ''internal/executor/real.go''],
       smTestFiles := [''internal/executor/audit_test.go'', ''internal/executor/trace_test.go'',
         ''internal/executor/embed_test.go'', ''internal/executor/restore_test.go'']\<rparr>,
     no_mapping\<lparr>smSpec := SpecSection ''control-plane-contract.md'' (u_section @ ''6'') ''State File Contract'',
       smImplFiles := [''internal/state/store.go''],
       smTestFiles := [''internal/state/store_test.go'', ''internal/state/store_edge_cases_test.go'']\<rparr>,
     no_mapping\<lparr>smSpec := SpecSection ''control-plane-contract.md'' (u_section @ ''7'') ''Audit Log Contract'',
       smImplFiles := [''internal/executor/audit.go''],
       smTestFiles := [''internal/executor/audit_test.go'', ''internal/executor/mutation_failure_test.go'']\<rparr>,
     no_mapping\<lparr>smSpec := SpecSection ''control-plane-contract.md'' (u_section @ ''8'') ''Error Catalog'',
       smImplFiles := [''cmd/fault.go'', ''internal/executor/lock.go''],
       smTestFiles := [''cmd/fault_test.go'']\<rparr>,
     no_mapping\<lparr>smSpec := SpecSection ''control-plane-contract.md'' (u_section @ ''9'') ''Conformance with Semantic Models'',
       smCrossRef := True\<rparr>]"

definition index_canonical_env :: "spec_mapping list" where
  "index_canonical_env = [
     no_mapping\<lparr>smSpec := SpecSection ''canonical-enviornment-lab.md'' (u_section @ ''2'') ''Canonical Environment Contract'',
       smImplFiles := [''internal/config/config.go''],
       smTestFiles := [''internal/executor/embed_test.go''],
       smConstraints := ''constants (internal/config/config.go) + provisioning (scripts/bootstrap.sh) + verification (conformance checks)''\<rparr>,
     no_mapping\<lparr>smSpec := SpecSection ''canonical-enviornment-lab.md'' (u_section @ ''3'') ''Go Service Interface Contract'',
       smImplFiles := [''service/main.go'', ''service/server/server.go'', ''service/logging/logging.go'',
         ''service/signals/signals.go''],
       smTestFiles := [''service/server/server_test.go'', ''service/server/server_edge_cases_test.go'',
         ''service/signals/signals_test.go'', ''service/logging/logging_test.go'']\<rparr>,
     no_mapping\<lparr>smSpec := SpecSection ''canonical-enviornment-lab.md'' (u_section @ ''4'') ''Canonical Artifact Contents'',
       smImplFiles := [''internal/config/app.service'', ''internal/config/config.yaml'', ''internal/config/nginx.conf'',
         ''internal/config/logrotate.conf'', ''service/config/config.go''],
       smTestFiles := [''internal/executor/embed_test.go'', ''service/config/config_test.go''],
       smConstraints := ''embedded content (internal/config/*) + parser enforcement (service/config/config.go) + R2 restore (internal/executor/canonical_files.go)''\<rparr>,
     no_mapping\<lparr>smSpec := SpecSection ''canonical-enviornment-lab.md'' (u_section @ ''5'') ''Provisioning Contract'',
       smImplFiles := [''scripts/bootstrap.sh''],
       smTestFiles := [''cmd/live_fault_matrix_test.go''],
       smConstraints := ''script (scripts/bootstrap.sh) + idempotency strategy (docs/provisioning-blueprint.md) + final gate (lab validate)''\<rparr>,
     no_mapping\<lparr>smSpec := SpecSection ''canonical-enviornment-lab.md'' (u_section @ ''8'') ''State Control'',
       smImplFiles := [''cmd/reset.go'', ''scripts/reset.sh''],
       smTestFiles := [''cmd/live_fault_matrix_test.go'']\<rparr>]"

definition SpecIndex :: "spec_mapping list" where
  "SpecIndex = index_conformance @ index_system_state @ index_fault_model @ index_control_plane @ index_canonical_env"

definition DocOrder :: "string list" where
  "DocOrder = [''conformance-model.md'', ''system-state-model.md'', ''fault-model.md'', ''control-plane-contract.md'',
     ''canonical-enviornment-lab.md'']"

subsection \<open>Markdown\<close>

definition backquoted :: "string \<Rightarrow> string" where
  "backquoted s = [CHR 0x60] @ s @ [CHR 0x60]"

definition list_sep :: string where
  "list_sep = '' '' @ u_middot @ '' ''"

definition renderImpl :: "spec_mapping \<Rightarrow> string" where
  "renderImpl m =
     (if smCrossRef m then u_rarrow @ '' (cross-reference)''
      else if smTestOnly m then u_rarrow @ '' (test-only)''
      else if smConstraints m \<noteq> [] then ''constraints: '' @ smConstraints m
      else if smImplFiles m = [] then u_emdash
      else str_join list_sep (map backquoted (smImplFiles m)))"

text \<open>What follows the last slash.\<close>

definition base_name :: "string \<Rightarrow> string" where
  "base_name f = rev (takeWhile (\<lambda>c. c \<noteq> CHR ''/'') (rev f))"

definition renderTests :: "spec_mapping \<Rightarrow> string" where
  "renderTests m =
     (if smTestFiles m = [] then u_emdash
      else str_join list_sep (map (\<lambda>f. backquoted (base_name f)) (smTestFiles m)))"

definition index_title :: string where
  "index_title = ''Specification '' @ u_rarrow @ '' Implementation Index''"

definition beginGuard :: string where
  "beginGuard = ''<!-- BEGIN GENERATED: '' @ index_title @ '' -->''"

definition endGuard :: string where
  "endGuard = ''<!-- END GENERATED: '' @ index_title @ '' -->''"

definition mapping_row :: "spec_mapping \<Rightarrow> string" where
  "mapping_row m = ''| '' @ spSection (smSpec m) @ '' | '' @ spTitle (smSpec m) @ '' | '' @ renderImpl m @ '' | '' @
     renderTests m @ '' | '' @ smNote m @ '' |'' @ [nl]"

text \<open>\<open>byDoc[doc]\<close>: the mappings of one document, in order; no entry when there is none.\<close>

definition by_doc :: "string \<Rightarrow> spec_mapping list option" where
  "by_doc doc = (let es = filter (\<lambda>m. spDoc (smSpec m) = doc) SpecIndex in if es = [] then None else Some es)"

definition doc_table :: "string \<Rightarrow> string" where
  "doc_table doc =
     (case by_doc doc of
        None \<Rightarrow> []
      | Some es \<Rightarrow>
          ''---'' @ [nl, nl] @ ''### '' @ backquoted doc @ [nl, nl] @
          ''| Section | Title | Primary implementation | Enforcing tests | Notes |'' @ [nl] @
          ''|---|---|---|---|---|'' @ [nl] @ concat (map mapping_row es) @ [nl])"

definition generated_body :: string where
  "generated_body = ''## '' @ index_title @ [nl, nl] @
     ''> **Source of truth:** '' @ backquoted ''internal/invariants/spec_index.go'' @ '' '' @ u_emdash @
     '' the Go data structure that backs this table.'' @ [nl] @ concat (map doc_table DocOrder)"

definition GenerateMarkdown :: string where
  "GenerateMarkdown = beginGuard @ [nl] @ generated_body @ endGuard @ [nl]"

subsection \<open>Rewriting the document\<close>

definition trim_left_nl :: "string \<Rightarrow> string" where
  "trim_left_nl s = dropWhile (\<lambda>c. c = nl) s"

definition fallback_marker :: string where
  "fallback_marker = [nl] @ ''---'' @ [nl, nl] @ ''## '' @ index_title @ [nl]"

definition fallback_heading :: string where
  "fallback_heading = ''## '' @ index_title @ [nl]"

text \<open>What stands before and after the section; \<open>None\<close> when there is no place for it.\<close>

definition surroundings :: "string \<Rightarrow> (string \<times> string) option" where
  "surroundings content =
     (let fallback =
            (case str_index content fallback_marker of
               Some i \<Rightarrow> Some (trim_right_nl (take i content), [])
             | None \<Rightarrow> (case str_index content fallback_heading of
                 None \<Rightarrow> None
               | Some i \<Rightarrow> Some (trim_right_nl (take i content), [])))
      in case (str_index content beginGuard, str_index content endGuard) of
           (Some b, Some e) \<Rightarrow>
             if b < e then Some (trim_right_nl (take b content), trim_left_nl (drop (e + length endGuard) content)) else fallback
         | _ \<Rightarrow> fallback)"

definition new_content :: "string \<Rightarrow> string \<Rightarrow> string" where
  "new_content before after =
     (if after \<noteq> [] then before @ [nl, nl] @ GenerateMarkdown @ [nl, nl] @ after
      else before @ [nl, nl] @ GenerateMarkdown @ [nl])"

definition rewritten :: "string \<Rightarrow> string option" where
  "rewritten content = map_option (\<lambda>(before, after). new_content before after) (surroundings content)"

text \<open>\<open>os.WriteFile\<close>: the file is emptied first; the first of the errors of the write and the close counts.\<close>

definition os_WriteFile :: "string \<Rightarrow> string \<Rightarrow> nat \<Rightarrow> ('x world, go_error option) state" where
  "os_WriteFile p s m = do {
     e \<leftarrow> os_OpenTrunc p m;
     (case e of
        Some err \<Rightarrow> ret (Some err)
      | None \<Rightarrow> do {
          x \<leftarrow> file_Write p s;
          c \<leftarrow> file_Close p;
          ret (case x of Some err \<Rightarrow> Some err | None \<Rightarrow> c)
        })
   }"

definition spec_doc :: "string \<Rightarrow> string" where
  "spec_doc root = root @ ''/docs/codebase-reference.md''"

definition GenerateSpecIndex :: "string \<Rightarrow> ('x world, go_error option) state" where
  "GenerateSpecIndex root = do {
     r \<leftarrow> os_ReadFile (spec_doc root);
     (case r of
        Inl err \<Rightarrow> ret (Some (Wrapf (''read '' @ spec_doc root @ '': '') err []))
      | Inr content \<Rightarrow>
          (case rewritten content of
             None \<Rightarrow> ret (Some (Errorf ''neither guard markers nor fallback heading found''))
           | Some text \<Rightarrow> do {
               e \<leftarrow> os_WriteFile (spec_doc root) text (octal [0, 6, 4, 4]);
               (case e of
                  Some err \<Rightarrow> ret (Some (Wrapf (''write '' @ spec_doc root @ '': '') err []))
                | None \<Rightarrow> do {
                    _ \<leftarrow> oprint (''regenerated spec index in '' @ spec_doc root @ [nl]);
                    ret None
                  })
             }))
   }"

text \<open>The driver: the error on standard error and exit code 1.\<close>

definition generate_main :: "string \<Rightarrow> ('x world, int) state" where
  "generate_main root = do {
     e \<leftarrow> GenerateSpecIndex root;
     (case e of
        None \<Rightarrow> ret 0
      | Some err \<Rightarrow> do { _ \<leftarrow> eprint (error_text err @ [nl]); ret 1 })
   }"

end
