(* ===== verification/SpecProps.thy ===== *)
theory SpecProps
  imports SpecIndex
begin

text \<open>Properties of the specification index: the table, and the rewriting of its section.\<close>

subsection \<open>Searching over line ends\<close>

lemma has_prefix_line_end: "c \<notin> set p \<Longrightarrow> has_prefix (a @ c # r) p = has_prefix a p"
  by (induction a p rule: has_prefix.induct) (auto split: list.splits)

text \<open>A text without a line end is found before a line end, or after it.\<close>

lemma str_index_skip:
  assumes "c \<notin> set sub" and "sub \<noteq> []" and "str_index a sub = None"
  shows "str_index (a @ c # r) sub = map_option (\<lambda>k. Suc (length a + k)) (str_index r sub)"
  using assms(3)
proof (induction a)
  case Nil
  have "\<not> has_prefix (c # r) sub" using assms(1,2) by (cases sub) auto
  then show ?case by (simp add: option.map_comp comp_def)
next
  case (Cons x a)
  then have n: "\<not> has_prefix (x # a) sub" "str_index a sub = None" by (auto split: if_splits)
  with has_prefix_line_end [OF assms(1), of "x # a" r] have "\<not> has_prefix (x # a @ c # r) sub" by simp
  with Cons.IH [OF n(2)] show ?case by (simp add: option.map_comp comp_def)
qed

lemma has_prefix_take: "has_prefix s p \<longleftrightarrow> take (length p) s = p"
  by (induction s p rule: has_prefix.induct) auto

lemma take_before: "n \<le> length a \<Longrightarrow> take n (a @ r) = take n a"
  by simp

text \<open>A text found in a prefix is found there in the whole.\<close>

lemma str_index_extend: "str_index a sub = Some j \<Longrightarrow> str_index (a @ r) sub = Some j \<and> j + length sub \<le> length a"
proof (induction a arbitrary: j)
  case Nil
  then show ?case by (cases r) (auto split: if_splits)
next
  case (Cons x a)
  show ?case
  proof (cases "has_prefix (x # a) sub")
    case True
    then have "take (length sub) (x # a) = sub" by (simp add: has_prefix_take)
    then have l: "length sub \<le> length (x # a)" by (metis length_take min.cobounded1)
    then have "take (length sub) ((x # a) @ r) = take (length sub) (x # a)" by (rule take_before)
    with True have "has_prefix ((x # a) @ r) sub" unfolding has_prefix_take by metis
    with True Cons.prems l show ?thesis by simp
  next
    case False
    with Cons.prems obtain k where k: "str_index a sub = Some k" "j = Suc k" by auto
    with Cons.IH have a: "str_index (a @ r) sub = Some k" "k + length sub \<le> length a" by auto
    then have "take (length sub) ((x # a) @ r) = take (length sub) (x # a)" by (intro take_before) simp
    with False have "\<not> has_prefix ((x # a) @ r) sub" unfolding has_prefix_take by metis
    with a k show ?thesis by simp
  qed
qed

lemma str_index_here: "sub \<noteq> [] \<Longrightarrow> str_index (sub @ r) sub = Some 0"
  by (cases sub) (simp_all add: has_prefix_take)

subsection \<open>The generated text\<close>

definition no_lt :: "string \<Rightarrow> bool" where
  "no_lt s \<longleftrightarrow> list_all (\<lambda>c. c \<noteq> CHR ''<'') s"

lemma no_lt_simps [simp]: "no_lt []" "no_lt (c # s) \<longleftrightarrow> c \<noteq> CHR ''<'' \<and> no_lt s" "no_lt (s @ t) \<longleftrightarrow> no_lt s \<and> no_lt t"
  by (auto simp: no_lt_def)

lemma no_lt_concat: "no_lt (concat ss) \<longleftrightarrow> list_all no_lt ss"
  by (induction ss) auto

lemma no_lt_join: "no_lt sep \<Longrightarrow> list_all no_lt ss \<Longrightarrow> no_lt (str_join sep ss)"
  by (induction sep ss rule: str_join.induct) auto

lemma no_lt_base: "no_lt s \<Longrightarrow> no_lt (base_name s)"
  using set_takeWhileD [of _ "\<lambda>c. c \<noteq> CHR ''/''" "rev s"] unfolding no_lt_def base_name_def list_all_iff by fastforce

definition clean_mapping :: "spec_mapping \<Rightarrow> bool" where
  "clean_mapping m \<longleftrightarrow> list_all no_lt ([spSection (smSpec m), spTitle (smSpec m), smConstraints m, smNote m] @ smImplFiles m @ smTestFiles m)"

lemma no_lt_chars: "no_lt u_middot" "no_lt u_emdash" "no_lt u_rarrow" "no_lt u_section" "no_lt [nl]"
  by (simp_all add: u_middot_def u_emdash_def u_rarrow_def u_section_def nl_def)

lemma no_lt_row: "clean_mapping m \<Longrightarrow> no_lt (mapping_row m)"
proof -
  assume c: "clean_mapping m"
  have "no_lt (renderImpl m)" "no_lt (renderTests m)"
    using c by (auto simp: renderImpl_def renderTests_def clean_mapping_def list_sep_def backquoted_def no_lt_chars list.pred_map comp_def
        intro!: no_lt_join no_lt_base simp: list_all_iff)
  with c show ?thesis by (simp add: mapping_row_def clean_mapping_def no_lt_chars nl_def)
qed

lemmas index_defs = index_conformance_def index_system_state_def index_fault_model_def index_control_plane_def
  index_canonical_env_def

lemma SpecIndex_clean: "list_all clean_mapping SpecIndex"
  unfolding SpecIndex_def index_defs by (simp add: clean_mapping_def no_mapping_def no_lt_chars)

lemma by_doc_sub: "by_doc d = Some es \<Longrightarrow> set es \<subseteq> set SpecIndex"
  by (auto simp: by_doc_def Let_def split: if_splits)

lemma no_lt_table: "no_lt d \<Longrightarrow> no_lt (doc_table d)"
proof -
  assume d: "no_lt d"
  have "list_all no_lt (map mapping_row es)" if "by_doc d = Some es" for es
    using by_doc_sub [OF that] SpecIndex_clean no_lt_row by (auto simp: list_all_iff)
  with d show ?thesis by (auto simp: doc_table_def backquoted_def no_lt_chars no_lt_concat nl_def split: option.splits)
qed

lemma no_lt_body: "no_lt generated_body"
proof -
  have "list_all no_lt (map doc_table DocOrder)"
    unfolding DocOrder_def list.map list.pred_inject by (intro conjI no_lt_table) simp_all
  then show ?thesis
    by (simp add: generated_body_def index_title_def backquoted_def no_lt_chars no_lt_concat nl_def)
qed

lemma not_found_without_first: "c \<notin> set s \<Longrightarrow> str_index s (c # p) = None"
  by (induction s) auto

lemma guards: "nl \<notin> set beginGuard" "nl \<notin> set endGuard" "beginGuard \<noteq> []" "endGuard \<noteq> []"
  "\<exists>p. endGuard = CHR ''<'' # p" "str_index beginGuard endGuard = None"
  by (simp_all add: beginGuard_def endGuard_def index_title_def nl_def u_rarrow_def)

text \<open>The generated text starts with its first guard, and has the other one only at its end.\<close>

definition end_at :: nat where
  "end_at = length beginGuard + length generated_body + 1"

lemma str_index_first: "c \<notin> set a \<Longrightarrow> str_index (a @ r) (c # p) = map_option (\<lambda>k. length a + k) (str_index r (c # p))"
  by (induction a; cases "str_index r (c # p)") auto

lemma generated_ends: "str_index (GenerateMarkdown @ r) endGuard = Some end_at"
proof -
  obtain p where p: "endGuard = CHR ''<'' # p" using guards(5) by blast
  have "CHR ''<'' \<notin> set generated_body" using no_lt_body by (auto simp: no_lt_def list_all_iff)
  then have "str_index (generated_body @ endGuard @ nl # r) endGuard = Some (length generated_body)"
    using str_index_here [OF guards(4), of "nl # r"] str_index_first [of "CHR ''<''" generated_body "endGuard @ nl # r" p] p by simp
  with str_index_skip [OF guards(2,4,6), of "generated_body @ endGuard @ nl # r"] show ?thesis
    by (simp add: GenerateMarkdown_def end_at_def)
qed

lemma generated_begins: "str_index (GenerateMarkdown @ r) beginGuard = Some 0"
  by (simp add: GenerateMarkdown_def str_index_here [OF guards(3)])

lemma trim_right_nl_snoc: "trim_right_nl (s @ [nl]) = trim_right_nl s"
  by (simp add: trim_right_nl_def trim_right_by_def)

lemma trim_right_idem: "trim_right_nl (trim_right_nl s) = trim_right_nl s"
  by (simp add: trim_right_nl_def trim_right_by_def dropWhile_idem)

lemma trim_right_prefix: "\<exists>t. s = trim_right_nl s @ t"
  using takeWhile_dropWhile_id [of "\<lambda>c. c = nl" "rev s"]
  by (auto simp: trim_right_nl_def trim_right_by_def intro!: exI [of _ "rev (takeWhile (\<lambda>c. c = nl) (rev s))"]
      simp flip: rev_append)

lemma trim_left_replicate: "s = replicate (length s - length (trim_left_nl s)) nl @ trim_left_nl s"
  by (induction s) (auto simp: trim_left_nl_def Suc_diff_le length_dropWhile_le)

lemma trim_right_replicate: "s = trim_right_nl s @ replicate (length s - length (trim_right_nl s)) nl"
  using arg_cong [OF trim_left_replicate [of "rev s"], of rev]
  by (simp add: trim_right_nl_def trim_right_by_def trim_left_nl_def)

text \<open>No guard stands before the section.\<close>

lemma before_free:
  assumes "str_index content sub = Some i" and "b \<le> i" and "sub \<noteq> []"
  shows "str_index (trim_right_nl (take b content)) sub = None"
proof (rule ccontr)
  assume "\<not> ?thesis"
  then obtain j where j: "str_index (trim_right_nl (take b content)) sub = Some j" by auto
  obtain t where t: "take b content = trim_right_nl (take b content) @ t" using trim_right_prefix by blast
  have "content = trim_right_nl (take b content) @ t @ drop b content" by (metis append.assoc append_take_drop_id t)
  with str_index_extend [OF j, of "t @ drop b content"] assms(1)
  have "i = j" "j + length sub \<le> length (trim_right_nl (take b content))" by auto
  moreover have "length (trim_right_nl (take b content)) \<le> b" using arg_cong [OF t, of length] by simp
  ultimately show False using assms(2,3) by (cases sub) auto
qed

lemma surroundings_again:
  assumes "str_index before beginGuard = None" "str_index before endGuard = None"
    and "trim_right_nl before = before" "trim_left_nl after = after"
  shows "surroundings (new_content before after) = Some (before, after)"
proof -
  define tl where "tl = (if after \<noteq> [] then [nl, nl] @ after else [nl])"
  have c: "new_content before after = before @ nl # [] @ nl # GenerateMarkdown @ tl"
    by (simp add: new_content_def tl_def)
  have e: "str_index [] sub = None" if "sub \<noteq> []" for sub :: string using that by simp
  have b: "str_index (new_content before after) beginGuard = Some (length before + 2)"
    unfolding c str_index_skip [OF guards(1,3) assms(1)] str_index_skip [OF guards(1,3) e [OF guards(3)]] generated_begins by simp
  have n: "str_index (new_content before after) endGuard = Some (length before + 2 + end_at)"
    unfolding c str_index_skip [OF guards(2,4) assms(2)] str_index_skip [OF guards(2,4) e [OF guards(4)]] generated_ends by simp
  have l: "length GenerateMarkdown = end_at + length endGuard + 1" by (simp add: GenerateMarkdown_def end_at_def)
  have "take (length before + 2) (new_content before after) = (before @ [nl]) @ [nl]" by (simp add: c)
  then have t: "trim_right_nl (take (length before + 2) (new_content before after)) = before"
    by (simp only: trim_right_nl_snoc assms(3))
  define x where "x = before @ [nl, nl] @ beginGuard @ [nl] @ generated_body @ endGuard"
  have "new_content before after = x @ nl # tl" "length x = length before + 2 + end_at + length endGuard"
    by (simp_all add: c GenerateMarkdown_def end_at_def x_def)
  then have "drop (length before + 2 + end_at + length endGuard) (new_content before after) = nl # tl"
    by (metis append_eq_conv_conj)
  then have "trim_left_nl (drop (length before + 2 + end_at + length endGuard) (new_content before after)) = after"
    using assms(4) by (simp add: tl_def trim_left_nl_def split: if_splits)
  with t show ?thesis by (simp add: surroundings_def b n end_at_def)
qed

lemma WriteFile_run:
  assumes "run (os_WriteFile p text m) w1 = (e, w2)" and "files w1 = files w" and "stderr w1 = stderr w"
  shows "\<exists>x. files w2 = (files w)(p := x) \<and> stderr w2 = stderr w \<and>
     (if e = None then map_option fcontent x = Some text
      else x = files w p \<or> (\<exists>k. map_option fcontent x = Some (take k text)))"
proof -
  obtain e1 v1 where 1: "run (os_OpenTrunc p m) w1 = (e1, v1)" by (meson surj_pair)
  have s1: "stderr v1 = stderr w"
    and f1: "if e1 = None then \<exists>n. files v1 = (files w)(p \<mapsto> n) \<and> fcontent n = [] else files v1 = files w"
    using 1 assms(2,3) by (auto simp: os_OpenTrunc_def syscall_def set_file_def new_node_def split: option.splits)
  show ?thesis
  proof (cases e1)
    case (Some err)
    with assms(1) 1 s1 f1 show ?thesis by (intro exI [of _ "files w p"]) (auto simp: os_WriteFile_def)
  next
    case None
    with f1 obtain n where n: "files v1 = (files w)(p \<mapsto> n)" "fcontent n = []" by auto
    obtain e2 v2 where 2: "run (file_Write p text) v1 = (e2, v2)" by (meson surj_pair)
    have s2: "stderr v2 = stderr w \<and> (\<exists>k. files v2 = (files w)(p \<mapsto> n\<lparr>fcontent := take k text\<rparr>) \<and> (e2 = None \<longrightarrow> take k text = text))"
      using 2 n s1 by (auto simp: file_Write_def syscall_def append_content_def split: option.splits intro: exI [of _ "length text"])
    then obtain k where k: "files v2 = (files w)(p \<mapsto> n\<lparr>fcontent := take k text\<rparr>)" "e2 = None \<Longrightarrow> take k text = text" by blast
    have "files w2 = files v2 \<and> stderr w2 = stderr v2 \<and> (e = None \<longrightarrow> e2 = None)"
      using assms(1) 1 2 None by (auto simp: os_WriteFile_def file_Close_def syscall_def split: option.splits)
    with k s2 show ?thesis by (intro exI [of _ "Some (n\<lparr>fcontent := take k text\<rparr>)"]) auto
  qed
qed

subsection \<open>Properties\<close>

text \<open>
  C40: rewriting the section is idempotent. Where the document has both guards in order, a
  second run changes nothing, and what stood before and after the section is kept, up to the
  line ends next to it.
\<close>

theorem rewrite_idempotent:
  "case (str_index content beginGuard, str_index content endGuard) of
     (Some b, Some e) \<Rightarrow>
       (if b < e
        then (case rewritten content of
            None \<Rightarrow> False
          | Some text \<Rightarrow> rewritten text = Some text \<and>
              (\<exists>before after. take b content = before @ replicate (b - length before) nl \<and>
                 drop (e + length endGuard) content = replicate (length content - e - length endGuard - length after) nl @ after \<and>
                 text = before @ [nl, nl] @ GenerateMarkdown @ (if after = [] then [nl] else [nl, nl] @ after)))
        else True)
   | _ \<Rightarrow> True"
proof -
  have main: "case rewritten content of None \<Rightarrow> False
      | Some text \<Rightarrow> rewritten text = Some text \<and>
          (\<exists>before after. take b content = before @ replicate (b - length before) nl \<and>
             drop (e + length endGuard) content = replicate (length content - e - length endGuard - length after) nl @ after \<and>
             text = before @ [nl, nl] @ GenerateMarkdown @ (if after = [] then [nl] else [nl, nl] @ after))"
    if b: "str_index content beginGuard = Some b" and e: "str_index content endGuard = Some e" and "b < e" for b e
  proof -
    define before where "before = trim_right_nl (take b content)"
    define after where "after = trim_left_nl (drop (e + length endGuard) content)"
    have s: "surroundings content = Some (before, after)"
      using that by (simp add: surroundings_def before_def after_def Let_def)
    have "surroundings (new_content before after) = Some (before, after)"
      using before_free [OF b order_refl guards(3)] before_free [OF e less_imp_le [OF that(3)] guards(4)]
      by (intro surroundings_again) (simp_all add: before_def after_def trim_right_idem trim_left_nl_def)
    moreover have "b \<le> length content" using conjunct2 [OF str_index_extend [OF b]] by (rule add_leD1)
    then have "take b content = before @ replicate (b - length before) nl"
      using trim_right_replicate [of "take b content"] by (simp add: before_def)
    moreover have "drop (e + length endGuard) content = replicate (length content - e - length endGuard - length after) nl @ after"
      using trim_left_replicate [of "drop (e + length endGuard) content"] by (simp add: after_def)
    ultimately show ?thesis by (auto simp: rewritten_def s new_content_def)
  qed
  show ?thesis
  proof (cases "\<exists>b e. str_index content beginGuard = Some b \<and> str_index content endGuard = Some e \<and> b < e")
    case True
    then obtain b e where be: "str_index content beginGuard = Some b" "str_index content endGuard = Some e" "b < e" by blast
    show ?thesis unfolding be(1,2) option.case prod.case if_P [OF be(3)] by (rule main [OF be])
  next
    case False
    then show ?thesis by (auto split: option.splits)
  qed
qed

text \<open>
  without the guards the program falls back on the heading, and then everything that
  follows the heading is lost: the new document does not depend on it.
\<close>

theorem fallback_truncates:
  assumes "str_index (a @ fallback_marker) fallback_marker = Some (length a)"
    and "\<not> str_contains (a @ fallback_marker @ rest) beginGuard"
  shows "rewritten (a @ fallback_marker @ rest) = Some (trim_right_nl a @ [nl, nl] @ GenerateMarkdown @ [nl])"
proof -
  have "str_index (a @ fallback_marker @ rest) fallback_marker = Some (length a)"
    using str_index_extend [OF assms(1), of rest] by simp
  with assms(2) show ?thesis
    by (simp add: rewritten_def surroundings_def str_contains_def new_content_def Let_def)
qed

theorem fallback_truncates_witness:
  "rewritten (''# Reference'' @ fallback_marker @ ''the rest of the document'') =
     Some (''# Reference'' @ [nl, nl] @ GenerateMarkdown @ [nl])"
proof -
  have "str_index (''# Reference'' @ fallback_marker) fallback_marker = Some (length ''# Reference'')"
    "\<not> str_contains (''# Reference'' @ fallback_marker @ ''the rest of the document'') beginGuard"
    "trim_right_nl ''# Reference'' = ''# Reference''"
    by code_simp+
  with fallback_truncates [OF this(1,2)] show ?thesis by simp
qed

text \<open>
  exit code 0 means that the document had a place for the section and is now the rewritten
  one. Otherwise the exit code is 1 with the error on standard error, and the document is as
  it was or, when the write itself failed, a beginning of the new one: it is not replaced
  atomically. No other file is touched.
\<close>

theorem generate_main_outcomes:
  "case run (generate_main root) w of (code, w') \<Rightarrow>
     (\<exists>x. files w' = (files w)(spec_doc root := x) \<and>
       (if code = 0
        then \<exists>n text. files w (spec_doc root) = Some n \<and> rewritten (fcontent n) = Some text \<and> map_option fcontent x = Some text
        else code = 1 \<and> (\<exists>e. stderr w' = stderr w @ [error_text e @ [nl]]) \<and>
          (x = files w (spec_doc root) \<or>
           (\<exists>n text k. files w (spec_doc root) = Some n \<and> rewritten (fcontent n) = Some text \<and>
              map_option fcontent x = Some (take k text)))))"
proof -
  let ?p = "spec_doc root"
  obtain r w1 where 1: "run (os_ReadFile ?p) w = (r, w1)" by (meson surj_pair)
  have w1: "files w1 = files w" "stderr w1 = stderr w"
    and r: "case r of Inl _ \<Rightarrow> True | Inr c \<Rightarrow> \<exists>n. files w ?p = Some n \<and> fcontent n = c"
    using 1 by (auto simp: os_ReadFile_def syscall_def split: option.splits if_splits)
  have failed: "?thesis" if "run (GenerateSpecIndex root) w = (Some e, w2)" "files w2 = (files w)(?p := x)" "stderr w2 = stderr w"
    "x = files w ?p \<or> (\<exists>n text k. files w ?p = Some n \<and> rewritten (fcontent n) = Some text \<and> map_option fcontent x = Some (take k text))"
    for e w2 x
  proof -
    have g: "run (generate_main root) w = (1, w2\<lparr>stderr := stderr w2 @ [error_text e @ [nl]]\<rparr>)"
      using that(1) by (simp add: generate_main_def eprint_def)
    show ?thesis unfolding g prod.case using that(2,3,4) by (intro exI [of _ x]) auto
  qed
  show ?thesis
  proof (cases r)
    case (Inl err)
    with 1 w1 show ?thesis by (intro failed [of _ w1 "files w ?p"]) (auto simp: GenerateSpecIndex_def)
  next
    case (Inr c)
    with r obtain n where n: "files w ?p = Some n" "fcontent n = c" by auto
    show ?thesis
    proof (cases "rewritten c")
      case None
      with 1 w1 Inr show ?thesis by (intro failed [of _ w1 "files w ?p"]) (auto simp: GenerateSpecIndex_def)
    next
      case new: (Some s)
      obtain e w2 where 2: "run (os_WriteFile ?p s (octal [0, 6, 4, 4])) w1 = (e, w2)" by (meson surj_pair)
      have "\<exists>x. files w2 = (files w)(?p := x) \<and> stderr w2 = stderr w \<and>
          (if e = None then map_option fcontent x = Some s
           else x = files w ?p \<or> (\<exists>k. map_option fcontent x = Some (take k s)))"
        using 2 w1 by (rule WriteFile_run)
      then obtain x where x: "files w2 = (files w)(?p := x)" "stderr w2 = stderr w"
          "if e = None then map_option fcontent x = Some s
           else x = files w ?p \<or> (\<exists>k. map_option fcontent x = Some (take k s))" by blast
      show ?thesis
      proof (cases e)
        case None
        with 1 2 Inr new n x show ?thesis
          by (auto intro!: exI [of _ x] simp: generate_main_def GenerateSpecIndex_def oprint_def)
      next
        case e: (Some err)
        with 1 2 Inr new n x show ?thesis by (intro failed [of _ w2 x]) (auto simp: GenerateSpecIndex_def)
      qed
    qed
  qed
qed

end
