(* ===== verification/TestDoubles.thy ===== *)
theory TestDoubles
  imports FaultProps LabEnv
begin

text \<open>
  The doubles of the executor that the repository's tests run commands against:
  \<^verbatim>\<open>cmd/testhelpers.go\<close> (\<open>stubObserver\<close>, \<open>trackingExecutor\<close>, \<open>injectErrorExecutor\<close>) and
  \<^verbatim>\<open>internal/testutil/interrupt.go\<close> (\<open>InterruptableExecutor\<close>). A double keeps a record of the
  mutating calls made on it, so that what a command does to a machine becomes a list: the
  locale \<open>recorder\<close> is that contract, and the fault catalog is read off it as a table of calls.
\<close>

subsection \<open>The stub observer\<close>

text \<open>The maps of the Go value; a missing key of a \<open>map[string]bool\<close> is false.\<close>

record stub_observer =
  soActive :: "string \<Rightarrow> bool"
  soPorts :: "string \<Rightarrow> bool"
  soEndpoints :: "string \<Rightarrow> int option"

definition healthyObs :: stub_observer where
  "healthyObs = \<lparr>soActive = (\<lambda>u. u = ''app.service'' \<or> u = ''nginx''),
     soPorts = (\<lambda>a. a = ''127.0.0.1:8080'' \<or> a = ''0.0.0.0:80'' \<or> a = ''0.0.0.0:443''),
     soEndpoints = [''http://localhost/health'' \<mapsto> 200, ''http://localhost/'' \<mapsto> 200]\<rparr>"

definition unhealthyObs :: stub_observer where
  "unhealthyObs = \<lparr>soActive = (\<lambda>_. False), soPorts = (\<lambda>_. False), soEndpoints = Map.empty\<rparr>"

definition ok_body :: string where
  "ok_body = ''{'' @ quote ''status'' @ '':'' @ quote ''ok'' @ ''}''"

definition stub_endpoint :: "stub_observer \<Rightarrow> string \<Rightarrow> endpoint_status" where
  "stub_endpoint s url =
     (case soEndpoints s url of
        None \<Rightarrow> \<lparr>ep_status_code = 0, ep_reachable = False, ep_body = []\<rparr>
      | Some code \<Rightarrow> \<lparr>ep_status_code = code, ep_reachable = (code \<noteq> 0),
          ep_body = (if code = 200 \<and> url = ''http://localhost/health'' then ok_body else [])\<rparr>)"

text \<open>The methods of a stub that is found in the world by \<open>s\<close>.\<close>

definition stub_methods :: "('w \<Rightarrow> stub_observer) \<Rightarrow> 'w observer" where
  "stub_methods s =
     \<lparr>Stat = (\<lambda>_. ret (Inl (Errorf ''stub''))),
      ReadFile = (\<lambda>_. ret (Inl (Errorf ''stub''))),
      CheckProcess = (\<lambda>_ _. gets (\<lambda>w. Inr \<lparr>ps_running = soActive (s w) ''app.service'', ps_pid = 0, ps_user = []\<rparr>)),
      CheckPort = (\<lambda>a. gets (\<lambda>w. Inr \<lparr>pt_listening = soPorts (s w) a, pt_addr = a\<rparr>)),
      CheckEndpoint = (\<lambda>url _. gets (\<lambda>w. Inr (stub_endpoint (s w) url))),
      ResolveHost = (\<lambda>_. ret (Inr ''127.0.0.1'')),
      ServiceActive = (\<lambda>u. gets (\<lambda>w. Inr (soActive (s w) u))),
      ServiceEnabled = (\<lambda>u. gets (\<lambda>w. Inr (soActive (s w) u))),
      RunCommand = (\<lambda>_ _. ret (Inr ''appuser:appuser 750''))\<rparr>"

text \<open>The file information of the tests: a size and a mode. Its other methods no check calls.\<close>

record mock_file_info =
  mfSize :: int
  mfMode :: nat

definition mock_info :: "mock_file_info \<Rightarrow> file_info" where
  "mock_info m = \<lparr>fi_size = mfSize m, fi_mode = mfMode m, fi_isdir = False\<rparr>"

subsection \<open>The tracking executor\<close>

record tracker = stub_observer +
  tkCalls :: "string list"

definition newTrackingExecutor :: tracker where
  "newTrackingExecutor = \<lparr>soActive = (\<lambda>u. u = ''app.service'' \<or> u = ''nginx''), soPorts = (\<lambda>a. a = ''127.0.0.1:8080''),
     soEndpoints = Map.empty, tkCalls = []\<rparr>"

text \<open>The double lives in the part of the world that is not the file system.\<close>

definition track :: "string \<Rightarrow> (tracker world, go_error option) state" where
  "track call = do {
     _ \<leftarrow> modify (\<lambda>w. w\<lparr>ext := (ext w)\<lparr>tkCalls := tkCalls (ext w) @ [call]\<rparr>\<rparr>);
     ret None
   }"

text \<open>An executor whose mutating methods only report their call.\<close>

definition reporting :: "'w observer \<Rightarrow> (string \<Rightarrow> ('w, go_error option) state) \<Rightarrow> 'w executor" where
  "reporting ob report = observer.extend ob
     \<lparr>WriteFile = (\<lambda>p _ _ _ _. report (''WriteFile:'' @ p)),
      Chmod = (\<lambda>p _. report (''Chmod:'' @ p)),
      Chown = (\<lambda>p _ _. report (''Chown:'' @ p)),
      Remove = (\<lambda>p. report (''Remove:'' @ p)),
      MkdirAll = (\<lambda>p _ _ _. report (''MkdirAll:'' @ p)),
      Systemctl = (\<lambda>action un. report (''Systemctl:'' @ action @ '':'' @ un)),
      NginxReload = report ''NginxReload'',
      RestoreFile = (\<lambda>p. report (''RestoreFile:'' @ p)),
      RunMutation = (\<lambda>cmd _. report (''RunMutation:'' @ cmd))\<rparr>"

lemma reporting_methods [simp]:
  "WriteFile (reporting ob r) p d m u g = r (''WriteFile:'' @ p)" "Chmod (reporting ob r) p m = r (''Chmod:'' @ p)"
  "Chown (reporting ob r) p u g = r (''Chown:'' @ p)" "Remove (reporting ob r) p = r (''Remove:'' @ p)"
  "MkdirAll (reporting ob r) p m u g = r (''MkdirAll:'' @ p)"
  "Systemctl (reporting ob r) a un = r (''Systemctl:'' @ a @ '':'' @ un)" "NginxReload (reporting ob r) = r ''NginxReload''"
  "RestoreFile (reporting ob r) p = r (''RestoreFile:'' @ p)" "RunMutation (reporting ob r) cmd args = r (''RunMutation:'' @ cmd)"
  "ReadFile (reporting ob r) = ReadFile ob" "observer.truncate (reporting ob r) = ob"
  by (simp_all add: reporting_def observer.defs)

definition trackingExecutor :: "tracker world executor" where
  "trackingExecutor = reporting (stub_methods (\<lambda>w. stub_observer.truncate (ext w))) track"

text \<open>\<open>injectErrorExecutor\<close>: the same, but changing a mode may fail, after the call is noted.\<close>

definition injectErrorExecutor :: "bool \<Rightarrow> tracker world executor" where
  "injectErrorExecutor errorOnChmod = trackingExecutor
     \<lparr>Chmod := (\<lambda>p _. do {
        _ \<leftarrow> track (''Chmod:'' @ p);
        ret (if errorOnChmod then Some (Errorf ''chmod failed: permission denied'') else None)
      })\<rparr>"

subsection \<open>The interruptable executor\<close>

text \<open>
  \<open>inSlept\<close> are its sleeps in nanoseconds. The mutex makes a method one step. The function that
  cancels the context comes from outside and may be missing; a \<open>Stat\<close> gives the nil file
  information, a parameter, since no value of the model stands for it.
\<close>

record interruptable =
  inAfter :: int
  inCount :: int
  inInterrupted :: bool
  inCalls :: "string list"
  inSlept :: "int list"

definition NewInterruptableExecutor :: interruptable where
  "NewInterruptableExecutor = \<lparr>inAfter = 0, inCount = 0, inInterrupted = False, inCalls = [], inSlept = []\<rparr>"

definition on_double :: "('x \<Rightarrow> 'x) \<Rightarrow> ('x world, unit) state" where
  "on_double f = modify (\<lambda>w. w\<lparr>ext := f (ext w)\<rparr>)"

definition InterruptAfter :: "int \<Rightarrow> (interruptable world, unit) state" where
  "InterruptAfter n = on_double (\<lambda>e. e\<lparr>inAfter := n\<rparr>)"

definition recordMutation ::
  "(interruptable world, unit) state option \<Rightarrow> string \<Rightarrow> (interruptable world, go_error option) state" where
  "recordMutation cancelFn name = do {
     _ \<leftarrow> on_double (\<lambda>e. e\<lparr>inCount := inCount e + 1, inCalls := inCalls e @ [name]\<rparr>);
     due \<leftarrow> gets (\<lambda>w. 0 < inAfter (ext w) \<and> inAfter (ext w) \<le> inCount (ext w));
     _ \<leftarrow> (if due then do {
          _ \<leftarrow> on_double (\<lambda>e. e\<lparr>inInterrupted := True\<rparr>);
          (case cancelFn of None \<Rightarrow> ret () | Some cancel \<Rightarrow> cancel)
        } else ret ());
     ret None
   }"

definition interruptable_methods :: "file_info \<Rightarrow> 'w observer" where
  "interruptable_methods nil_info =
     \<lparr>Stat = (\<lambda>_. ret (Inr nil_info)),
      ReadFile = (\<lambda>_. ret (Inr (''addr: 127.0.0.1:8080'' @ [nl] @ ''app_env: prod'' @ [nl]))),
      CheckProcess = (\<lambda>_ _. ret (Inr \<lparr>ps_running = True, ps_pid = 0, ps_user = []\<rparr>)),
      CheckPort = (\<lambda>_. ret (Inr \<lparr>pt_listening = True, pt_addr = []\<rparr>)),
      CheckEndpoint = (\<lambda>_ _. ret (Inr \<lparr>ep_status_code = 200, ep_reachable = True, ep_body = ok_body\<rparr>)),
      ResolveHost = (\<lambda>_. ret (Inr ''127.0.0.1'')),
      ServiceActive = (\<lambda>_. ret (Inr True)),
      ServiceEnabled = (\<lambda>_. ret (Inr True)),
      RunCommand = (\<lambda>_ _. ret (Inr ''appuser:appuser 750''))\<rparr>"

definition InterruptableExecutor ::
  "file_info \<Rightarrow> (interruptable world, unit) state option \<Rightarrow> interruptable world executor" where
  "InterruptableExecutor nil_info cancelFn = (reporting (interruptable_methods nil_info) (recordMutation cancelFn))
     \<lparr>Systemctl := (\<lambda>action un. do {
        e \<leftarrow> recordMutation cancelFn (''Systemctl:'' @ action @ '':'' @ un);
        _ \<leftarrow> on_double (\<lambda>e. e\<lparr>inSlept := inSlept e @ [5 * 1000000]\<rparr>);
        ret e
      })\<rparr>"

subsection \<open>What the faults do, as calls\<close>

text \<open>The calls a fault makes when it is applied, and when it is recovered from.\<close>

definition restart_app :: string where
  "restart_app = ''Systemctl:restart:app.service''"

definition fault_calls :: "(string \<times> string list \<times> string list) list" where
  "fault_calls =
    [(''F-001'', [''Remove:'' @ ConfigPath], [''RestoreFile:'' @ ConfigPath]),
     (''F-002'', [''WriteFile:'' @ ConfigPath, restart_app], [''RestoreFile:'' @ ConfigPath, restart_app]),
     (''F-003'', [''Chmod:'' @ ConfigPath], [''Chmod:'' @ ConfigPath, ''Systemctl:reset-failed:app'', restart_app]),
     (''F-004'', [''Chmod:'' @ StateDir], [''Chmod:'' @ StateDir]),
     (''F-005'', [''Chmod:'' @ BinaryPath], [''Chmod:'' @ BinaryPath, restart_app]),
     (''F-006'', [''WriteFile:'' @ UnitFilePath, ''Systemctl:daemon-reload:'', restart_app],
        [''RestoreFile:'' @ UnitFilePath, ''Systemctl:daemon-reload:'', restart_app]),
     (''F-007'', [''WriteFile:'' @ NginxConfigPath, ''NginxReload''], [''RestoreFile:'' @ NginxConfigPath, ''NginxReload'']),
     (''F-008'', [''WriteFile:'' @ ChaosEnvPath, restart_app], [''WriteFile:'' @ ChaosEnvPath, restart_app]),
     (''F-009'', [''Chmod:'' @ LogPath], [''Chmod:'' @ LogPath, ''Chown:'' @ LogPath, restart_app]),
     (''F-010'', [''Remove:'' @ LogPath], [restart_app]),
     (''F-013'', [''WriteFile:'' @ UnitFilePath, ''Systemctl:daemon-reload:''],
        [''RestoreFile:'' @ UnitFilePath, ''Systemctl:daemon-reload:'', ''Systemctl:start:app'']),
     (''F-014'', [''WriteFile:'' @ ChaosEnvPath, restart_app], [''WriteFile:'' @ ChaosEnvPath, restart_app]),
     (''F-015'', [''WriteFile:'' @ NginxConfigPath, ''NginxReload''], [''RestoreFile:'' @ NginxConfigPath, ''NginxReload'']),
     (''F-016'', [''WriteFile:'' @ ConfigPath, restart_app], [''RestoreFile:'' @ ConfigPath, restart_app]),
     (''F-017'', [''RunMutation:systemctl'', restart_app], [''RunMutation:systemctl'', restart_app]),
     (''F-018'', map (\<lambda>i. ''WriteFile:'' @ StateDir @ ''/file_'' @ itoa i) inode_numbers, [''RunMutation:sh'']),
     (''F-020'', [''WriteFile:'' @ ChaosEnvPath, restart_app], [''WriteFile:'' @ ChaosEnvPath, restart_app]),
     (''F-021'', [''RunMutation:nft''], [''RunMutation:nft'']),
     (''F-019'', [''RunMutation:dd''], [''RunMutation:rm''])]"

definition apply_calls :: "string \<Rightarrow> string list" where
  "apply_calls i = (case map_of fault_calls i of Some (a, _) \<Rightarrow> a | None \<Rightarrow> [])"

definition recover_calls :: "string \<Rightarrow> string list" where
  "recover_calls i = (case map_of fault_calls i of Some (_, r) \<Rightarrow> r | None \<Rightarrow> [])"

subsection \<open>The contract of a recorder\<close>

text \<open>After \<open>m\<close>, which succeeds, \<open>tr\<close> has been added to the calls.\<close>

definition adds :: "('w \<Rightarrow> string list) \<Rightarrow> ('w, go_error option) state \<Rightarrow> string list \<Rightarrow> bool" where
  "adds calls m tr \<longleftrightarrow> (\<forall>w. case run m w of (e, w') \<Rightarrow> e = None \<and> calls w' = calls w @ tr)"

lemma addsD: "adds calls m tr \<Longrightarrow> run m w = (e, w') \<Longrightarrow> e = None \<and> calls w' = calls w @ tr"
  unfolding adds_def by (drule spec [of _ w]) simp

lemma adds_and_then: "adds calls m t \<Longrightarrow> adds calls n u \<Longrightarrow> adds calls (and_then m n) (t @ u)"
  by (auto simp: adds_def and_then_def split: prod.splits option.splits) (metis option.distinct(1))+

lemma adds_then: "adds calls m t \<Longrightarrow> adds calls n u \<Longrightarrow> adds calls (do { _ \<leftarrow> m; n }) (t @ u)"
  by (simp add: adds_def case_prod_beta)

lemma adds_wrapping: "adds calls m t \<Longrightarrow> adds calls (wrapping msg m) t"
  by (simp add: adds_def wrapping_def case_prod_beta)

lemma adds_none: "adds calls (ret None) []"
  by (simp add: adds_def)

lemma adds_for_each: "(\<And>x. adds calls (f x) [g x]) \<Longrightarrow> adds calls (for_each f xs) (map g xs)"
proof (induction xs)
  case (Cons x xs)
  from adds_and_then [OF Cons.prems Cons.IH [OF Cons.prems]] show ?case by simp
qed (simp add: adds_none)

text \<open>As \<open>adds\<close>, but \<open>m\<close> may also fail before the first call.\<close>

definition may_add :: "('w \<Rightarrow> string list) \<Rightarrow> ('w, go_error option) state \<Rightarrow> string list \<Rightarrow> bool" where
  "may_add calls m tr \<longleftrightarrow>
     (\<forall>w. case run m w of (e, w') \<Rightarrow> if e = None then calls w' = calls w @ tr else calls w' = calls w)"

lemma adds_may: "adds calls m tr \<Longrightarrow> may_add calls m tr"
  by (auto simp: adds_def may_add_def split: prod.splits)

lemma adds_eq: "adds calls m t \<Longrightarrow> t = u \<Longrightarrow> adds calls m u"
  by simp

lemma list_all2_lookup:
  "list_all2 P xs ys \<Longrightarrow> map k xs = map fst ys \<Longrightarrow> distinct (map fst ys) \<Longrightarrow> x \<in> set xs \<Longrightarrow>
    \<exists>v. map_of ys (k x) = Some v \<and> P x (k x, v)"
proof (induction rule: list_all2_induct)
  case (Cons x' xs y ys)
  obtain i v where y: "y = (i, v)" by (cases y)
  from Cons y show ?case by (cases "x = x'") (auto simp: map_eq_Cons_conv in_set_conv_decomp)
qed simp

lemma fault_calls_ids: "map (\<lambda>f. fdID (fiDef f)) AllImpls = map fst fault_calls"
  unfolding AllImpls_ids by (simp add: fault_calls_def)

lemma fault_calls_distinct: "distinct (map fst fault_calls)"
  by (simp add: fault_calls_def)

locale recorder =
  fixes x :: "'w executor" and calls :: "'w \<Rightarrow> string list"
  assumes read_silent: "calls (snd (run (ReadFile x p) w)) = calls w"
    and mutations:
      "adds calls (WriteFile x p d m u g) [''WriteFile:'' @ p]" "adds calls (Chmod x p m) [''Chmod:'' @ p]"
      "adds calls (Chown x p u g) [''Chown:'' @ p]" "adds calls (Remove x p) [''Remove:'' @ p]"
      "adds calls (MkdirAll x p m u g) [''MkdirAll:'' @ p]"
      "adds calls (Systemctl x action un) [''Systemctl:'' @ action @ '':'' @ un]"
      "adds calls (NginxReload x) [''NginxReload'']" "adds calls (RestoreFile x p) [''RestoreFile:'' @ p]"
      "adds calls (RunMutation x cmd args) [''RunMutation:'' @ cmd]"
begin

lemmas adds_rules = adds_and_then adds_then adds_wrapping adds_none mutations

lemma read_may:
  assumes "\<And>t. adds calls (h t) tr"
  shows "may_add calls (ReadFile x p \<bind> case_sum (\<lambda>e. ret (Some (g e))) h) tr"
  unfolding may_add_def
proof (intro allI)
  fix w
  obtain r v where 1: "run (ReadFile x p) w = (r, v)" by (meson surj_pair)
  have v: "calls v = calls w" using read_silent [of p w] 1 by simp
  show "case run (ReadFile x p \<bind> case_sum (\<lambda>e. ret (Some (g e))) h) w of
      (e, w') \<Rightarrow> if e = None then calls w' = calls w @ tr else calls w' = calls w"
  proof (cases r)
    case (Inl e)
    with 1 v show ?thesis by auto
  next
    case (Inr t)
    with assms [of t] 1 v show ?thesis by (auto simp: adds_def split: prod.splits)
  qed
qed

lemma adds_may_eq: "adds calls m t \<Longrightarrow> t = u \<Longrightarrow> may_add calls m u"
  using adds_may by simp

lemma recover_table: "list_all2 (\<lambda>f (i, a, r). adds calls (fiRecover f x) r) AllImpls fault_calls"
  unfolding AllImpls_def fault_calls_def list_all2_Cons list_all2_Nil prod.case fault_defs fault_impl.simps recover_defs
  by (intro conjI TrueI; (rule refl)?; rule adds_eq, (rule adds_rules)+, simp add: restart_app_def)

lemma apply_table: "list_all2 (\<lambda>f (i, a, r). may_add calls (fiApply f x) a) AllImpls fault_calls"
  unfolding AllImpls_def fault_calls_def list_all2_Cons list_all2_Nil prod.case fault_defs fault_impl.simps apply_defs
  by (intro conjI TrueI; (rule refl)?;
      ((rule read_may, rule adds_eq) | rule adds_may_eq), (rule adds_rules adds_for_each)+, simp add: restart_app_def)

lemma apply_may: "f \<in> set AllImpls \<Longrightarrow> may_add calls (fiApply f x) (apply_calls (fdID (fiDef f)))"
  using list_all2_lookup [OF apply_table fault_calls_ids fault_calls_distinct, of f]
  by (auto simp: apply_calls_def split: prod.splits)

lemma recover_adds: "f \<in> set AllImpls \<Longrightarrow> adds calls (fiRecover f x) (recover_calls (fdID (fiDef f)))"
  using list_all2_lookup [OF recover_table fault_calls_ids fault_calls_distinct, of f]
  by (auto simp: recover_calls_def split: prod.splits)

end

text \<open>A recorder whose files can be read: then every fault is applied.\<close>

locale readable_recorder = recorder +
  assumes readable: "\<exists>t. fst (run (ReadFile x p) w) = Inr t"
begin

lemma read_adds:
  assumes "\<And>t. adds calls (h t) tr"
  shows "adds calls (ReadFile x p \<bind> case_sum (\<lambda>e. ret (Some (g e))) h) tr"
  unfolding adds_def
proof (intro allI)
  fix w
  obtain r v where 1: "run (ReadFile x p) w = (r, v)" by (meson surj_pair)
  have v: "calls v = calls w" using read_silent [of p w] 1 by simp
  from readable [of p w] 1 obtain t where t: "r = Inr t" by auto
  obtain e w' where 2: "run (h t) v = (e, w')" by (meson surj_pair)
  from addsD [OF assms 2] v 1 t 2 show "case run (ReadFile x p \<bind> case_sum (\<lambda>e. ret (Some (g e))) h) w of
      (e, w') \<Rightarrow> e = None \<and> calls w' = calls w @ tr"
    by simp
qed

lemma applied_table: "list_all2 (\<lambda>f (i, a, r). adds calls (fiApply f x) a) AllImpls fault_calls"
  unfolding AllImpls_def fault_calls_def list_all2_Cons list_all2_Nil prod.case fault_defs fault_impl.simps apply_defs
  by (intro conjI TrueI; (rule refl)?;
      ((rule read_adds, rule adds_eq) | rule adds_eq), (rule adds_rules adds_for_each)+, simp add: restart_app_def)

lemma apply_adds: "f \<in> set AllImpls \<Longrightarrow> adds calls (fiApply f x) (apply_calls (fdID (fiDef f)))"
  using list_all2_lookup [OF applied_table fault_calls_ids fault_calls_distinct, of f]
  by (auto simp: apply_calls_def split: prod.splits)

end

subsection \<open>The two doubles are recorders\<close>

interpretation tracking: recorder trackingExecutor "\<lambda>w. tkCalls (ext w)"
  by unfold_locales (simp_all add: trackingExecutor_def stub_methods_def adds_def track_def)

lemma recordMutation_adds:
  assumes "\<And>c w. cancelFn = Some c \<Longrightarrow> ext (snd (run c w)) = ext w"
  shows "adds (\<lambda>w. inCalls (ext w)) (recordMutation cancelFn name) [name]"
  using assms by (cases cancelFn) (auto simp: adds_def recordMutation_def on_double_def case_prod_beta)

lemma interruptable_recorder:
  assumes "\<And>c w. cancelFn = Some c \<Longrightarrow> ext (snd (run c w)) = ext w"
  shows "readable_recorder (InterruptableExecutor nil_info cancelFn) (\<lambda>w. inCalls (ext w))"
proof -
  note r = recordMutation_adds [OF assms]
  have s: "adds (\<lambda>w. inCalls (ext w)) (do {
        e \<leftarrow> recordMutation cancelFn name;
        _ \<leftarrow> on_double (\<lambda>e. e\<lparr>inSlept := inSlept e @ [5 * 1000000]\<rparr>);
        ret e
      }) [name]" for name
    using r [where name = name] by (auto simp: adds_def on_double_def case_prod_beta)
  show ?thesis
    by unfold_locales (simp_all add: InterruptableExecutor_def interruptable_methods_def r s [simplified])
qed

interpretation uninterrupted: readable_recorder "InterruptableExecutor nil_info None" "\<lambda>w. inCalls (ext w)"
  by (rule interruptable_recorder) simp

subsection \<open>Interrupts\<close>

text \<open>The interrupt is due once enough calls have been made; the count is that of the calls.\<close>

definition injected :: "int \<Rightarrow> interruptable world \<Rightarrow> bool" where
  "injected n w \<longleftrightarrow> inAfter (ext w) = n \<and> inCount (ext w) = int (length (inCalls (ext w))) \<and>
     inInterrupted (ext w) = (0 < n \<and> n \<le> inCount (ext w))"

lemma recordMutation_injected:
  assumes "\<And>c w. cancelFn = Some c \<Longrightarrow> ext (snd (run c w)) = ext w"
  shows "keeps (injected n) (recordMutation cancelFn name)"
  using assms by (cases cancelFn) (auto simp: keeps_def hoare_def injected_def recordMutation_def on_double_def case_prod_beta)

lemma interruptable_executes:
  assumes "\<And>c w. cancelFn = Some c \<Longrightarrow> ext (snd (run c w)) = ext w"
  shows "executes p (injected n) (InterruptableExecutor nil_info cancelFn)"
proof -
  note r = recordMutation_injected [OF assms]
  have "keeps (injected n) (on_double (\<lambda>e. e\<lparr>inSlept := inSlept e @ [t]\<rparr>))" for t
    unfolding on_double_def by (intro keeps_modify) (simp add: injected_def)
  then have "keeps (injected n) (do {
        e \<leftarrow> recordMutation cancelFn name;
        _ \<leftarrow> on_double (\<lambda>e. e\<lparr>inSlept := inSlept e @ [5 * 1000000]\<rparr>);
        ret e
      })" for name
    by (intro keeps_rules r)
  with r show ?thesis
    by (simp add: executes_def InterruptableExecutor_def interruptable_methods_def keeps_return)
qed

text \<open>
  C39: a fault applied through the interruptable executor makes exactly the calls of the table,
  all of them and in order, whenever the interrupt comes: the executor marks itself
  interrupted from the call that was asked for on, but nothing a fault does looks at the
  cancelled context.
\<close>

theorem interrupt_injected:
  assumes "f \<in> set AllImpls" and "\<And>c w. cancelFn = Some c \<Longrightarrow> ext (snd (run c w)) = ext w"
    and "ext w = NewInterruptableExecutor"
  shows "case run (do { _ \<leftarrow> InterruptAfter n; fiApply f (InterruptableExecutor nil_info cancelFn) }) w of (e, w') \<Rightarrow>
     e = None \<and> inCalls (ext w') = apply_calls (fdID (fiDef f)) \<and>
     inInterrupted (ext w') = (0 < n \<and> n \<le> int (length (apply_calls (fdID (fiDef f)))))"
proof -
  let ?x = "InterruptableExecutor nil_info cancelFn"
  obtain u v where 1: "run (InterruptAfter n) w = (u, v)" by (meson surj_pair)
  obtain e w' where 2: "run (fiApply f ?x) v = (e, w')" by (meson surj_pair)
  have v: "injected n v" "inCalls (ext v) = []"
    using 1 assms(3) by (auto simp: InterruptAfter_def on_double_def injected_def NewInterruptableExecutor_def)
  have "e = None \<and> inCalls (ext w') = apply_calls (fdID (fiDef f))"
    using addsD [OF readable_recorder.apply_adds [OF interruptable_recorder [OF assms(2)] assms(1)] 2] v by simp
  moreover have "injected n w'"
    using keepsD [OF faults_keep(1) [OF interruptable_executes [OF assms(2)] assms(1)] v(1) 2] .
  ultimately show ?thesis by (simp add: 1 2 injected_def)
qed

text \<open>A machine with these files on which no call fails, for any double.\<close>

definition demo_double :: "'x \<Rightarrow> (string \<times> string) list \<Rightarrow> 'x world" where
  "demo_double x fs = \<lparr>files = files (demo_world fs []), ext = x, sysno = 0, fault_at = (\<lambda>_. None),
     short_at = (\<lambda>_. 1), randno = 0, rand_at = (\<lambda>n. itoa (int n)), clockno = 0, clock_at = (\<lambda>n. ''t'' @ itoa (int n)),
     mono_at = int, self_pid = 100, self_user = ''root'', kill0 = (\<lambda>_. None), stderr = [], stdout = []\<rparr>"

theorem interrupt_injected_witness:
  "case run (do { _ \<leftarrow> InterruptAfter 2; fiApply faultF006
        (InterruptableExecutor \<lparr>fi_size = 0, fi_mode = 0, fi_isdir = False\<rparr> (Some (oprint ''cancelled''))) })
      (demo_double NewInterruptableExecutor []) of (e, w') \<Rightarrow>
     e = None \<and> inInterrupted (ext w') \<and>
     inCalls (ext w') = [''WriteFile:/etc/systemd/system/app.service'', ''Systemctl:daemon-reload:'', ''Systemctl:restart:app.service'']"
proof -
  have f: "faultF006 \<in> set AllImpls" by (simp add: AllImpls_def)
  have i: "fdID (fiDef faultF006) = ''F-006''" by (simp add: faultF006_def def_F006_def)
  have c: "apply_calls ''F-006'' =
      [''WriteFile:/etc/systemd/system/app.service'', ''Systemctl:daemon-reload:'', ''Systemctl:restart:app.service'']"
    by (simp add: apply_calls_def fault_calls_def restart_app_def path_defs)
  have h: "\<And>k v. Some (oprint ''cancelled'' :: (interruptable world, unit) state) = Some k \<Longrightarrow> ext (snd (run k v)) = ext v"
    by (auto simp: oprint_def)
  have e: "ext (demo_double NewInterruptableExecutor []) = NewInterruptableExecutor" by (simp add: demo_double_def)
  from interrupt_injected [where cancelFn = "Some (oprint ''cancelled'')" and n = 2
        and nil_info = "\<lparr>fi_size = 0, fi_mode = 0, fi_isdir = False\<rparr>", OF f h e]
  show ?thesis unfolding i c case_prod_beta by simp
qed

end
