(* ===== verification/RefusedFaults.thy ===== *)
theory RefusedFaults
  imports TestDoubles ApplyProps SvcReqProps
begin

text \<open>
  \<^verbatim>\<open>lab fault apply\<close> on the tracking executor: the calls a command makes on the machine, and that
  it makes none when it refuses.
\<close>

subsection \<open>What leaves the double alone\<close>

lemma ext_calls [ext_rules]:
  "keeps (ctx_is g c) (os_MkdirAll p m)" "keeps (ctx_is g c) (os_OpenExcl p m)" "keeps (ctx_is g c) (file_Sync p)"
  "keeps (ctx_is g c) (eprint s)" "keeps (ctx_is g c) (oprint s)"
  unfolding os_MkdirAll_def os_OpenExcl_def file_Sync_def eprint_def oprint_def make_dir_def
  by (intro keeps_rules ext_rules keeps_modify; simp add: ctx_is_def split: option.splits)+

lemma ext_locking [ext_rules]: "keeps (ctx_is g c) (Acquire n l)" "keeps (ctx_is g c) (Release l)"
proof -
  show "keeps (ctx_is g c) (Acquire n l)" by (induction n; unfold Acquire.simps; intro keeps_rules ext_rules; assumption)
  show "keeps (ctx_is g c) (Release l)" unfolding Release_def by (intro keeps_rules ext_rules)
qed

lemma ext_audit [ext_rules]:
  "keeps (ctx_is g c) (audit_append l e)" "keeps (ctx_is g c) (LogError l n t)" "keeps (ctx_is g c) (LogTransition l a b f)"
  unfolding LogError_def LogTransition_def audit_append_def by (intro keeps_rules ext_rules)+

lemma ext_store [ext_rules]:
  "keeps (ctx_is g c) (Store_Read p)" "keeps (ctx_is g c) (Store_Write p f)" "keeps (ctx_is g c) (Store_InvalidateClassification p)"
proof -
  show r: "keeps (ctx_is g c) (Store_Read p)" for p unfolding Store_Read_def by (intro keeps_rules ext_rules)
  have k: "keeps (ctx_is g c) (closing_on_error t m)" if "keeps (ctx_is g c) m" for t and m :: "('a world, go_error option) state"
    unfolding closing_on_error_def by (intro keeps_rules ext_rules that)
  show w: "keeps (ctx_is g c) (Store_Write p f)" for p f
    unfolding Store_Write_def Let_def fill_state_temp_def fill_temp_def removing_on_error_def
    by (intro keeps_rules ext_rules k)
  show "keeps (ctx_is g c) (Store_InvalidateClassification p)"
    unfolding Store_InvalidateClassification_def by (intro keeps_rules r w)
qed

lemma ctx_pred:
  assumes "\<And>c. keeps (ctx_is g c) m"
  shows "keeps (\<lambda>w. P (g (ext w))) m"
proof (rule keepsI)
  fix w r w' assume p: "P (g (ext w))" and run: "run m w = (r, w')"
  from ctx_run [OF assms run] p show "P (g (ext w'))" by simp
qed

text \<open>The calls so far are among \<open>C\<close>, and the state file is \<open>x\<close>.\<close>

definition called :: "string list set \<Rightarrow> fnode option \<Rightarrow> tracker world \<Rightarrow> bool" where
  "called C x w \<longleftrightarrow> tkCalls (ext w) \<in> C \<and> at_file StatePath x w"

named_theorems called_rules \<open>operations that make no call and leave the state file alone\<close>

lemma called_neutral:
  assumes "\<And>c. keeps (ctx_is tkCalls c) m" and "\<And>x. keeps (at_file StatePath x) m"
  shows "keeps (called C x) m"
proof (rule keepsI)
  fix w a w' assume w: "called C x w" and run: "run m w = (a, w')"
  from ctx_run [OF assms(1) run] keepsD [OF assms(2) _ run] w show "called C x w'" by (simp add: called_def)
qed

lemma called_log [called_rules]: "(\<And>l. dAudit d = Some l \<Longrightarrow> alPath l \<noteq> StatePath) \<Longrightarrow> keeps (called C x) (log_error d n t)"
  unfolding log_error_def with_audit_def
  by (cases "dAudit d") (auto intro!: called_neutral keeps_return ext_rules at_file_log)

definition doubled :: "tracker deps \<Rightarrow> bool" where
  "doubled d \<longleftrightarrow> dExec d = trackingExecutor \<and> dObs d = observer.truncate trackingExecutor \<and> dStore d = StatePath \<and>
     (case dAudit d of None \<Rightarrow> True | Some l \<Rightarrow> alPath l \<noteq> StatePath)"

lemma doubled_log: "doubled d \<Longrightarrow> keeps (called C x) (log_error d n t)"
  by (rule called_log) (auto simp: doubled_def split: option.splits)

lemma doubled_check: "doubled d \<Longrightarrow> CheckByID i = Some ch \<Longrightarrow> keeps (called C x) (cExecute ch (dObs d))"
proof -
  assume d: "doubled d" and ch: "CheckByID i = Some ch"
  have "observes (called C x) (dObs d)"
    using d by (simp add: doubled_def observes_def trackingExecutor_def stub_methods_def keeps_rules)
  with Catalog_well_behaved [of ch] ch CheckByID_iff [of i ch] show ?thesis by (simp add: well_behaved_def)
qed

lemma doubled_preconditions: "doubled d \<Longrightarrow> keeps (called C x) (precondition_checks d i cs)"
  by (induction cs) (auto intro!: keeps_rules doubled_log doubled_check split: option.split)

lemma doubled_post_checks: "doubled d \<Longrightarrow> keeps (called C x) (post_apply_checks d i cs)"
  by (induction cs)
     (auto intro!: keeps_rules doubled_log doubled_check called_neutral [OF ext_calls(4)] split: option.split)

text \<open>The guards of \<open>lab fault apply\<close> on what is recorded.\<close>

definition fault_allowed :: "string \<Rightarrow> bool \<Rightarrow> bool \<Rightarrow> state_file option \<Rightarrow> bool" where
  "fault_allowed i force yes sf =
     (case (ByID i :: tracker world fault_impl option, sf) of
        (Some f, Some g) \<Rightarrow> (force \<or> sfState g = StateConformant \<and> sfActiveFault g = None) \<and>
          (fdRequiresConfirmation (fiDef f) \<longrightarrow> yes)
      | _ \<Rightarrow> False)"

lemma allowed_preconditions:
  assumes "doubled d"
  shows "hoare (called C x) (state_preconditions d i f sf)
    (\<lambda>r w. (r = None \<longrightarrow> sfState sf = StateConformant \<and> sfActiveFault sf = None) \<and> called C x w)"
proof -
  have l: "hoare (called C x) (do { _ \<leftarrow> log_error d n t; ret (Some res) })
     (\<lambda>r w. (r = None \<longrightarrow> sfState sf = StateConformant \<and> sfActiveFault sf = None) \<and> called C x w)" for n t res
    by (rule hoare_bind [OF doubled_log [OF assms, unfolded keeps_def]]) (simp add: hoare_return)
  show ?thesis unfolding state_preconditions_def
    by (simp only: split: if_split option.split) (intro conjI impI allI l; simp add: hoare_return)
qed

definition fault_effect :: "string \<Rightarrow> bool \<Rightarrow> bool \<Rightarrow> state_file option \<Rightarrow> string list \<Rightarrow> string list set" where
  "fault_effect i force yes sf c = (if fault_allowed i force yes sf then {c, c @ apply_calls i} else {c})"

lemma called_mono: "called {c} x w \<Longrightarrow> called (fault_effect i force yes sf c) x w"
  by (simp add: called_def fault_effect_def)

lemma hoare_mono: "hoare P m (\<lambda>_. called {c} x) \<Longrightarrow> hoare P m (\<lambda>_. called (fault_effect i force yes sf c) x)"
  by (erule hoare_weaken) (simp_all add: called_mono)

lemma apply_and_record_calls:
  assumes "doubled d" and "ByID i = Some f" and "fault_allowed i force yes sf"
  shows "hoare (called {c} x) (apply_and_record d i force f g) (\<lambda>_ w. tkCalls (ext w) \<in> fault_effect i force yes sf c)"
proof -
  let ?C = "fault_effect i force yes sf c" and ?Q = "\<lambda>w :: tracker world. tkCalls (ext w) \<in> fault_effect i force yes sf c"
  have f: "f \<in> set AllImpls" "fdID (fiDef f) = i" using ByID_Some [OF assms(2)] by simp_all
  have e: "fault_effect i force yes sf c = {c, c @ apply_calls i}" using assms(3) by (simp add: fault_effect_def)
  have ap: "hoare (called {c} x) (fiApply f (dExec d)) (\<lambda>_. ?Q)"
  proof (rule hoareI)
    fix w r w' assume w: "called {c} x w" and run: "run (fiApply f (dExec d)) w = (r, w')"
    have "may_add (\<lambda>w. tkCalls (ext w)) (fiApply f (dExec d)) (apply_calls i)"
      using tracking.apply_may [OF f(1)] f(2) assms(1) by (simp add: doubled_def)
    with w run show "?Q w'" unfolding e by (auto simp: may_add_def called_def split: if_splits dest: spec [of _ w])
  qed
  have n: "keeps ?Q m" if "\<And>c. keeps (ctx_is tkCalls c) m" for m :: "(tracker world, 'a) state"
    using that by (rule ctx_pred)
  have obs: "observes ?Q (dObs d)"
    using assms(1) by (simp add: doubled_def observes_def trackingExecutor_def stub_methods_def keeps_rules)
  have ch: "keeps ?Q (cExecute ck (dObs d))" if "CheckByID j = Some ck" for j ck
    using Catalog_well_behaved [of ck] that CheckByID_iff [of j ck] obs by (simp add: well_behaved_def)
  have pr: "keeps ?Q (eprint t)" for t by (intro n ext_rules)
  have pc: "keeps ?Q (post_apply_checks d i cs)" for cs
    by (induction cs) (auto intro!: keeps_rules ch pr split: option.split)
  have lg: "keeps ?Q (log_error d a t)" "keeps ?Q (with_audit (dAudit d) (\<lambda>l. LogTransition l s1 s2 a))" for a t s1 s2
    unfolding log_error_def by (intro keeps_with_audit n ext_rules)+
  have st: "keeps ?Q (Store_Write p h)" "keeps ?Q (Store_InvalidateClassification p)" "keeps ?Q time_now" for p h
    by (intro n ext_rules)+
  show ?thesis
    unfolding apply_and_record_def
    by (rule hoare_bind [OF ap]) (fold keeps_def, intro keeps_rules pc lg st)
qed

lemma locked_calls:
  assumes "doubled d" and "ByID i = Some f" and "\<And>w :: tracker world. at_file StatePath x w \<Longrightarrow> recorded StatePath w = sf"
  shows "hoare (called {c} x) (FaultApply_locked d i force yes f) (\<lambda>_ w. tkCalls (ext w) \<in> fault_effect i force yes sf c)"
proof -
  let ?Q = "\<lambda>(_ :: command_result outcome) (w :: tracker world). tkCalls (ext w) \<in> fault_effect i force yes sf c"
  have done_: "hoare (called {c} x) (ret r) ?Q" for r
    by (rule hoare_return) (auto simp: called_def fault_effect_def)
  have store: "dStore d = StatePath" using assms(1) by (simp add: doubled_def)
  have read: "hoare (called {c} x) (Store_Read StatePath) (\<lambda>r w. (case r of Inr g \<Rightarrow> sf = Some g | Inl _ \<Rightarrow> True) \<and> called {c} x w)"
  proof (rule hoareI)
    fix w r w' assume w: "called {c} x w" and run: "run (Store_Read StatePath) w = (r, w')"
    have "called {c} x w'" using keepsD [OF called_neutral [OF ext_store(1) at_file_Store_Read] w run] .
    moreover have "sf = Some g" if "r = Inr g" for g
      using Store_Read_recorded [of StatePath w g w'] run that assms(3) [of w] w by (simp add: called_def)
    ultimately show "(case r of Inr g \<Rightarrow> sf = Some g | Inl _ \<Rightarrow> True) \<and> called {c} x w'" by (cases r) simp_all
  qed
  have confirmed: "hoare (called {c} x)
      (if fdRequiresConfirmation (fiDef f) \<and> \<not> yes then ret (Returns (aborted_result i (fiDef f)))
       else apply_and_record d i force f g) ?Q"
    if "sf = Some g" "force \<or> sfState g = StateConformant \<and> sfActiveFault g = None" for g
    using that done_ apply_and_record_calls [OF assms(1,2)] by (auto simp: fault_allowed_def assms(2))
  have live: "hoare (called {c} x) (if force then ret (Returns None) else precondition_checks d i cs) (\<lambda>_. called {c} x)" for cs
    using doubled_preconditions [OF assms(1)] by (simp add: keeps_def hoare_return)
  have pre: "hoare (called {c} x) (if force then ret None else state_preconditions d i (fiDef f) g)
      (\<lambda>r w. (r = None \<longrightarrow> force \<or> sfState g = StateConformant \<and> sfActiveFault g = None) \<and> called {c} x w)" for g
    by (cases force) (simp_all add: hoare_return hoare_weaken [OF allowed_preconditions [OF assms(1)]])
  have rest: "hoare (called {c} x) (do {
          pre \<leftarrow> (if force then ret None else state_preconditions d i (fiDef f) g);
          (case pre of
             Some res \<Rightarrow> ret (Returns res)
           | None \<Rightarrow> do {
               live \<leftarrow> (if force then ret (Returns None)
                        else precondition_checks d i (fdPreconditionChecks (fiDef f)));
               (case live of
                  Panics s \<Rightarrow> ret (Panics s)
                | Returns (Some res) \<Rightarrow> ret (Returns res)
                | Returns None \<Rightarrow>
                    if fdRequiresConfirmation (fiDef f) \<and> \<not> yes
                    then ret (Returns (aborted_result i (fiDef f)))
                    else apply_and_record d i force f g)
             })
        }) ?Q" if sf: "sf = Some g" for g
  proof (rule hoare_bind [OF pre], rule hoare_when, goal_cases)
    case (1 p)
    show ?case
    proof (cases p)
      case None
      with 1 have go: "force \<or> sfState g = StateConformant \<and> sfActiveFault g = None" by simp
      show ?thesis
        unfolding None option.case
        by (rule hoare_bind [OF live]) (simp only: split: outcome.split option.split, intro conjI allI impI confirmed [OF sf go] done_)
    qed (simp add: done_)
  qed
  show ?thesis
    unfolding FaultApply_locked_def store
  proof (rule hoare_bind [OF read], rule hoare_when, goal_cases)
    case (1 r)
    show ?case
    proof (cases r)
      case (Inl e)
      show ?thesis
        unfolding Inl sum.case by (rule hoare_bind [OF doubled_log [OF assms(1), unfolded keeps_def]]) (rule done_)
    next
      case (Inr g)
      with 1 show ?thesis using rest by simp
    qed
  qed
qed

lemma command_calls:
  assumes "doubled d" and "\<And>w :: tracker world. at_file StatePath x w \<Longrightarrow> recorded StatePath w = sf"
  shows "hoare (called {c} x) (FaultApplyCmd_Run d i force yes) (\<lambda>_ w. tkCalls (ext w) \<in> fault_effect i force yes sf c)"
proof -
  let ?Q = "\<lambda>(_ :: command_result outcome) (w :: tracker world). tkCalls (ext w) \<in> fault_effect i force yes sf c"
  have done_: "hoare (called {c} x) (ret r) ?Q" for r
    by (rule hoare_return) (auto simp: called_def fault_effect_def)
  have log: "hoare (called {c} x) (do { _ \<leftarrow> log_error d n t; ret r }) ?Q" for n t r
    by (rule hoare_bind [OF doubled_log [OF assms(1), unfolded keeps_def]]) (rule done_)
  show ?thesis
  proof (cases "ByID i :: tracker world fault_impl option")
    case None
    show ?thesis unfolding FaultApplyCmd_Run_def None option.case by (rule log)
  next
    case (Some f)
    have nl: "lkPath NewLock \<noteq> StatePath" using StatePath_apart(2) by (simp add: NewLock_def NewLockAt_def)
    have acquire: "keeps (called {c} x) (Acquire n NewLock)" for n
      by (intro called_neutral ext_rules at_file_Acquire nl StatePath_apart(1))
    have release: "keeps (\<lambda>w :: tracker world. tkCalls (ext w) \<in> fault_effect i force yes sf c) (Release l)" for l
      by (intro ctx_pred ext_locking)
    have body: "hoare (called {c} x) (do { v \<leftarrow> FaultApply_locked d i force yes f; _ \<leftarrow> Release l; ret v }) ?Q" for l
      by (rule hoare_bind [OF locked_calls [OF assms(1) Some assms(2)]], assumption)
         (fold keeps_def, intro keeps_rules release)
    show ?thesis
      unfolding FaultApplyCmd_Run_def under_lock_def Some option.case
      by (rule hoare_bind [OF acquire [unfolded keeps_def]])
         (simp only: split: outcome.split option.split prod.split, intro conjI allI impI done_ log body)
  qed
qed

lemma DefByID_ByID: "DefByID i = map_option fiDef (ByID i :: 'w fault_impl option)"
proof -
  have f: "map_option fiDef (List.find (\<lambda>f. fdID (fiDef f) = i) xs) = List.find (\<lambda>d. fdID d = i) (map fiDef xs)"
    for xs :: "'v fault_impl list"
    by (induction xs) simp_all
  show ?thesis unfolding DefByID_def ByID_def ImplByID_def f AllImpls_defs ..
qed


definition demo_tracked :: "tracker deps" where
  "demo_tracked = \<lparr>dObs = observer.truncate trackingExecutor, dChecks = NewRunner, dExec = trackingExecutor,
     dStore = StatePath, dAudit = Some (NewAuditLogger ''lab''), dFrames = 2\<rparr>"


end
