(* ===== verification/Spec2Isabelle.thy ===== *)
theory Spec2Isabelle
  imports LabMachine TierProps LockProtocol Recovery FaultProps SuiteProps SvcChecks SvcCrash SvcConfigProps SpecProps RefusedFaults
begin

text \<open>
  The lab environment (Go). Two programs share a machine: the control plane, a binary \<open>lab\<close>
  that provisions, breaks, observes and resets a small web service, and the service itself,
  the subject. This library models both, with the conformance model, the fault catalog and the
  generator of the specification index, and proves what makes them correct.

  \<^bold>\<open>The machine.\<close> Every Go function that touches the machine is a value of the state monad over
  \<open>'x world\<close> (theory \<open>GoOS\<close>): the files by path, the clock, the process table, the two output
  streams, and a component \<open>ext\<close> of any type for the rest. Each system call has a number and
  \<open>fault_at\<close> says which of them fail and how, so that a theorem about every world is a theorem
  about every pattern of failures, partial writes included. Errors are values of \<open>go_error\<close>, an
  option or a sum; a panic is an outcome. \<open>Prelude\<close> has the combinators, the triples \<open>hoare\<close>,
  the frame judgement \<open>keeps\<close> and its rule collection. \<open>GoBase\<close> has the functions of \<open>strings\<close>,
  \<open>strconv\<close> and \<open>errors\<close> that the program uses, \<open>Json\<close> the encoder and parser of JSON with their
  round trip, \<open>GoFloat\<close> the rounding and printing of \<open>float64\<close>.

  \<^bold>\<open>The control plane\<close> (\<^verbatim>\<open>app.go\<close>, \<^verbatim>\<open>cmd/\<close>, \<^verbatim>\<open>internal/\<close>), in the order it is built:
  \<^item> \<open>LabConfig\<close>: \<^verbatim>\<open>internal/config/config.go\<close> and the embedded files, byte for byte;
  \<^item> \<open>StateFile\<close>, \<open>Store\<close>: \<^verbatim>\<open>internal/state/state.go\<close> and \<^verbatim>\<open>store.go\<close>: the six states, the records of
    the state file, their JSON, \<open>Store_Read\<close> and the write by temporary file and rename;
  \<^item> \<open>Detect\<close>: \<^verbatim>\<open>internal/state/detect.go\<close>, the two reconciliation tables;
  \<^item> \<open>Conformance\<close>, \<open>CheckCatalog\<close>: \<^verbatim>\<open>internal/conformance/\<close>: the Observer interface, the runner with
    panic recovery and dependent marking, the classification, the 25 checks;
  \<^item> \<open>Executor\<close>, \<open>RealExec\<close>, \<open>Lock\<close>: \<^verbatim>\<open>internal/executor/\<close>: the Executor interface, its
    implementation, the audit log, the mutation lock;
  \<^item> \<open>Faults\<close>: \<^verbatim>\<open>internal/catalog/\<close>: the 19 faults with their Apply and Recover;
  \<^item> \<open>Output\<close>, \<open>Render\<close>: \<^verbatim>\<open>internal/output/\<close>: results, JSON and text;
  \<^item> \<open>CmdFault\<close>, \<open>CmdReset\<close>, \<open>CmdProvision\<close>, \<open>CmdStatus\<close>, \<open>CmdValidate\<close>, \<open>App\<close>: the commands of
    \<^verbatim>\<open>cmd/\<close>, the composition root \<^verbatim>\<open>app.go\<close>, flags, dispatch, exit code, interrupt handler, and the
    process, \<^verbatim>\<open>main.go\<close>;
  \<^item> \<open>TestDoubles\<close>: \<^verbatim>\<open>cmd/testhelpers.go\<close> and \<^verbatim>\<open>internal/testutil/interrupt.go\<close>, the executors the tests
    run commands on;
  \<^item> \<open>SpecIndex\<close>: \<^verbatim>\<open>internal/invariants/spec_index.go\<close> with \<^verbatim>\<open>cmd/generate_spec_index/main.go\<close>.

  \<^bold>\<open>The service\<close> (\<^verbatim>\<open>service/\<close>): \<open>SvcProcess\<close> is its process (counters, environment, random numbers,
  children); \<open>SvcConfig\<close>, \<open>SvcLogging\<close>, \<open>SvcSignals\<close>, \<open>SvcChaos\<close>, \<open>SvcServer\<close>, \<open>SvcTelemetry\<close> are its
  packages of these names; \<open>SvcMain\<close> is \<^verbatim>\<open>service/main.go\<close>, startup, requests, signals, shutdown.

  \<^bold>\<open>What is proved.\<close>
  \<^item> \<open>LabMachine\<close>: the lab as a machine whose steps are whole invocations of the binary, interrupted
    ones included; the invariant of the recorded state in every reachable world, and that a
    recorded state is never lost. \<open>LabEnv\<close> states as locales what a command needs of its
    environment and shows it of the real executor; \<open>ApplyProps\<close>, \<open>ResetProps\<close>, \<open>StatusProps\<close>,
    \<open>ValidateProps\<close> give every outcome of the commands: what they report and what they record.
  \<^item> \<open>Store\<close>: the write is old-or-new under every failure, reading gives back what was written; the
    locale \<open>state_store\<close> is the contract the commands use.
  \<^item> \<open>Recovery\<close>, \<open>TierProps\<close>, \<open>FaultProps\<close>: what recovery and the tiers of a reset restore, from a
    contract of the executor (locales \<open>executor_contract\<close>, \<open>machine_outside\<close>, \<open>tier_contract\<close>) that
    \<open>RealExec\<close> is shown to meet; the integrity of the catalog; what the text faults change.
  \<^item> \<open>Lock\<close>, \<open>LockProtocol\<close>: acquiring returns and decides (locale \<open>mutex\<close>); a run of it refines the
    steps of a protocol of interleaved processes; mutual exclusion without the removal of a
    malformed file, and a schedule in which the removal breaks it.
  \<^item> \<open>SuiteProps\<close>, \<open>AppProps\<close>, \<open>Render\<close>: the classification, the full picture of a suite run, the
    exit codes, the flags, the JSON output.
  \<^item> \<open>SvcLife\<close>, over \<open>SvcCalm\<close>: the service as a machine of starts, requests, telemetry writes,
    signals, kills; while it serves, its markers name it, whatever fails. When nothing fails,
    startup serves, shutdown is clean, and the operations on the signal files refine an abstract
    state of four fields (locale \<open>signal_protocol\<close>).
  \<^item> \<open>SvcCrash\<close>: the service killed in the middle of an operation. A process that dies at a system
    call is a run in which that call and all later ones fail; \<open>visited\<close> lists the states the
    signal files go through, and startup and shutdown only ever leave one of their own.
  \<^item> \<open>SvcChecks\<close>: the two programs together: the checks of the control plane on the log, the root
    page and the health endpoint of the service.
  \<^item> \<open>TestDoubles\<close>, \<open>RefusedFaults\<close>: what a command does to the machine as a list of calls (locales
    \<open>recorder\<close>, \<open>readable_recorder\<close>): the table of the calls of every fault, an interrupt changes
    none of them, and a fault that is refused makes none.
  \<^item> \<open>SvcReqProps\<close>, \<open>SvcDataProps\<close>, \<open>SvcConfigProps\<close>: every request is accounted for, the health
    endpoint survives every chaos mode, a log line is a line of JSON, the telemetry file is
    always complete, the environment name is free of control characters (through the UTF-8
    decoding and encoding of Go).
  \<^item> \<open>SpecProps\<close>: rewriting the index is idempotent where the document has its guards, and loses
    the rest of the document where it has not.

  \<^bold>\<open>Bounds and fuel.\<close> \<open>Acquire\<close> calls itself after removing a stale lock file and takes fuel: two
  rounds are enough when no call fails (\<open>Acquire_decides\<close>). \<open>pick_temp\<close> tries 10000 names, the
  bound of \<open>os.CreateTemp\<close>. The JSON parser has as fuel the length of its text, which is enough
  for every text the encoder makes (\<open>json_roundtrip\<close>). Counters and block counts are 64-bit
  words; durations and clock ticks wrap in 64 bits.

  \<^bold>\<open>Parameters.\<close> The YAML decoder, the commands run outside (\<^verbatim>\<open>systemctl\<close>, \<^verbatim>\<open>nginx\<close>, \<^verbatim>\<open>chown\<close>,
  \<^verbatim>\<open>ss\<close>, \<^verbatim>\<open>pgrep\<close>, the bootstrap script), HTTP and DNS as the observer sees them, the error of the
  HTTP server and of its shutdown, the root of the module.

  \<^bold>\<open>Not modelled.\<close>
  \<^item> the shell scripts; the documentation site; the tests themselves; the overrides of paths for
    tests; \<open>writeJSON\<close>, which nothing calls;
  \<^item> the interleaving of goroutines inside one command or request: concurrency is between whole
    steps (\<open>LabMachine\<close>, \<open>SvcLife\<close>), between the steps of the lock (\<open>LockProtocol\<close>) and between the
    read and the write of \<open>lab validate\<close> (\<open>ValidateProps\<close>); the allocator of the OOM mode is a flag;
  \<^item> times are their RFC 3339 text, one reading of the clock at a time; \<open>%q\<close> is modelled for plain
    texts, JSON strings without the replacement of invalid UTF-8, \<open>float64\<close> without infinities,
    not-a-number and subnormals, request paths without percent escapes;
  \<^item> permissions: a call that the system refuses is a failing call, at any place.
\<close>

end
